(* ===== verification/Prelude.thy ===== *)
theory Prelude
  imports Main "HOL-Library.Word" "HOL-Library.State_Monad"
begin

text \<open>
  Shared ground of the development: Go's error values (with \<open>fmt.Errorf\<close>'s \<open>%w\<close> chains and
  \<open>errors.Is\<close>), the \<open>(value, error)\<close> result type, two's complement 64-bit arithmetic, decimal
  and hexadecimal rendering, and the collections of simplification rules the component theories
  extend.
\<close>

named_theorems go_run \<open>equations that run a stateful operation of the model on a host\<close>
named_theorems go_str \<open>facts on the string operations\<close>
named_theorems go_json \<open>facts on the JSON encoder and decoder\<close>

section \<open>Go errors\<close>

text \<open>
  The sentinel errors the sources test with \<open>errors.Is\<close>. Every other error is \<open>OtherErr\<close>: only
  its text matters.
\<close>

datatype sentinel = ErrNotExist | ErrNotFound | ErrAuthorization | OtherErr

datatype gerr = ErrNew sentinel string | ErrWrap string gerr

type_synonym 'a res = "gerr + 'a"

fun err_Error :: "gerr \<Rightarrow> string" where
  "err_Error (ErrNew s m) = m"
| "err_Error (ErrWrap m e) = m"

fun errors_Is :: "gerr \<Rightarrow> sentinel \<Rightarrow> bool" where
  "errors_Is (ErrNew s m) t = (s = t)"
| "errors_Is (ErrWrap m e) t = errors_Is e t"

definition errorf :: "string \<Rightarrow> gerr" where
  "errorf m = ErrNew OtherErr m"

text \<open>\<open>fmt.Errorf("pre%wsuf", e)\<close>: the text is spliced in and the chain keeps \<open>e\<close>.\<close>

definition errorf_w :: "string \<Rightarrow> gerr \<Rightarrow> string \<Rightarrow> gerr" where
  "errorf_w pre e suf = ErrWrap (pre @ err_Error e @ suf) e"

lemma err_Error_errorf [simp]: "err_Error (errorf m) = m"
  by (simp add: errorf_def)

lemma err_Error_errorf_w [simp]: "err_Error (errorf_w p e s) = p @ err_Error e @ s"
  by (simp add: errorf_w_def)

lemma errors_Is_errorf [simp]: "errors_Is (errorf m) s = (s = OtherErr)"
  by (auto simp add: errorf_def)

lemma errors_Is_errorf_w [simp]: "errors_Is (errorf_w p e s) t = errors_Is e t"
  by (simp add: errorf_w_def)

section \<open>Integers\<close>

text \<open>
  Go's \<open>int\<close> and \<open>int64\<close> are 64-bit two's complement on every platform the agent is built for.
  Where overflow matters a value is an \<open>int\<close> in range and each operation that can overflow is
  reduced with \<open>wrap64\<close>.
\<close>

type_synonym i64 = int

definition wrap64 :: "int \<Rightarrow> int" where
  "wrap64 n = (n + 2 ^ 63) mod 2 ^ 64 - 2 ^ 63"

definition in_i64 :: "int \<Rightarrow> bool" where
  "in_i64 n \<longleftrightarrow> - (2 ^ 63) \<le> n \<and> n < 2 ^ 63"

lemma wrap64_in_range [simp]: "in_i64 (wrap64 n)"
proof -
  have "0 \<le> (n + 2 ^ 63) mod 2 ^ 64" "(n + 2 ^ 63) mod 2 ^ 64 < (2 ^ 64 :: int)" by simp_all
  then show ?thesis by (simp add: wrap64_def in_i64_def)
qed

lemma wrap64_id [simp]: "in_i64 n \<Longrightarrow> wrap64 n = n"
  by (simp add: wrap64_def in_i64_def)

lemma wrap64_sint: "wrap64 n = sint (word_of_int n :: 64 word)"
  by (simp add: wrap64_def sint_uint uint_word_of_int signed_take_bit_eq_take_bit_shift
      take_bit_eq_mod mod_simps)

section \<open>Association lists\<close>

lemma map_of_rev_distinct: "distinct (map fst xs) \<Longrightarrow> map_of (rev xs) = map_of xs"
  by (simp add: map_of_inject_set rev_map [symmetric])

section \<open>Rendering numbers\<close>

definition digit_char :: "nat \<Rightarrow> char" where
  "digit_char d = ''0123456789'' ! d"

fun nat_dec :: "nat \<Rightarrow> string" where
  "nat_dec n = (if n < 10 then [digit_char n] else nat_dec (n div 10) @ [digit_char (n mod 10)])"

declare nat_dec.simps [simp del]

definition int_dec :: "int \<Rightarrow> string" where
  "int_dec i = (if i < 0 then CHR ''-'' # nat_dec (nat (- i)) else nat_dec (nat i))"

definition hex_char :: "nat \<Rightarrow> char" where
  "hex_char d = ''0123456789abcdef'' ! d"

definition hex_byte :: "8 word \<Rightarrow> string" where
  "hex_byte b = [hex_char (unat b div 16), hex_char (unat b mod 16)]"

definition hex_bytes :: "8 word list \<Rightarrow> string" where
  "hex_bytes bs = concat (map hex_byte bs)"

lemma length_hex_byte [simp]: "length (hex_byte b) = 2"
  by (simp add: hex_byte_def)

lemma length_hex_bytes [simp]: "length (hex_bytes bs) = 2 * length bs"
  by (induction bs) (simp_all add: hex_bytes_def)

definition is_digit :: "char \<Rightarrow> bool" where
  "is_digit c \<longleftrightarrow> c \<in> set ''0123456789''"

definition is_hex :: "char \<Rightarrow> bool" where
  "is_hex c \<longleftrightarrow> c \<in> set ''0123456789abcdef''"

lemma is_digit_digit_char [simp]: "d < 10 \<Longrightarrow> is_digit (digit_char d)"
  unfolding is_digit_def digit_char_def by (rule nth_mem) simp

lemma is_hex_hex_char [simp]: "d < 16 \<Longrightarrow> is_hex (hex_char d)"
  unfolding is_hex_def hex_char_def by (rule nth_mem) simp

lemma nat_dec_nonempty [simp]: "nat_dec n \<noteq> []"
  by (subst nat_dec.simps) simp

lemma nat_dec_digits: "c \<in> set (nat_dec n) \<Longrightarrow> is_digit c"
proof (induction n rule: nat_dec.induct)
  case (1 n)
  show ?case
  proof (cases "n < 10")
    case True
    with 1 show ?thesis by (subst (asm) (2) nat_dec.simps) simp
  next
    case False
    then have "nat_dec n = nat_dec (n div 10) @ [digit_char (n mod 10)]"
      by (subst nat_dec.simps) simp
    with 1 False show ?thesis by auto
  qed
qed

end
