(* ===== verification/GoStrings.thy ===== *)
theory GoStrings
  imports Prelude
begin

text \<open>
  The operations of Go's packages strings, bytes and path/filepath that the agent uses. A Go
  string is a byte sequence, so it is a \<open>char list\<close>. Letter case is mapped on ASCII letters
  only (the Unicode tables for other letters are not modelled); white space is the whole set of
  \<open>unicode.IsSpace\<close>, by its UTF-8 encodings.
\<close>

section \<open>Searching and cutting\<close>

definition str_HasPrefix :: "string \<Rightarrow> string \<Rightarrow> bool" where
  "str_HasPrefix s p \<longleftrightarrow> take (length p) s = p"

definition str_HasSuffix :: "string \<Rightarrow> string \<Rightarrow> bool" where
  "str_HasSuffix s p \<longleftrightarrow> length p \<le> length s \<and> drop (length s - length p) s = p"

definition str_TrimPrefix :: "string \<Rightarrow> string \<Rightarrow> string" where
  "str_TrimPrefix s p = (if str_HasPrefix s p then drop (length p) s else s)"

definition str_TrimSuffix :: "string \<Rightarrow> string \<Rightarrow> string" where
  "str_TrimSuffix s p = (if str_HasSuffix s p then take (length s - length p) s else s)"

fun str_Index :: "string \<Rightarrow> string \<Rightarrow> nat option" where
  "str_Index [] sub = (if sub = [] then Some 0 else None)"
| "str_Index (c # s) sub =
     (if str_HasPrefix (c # s) sub then Some 0 else map_option Suc (str_Index s sub))"

definition str_Contains :: "string \<Rightarrow> string \<Rightarrow> bool" where
  "str_Contains s sub \<longleftrightarrow> str_Index s sub \<noteq> None"

definition str_Cut :: "string \<Rightarrow> string \<Rightarrow> string \<times> string \<times> bool" where
  "str_Cut s sep = (case str_Index s sep of
     None \<Rightarrow> (s, [], False)
   | Some i \<Rightarrow> (take i s, drop (i + length sep) s, True))"

text \<open>\<open>strings.Split\<close> with a one-byte separator.\<close>

fun str_Split :: "char \<Rightarrow> string \<Rightarrow> string list" where
  "str_Split c [] = [[]]"
| "str_Split c (x # s) =
     (if x = c then [] # str_Split c s
      else (case str_Split c s of [] \<Rightarrow> [[x]] | w # ws \<Rightarrow> (x # w) # ws))"

fun str_Join :: "string list \<Rightarrow> string \<Rightarrow> string" where
  "str_Join [] sep = []"
| "str_Join [s] sep = s"
| "str_Join (s # t # ss) sep = s @ sep @ str_Join (t # ss) sep"

lemma str_HasPrefix_iff: "str_HasPrefix s p \<longleftrightarrow> (\<exists>r. s = p @ r)"
  unfolding str_HasPrefix_def by (metis append_eq_conv_conj append_take_drop_id)

lemma str_HasPrefix_append [simp]: "str_HasPrefix (p @ r) p"
  by (simp add: str_HasPrefix_def)

lemma str_HasSuffix_iff: "str_HasSuffix s p \<longleftrightarrow> (\<exists>r. s = r @ p)"
  unfolding str_HasSuffix_def
  by (auto intro: exI [of _ "take (length s - length p) s"]) (metis append_take_drop_id)

lemma str_TrimPrefix_append [simp]: "str_TrimPrefix (p @ r) p = r"
  by (simp add: str_TrimPrefix_def)

lemma str_Split_nonempty [simp]: "str_Split c s \<noteq> []"
  by (induction s) (auto split: list.splits)

lemma str_Split_no_sep: "w \<in> set (str_Split c s) \<Longrightarrow> c \<notin> set w"
  by (induction s arbitrary: w) (auto split: if_splits list.splits)

lemma str_Split_id: "c \<notin> set s \<Longrightarrow> str_Split c s = [s]"
  by (induction s) auto

lemma str_Split_append: "c \<notin> set w \<Longrightarrow> str_Split c (w @ c # s) = w # str_Split c s"
  by (induction w) auto

lemma str_Join_Split [go_str]: "str_Join (str_Split c s) [c] = s"
proof (induction s)
  case (Cons x s)
  show ?case
  proof (cases "str_Split c s")
    case (Cons w ws)
    with Cons.IH show ?thesis by (cases ws) (auto split: list.splits)
  qed simp
qed simp

lemma str_Index_Some:
  "str_Index s sub = Some i \<Longrightarrow> s = take i s @ sub @ drop (i + length sub) s"
proof (induction s arbitrary: i)
  case Nil
  then show ?case by (auto split: if_splits)
next
  case (Cons c s)
  show ?case
  proof (cases "str_HasPrefix (c # s) sub")
    case True
    with Cons.prems have "i = 0" by simp
    with True show ?thesis by (auto simp: str_HasPrefix_iff)
  next
    case False
    with Cons.prems obtain j where "str_Index s sub = Some j" "i = Suc j" by auto
    with Cons.IH [of j] show ?thesis by simp
  qed
qed

lemma str_Index_found: "str_Index (u @ sub @ v) sub \<noteq> None"
proof (induction u)
  case Nil
  have "str_HasPrefix (sub @ v) sub" by simp
  then show ?case by (cases "sub @ v") auto
next
  case (Cons a u)
  then show ?case by simp
qed

lemma str_Contains_iff [go_str]: "str_Contains s sub \<longleftrightarrow> (\<exists>u v. s = u @ sub @ v)"
  unfolding str_Contains_def using str_Index_Some str_Index_found by fastforce

lemma str_Index_None_char: "c \<notin> set s \<Longrightarrow> str_Index s [c] = None"
  by (induction s) (auto simp: str_HasPrefix_def)

lemma str_Index_char: "c \<notin> set u \<Longrightarrow> str_Index (u @ c # v) [c] = Some (length u)"
  by (induction u) (auto simp: str_HasPrefix_def)

section \<open>White space and letter case\<close>

abbreviation byte :: "nat \<Rightarrow> char" where
  "byte n \<equiv> char_of n"

text \<open>The white space of \<open>unicode.IsSpace\<close> as UTF-8 byte sequences.\<close>

definition space_seqs :: "string list" where
  "space_seqs =
     [[byte 9], [byte 10], [byte 11], [byte 12], [byte 13], [byte 32],
      [byte 194, byte 133], [byte 194, byte 160], [byte 225, byte 154, byte 128]] @
     map (\<lambda>n. [byte 226, byte 128, byte n]) [128 ..< 139] @
     [[byte 226, byte 128, byte 168], [byte 226, byte 128, byte 169],
      [byte 226, byte 128, byte 175], [byte 226, byte 129, byte 159],
      [byte 227, byte 128, byte 128]]"

text \<open>The length of the space at the head (at the end) of a string, 0 when there is none.\<close>

definition space_head :: "string \<Rightarrow> nat" where
  "space_head s = (case find (\<lambda>w. str_HasPrefix s w) space_seqs of None \<Rightarrow> 0 | Some w \<Rightarrow> length w)"

definition space_last :: "string \<Rightarrow> nat" where
  "space_last s = (case find (\<lambda>w. str_HasSuffix s w) space_seqs of None \<Rightarrow> 0 | Some w \<Rightarrow> length w)"

function trim_left_space :: "string \<Rightarrow> string" where
  "trim_left_space s =
     (if s = [] \<or> space_head s = 0 then s else trim_left_space (drop (space_head s) s))"
  by pat_completeness auto
termination
  by (relation "measure length") auto

function trim_right_space :: "string \<Rightarrow> string" where
  "trim_right_space s =
     (if s = [] \<or> space_last s = 0 then s
      else trim_right_space (take (length s - space_last s) s))"
  by pat_completeness auto
termination
  by (relation "measure length") auto

declare trim_left_space.simps [simp del] trim_right_space.simps [simp del]

definition str_TrimSpace :: "string \<Rightarrow> string" where
  "str_TrimSpace s = trim_right_space (trim_left_space s)"

text \<open>\<open>strings.Fields\<close>: the maximal runs of non-space bytes.\<close>

function str_Fields :: "string \<Rightarrow> string \<Rightarrow> string list" where
  "str_Fields acc [] = (if acc = [] then [] else [acc])"
| "str_Fields acc (c # s) =
     (if space_head (c # s) = 0 then str_Fields (acc @ [c]) s
      else (if acc = [] then [] else [acc]) @ str_Fields [] (drop (space_head (c # s)) (c # s)))"
  by pat_completeness auto
termination
  by (relation "measure (\<lambda>(acc, s). length s)") auto

declare str_Fields.simps(2) [simp del]

text \<open>\<open>strings.Trim\<close>, \<open>strings.TrimRight\<close> with a one-byte cutset.\<close>

definition str_TrimRight :: "string \<Rightarrow> char \<Rightarrow> string" where
  "str_TrimRight s c = rev (dropWhile (\<lambda>x. x = c) (rev s))"

definition str_Trim :: "string \<Rightarrow> char \<Rightarrow> string" where
  "str_Trim s c = str_TrimRight (dropWhile (\<lambda>x. x = c) s) c"

definition lower_char :: "char \<Rightarrow> char" where
  "lower_char c =
     (let n = of_char c :: nat in if 65 \<le> n \<and> n \<le> 90 then char_of (n + 32) else c)"

definition upper_char :: "char \<Rightarrow> char" where
  "upper_char c =
     (let n = of_char c :: nat in if 97 \<le> n \<and> n \<le> 122 then char_of (n - 32) else c)"

definition str_ToLower :: "string \<Rightarrow> string" where
  "str_ToLower s = map lower_char s"

definition str_ToUpper :: "string \<Rightarrow> string" where
  "str_ToUpper s = map upper_char s"

lemma space_seqs_ends:
  assumes "w \<in> set space_seqs"
  shows "w \<noteq> [] \<and> (of_char (hd w) \<le> (32::nat) \<or> 128 \<le> (of_char (hd w) :: nat)) \<and>
    (of_char (last w) \<le> (32::nat) \<or> 128 \<le> (of_char (last w) :: nat))"
proof -
  have "list_all (\<lambda>w. w \<noteq> [] \<and> (of_char (hd w) \<le> (32::nat) \<or> 128 \<le> (of_char (hd w) :: nat)) \<and>
    (of_char (last w) \<le> (32::nat) \<or> 128 \<le> (of_char (last w) :: nat))) space_seqs"
    by (simp add: space_seqs_def list_all_iff)
  with assms show ?thesis by (auto simp: list_all_iff)
qed

text \<open>A text that starts and ends with visible ASCII characters is not trimmed.\<close>

definition visible :: "char \<Rightarrow> bool" where
  "visible c \<longleftrightarrow> 33 \<le> (of_char c :: nat) \<and> (of_char c :: nat) < 128"

lemma space_head_visible: "visible c \<Longrightarrow> space_head (c # s) = 0"
proof -
  assume c: "visible c"
  have "\<not> str_HasPrefix (c # s) w" if "w \<in> set space_seqs" for w
    using space_seqs_ends [OF that] c by (cases w) (auto simp: str_HasPrefix_def visible_def)
  then have "find (str_HasPrefix (c # s)) space_seqs = None" by (auto simp: find_None_iff)
  then show ?thesis by (simp add: space_head_def)
qed

lemma space_last_visible: "visible c \<Longrightarrow> space_last (s @ [c]) = 0"
proof -
  assume c: "visible c"
  have "\<not> str_HasSuffix (s @ [c]) w" if "w \<in> set space_seqs" for w
  proof
    assume "str_HasSuffix (s @ [c]) w"
    then obtain r where r: "s @ [c] = r @ w" by (auto simp: str_HasSuffix_iff)
    have "w \<noteq> []" using space_seqs_ends [OF that] by blast
    then have "last w = c" using arg_cong [OF r, of last] by simp
    with space_seqs_ends [OF that] c show False by (auto simp: visible_def)
  qed
  then have "find (str_HasSuffix (s @ [c])) space_seqs = None" by (auto simp: find_None_iff)
  then show ?thesis by (simp add: space_last_def)
qed

lemma str_TrimSpace_visible:
  assumes "s \<noteq> []" "visible (hd s)" "visible (last s)"
  shows "str_TrimSpace s = s"
proof -
  have "space_head s = 0" using space_head_visible [OF assms(2), of "tl s"] assms(1) by simp
  moreover have "space_last s = 0"
    using space_last_visible [OF assms(3), of "butlast s"] assms(1) by simp
  ultimately show ?thesis
    by (simp add: str_TrimSpace_def trim_left_space.simps trim_right_space.simps)
qed

lemma str_TrimSpace_Nil [simp]: "str_TrimSpace [] = []"
  by (simp add: str_TrimSpace_def trim_left_space.simps trim_right_space.simps)

lemma of_char_less_256: "of_char c < (256::nat)"
  using of_char_of [where 'a = nat, of "of_char c"] by simp

lemma lower_char_idem [simp]: "lower_char (lower_char c) = lower_char c"
  by (auto simp: lower_char_def Let_def)

lemma str_ToLower_idem [simp]: "str_ToLower (str_ToLower s) = str_ToLower s"
  by (simp add: str_ToLower_def)

lemma str_ToLower_Nil [simp]: "str_ToLower [] = []" "str_ToLower s = [] \<longleftrightarrow> s = []"
  by (simp_all add: str_ToLower_def)

section \<open>Quoting\<close>

text \<open>\<open>%q\<close>: \<open>strconv.Quote\<close>, with bytes outside ASCII kept as they are.\<close>

definition quote_char :: "char \<Rightarrow> string" where
  "quote_char c = (let n = of_char c :: nat in
     if c = CHR 0x22 then [CHR 0x5C, CHR 0x22]
     else if c = CHR 0x5C then [CHR 0x5C, CHR 0x5C]
     else if n = 7 then [CHR 0x5C, CHR ''a''] else if n = 8 then [CHR 0x5C, CHR ''b'']
     else if n = 12 then [CHR 0x5C, CHR ''f''] else if n = 10 then [CHR 0x5C, CHR ''n'']
     else if n = 13 then [CHR 0x5C, CHR ''r''] else if n = 9 then [CHR 0x5C, CHR ''t'']
     else if n = 11 then [CHR 0x5C, CHR ''v'']
     else if n < 32 \<or> n = 127 then [CHR 0x5C, CHR ''x'', hex_char (n div 16), hex_char (n mod 16)]
     else [c])"

definition str_Quote :: "string \<Rightarrow> string" where
  "str_Quote s = [CHR 0x22] @ concat (map quote_char s) @ [CHR 0x22]"

section \<open>Paths\<close>

text \<open>
  \<open>filepath.Clean\<close>, \<open>Join\<close> and \<open>Dir\<close> of the Unix builds: the elements between slashes are
  pushed on a stack, empty elements and dots dropped, and dot-dot pops.
\<close>

fun clean_elems :: "bool \<Rightarrow> string list \<Rightarrow> string list \<Rightarrow> string list" where
  "clean_elems rooted st [] = rev st"
| "clean_elems rooted st (e # es) =
     (if e = [] \<or> e = ''.'' then clean_elems rooted st es
      else if e = ''..'' then
        (case st of
           [] \<Rightarrow> clean_elems rooted (if rooted then [] else [''..'']) es
         | t # ts \<Rightarrow> if t = ''..'' then clean_elems rooted (''..'' # st) es else clean_elems rooted ts es)
      else clean_elems rooted (e # st) es)"

definition filepath_Clean :: "string \<Rightarrow> string" where
  "filepath_Clean p =
     (let rooted = str_HasPrefix p ''/'';
          body = str_Join (clean_elems rooted [] (str_Split (CHR ''/'') p)) ''/''
      in if rooted then ''/'' @ body else if body = [] then ''.'' else body)"

definition filepath_Join :: "string \<Rightarrow> string \<Rightarrow> string" where
  "filepath_Join a b =
     (if a = [] then (if b = [] then [] else filepath_Clean b)
      else filepath_Clean (a @ ''/'' @ b))"

text \<open>The part up to and including the last slash, cleaned.\<close>

definition filepath_Dir :: "string \<Rightarrow> string" where
  "filepath_Dir p = filepath_Clean (rev (dropWhile (\<lambda>c. c \<noteq> CHR ''/'') (rev p)))"

lemma filepath_examples:
  "filepath_Dir ''/var/lib/plusclouds/cache/pc-meta-data.json'' = ''/var/lib/plusclouds/cache''"
  "filepath_Join ''/var/lib/plusclouds/cache'' ''pc-meta-data.json''
     = ''/var/lib/plusclouds/cache/pc-meta-data.json''"
  "filepath_Clean ''a//b/../c/.'' = ''a/c''"
  by (simp_all add: filepath_Dir_def filepath_Join_def filepath_Clean_def str_HasPrefix_def)

end
