(* ===== verification/GoJson.thy ===== *)
theory GoJson
  imports GoStrings
begin

text \<open>
  The part of encoding/json the agent relies on, over bytes. \<open>json_Marshal\<close> prints a value tree
  the way Go does (HTML-sensitive characters and U+2028/9 escaped, invalid UTF-8 replaced);
  \<open>json_view\<close> checks a whole text and returns its top level with the nested values as raw bytes,
  which is what decoding into structs with \<open>json.RawMessage\<close> fields needs. The texts of
  encoding/json's own error messages and its nesting limit of 10000 are not modelled.
\<close>

section \<open>Values\<close>

text \<open>
  A value to encode. \<open>JNum\<close> carries the digits it prints, \<open>JRaw\<close> is a \<open>json.RawMessage\<close>, and
  \<open>JUnsup\<close> stands for a value encoding/json refuses (a NaN or infinite float).
\<close>

datatype json =
    JNull | JBool bool | JNum string | JStr string | JArr "json list"
  | JObj "(string \<times> json) list" | JRaw string | JUnsup

datatype jview =
    VNull | VBool bool | VNum string | VStr string | VArr "string list"
  | VObj "(string \<times> string) list"

section \<open>UTF-8\<close>

abbreviation nb :: "char \<Rightarrow> nat" where
  "nb c \<equiv> of_char c"

definition u8_cont :: "nat \<Rightarrow> bool" where
  "u8_cont x \<longleftrightarrow> 128 \<le> x \<and> x \<le> 191"

definition u8_ok2 :: "nat \<Rightarrow> nat \<Rightarrow> bool" where
  "u8_ok2 a b \<longleftrightarrow> 194 \<le> a \<and> a \<le> 223 \<and> u8_cont b"

definition u8_ok3 :: "nat \<Rightarrow> nat \<Rightarrow> nat \<Rightarrow> bool" where
  "u8_ok3 a b c \<longleftrightarrow> 224 \<le> a \<and> a \<le> 239 \<and>
     (if a = 224 then 160 else 128) \<le> b \<and> b \<le> (if a = 237 then 159 else 191) \<and> u8_cont c"

definition u8_ok4 :: "nat \<Rightarrow> nat \<Rightarrow> nat \<Rightarrow> nat \<Rightarrow> bool" where
  "u8_ok4 a b c d \<longleftrightarrow> 240 \<le> a \<and> a \<le> 244 \<and>
     (if a = 240 then 144 else 128) \<le> b \<and> b \<le> (if a = 244 then 143 else 191) \<and>
     u8_cont c \<and> u8_cont d"

text \<open>The number of bytes of the rune at the head; 0 when the head is not valid UTF-8.\<close>

definition utf8_size :: "string \<Rightarrow> nat" where
  "utf8_size s = (case s of [] \<Rightarrow> 0
     | a # s1 \<Rightarrow> if nb a < 128 then 1 else
       (case s1 of [] \<Rightarrow> 0
        | b # s2 \<Rightarrow> if u8_ok2 (nb a) (nb b) then 2 else
          (case s2 of [] \<Rightarrow> 0
           | c # s3 \<Rightarrow> if u8_ok3 (nb a) (nb b) (nb c) then 3 else
             (case s3 of [] \<Rightarrow> 0
              | d # s4 \<Rightarrow> if u8_ok4 (nb a) (nb b) (nb c) (nb d) then 4 else 0))))"

lemma utf8_size_ascii [simp]: "nb c < 128 \<Longrightarrow> utf8_size (c # s) = Suc 0"
  by (simp add: utf8_size_def)

lemma utf8_size_le: "utf8_size s \<le> length s"
  by (auto simp: utf8_size_def split: list.splits)

lemma utf8_size_cases:
  assumes "utf8_size s = n" "0 < n"
  obtains (one) a s' where "n = 1" "s = a # s'" "nb a < 128"
    | (two) a b s' where "n = 2" "s = a # b # s'" "\<not> nb a < 128" "u8_ok2 (nb a) (nb b)"
    | (three) a b c s' where "n = 3" "s = a # b # c # s'" "\<not> nb a < 128"
        "\<not> u8_ok2 (nb a) (nb b)" "u8_ok3 (nb a) (nb b) (nb c)"
    | (four) a b c d s' where "n = 4" "s = a # b # c # d # s'" "\<not> nb a < 128"
        "\<not> u8_ok2 (nb a) (nb b)" "\<not> u8_ok3 (nb a) (nb b) (nb c)"
        "u8_ok4 (nb a) (nb b) (nb c) (nb d)"
  using assms unfolding utf8_size_def by (simp split: list.splits if_splits)

lemma utf8_size_take:
  assumes "utf8_size s = n" "0 < n"
  shows "utf8_size (take n s @ r) = n"
  using assms by (rule utf8_size_cases) (simp_all add: utf8_size_def)

definition utf8_fffd :: string where
  "utf8_fffd = [byte 239, byte 191, byte 189]"

text \<open>\<open>utf8.AppendRune\<close>: surrogates and values past 0x10FFFF encode the replacement rune.\<close>

definition utf8_enc :: "nat \<Rightarrow> string" where
  "utf8_enc n =
     (if n < 128 then [byte n]
      else if n < 2048 then [byte (192 + n div 64), byte (128 + n mod 64)]
      else if (55296 \<le> n \<and> n \<le> 57343) \<or> 1114111 < n then utf8_fffd
      else if n < 65536 then
        [byte (224 + n div 4096), byte (128 + n div 64 mod 64), byte (128 + n mod 64)]
      else [byte (240 + n div 262144), byte (128 + n div 4096 mod 64),
            byte (128 + n div 64 mod 64), byte (128 + n mod 64)])"

text \<open>What a string is after one trip through the encoder: each invalid byte becomes U+FFFD.\<close>

function utf8_coerce :: "string \<Rightarrow> string" where
  "utf8_coerce [] = []"
| "utf8_coerce (c # s) =
     (let n = utf8_size (c # s) in
      if n = 0 then utf8_fffd @ utf8_coerce s
      else take n (c # s) @ utf8_coerce (drop n (c # s)))"
  by pat_completeness auto
termination
  by (relation "measure length") auto

lemma utf8_coerce_ascii [simp]: "nb c < 128 \<Longrightarrow> utf8_coerce (c # s) = c # utf8_coerce s"
  by simp

definition ascii :: "string \<Rightarrow> bool" where
  "ascii s \<longleftrightarrow> list_all (\<lambda>c. nb c < 128) s"

lemma ascii_coerce [simp]: "ascii s \<Longrightarrow> utf8_coerce s = s"
  by (induction s) (auto simp: ascii_def simp del: utf8_coerce.simps(2))

section \<open>Encoding\<close>

definition json_uesc :: "nat \<Rightarrow> string" where
  "json_uesc n = [CHR 0x5C, CHR ''u'', hex_char (n div 4096 mod 16), hex_char (n div 256 mod 16),
     hex_char (n div 16 mod 16), hex_char (n mod 16)]"

definition json_esc_ascii :: "char \<Rightarrow> string" where
  "json_esc_ascii c =
     (if c = CHR 0x22 \<or> c = CHR 0x5C then [CHR 0x5C, c]
      else if nb c = 8 then [CHR 0x5C, CHR ''b''] else if nb c = 12 then [CHR 0x5C, CHR ''f'']
      else if nb c = 10 then [CHR 0x5C, CHR ''n''] else if nb c = 13 then [CHR 0x5C, CHR ''r'']
      else if nb c = 9 then [CHR 0x5C, CHR ''t'']
      else if nb c < 32 \<or> c \<in> set ''<>&'' then json_uesc (nb c)
      else [c])"

definition line_sep :: "string \<Rightarrow> bool" where
  "line_sep p \<longleftrightarrow> p = [byte 226, byte 128, byte 168] \<or> p = [byte 226, byte 128, byte 169]"

definition json_esc_multi :: "string \<Rightarrow> string" where
  "json_esc_multi p = (if line_sep p then json_uesc (8232 + nb (p ! 2) - 168) else p)"

function json_esc :: "string \<Rightarrow> string" where
  "json_esc [] = []"
| "json_esc (c # s) =
     (if nb c < 128 then json_esc_ascii c @ json_esc s
      else let n = utf8_size (c # s) in
        if n = 0 then json_uesc 65533 @ json_esc s
        else json_esc_multi (take n (c # s)) @ json_esc (drop n (c # s)))"
  by pat_completeness auto
termination
  by (relation "measure length") auto

declare json_esc.simps(2) [simp del] utf8_coerce.simps(2) [simp del]

definition json_quote :: "string \<Rightarrow> string" where
  "json_quote s = CHR 0x22 # json_esc s @ [CHR 0x22]"

definition is_jws :: "char \<Rightarrow> bool" where
  "is_jws c \<longleftrightarrow> c \<in> set [CHR '' '', byte 9, byte 10, byte 13]"

definition skip_ws :: "string \<Rightarrow> string" where
  "skip_ws s = dropWhile is_jws s"

text \<open>
  \<open>json.Compact\<close> with escaping, as applied to a \<open>RawMessage\<close>: outside strings white space is
  dropped; inside, HTML characters and line separators are escaped. The first argument is the
  position: 0 outside a string, 1 inside, 2 after a backslash.
\<close>

fun json_compact :: "nat \<Rightarrow> string \<Rightarrow> string" where
  "json_compact st [] = []"
| "json_compact st (c # s) =
     (if st = 0 then
        (if is_jws c then json_compact 0 s
         else c # json_compact (if c = CHR 0x22 then 1 else 0) s)
      else if st = 1 then
        (if c = CHR 0x22 then c # json_compact 0 s
         else if c = CHR 0x5C then c # json_compact 2 s
         else if c \<in> set ''<>&'' then json_uesc (nb c) @ json_compact 1 s
         else if line_sep (c # take 2 s) then
           json_uesc (8232 + nb (s ! 1) - 168) @ json_compact 1 (drop 2 s)
         else c # json_compact 1 s)
      else c # json_compact 1 s)"

fun json_enc :: "json \<Rightarrow> string"
  and json_enc_elems :: "json list \<Rightarrow> string"
  and json_enc_mems :: "(string \<times> json) list \<Rightarrow> string" where
  "json_enc JNull = ''null''"
| "json_enc (JBool b) = (if b then ''true'' else ''false'')"
| "json_enc (JNum n) = n"
| "json_enc (JStr s) = json_quote s"
| "json_enc (JArr js) = ''['' @ json_enc_elems js @ '']''"
| "json_enc (JObj ms) = CHR 0x7B # json_enc_mems ms @ [CHR 0x7D]"
| "json_enc (JRaw r) = json_compact 0 r"
| "json_enc JUnsup = []"
| "json_enc_elems [] = []"
| "json_enc_elems [j] = json_enc j"
| "json_enc_elems (j # k # js) = json_enc j @ '','' @ json_enc_elems (k # js)"
| "json_enc_mems [] = []"
| "json_enc_mems [(k, j)] = json_quote k @ '':'' @ json_enc j"
| "json_enc_mems ((k, j) # m # ms) = json_quote k @ '':'' @ json_enc j @ '','' @ json_enc_mems (m # ms)"

end
