(* ===== verification/JsonScan.thy ===== *)
theory JsonScan
  imports GoJson
begin

text \<open>
  The JSON scanner: strings with their escapes, numbers, and one-level views of arrays and
  objects whose members are kept as raw bytes. The mutual scanner \<open>jskip\<close>, \<open>jelems\<close>, \<open>jmems\<close>
  takes fuel; \<open>json_view\<close> gives it two units per byte, and \<open>jscan_enough\<close> shows that no larger
  amount accepts more.
\<close>

section \<open>Strings\<close>

definition hex_val :: "char \<Rightarrow> nat option" where
  "hex_val c = (let n = nb c in
     if 48 \<le> n \<and> n \<le> 57 then Some (n - 48)
     else if 97 \<le> n \<and> n \<le> 102 then Some (n - 87)
     else if 65 \<le> n \<and> n \<le> 70 then Some (n - 55) else None)"

fun hex4 :: "string \<Rightarrow> (nat \<times> string) option" where
  "hex4 (a # b # c # d # r) =
     (case (hex_val a, hex_val b, hex_val c, hex_val d) of
        (Some w, Some x, Some y, Some z) \<Rightarrow> Some (4096 * w + 256 * x + 16 * y + z, r)
      | _ \<Rightarrow> None)"
| "hex4 _ = None"

text \<open>A low surrogate escape after the high surrogate \<open>u\<close>: the combined rune.\<close>

definition low_surrogate :: "nat \<Rightarrow> string \<Rightarrow> (nat \<times> string) option" where
  "low_surrogate u r = (case r of
     b # e # r1 \<Rightarrow>
       if b = CHR 0x5C \<and> e = CHR ''u'' \<and> 55296 \<le> u \<and> u < 56320 then
         (case hex4 r1 of
            Some (l, r2) \<Rightarrow>
              if 56320 \<le> l \<and> l < 57344 then Some (65536 + (u - 55296) * 1024 + (l - 56320), r2)
              else None
          | None \<Rightarrow> None)
       else None
   | _ \<Rightarrow> None)"

definition unescape :: "char \<Rightarrow> char option" where
  "unescape e =
     (if e = CHR 0x22 \<or> e = CHR 0x5C \<or> e = CHR ''/'' then Some e
      else if e = CHR ''b'' then Some (byte 8) else if e = CHR ''f'' then Some (byte 12)
      else if e = CHR ''n'' then Some (byte 10) else if e = CHR ''r'' then Some (byte 13)
      else if e = CHR ''t'' then Some (byte 9) else None)"

definition prep :: "string \<Rightarrow> (string \<times> string) option \<Rightarrow> (string \<times> string) option" where
  "prep p r = map_option (map_prod ((@) p) id) r"

lemma hex4_shorter: "hex4 r = Some (u, r1) \<Longrightarrow> length r1 < length r"
  by (induction r rule: hex4.induct) (auto split: option.splits)

lemma low_surrogate_shorter: "low_surrogate u r = Some (x, r1) \<Longrightarrow> length r1 < length r"
  by (auto simp: low_surrogate_def dest: hex4_shorter split: list.splits if_splits option.splits)

text \<open>The text after an opening quote: the decoded string and what follows the closing quote.\<close>

function jstr :: "string \<Rightarrow> (string \<times> string) option" where
  "jstr [] = None"
| "jstr (c # s) =
     (if c = CHR 0x22 then Some ([], s)
      else if c = CHR 0x5C then
        (case s of [] \<Rightarrow> None
         | e # r \<Rightarrow>
           if e = CHR ''u'' then
             (case hex4 r of None \<Rightarrow> None
              | Some (u, r1) \<Rightarrow>
                (case low_surrogate u r1 of
                   Some (cp, r2) \<Rightarrow> prep (utf8_enc cp) (jstr r2)
                 | None \<Rightarrow> prep (utf8_enc u) (jstr r1)))
           else (case unescape e of None \<Rightarrow> None | Some x \<Rightarrow> prep [x] (jstr r)))
      else if nb c < 32 then None
      else (let n = utf8_size (c # s) in
        if n = 0 then prep utf8_fffd (jstr s)
        else prep (take n (c # s)) (jstr (drop n (c # s)))))"
  by pat_completeness auto
termination
  by (relation "measure length") (auto dest!: hex4_shorter low_surrogate_shorter)

declare jstr.simps(2) [simp del]

lemma jstr_quote [simp]: "jstr (CHR 0x22 # s) = Some ([], s)"
  by (simp add: jstr.simps)

lemma prep_Some [simp]: "prep p (Some (a, r)) = Some (p @ a, r)"
  by (simp add: prep_def)

lemma prep_eq_Some: "prep p x = Some (a, r) \<longleftrightarrow> (\<exists>b. x = Some (b, r) \<and> a = p @ b)"
  by (cases x) (auto simp: prep_def)

lemma prep_None [simp]: "prep p None = None" "prep p x = None \<longleftrightarrow> x = None"
  by (simp_all add: prep_def)

section \<open>Numbers\<close>

definition jexp :: "string \<Rightarrow> string \<Rightarrow> (string \<times> string) option" where
  "jexp acc s = (case s of [] \<Rightarrow> Some (acc, [])
     | c # r \<Rightarrow>
       if c = CHR ''e'' \<or> c = CHR ''E'' then
         (let sg = (case r of x # _ \<Rightarrow> if x = CHR ''+'' \<or> x = CHR ''-'' then [x] else [] | [] \<Rightarrow> []);
              t = drop (length sg) r; ds = takeWhile is_digit t
          in if ds = [] then None else Some (acc @ [c] @ sg @ ds, dropWhile is_digit t))
       else Some (acc, s))"

definition jfrac :: "string \<Rightarrow> string \<Rightarrow> (string \<times> string) option" where
  "jfrac acc s = (case s of [] \<Rightarrow> Some (acc, [])
     | c # r \<Rightarrow>
       if c = CHR ''.'' then
         (let ds = takeWhile is_digit r
          in if ds = [] then None else jexp (acc @ [c] @ ds) (dropWhile is_digit r))
       else jexp acc s)"

definition jint :: "string \<Rightarrow> string \<Rightarrow> (string \<times> string) option" where
  "jint sg s = (case s of [] \<Rightarrow> None
     | c # r \<Rightarrow>
       if c = CHR ''0'' then jfrac (sg @ [c]) r
       else if is_digit c then jfrac (sg @ takeWhile is_digit s) (dropWhile is_digit s)
       else None)"

definition jnum :: "string \<Rightarrow> (string \<times> string) option" where
  "jnum s = (case s of [] \<Rightarrow> None
     | c # r \<Rightarrow> if c = CHR ''-'' then jint [c] r else jint [] s)"

lemma length_dropWhile_less: "takeWhile P s \<noteq> [] \<Longrightarrow> length (dropWhile P s) < length s"
  by (cases s) (auto simp: less_Suc_eq_le length_dropWhile_le split: if_splits)

lemma jexp_shorter: "jexp acc s = Some (n, r) \<Longrightarrow> length r \<le> length s"
  unfolding jexp_def
  by (auto simp: Let_def intro: le_trans [OF length_dropWhile_le] split: list.splits if_splits)

lemma jfrac_shorter:
  assumes "jfrac acc s = Some (n, r)"
  shows "length r \<le> length s"
proof (cases s)
  case (Cons c t)
  have "length (dropWhile is_digit t) \<le> length t" by (rule length_dropWhile_le)
  with Cons assms show ?thesis
    by (auto simp: jfrac_def Let_def dest!: jexp_shorter split: if_splits)
qed (use assms in \<open>simp add: jfrac_def\<close>)

lemma jint_shorter: "jint sg s = Some (n, r) \<Longrightarrow> length r < length s"
  by (auto simp: jint_def less_Suc_eq_le dest!: jfrac_shorter
      intro: le_trans [OF _ length_dropWhile_le] split: list.splits if_splits)

lemma jnum_shorter: "jnum s = Some (n, r) \<Longrightarrow> length r < length s"
  by (auto simp: jnum_def less_SucI dest: jint_shorter split: list.splits if_splits)

lemma prep_step:
  "prep p (jstr t) = Some (x, r) \<Longrightarrow> length t < n \<Longrightarrow>
    \<exists>p y t. length t < n \<and> jstr t = Some (y, r) \<and> x = p @ y"
  by (auto simp: prep_eq_Some)

text \<open>Inversion: a successful scan stops at the quote or continues on a shorter text.\<close>

lemma jstr_step:
  assumes "jstr (c # s) = Some (x, r)"
  shows "(c = CHR 0x22 \<and> x = [] \<and> r = s) \<or>
    (\<exists>p y t. length t < length (c # s) \<and> jstr t = Some (y, r) \<and> x = p @ y)"
proof (cases "c = CHR 0x22 \<or> nb c < 32")
  case True
  then have "c \<noteq> CHR 0x5C" by auto
  with True assms show ?thesis by (simp add: jstr.simps(2) [of c s] split: if_splits)
next
  case plain: False
  show ?thesis
  proof (cases "c = CHR 0x5C")
    case True
    with assms plain obtain e t where s: "s = e # t"
      by (cases s) (auto simp: jstr.simps)
    show ?thesis
    proof (cases "e = CHR ''u''")
      case u: True
      with True s assms plain obtain v t1 where h: "hex4 t = Some (v, t1)"
        by (cases "hex4 t") (auto simp: jstr.simps)
      from h have len: "length t1 < length t" by (rule hex4_shorter)
      show ?thesis
      proof (cases "low_surrogate v t1")
        case None
        with True u s h assms plain have "prep (utf8_enc v) (jstr t1) = Some (x, r)"
          by (simp add: jstr.simps)
        with len s show ?thesis by (intro disjI2 prep_step) auto
      next
        case (Some w)
        then obtain cp t2 where w: "low_surrogate v t1 = Some (cp, t2)" by (cases w) auto
        with True u s h assms plain have "prep (utf8_enc cp) (jstr t2) = Some (x, r)"
          by (simp add: jstr.simps)
        moreover from w have "length t2 < length t1" by (rule low_surrogate_shorter)
        ultimately show ?thesis using len s by (intro disjI2 prep_step) auto
      qed
    next
      case False
      with True s assms plain obtain y where "prep [y] (jstr t) = Some (x, r)"
        by (cases "unescape e") (auto simp: jstr.simps)
      with s show ?thesis by (intro disjI2 prep_step) auto
    qed
  next
    case False
    let ?n = "utf8_size (c # s)"
    show ?thesis
    proof (cases "?n = 0")
      case True
      with False assms plain have "prep utf8_fffd (jstr s) = Some (x, r)"
        by (simp add: jstr.simps(2) [of c s])
      then show ?thesis by (intro disjI2 prep_step) auto
    next
      case pos: False
      with False assms plain have "prep (take ?n (c # s)) (jstr (drop ?n (c # s))) = Some (x, r)"
        by (simp add: jstr.simps(2) [of c s] Let_def)
      with pos show ?thesis by (intro disjI2 prep_step) auto
    qed
  qed
qed

lemma jstr_shorter: "jstr s = Some (x, r) \<Longrightarrow> length r < length s"
proof (induction s arbitrary: x rule: length_induct)
  case (1 s)
  then obtain c t where s: "s = c # t" by (cases s) auto
  with "1.prems" have "(c = CHR 0x22 \<and> x = [] \<and> r = t) \<or>
    (\<exists>p y u. length u < length (c # t) \<and> jstr u = Some (y, r) \<and> x = p @ y)"
    by (intro jstr_step) simp
  with s "1.IH" show ?case by (auto intro: less_trans)
qed

end
