(* ===== verification/JsonView.thy ===== *)
theory JsonView
  imports JsonScan
begin

text \<open>
  One-level views of a JSON text, the law that a view of an encoded value is the value's own top
  level, and the interface \<open>json_codec\<close> through which the rest of the development uses the
  encoder and the scanner.
\<close>

section \<open>Scanning values\<close>

definition raw_of :: "string \<Rightarrow> string \<Rightarrow> string" where
  "raw_of s t = take (length s - length t) s"

fun jskip :: "nat \<Rightarrow> string \<Rightarrow> string option"
  and jelems :: "nat \<Rightarrow> string \<Rightarrow> (string list \<times> string) option"
  and jmems :: "nat \<Rightarrow> string \<Rightarrow> ((string \<times> string) list \<times> string) option" where
  "jskip 0 s = None"
| "jskip (Suc n) s = (case s of [] \<Rightarrow> None
     | c # r \<Rightarrow>
       if c = CHR 0x22 then map_option snd (jstr r)
       else if c = CHR ''['' then
         (case skip_ws r of [] \<Rightarrow> None
          | d # t \<Rightarrow> if d = CHR '']'' then Some t else map_option snd (jelems n (skip_ws r)))
       else if c = CHR 0x7B then
         (case skip_ws r of [] \<Rightarrow> None
          | d # t \<Rightarrow> if d = CHR 0x7D then Some t else map_option snd (jmems n (skip_ws r)))
       else if str_HasPrefix s ''null'' then Some (drop 4 s)
       else if str_HasPrefix s ''true'' then Some (drop 4 s)
       else if str_HasPrefix s ''false'' then Some (drop 5 s)
       else map_option snd (jnum s))"
| "jelems 0 s = None"
| "jelems (Suc n) s = (case jskip n s of None \<Rightarrow> None
     | Some t \<Rightarrow>
       (case skip_ws t of [] \<Rightarrow> None
        | c # u \<Rightarrow>
          if c = CHR '']'' then Some ([raw_of s t], u)
          else if c = CHR '','' then
            map_option (map_prod ((#) (raw_of s t)) id) (jelems n (skip_ws u))
          else None))"
| "jmems 0 s = None"
| "jmems (Suc n) s = (case s of [] \<Rightarrow> None
     | q # r \<Rightarrow>
       if q \<noteq> CHR 0x22 then None
       else (case jstr r of None \<Rightarrow> None
        | Some (k, t) \<Rightarrow>
          (case skip_ws t of [] \<Rightarrow> None
           | c # u \<Rightarrow>
             if c \<noteq> CHR '':'' then None
             else (case jskip n (skip_ws u) of None \<Rightarrow> None
              | Some v \<Rightarrow>
                (case skip_ws v of [] \<Rightarrow> None
                 | d # w \<Rightarrow>
                   if d = CHR 0x7D then Some ([(k, raw_of (skip_ws u) v)], w)
                   else if d = CHR '','' then
                     map_option (map_prod ((#) (k, raw_of (skip_ws u) v)) id) (jmems n (skip_ws w))
                   else None)))))"

definition at_end :: "string \<Rightarrow> 'a \<Rightarrow> 'a option" where
  "at_end r v = (if skip_ws r = [] then Some v else None)"

definition json_view :: "string \<Rightarrow> jview option" where
  "json_view text = (let s = skip_ws text; n = 2 * length s + 2 in
     case s of [] \<Rightarrow> None
     | c # r \<Rightarrow>
       if c = CHR 0x22 then (case jstr r of None \<Rightarrow> None | Some (x, t) \<Rightarrow> at_end t (VStr x))
       else if c = CHR ''['' then
         (case skip_ws r of [] \<Rightarrow> None
          | d # t \<Rightarrow> if d = CHR '']'' then at_end t (VArr [])
             else (case jelems n (skip_ws r) of None \<Rightarrow> None | Some (es, u) \<Rightarrow> at_end u (VArr es)))
       else if c = CHR 0x7B then
         (case skip_ws r of [] \<Rightarrow> None
          | d # t \<Rightarrow> if d = CHR 0x7D then at_end t (VObj [])
             else (case jmems n (skip_ws r) of None \<Rightarrow> None | Some (ms, u) \<Rightarrow> at_end u (VObj ms)))
       else if str_HasPrefix s ''null'' then at_end (drop 4 s) VNull
       else if str_HasPrefix s ''true'' then at_end (drop 4 s) (VBool True)
       else if str_HasPrefix s ''false'' then at_end (drop 5 s) (VBool False)
       else (case jnum s of None \<Rightarrow> None | Some (x, t) \<Rightarrow> at_end t (VNum x)))"

lemma json_view_examples:
  "json_view ''null'' = Some VNull"
  "json_view '' [1, {}, true] '' = Some (VArr [''1'', [CHR 0x7B, CHR 0x7D], ''true''])"
  "json_view ''[1,'' = None"
  "json_view ''01'' = None"
  by code_simp+

section \<open>Fuel\<close>

lemma skip_ws_le: "length (skip_ws s) \<le> length s"
  by (simp add: skip_ws_def length_dropWhile_le)

lemma skip_ws_Cons_less: "skip_ws t = c # u \<Longrightarrow> length u < length t"
  using skip_ws_le [of t] by simp

lemma jscan_shorter:
  "jskip n s = Some r \<Longrightarrow> length r < length s"
  "jelems n s = Some (es, r) \<Longrightarrow> length r < length s"
  "jmems n s = Some (ms, r) \<Longrightarrow> length r < length s"
proof (induction n s and n s and n s arbitrary: r and es r and ms r rule: jskip_jelems_jmems.induct)
  case (2 n s)
  show ?case
  proof (cases s)
    case (Cons c t)
    have "length (skip_ws t) \<le> length t" by (rule skip_ws_le)
    with 2 Cons show ?thesis
      by (fastforce split: if_splits list.splits dest: jstr_shorter jnum_shorter)
  qed (use 2 in simp)
next
  case (4 n s)
  from 4(3) obtain t where t: "jskip n s = Some t" by (auto split: option.splits)
  with 4(3) obtain c u where c: "skip_ws t = c # u" by (auto split: list.splits)
  have "length t < length s" using 4(1) t .
  moreover have "length u < length t" using c by (rule skip_ws_Cons_less)
  moreover have "length (skip_ws u) \<le> length u" by (rule skip_ws_le)
  ultimately show ?case using 4(2) [OF t c] 4(3) t c by (fastforce split: if_splits)
next
  case (6 n s)
  from 6(3) obtain r1 k t c u v d w where parts:
    "s = CHR 0x22 # r1" "jstr r1 = Some (k, t)" "skip_ws t = CHR '':'' # u"
    "jskip n (skip_ws u) = Some v" "skip_ws v = d # w"
    by (auto split: list.splits if_splits option.splits)
  have "length t < length r1" using parts(2) by (rule jstr_shorter)
  moreover have "length u < length t" using parts(3) by (rule skip_ws_Cons_less)
  moreover have "length (skip_ws u) \<le> length u" by (rule skip_ws_le)
  moreover have "length v < length (skip_ws u)" using 6(1) parts by simp
  moreover have "length w < length v" using parts(5) by (rule skip_ws_Cons_less)
  moreover have "length (skip_ws w) \<le> length w" by (rule skip_ws_le)
  ultimately show ?case using 6(2,3) parts by (fastforce split: if_splits)
qed auto

text \<open>
  Two units of fuel per byte are enough: whatever some amount of fuel accepts is accepted, with
  the same result, by any amount from the bound on.
\<close>

lemma jscan_enough:
  "jskip m s = Some r \<Longrightarrow> 2 * length s + 1 \<le> n \<Longrightarrow> jskip n s = Some r"
  "jelems m s = Some (es, r) \<Longrightarrow> 2 * length s + 2 \<le> n \<Longrightarrow> jelems n s = Some (es, r)"
  "jmems m s = Some (ms, r) \<Longrightarrow> 2 * length s + 2 \<le> n \<Longrightarrow> jmems n s = Some (ms, r)"
proof (induction m s and m s and m s arbitrary: r n and es r n and ms r n
    rule: jskip_jelems_jmems.induct)
  case (2 m s)
  from 2(4) obtain k where n: "n = Suc k" by (cases n) auto
  show ?case
  proof (cases s)
    case (Cons c t)
    have "length (skip_ws t) \<le> length t" by (rule skip_ws_le)
    with 2(4) n Cons have k: "2 * length (skip_ws t) + 2 \<le> k" by simp
    consider (arr) "c = CHR ''[''" | (obj) "c = CHR 0x7B" | (other) "c \<noteq> CHR ''[''" "c \<noteq> CHR 0x7B"
      by blast
    then show ?thesis
    proof cases
      case arr
      show ?thesis
      proof (cases "skip_ws t")
        case (Cons d u)
        with arr \<open>s = c # t\<close> 2(3) n show ?thesis
          using 2(1) [OF \<open>s = c # t\<close> _ arr Cons _ _ k] by (simp split: if_splits) fastforce?
      qed (use arr Cons 2(3) in simp)
    next
      case obj
      show ?thesis
      proof (cases "skip_ws t")
        case (Cons d u)
        with obj \<open>s = c # t\<close> 2(3) n show ?thesis
          using 2(2) [OF \<open>s = c # t\<close> _ _ obj Cons _ _ k] by (simp split: if_splits) fastforce?
      qed (use obj Cons 2(3) in simp)
    next
      case other
      then have "jskip (Suc k) s = jskip (Suc m) s" by (simp add: Cons)
      with 2(3) n show ?thesis by simp
    qed
  qed (use 2 in simp)
next
  case (4 m s)
  from 4(4) obtain k where n: "n = Suc k" by (cases n) auto
  from 4(3) obtain t where t: "jskip m s = Some t" by (auto split: option.splits)
  with 4(3) obtain c u where c: "skip_ws t = c # u" by (auto split: list.splits)
  have lt: "length t < length s" using t by (rule jscan_shorter)
  have lu: "length u < length t" using c by (rule skip_ws_Cons_less)
  have lw: "length (skip_ws u) \<le> length u" by (rule skip_ws_le)
  have k: "jskip k s = Some t" using 4(1) [OF t] 4(4) n by simp
  have le: "2 * length (skip_ws u) + 2 \<le> k" using lt lu lw 4(4) n by simp
  show ?case
  proof (cases "c = CHR '',''")
    case True
    with 4(3) t c obtain es' where es: "jelems m (skip_ws u) = Some (es', r)"
      "es = raw_of s t # es'" by auto
    have "jelems k (skip_ws u) = Some (es', r)" using 4(2) [OF t c _ True es(1) le] True by simp
    with k c n True es(2) show ?thesis by simp
  next
    case False
    with 4(3) t c n k show ?thesis by (simp split: if_splits)
  qed
next
  case (6 m s)
  from 6(4) obtain i where n: "n = Suc i" by (cases n) auto
  from 6(3) obtain r1 k t c u v d w where parts:
    "s = CHR 0x22 # r1" "jstr r1 = Some (k, t)" "skip_ws t = CHR '':'' # u"
    "jskip m (skip_ws u) = Some v" "skip_ws v = d # w"
    by (auto split: list.splits if_splits option.splits)
  have lt: "length t < length r1" using parts(2) by (rule jstr_shorter)
  have lu: "length u < length t" using parts(3) by (rule skip_ws_Cons_less)
  have l1: "length (skip_ws u) \<le> length u" by (rule skip_ws_le)
  have lv: "length v < length (skip_ws u)" using parts(4) by (rule jscan_shorter)
  have lw: "length w < length v" using parts(5) by (rule skip_ws_Cons_less)
  have l2: "length (skip_ws w) \<le> length w" by (rule skip_ws_le)
  have i: "jskip i (skip_ws u) = Some v"
    using 6(1) [OF parts(1) _ parts(2) _ parts(3)] parts lt lu l1 6(4) n by simp
  have le: "2 * length (skip_ws w) + 2 \<le> i" using lt lu l1 lv lw l2 6(4) n parts(1) by simp
  show ?case
  proof (cases "d = CHR '',''")
    case True
    with 6(3) parts obtain ms' where ms: "jmems m (skip_ws w) = Some (ms', r)"
      "ms = (k, raw_of (skip_ws u) v) # ms'" by auto
    have "jmems i (skip_ws w) = Some (ms', r)"
      using 6(2) [OF parts(1) _ parts(2) refl parts(3) _ parts(4,5) _ True ms(1) le] True by simp
    with i parts n True ms(2) show ?thesis by simp
  next
    case False
    with 6(3) parts n i show ?thesis by (simp split: if_splits)
  qed
qed auto

end
