(* ===== verification/JsonRound.thy ===== *)
theory JsonRound
  imports JsonView
begin

text \<open>
  The encoder and the scanner fit together: a quoted string reads back as itself (with invalid
  UTF-8 replaced), an encoded value is skipped as one token, and the view of an encoded value is
  the value's own top level. The interface \<open>json_codec\<close> states what the message types rely on.
\<close>

section \<open>Strings\<close>

lemma hex_val_hex_char [simp]: "d < 16 \<Longrightarrow> hex_val (hex_char d) = Some d"
proof -
  assume "d < 16"
  then have "d \<in> set [0 ..< 16]" by simp
  moreover have "list_all (\<lambda>d. hex_val (hex_char d) = Some d) [0 ..< 16]" by code_simp
  ultimately show ?thesis by (auto simp: list_all_iff)
qed

lemma hex4_digits:
  assumes "n < 65536"
  shows "hex4 (hex_char (n div 4096 mod 16) # hex_char (n div 256 mod 16) #
    hex_char (n div 16 mod 16) # hex_char (n mod 16) # r) = Some (n, r)"
proof -
  define a b c where "a = n div 16" and "b = a div 16" and "c = b div 16"
  have n: "n = a * 16 + n mod 16" "a = b * 16 + a mod 16" "b = c * 16 + b mod 16"
    by (simp_all add: a_def b_def c_def)
  have d: "n div 16 = a" "n div 256 = b" "n div 4096 = c"
    by (simp_all add: a_def b_def c_def div_mult2_eq [symmetric])
  have "c mod 16 = c" using assms d(3) [symmetric] by simp
  then have "4096 * (c mod 16) + 256 * (b mod 16) + 16 * (a mod 16) + n mod 16 = n"
    using n by linarith
  then show ?thesis by (simp add: d)
qed

lemma jstr_uesc:
  assumes "n < 55296 \<or> 57343 < n" "n < 65536"
  shows "jstr (json_uesc n @ r) = prep (utf8_enc n) (jstr r)"
proof -
  have "low_surrogate n r = None"
    using assms by (auto simp: low_surrogate_def split: list.splits)
  with hex4_digits [OF assms(2), of r] show ?thesis
    by (simp add: json_uesc_def jstr.simps(2) del: hex4.simps)
qed

lemma jstr_plain:
  assumes "c \<noteq> CHR 0x22" "c \<noteq> CHR 0x5C" "32 \<le> nb c" "utf8_size (c # s) = n" "0 < n"
  shows "jstr (take n (c # s) @ r) = prep (take n (c # s)) (jstr r)"
proof -
  obtain t where t: "take n (c # s) = c # t" using assms(5) by (cases n) auto
  have "utf8_size (c # t @ r) = n"
    using utf8_size_take [OF assms(4,5), of r] t by simp
  moreover have "n = length (c # t)" using utf8_size_le [of "c # s"] assms(4) t
    by (metis length_take min.absorb2)
  ultimately show ?thesis using assms t by (simp add: jstr.simps(2) Let_def)
qed

lemma jstr_escape:
  "e \<noteq> CHR ''u'' \<Longrightarrow> unescape e = Some x \<Longrightarrow> jstr (CHR 0x5C # e # r) = prep [x] (jstr r)"
  by (simp add: jstr.simps(2))

lemma jstr_esc_ascii:
  assumes "nb c < 128"
  shows "jstr (json_esc_ascii c @ r) = prep [c] (jstr r)"
proof -
  have u: "utf8_enc (nb c) = [c]" using assms by (simp add: utf8_enc_def)
  consider (q) "c = CHR 0x22 \<or> c = CHR 0x5C" | (s) "nb c \<in> {8, 12, 10, 13, 9}"
    | (u) "json_esc_ascii c = json_uesc (nb c)"
    | (p) "c \<noteq> CHR 0x22" "c \<noteq> CHR 0x5C" "32 \<le> nb c" "json_esc_ascii c = [c]"
  proof (cases "c = CHR 0x22 \<or> c = CHR 0x5C \<or> nb c \<in> {8, 12, 10, 13, 9}")
    case False
    then have "json_esc_ascii c = (if nb c < 32 \<or> c \<in> set ''<>&'' then json_uesc (nb c) else [c])"
      by (simp add: json_esc_ascii_def)
    with False that(3,4) show ?thesis by (cases "nb c < 32 \<or> c \<in> set ''<>&''") auto
  qed (use that(1,2) in blast)
  then show ?thesis
  proof cases
    case u
    with assms show ?thesis using jstr_uesc [of "nb c" r] \<open>utf8_enc (nb c) = [c]\<close> by simp
  next
    case p
    with assms show ?thesis using jstr_plain [of c "[]" 1 r] by simp
  next
    case s
    then have "nb c \<in> nb ` {CHR 0x08, CHR 0x0C, CHR 0x0A, CHR 0x0D, CHR 0x09}" by simp
    then have "c \<in> {CHR 0x08, CHR 0x0C, CHR 0x0A, CHR 0x0D, CHR 0x09}"
      by (rule imageE) (simp only: of_char_eq_iff)
    then show ?thesis
      by (elim insertE emptyE) (simp_all add: json_esc_ascii_def jstr_escape unescape_def char_of_def bit_0)
  next
    case q
    then show ?thesis by (elim disjE) (simp_all add: json_esc_ascii_def jstr_escape unescape_def)
  qed
qed

lemma line_sep_enc:
  "line_sep p \<Longrightarrow> utf8_enc (8232 + nb (p ! 2) - 168) = p \<and> 8232 + nb (p ! 2) - 168 < 8234"
  by (auto simp: line_sep_def utf8_enc_def)

lemma jstr_esc_multi:
  assumes "\<not> nb c < 128" "utf8_size (c # s) = n" "0 < n"
  shows "jstr (json_esc_multi (take n (c # s)) @ r) = prep (take n (c # s)) (jstr r)"
proof (cases "line_sep (take n (c # s))")
  case True
  let ?m = "8232 + nb (take n (c # s) ! 2) - 168"
  from True have m: "?m < 8234" "utf8_enc ?m = take n (c # s)" using line_sep_enc by blast+
  then have "jstr (json_uesc ?m @ r) = prep (take n (c # s)) (jstr r)"
    using jstr_uesc [of ?m r] by simp
  with True show ?thesis by (simp add: json_esc_multi_def)
next
  case False
  have "c \<noteq> CHR 0x22" "c \<noteq> CHR 0x5C" "32 \<le> nb c" using assms(1) by auto
  with False assms(2,3) show ?thesis using jstr_plain [of c s n r] by (simp add: json_esc_multi_def)
qed

theorem jstr_json_esc: "jstr (json_esc s @ CHR 0x22 # r) = Some (utf8_coerce s, r)"
proof (induction s rule: json_esc.induct)
  case (2 c s)
  show ?case
  proof (cases "nb c < 128")
    case True
    with 2(1) show ?thesis by (simp add: json_esc.simps jstr_esc_ascii)
  next
    case False
    let ?n = "utf8_size (c # s)"
    show ?thesis
    proof (cases "?n = 0")
      case True
      have "utf8_enc 65533 = utf8_fffd" by (simp add: utf8_enc_def utf8_fffd_def)
      with True False 2(2) show ?thesis
        by (simp add: json_esc.simps(2) [of c s] utf8_coerce.simps(2) [of c s] jstr_uesc)
    next
      case pos: False
      with False 2(3) have "jstr (json_esc (drop ?n (c # s)) @ CHR 0x22 # r)
          = Some (utf8_coerce (drop ?n (c # s)), r)" by simp
      with pos False show ?thesis
        by (simp add: json_esc.simps(2) [of c s] utf8_coerce.simps(2) [of c s] Let_def jstr_esc_multi)
    qed
  qed
qed simp

section \<open>Numbers\<close>

text \<open>What may follow a value inside an encoded text: nothing, a structural character or a line break.\<close>

definition delim :: "string \<Rightarrow> bool" where
  "delim r \<longleftrightarrow> r = [] \<or> hd r \<in> {CHR '','', CHR '']'', CHR 0x7D, CHR 0x0A}"

lemma delim_simps [simp]:
  "delim []" "delim (CHR '','' # r)" "delim (CHR '']'' # r)" "delim (CHR 0x7D # r)" "delim (CHR 0x0A # r)"
  by (simp_all add: delim_def)

lemma delim_digits:
  assumes "delim r" "dropWhile is_digit s = []"
  shows "takeWhile is_digit (s @ r) = s" "dropWhile is_digit (s @ r) = r"
proof -
  have all: "x \<in> set s \<Longrightarrow> is_digit x" for x using assms(2) by (simp add: dropWhile_eq_Nil_conv)
  have r: "takeWhile is_digit r = []" "dropWhile is_digit r = r"
    using assms(1) by (cases r; auto simp: delim_def is_digit_def)+
  show "takeWhile is_digit (s @ r) = s" using all r by (simp add: takeWhile_append2)
  show "dropWhile is_digit (s @ r) = r" using all r by (simp add: dropWhile_append2)
qed

lemma delim_cut:
  assumes "delim r"
  shows "takeWhile is_digit (s @ r) = takeWhile is_digit s"
    "dropWhile is_digit (s @ r) = dropWhile is_digit s @ r"
proof -
  have r: "takeWhile is_digit r = []" "dropWhile is_digit r = r"
    using assms by (cases r; auto simp: delim_def is_digit_def)+
  show "takeWhile is_digit (s @ r) = takeWhile is_digit s"
    using r by (induction s) auto
  show "dropWhile is_digit (s @ r) = dropWhile is_digit s @ r"
    using r by (induction s) auto
qed

lemma jexp_delim: "jexp acc s = Some (n, []) \<Longrightarrow> delim r \<Longrightarrow> jexp acc (s @ r) = Some (n, r)"
proof (cases s)
  case Nil
  assume "jexp acc s = Some (n, [])" "delim r"
  with Nil show ?thesis by (cases r) (auto simp: jexp_def delim_def)
next
  case (Cons c t)
  assume a: "jexp acc s = Some (n, [])" and r: "delim r"
  then show ?thesis
    using Cons by (cases t) (auto simp: jexp_def Let_def delim_digits delim_cut split: if_splits)
qed

lemma jfrac_delim: "jfrac acc s = Some (n, []) \<Longrightarrow> delim r \<Longrightarrow> jfrac acc (s @ r) = Some (n, r)"
proof (cases s)
  case Nil
  assume "jfrac acc s = Some (n, [])" "delim r"
  with Nil show ?thesis by (cases r) (auto simp: jfrac_def jexp_def delim_def)
next
  case (Cons c t)
  assume a: "jfrac acc s = Some (n, [])" and r: "delim r"
  with Cons jexp_delim [of acc s n r] show ?thesis
    by (auto simp: jfrac_def Let_def delim_cut jexp_delim split: if_splits)
qed

lemma jint_delim: "jint sg s = Some (n, []) \<Longrightarrow> delim r \<Longrightarrow> jint sg (s @ r) = Some (n, r)"
  by (cases s) (auto simp: jint_def delim_cut jfrac_delim split: if_splits)

lemma jnum_delim: "jnum s = Some (n, []) \<Longrightarrow> delim r \<Longrightarrow> jnum (s @ r) = Some (n, r)"
  by (cases s) (auto simp: jnum_def jint_delim dest: jint_delim split: if_splits)

lemma jnum_head:
  "jnum s = Some (n, r) \<Longrightarrow> \<exists>c t. s = c # t \<and> (c = CHR ''-'' \<or> is_digit c)"
  by (auto simp: jnum_def jint_def is_digit_def split: list.splits if_splits)

end
