(* ===== verification/JsonCodec.thy ===== *)
theory JsonCodec
  imports JsonRound
begin

text \<open>
  \<open>json.Marshal\<close> on value trees, the law that the view of an encoded value is its own top level,
  and the interface \<open>json_codec\<close> through which the message types are encoded and decoded.
\<close>

section \<open>Values without raw parts\<close>

fun json_plain :: "json \<Rightarrow> bool" where
  "json_plain JNull = True"
| "json_plain (JBool b) = True"
| "json_plain (JNum n) = (jnum n = Some (n, []))"
| "json_plain (JStr s) = True"
| "json_plain (JArr js) = list_all json_plain js"
| "json_plain (JObj ms) = list_all (\<lambda>(k, j). json_plain j) ms"
| "json_plain (JRaw r) = False"
| "json_plain JUnsup = False"

text \<open>What \<open>json.Marshal\<close> accepts: raw parts must be valid JSON, floats must be finite.\<close>

fun json_encodable :: "json \<Rightarrow> bool" where
  "json_encodable (JArr js) = list_all json_encodable js"
| "json_encodable (JObj ms) = list_all (\<lambda>(k, j). json_encodable j) ms"
| "json_encodable (JRaw r) = (json_view r \<noteq> None)"
| "json_encodable JUnsup = False"
| "json_encodable _ = True"

definition json_Marshal :: "json \<Rightarrow> string res" where
  "json_Marshal j = (if json_encodable j then Inr (json_enc j)
     else Inl (errorf ''json: unsupported value''))"

lemma json_plain_encodable: "json_plain j \<Longrightarrow> json_encodable j"
  by (induction j rule: json_plain.induct) (auto simp: list_all_iff)

lemma json_Marshal_plain [simp]: "json_plain j \<Longrightarrow> json_Marshal j = Inr (json_enc j)"
  by (simp add: json_Marshal_def json_plain_encodable)

section \<open>The view of an encoded value\<close>

fun json_top :: "json \<Rightarrow> jview" where
  "json_top JNull = VNull"
| "json_top (JBool b) = VBool b"
| "json_top (JNum n) = VNum n"
| "json_top (JStr s) = VStr (utf8_coerce s)"
| "json_top (JArr js) = VArr (map json_enc js)"
| "json_top (JObj ms) = VObj (map (\<lambda>(k, j). (utf8_coerce k, json_enc j)) ms)"
| "json_top (JRaw r) = VNull"
| "json_top JUnsup = VNull"

lemma json_enc_head:
  assumes "json_plain j"
  obtains c t where "json_enc j = c # t" "\<not> is_jws c" "c \<noteq> CHR '']''" "c \<noteq> CHR 0x7D"
proof (cases j)
  case (JNum n)
  with assms obtain c t where "n = c # t" "c = CHR ''-'' \<or> is_digit c"
    using jnum_head [of n n "[]"] by auto
  with JNum that [of c t] show ?thesis by (auto simp: is_jws_def is_digit_def char_of_def bit_0)
next
  case (JBool b)
  with that [of "hd (json_enc j)" "tl (json_enc j)"] show ?thesis
    by (cases b) (simp_all add: is_jws_def char_of_def bit_0)
qed (use assms that in \<open>auto simp: json_quote_def is_jws_def char_of_def bit_0\<close>)

lemma skip_ws_enc [simp]: "json_plain j \<Longrightarrow> skip_ws (json_enc j @ r) = json_enc j @ r"
  by (erule json_enc_head) (simp add: skip_ws_def)

lemma skip_ws_quote [simp]: "skip_ws (json_quote k @ r) = json_quote k @ r"
  by (simp add: json_quote_def skip_ws_def is_jws_def char_of_def bit_0)

lemma skip_ws_struct [simp]:
  "skip_ws (CHR '','' # r) = CHR '','' # r" "skip_ws (CHR '']'' # r) = CHR '']'' # r"
  "skip_ws (CHR 0x7D # r) = CHR 0x7D # r" "skip_ws (CHR '':'' # r) = CHR '':'' # r"
  "skip_ws [] = []"
  by (simp_all add: skip_ws_def is_jws_def char_of_def bit_0)

lemma raw_of_append [simp]: "raw_of (s @ r) r = s"
  by (simp add: raw_of_def)

lemma json_enc_pos: "json_plain j \<Longrightarrow> 0 < length (json_enc j)"
  by (erule json_enc_head) simp

lemma jstr_json_quote: "json_quote k @ r = CHR 0x22 # t \<Longrightarrow> jstr t = Some (utf8_coerce k, r)"
  using jstr_json_esc [of k r] by (simp add: json_quote_def)

lemma jskip_num:
  assumes "jnum m = Some (m, [])" "delim r"
  shows "jskip (Suc n) (m @ r) = Some r"
proof -
  obtain c t where m: "m = c # t" "c = CHR ''-'' \<or> is_digit c"
    using jnum_head assms(1) by blast
  have "c \<notin> {CHR 0x22, CHR ''['', CHR 0x7B, CHR ''n'', CHR ''t'', CHR ''f''}"
    using m(2) by (auto simp: is_digit_def)
  with m(1) jnum_delim [OF assms] show ?thesis by (simp add: str_HasPrefix_def)
qed


lemma jscan_json_enc:
  "json_plain j \<Longrightarrow> delim r \<Longrightarrow> 2 * length (json_enc j @ r) + 1 \<le> n \<Longrightarrow>
    jskip n (json_enc j @ r) = Some r"
  "js \<noteq> [] \<Longrightarrow> list_all json_plain js \<Longrightarrow>
    2 * length (json_enc_elems js @ CHR '']'' # r) + 2 \<le> n \<Longrightarrow>
    jelems n (json_enc_elems js @ CHR '']'' # r) = Some (map json_enc js, r)"
  "ms \<noteq> [] \<Longrightarrow> list_all (\<lambda>(k, j). json_plain j) ms \<Longrightarrow>
    2 * length (json_enc_mems ms @ CHR 0x7D # r) + 2 \<le> n \<Longrightarrow>
    jmems n (json_enc_mems ms @ CHR 0x7D # r)
      = Some (map (\<lambda>(k, j). (utf8_coerce k, json_enc j)) ms, r)"
proof (induction j and js and ms arbitrary: r n and r n and r n
    rule: json_enc_json_enc_elems_json_enc_mems.induct)
  case 1 then show ?case by (cases n) (auto simp: str_HasPrefix_def)
next
  case (2 b) then show ?case by (cases n) (auto simp: str_HasPrefix_def)
next
  case (3 m) then show ?case by (cases n) (simp_all add: jskip_num del: jskip.simps)
next
  case (4 s)
  then show ?case by (cases n) (simp_all add: json_quote_def jstr_json_esc)
next
  case (5 js)
  then obtain k where n: "n = Suc k" by (cases n) auto
  show ?case
  proof (cases js)
    case Nil
    with n show ?thesis by simp
  next
    case (Cons a as)
    with 5(2) obtain c t where h: "json_enc_elems js = c # t" "\<not> is_jws c" "c \<noteq> CHR '']''"
      by (cases as) (auto elim: json_enc_head)
    then have "skip_ws (json_enc_elems js @ CHR '']'' # r) = json_enc_elems js @ CHR '']'' # r"
      by (simp add: skip_ws_def)
    moreover have "jelems k (json_enc_elems js @ CHR '']'' # r) = Some (map json_enc js, r)"
      using 5 Cons n by simp
    ultimately show ?thesis using h n by simp
  qed
next
  case (6 ms)
  then obtain k where n: "n = Suc k" by (cases n) auto
  show ?case
  proof (cases ms)
    case Nil
    with n show ?thesis by simp
  next
    case (Cons a as)
    obtain t where h: "json_enc_mems ms = CHR 0x22 # t"
      using Cons by (cases a; cases as) (auto simp: json_quote_def)
    then have "skip_ws (json_enc_mems ms @ CHR 0x7D # r) = json_enc_mems ms @ CHR 0x7D # r"
      by (simp add: skip_ws_def is_jws_def char_of_def bit_0)
    moreover have "jmems k (json_enc_mems ms @ CHR 0x7D # r)
        = Some (map (\<lambda>(k, j). (utf8_coerce k, json_enc j)) ms, r)"
      using 6 Cons n by simp
    ultimately show ?thesis using h n by simp
  qed
next
  case (10 j)
  then obtain k where n: "n = Suc k" by (cases n) auto
  then have "jskip k (json_enc j @ CHR '']'' # r) = Some (CHR '']'' # r)"
    using 10 json_enc_pos [of j] by simp
  with n show ?case by simp
next
  case (11 j j' js)
  then obtain k where n: "n = Suc k" by (cases n) auto
  let ?rest = "json_enc_elems (j' # js) @ CHR '']'' # r"
  have "jskip k (json_enc j @ CHR '','' # ?rest) = Some (CHR '','' # ?rest)"
    using 11 n json_enc_pos [of j] by simp
  moreover have "skip_ws ?rest = ?rest" using 11(4) by (cases js) auto
  moreover have "jelems k ?rest = Some (map json_enc (j' # js), r)" using 11 n by simp
  ultimately show ?case using n by simp
next
  case (13 key j)
  then obtain k where n: "n = Suc k" by (cases n) auto
  obtain t where t: "json_quote key @ CHR '':'' # json_enc j @ CHR 0x7D # r = CHR 0x22 # t"
    by (simp add: json_quote_def)
  from jstr_json_quote [OF t] have "jstr t = Some (utf8_coerce key, CHR '':'' # json_enc j @ CHR 0x7D # r)" .
  moreover have "jskip k (json_enc j @ CHR 0x7D # r) = Some (CHR 0x7D # r)"
    using 13 n json_enc_pos [of j] by simp
  ultimately show ?case using n t 13 by simp
next
  case (14 key j m ms)
  then obtain k where n: "n = Suc k" by (cases n) auto
  let ?rest = "json_enc_mems (m # ms) @ CHR 0x7D # r"
  obtain t where t: "json_quote key @ CHR '':'' # json_enc j @ CHR '','' # ?rest = CHR 0x22 # t"
    by (simp add: json_quote_def)
  from jstr_json_quote [OF t] have "jstr t = Some (utf8_coerce key, CHR '':'' # json_enc j @ CHR '','' # ?rest)" .
  moreover have "jskip k (json_enc j @ CHR '','' # ?rest) = Some (CHR '','' # ?rest)"
    using 14 n json_enc_pos [of j] by simp
  moreover have "skip_ws ?rest = ?rest" by (cases m; cases ms) auto
  moreover have "jmems k ?rest = Some (map (\<lambda>(k, j). (utf8_coerce k, json_enc j)) (m # ms), r)"
    using 14 n by simp
  ultimately show ?case using n t 14 by simp
qed auto


lemma at_end_Nil [simp]: "at_end [] v = Some v"
  by (simp add: at_end_def)

lemma skip_ws_enc_Nil: "json_plain j \<Longrightarrow> skip_ws (json_enc j) = json_enc j"
  using skip_ws_enc [of j "[]"] by simp

theorem json_view_json_enc:
  assumes "json_plain j"
  shows "json_view (json_enc j) = Some (json_top j)"
proof (cases j)
  case (JNum m)
  with assms obtain c t where m: "m = c # t" "c = CHR ''-'' \<or> is_digit c"
    using jnum_head [of m m "[]"] by auto
  then have "c \<notin> {CHR 0x22, CHR ''['', CHR 0x7B, CHR ''n'', CHR ''t'', CHR ''f''}"
    by (auto simp: is_digit_def)
  with m JNum assms skip_ws_enc_Nil [OF assms] show ?thesis
    by (simp add: json_view_def str_HasPrefix_def)
next
  case (JArr js)
  let ?n = "2 * length (json_enc j) + 2"
  show ?thesis
  proof (cases js)
    case (Cons a as)
    with JArr assms obtain c t where h: "json_enc_elems js = c # t" "\<not> is_jws c" "c \<noteq> CHR '']''"
      by (cases as) (auto elim: json_enc_head)
    then have "skip_ws (json_enc_elems js @ '']'') = json_enc_elems js @ '']''"
      by (simp add: skip_ws_def)
    moreover have "jelems ?n (json_enc_elems js @ '']'') = Some (map json_enc js, [])"
      using jscan_json_enc(2) [of js "[]" ?n] JArr Cons assms by simp
    ultimately show ?thesis using h JArr skip_ws_enc_Nil [OF assms]
      by (simp add: json_view_def Let_def)
  qed (use JArr in \<open>simp add: json_view_def skip_ws_def is_jws_def char_of_def bit_0\<close>)
next
  case (JObj ms)
  let ?n = "2 * length (json_enc j) + 2"
  show ?thesis
  proof (cases ms)
    case (Cons a as)
    obtain t where h: "json_enc_mems ms = CHR 0x22 # t"
      using Cons by (cases a; cases as) (auto simp: json_quote_def)
    then have "skip_ws (json_enc_mems ms @ [CHR 0x7D]) = json_enc_mems ms @ [CHR 0x7D]"
      by (simp add: skip_ws_def is_jws_def char_of_def bit_0)
    moreover have "jmems ?n (json_enc_mems ms @ [CHR 0x7D])
        = Some (map (\<lambda>(k, j). (utf8_coerce k, json_enc j)) ms, [])"
      using jscan_json_enc(3) [of ms "[]" ?n] JObj Cons assms by simp
    ultimately show ?thesis using h JObj skip_ws_enc_Nil [OF assms]
      by (simp add: json_view_def Let_def)
  qed (use JObj in \<open>simp add: json_view_def skip_ws_def is_jws_def char_of_def bit_0\<close>)
next
  case (JStr s)
  with skip_ws_enc_Nil [OF assms] jstr_json_esc [of s "[]"] show ?thesis
    by (simp add: json_view_def json_quote_def)
qed (use assms skip_ws_enc_Nil [OF assms] in \<open>auto simp: json_view_def str_HasPrefix_def\<close>)

section \<open>Compaction\<close>

text \<open>Compacting an encoded value changes nothing, so a marshalled part can be embedded raw.\<close>

lemma hex_char_plain:
  assumes "d < 16"
  shows "hex_char d \<notin> {CHR 0x22, CHR 0x5C, CHR ''<'', CHR ''>'', CHR ''&''}" "nb (hex_char d) < 128"
proof -
  from assms have "d \<in> set [0 ..< 16]" by simp
  moreover have "list_all (\<lambda>d. hex_char d \<notin> set [CHR 0x22, CHR 0x5C, CHR ''<'', CHR ''>'', CHR ''&''] \<and>
    nb (hex_char d) < 128) [0 ..< 16]" by code_simp
  ultimately show "hex_char d \<notin> {CHR 0x22, CHR 0x5C, CHR ''<'', CHR ''>'', CHR ''&''}"
    "nb (hex_char d) < 128"
    by (auto simp: list_all_iff)
qed

lemma line_sep_ascii [simp]: "nb c < 128 \<Longrightarrow> \<not> line_sep (c # s)"
  by (auto simp: line_sep_def)

lemma json_compact_plain:
  "c \<notin> {CHR 0x22, CHR 0x5C, CHR ''<'', CHR ''>'', CHR ''&''} \<Longrightarrow> \<not> line_sep (c # take 2 s) \<Longrightarrow>
    json_compact (Suc 0) (c # s) = c # json_compact (Suc 0) s"
  by simp

lemma json_compact_esc2: "json_compact (Suc 0) (CHR 0x5C # e # s) = CHR 0x5C # e # json_compact (Suc 0) s"
  by simp

lemma json_compact_hex:
  "d < 16 \<Longrightarrow> json_compact (Suc 0) (hex_char d # s) = hex_char d # json_compact (Suc 0) s"
  by (rule json_compact_plain) (use hex_char_plain [of d] in auto)

lemma json_compact_uesc: "json_compact (Suc 0) (json_uesc n @ s) = json_uesc n @ json_compact (Suc 0) s"
  unfolding json_uesc_def append.simps json_compact_esc2
  by (simp add: json_compact_hex del: json_compact.simps)

lemma json_compact_esc_ascii:
  assumes "nb c < 128"
  shows "json_compact (Suc 0) (json_esc_ascii c @ s) = json_esc_ascii c @ json_compact (Suc 0) s"
proof -
  consider (two) e where "json_esc_ascii c = [CHR 0x5C, e]" | (u) "json_esc_ascii c = json_uesc (nb c)"
    | (p) "c \<notin> {CHR 0x22, CHR 0x5C, CHR ''<'', CHR ''>'', CHR ''&''}" "json_esc_ascii c = [c]"
    by (fastforce simp: json_esc_ascii_def split: if_splits)
  then show ?thesis
    by cases (simp_all add: json_compact_esc2 json_compact_uesc json_compact_plain assms
        del: json_compact.simps)
qed


lemma line_sep_head: "line_sep (c # s) \<Longrightarrow> nb c = 226"
  by (auto simp: line_sep_def)

lemma json_compact_high:
  assumes "128 \<le> nb c" "\<not> line_sep (c # take 2 s)"
  shows "json_compact (Suc 0) (c # s) = c # json_compact (Suc 0) s"
  using assms by (intro json_compact_plain) auto

lemma json_compact_cont:
  "128 \<le> nb c \<Longrightarrow> nb c \<noteq> 226 \<Longrightarrow> json_compact (Suc 0) (c # s) = c # json_compact (Suc 0) s"
  using json_compact_high line_sep_head by blast

lemma json_compact_multi:
  assumes "\<not> nb c < 128" "utf8_size (c # s) = n" "0 < n"
  shows "json_compact (Suc 0) (json_esc_multi (take n (c # s)) @ r)
    = json_esc_multi (take n (c # s)) @ json_compact (Suc 0) r"
proof (cases "line_sep (take n (c # s))")
  case True
  then show ?thesis by (simp add: json_esc_multi_def json_compact_uesc del: json_compact.simps)
next
  case False
  then have esc: "json_esc_multi (take n (c # s)) = take n (c # s)" by (simp add: json_esc_multi_def)
  from assms(2,3) show ?thesis
  proof (cases rule: utf8_size_cases)
    case (one a s')
    with assms(1) show ?thesis by simp
  next
    case (two a b s')
    then show ?thesis
      unfolding esc by (simp add: u8_ok2_def u8_cont_def json_compact_cont del: json_compact.simps)
  next
    case (three a b c s')
    then have "128 \<le> nb a" "128 \<le> nb b" "nb b \<noteq> 226" "128 \<le> nb c" "nb c \<noteq> 226"
      by (auto simp: u8_ok3_def u8_cont_def split: if_splits)
    with three False show ?thesis
      unfolding esc by (simp add: json_compact_cont json_compact_high numeral_3_eq_3 numeral_2_eq_2
          del: json_compact.simps)
  next
    case (four a b c d s')
    then have "128 \<le> nb a" "nb a \<noteq> 226" "128 \<le> nb b" "nb b \<noteq> 226" "128 \<le> nb c" "nb c \<noteq> 226"
      "128 \<le> nb d" "nb d \<noteq> 226"
      by (auto simp: u8_ok4_def u8_cont_def split: if_splits)
    with four show ?thesis unfolding esc by (simp add: json_compact_cont del: json_compact.simps)
  qed
qed

lemma json_compact_json_esc:
  "json_compact (Suc 0) (json_esc s @ CHR 0x22 # r) = json_esc s @ CHR 0x22 # json_compact 0 r"
proof (induction s rule: json_esc.induct)
  case (2 c s)
  show ?case
  proof (cases "nb c < 128")
    case True
    with 2(1) show ?thesis
      by (simp add: json_esc.simps json_compact_esc_ascii del: json_compact.simps)
  next
    case False
    let ?n = "utf8_size (c # s)"
    show ?thesis
    proof (cases "?n = 0")
      case True
      with False 2(2) show ?thesis
        by (simp add: json_esc.simps(2) [of c s] json_compact_uesc del: json_compact.simps)
    next
      case pos: False
      with False 2(3) show ?thesis
        by (simp add: json_esc.simps(2) [of c s] Let_def json_compact_multi del: json_compact.simps)
    qed
  qed
qed simp

lemma json_compact_quote [simp]: "json_compact 0 (json_quote k @ r) = json_quote k @ json_compact 0 r"
  using json_compact_json_esc [of k r]
  by (simp add: json_quote_def is_jws_def char_of_def bit_0)


definition num_char :: "char \<Rightarrow> bool" where
  "num_char c \<longleftrightarrow> is_digit c \<or> c \<in> set ''+-.eE''"

lemma num_char_digits [simp]: "list_all num_char (takeWhile is_digit s)"
  by (auto simp: list_all_iff num_char_def dest: set_takeWhileD)

lemma num_char_digit [simp]: "is_digit c \<Longrightarrow> num_char c"
  by (simp add: num_char_def)

lemma num_char_signs [simp]:
  "num_char (CHR ''.'')" "num_char (CHR ''-'')" "num_char (CHR ''+'')" "num_char (CHR ''e'')"
  "num_char (CHR ''E'')" "num_char (CHR ''0'')"
  by (simp_all add: num_char_def is_digit_def)

lemma jexp_chars: "jexp acc s = Some (n, r) \<Longrightarrow> list_all num_char acc \<Longrightarrow> list_all num_char n"
  by (auto simp: jexp_def Let_def split: list.splits if_splits)

lemma jfrac_chars: "jfrac acc s = Some (n, r) \<Longrightarrow> list_all num_char acc \<Longrightarrow> list_all num_char n"
  by (auto simp: jfrac_def Let_def elim!: jexp_chars split: list.splits if_splits)

lemma jint_chars:
  assumes "jint sg s = Some (n, r)" "list_all num_char sg"
  shows "list_all num_char n"
proof (cases s)
  case (Cons c t)
  with assms num_char_digits [of s] show ?thesis
    by (auto simp: jint_def elim!: jfrac_chars split: if_splits)
qed (use assms in \<open>simp add: jint_def\<close>)

lemma jnum_chars: "jnum s = Some (n, r) \<Longrightarrow> list_all num_char n"
  by (auto simp: jnum_def elim!: jint_chars split: list.splits if_splits)

lemma json_compact_num: "list_all num_char n \<Longrightarrow> json_compact 0 (n @ r) = n @ json_compact 0 r"
  by (induction n) (auto simp: num_char_def is_digit_def is_jws_def char_of_def bit_0)

lemma json_compact_enc:
  "json_plain j \<Longrightarrow> json_compact 0 (json_enc j @ r) = json_enc j @ json_compact 0 r"
  "list_all json_plain js \<Longrightarrow>
    json_compact 0 (json_enc_elems js @ r) = json_enc_elems js @ json_compact 0 r"
  "list_all (\<lambda>(k, j). json_plain j) ms \<Longrightarrow>
    json_compact 0 (json_enc_mems ms @ r) = json_enc_mems ms @ json_compact 0 r"
proof (induction j and js and ms arbitrary: r and r and r
    rule: json_enc_json_enc_elems_json_enc_mems.induct)
  case (3 n)
  then show ?case using jnum_chars [of n n "[]"] by (simp add: json_compact_num)
qed (auto simp: is_jws_def char_of_def bit_0)

theorem json_enc_raw: "json_plain j \<Longrightarrow> json_enc (JRaw (json_enc j)) = json_enc j"
  using json_compact_enc(1) [of j "[]"] by simp

end
