(* ===== verification/JsonDecode.thy ===== *)
theory JsonDecode
  imports JsonCodec
begin

text \<open>
  \<open>json.Unmarshal\<close> into structs. A struct is described by a table of field names and setters; a
  member is matched by its exact name first and then without regard to letter case, unknown
  members are ignored, later duplicates overwrite, a JSON null leaves the field alone (a
  \<open>RawMessage\<close> keeps the text), and a value of the wrong type is an error. Every caller discards
  the destination on an error, so the model stops at the first one. Letter case is compared on
  ASCII letters.
\<close>

section \<open>Integers\<close>

text \<open>\<open>strconv.ParseInt\<close> on the digits of a JSON number, with the range check of \<open>int64\<close>.\<close>

definition digit_val :: "char \<Rightarrow> nat" where
  "digit_val c = nb c - 48"

definition parse_nat :: "string \<Rightarrow> nat" where
  "parse_nat ds = foldl (\<lambda>n c. 10 * n + digit_val c) 0 ds"

definition parse_int :: "string \<Rightarrow> int option" where
  "parse_int s =
     (let neg = (s \<noteq> [] \<and> hd s = CHR ''-''); ds = (if neg then tl s else s);
          v = (if neg then - int (parse_nat ds) else int (parse_nat ds))
      in if ds \<noteq> [] \<and> list_all is_digit ds \<and> in_i64 v then Some v else None)"

lemma digit_val_digit_char [simp]: "d < 10 \<Longrightarrow> digit_val (digit_char d) = d"
proof -
  assume "d < 10"
  then have "d \<in> set [0 ..< 10]" by simp
  moreover have "list_all (\<lambda>d. digit_val (digit_char d) = d) [0 ..< 10]" by code_simp
  ultimately show ?thesis by (auto simp: list_all_iff)
qed

lemma parse_nat_dec [simp]: "parse_nat (nat_dec n) = n"
proof (induction n rule: nat_dec.induct)
  case (1 n)
  show ?case
  proof (cases "n < 10")
    case True
    then show ?thesis by (simp add: nat_dec.simps [of n] parse_nat_def)
  next
    case False
    with 1 have "parse_nat (nat_dec n) = 10 * (n div 10) + n mod 10"
      by (simp add: nat_dec.simps [of n] parse_nat_def)
    then show ?thesis by simp
  qed
qed

lemma nat_dec_no_minus: "hd (nat_dec n) \<noteq> CHR ''-''"
  using nat_dec_digits [of "hd (nat_dec n)" n] by (auto simp: is_digit_def)

lemma parse_int_dec [simp]: "in_i64 i \<Longrightarrow> parse_int (int_dec i) = Some i"
  using nat_dec_no_minus [of "nat i"]
  by (auto simp: parse_int_def int_dec_def Let_def list_all_iff dest: nat_dec_digits)

lemma nat_dec_head: "n \<noteq> 0 \<Longrightarrow> hd (nat_dec n) \<noteq> CHR ''0''"
proof (induction n rule: nat_dec.induct)
  case (1 n)
  show ?case
  proof (cases "n < 10")
    case True
    have "list_all (\<lambda>d. digit_char d \<noteq> CHR ''0'') [1 ..< 10]" by code_simp
    with True 1(2) show ?thesis by (auto simp: nat_dec.simps [of n] list_all_iff)
  next
    case False
    then have "n div 10 \<noteq> 0" by simp
    with False 1(1) show ?thesis by (simp add: nat_dec.simps [of n])
  qed
qed

lemma jint_nat_dec: "jint sg (nat_dec n) = Some (sg @ nat_dec n, [])"
proof (cases "n = 0")
  case True
  then show ?thesis
    by (simp add: nat_dec.simps [of 0] digit_char_def jint_def jfrac_def)
next
  case False
  obtain c t where ct: "nat_dec n = c # t" using nat_dec_nonempty [of n] by (cases "nat_dec n") auto
  with False nat_dec_head [of n] have "c \<noteq> CHR ''0''" by auto
  moreover have all: "\<forall>x \<in> set (c # t). is_digit x" using nat_dec_digits [of _ n] ct by auto
  moreover have tw: "takeWhile is_digit t = t" "dropWhile is_digit t = []"
    using all by (auto simp: takeWhile_eq_all_conv dropWhile_eq_Nil_conv)
  ultimately show ?thesis using ct by (simp add: jint_def jfrac_def tw)
qed

lemma jnum_int_dec [simp]: "jnum (int_dec i) = Some (int_dec i, [])"
proof (cases "i < 0")
  case True
  then show ?thesis by (simp add: int_dec_def jnum_def jint_nat_dec)
next
  case False
  obtain c t where ct: "nat_dec (nat i) = c # t"
    using nat_dec_nonempty [of "nat i"] by (cases "nat_dec (nat i)") auto
  with False nat_dec_no_minus [of "nat i"] jint_nat_dec [of "[]" "nat i"] show ?thesis
    by (simp add: int_dec_def jnum_def)
qed


section \<open>Structs\<close>

type_synonym 's field_table = "(string \<times> (string \<Rightarrow> 's \<Rightarrow> 's res)) list"

definition json_type_err :: "string \<Rightarrow> gerr" where
  "json_type_err t = errorf (''json: cannot unmarshal value into Go value of type '' @ t)"

definition json_syntax_err :: gerr where
  "json_syntax_err = errorf ''json: syntax error''"

definition dec_string :: "(string \<Rightarrow> 's \<Rightarrow> 's) \<Rightarrow> string \<Rightarrow> 's \<Rightarrow> 's res" where
  "dec_string upd raw s = (case json_view raw of
     Some VNull \<Rightarrow> Inr s | Some (VStr x) \<Rightarrow> Inr (upd x s) | _ \<Rightarrow> Inl (json_type_err ''string''))"

definition dec_int :: "(int \<Rightarrow> 's \<Rightarrow> 's) \<Rightarrow> string \<Rightarrow> 's \<Rightarrow> 's res" where
  "dec_int upd raw s = (case json_view raw of
     Some VNull \<Rightarrow> Inr s
   | Some (VNum n) \<Rightarrow> (case parse_int n of Some i \<Rightarrow> Inr (upd i s) | None \<Rightarrow> Inl (json_type_err ''int''))
   | _ \<Rightarrow> Inl (json_type_err ''int''))"

definition dec_bool :: "(bool \<Rightarrow> 's \<Rightarrow> 's) \<Rightarrow> string \<Rightarrow> 's \<Rightarrow> 's res" where
  "dec_bool upd raw s = (case json_view raw of
     Some VNull \<Rightarrow> Inr s | Some (VBool b) \<Rightarrow> Inr (upd b s) | _ \<Rightarrow> Inl (json_type_err ''bool''))"

definition dec_raw :: "(string \<Rightarrow> 's \<Rightarrow> 's) \<Rightarrow> string \<Rightarrow> 's \<Rightarrow> 's res" where
  "dec_raw upd raw s = Inr (upd raw s)"

text \<open>The elements of a slice, each decoded into a zero value.\<close>

fun dec_each :: "(string \<Rightarrow> 'a res) \<Rightarrow> string list \<Rightarrow> 'a list res" where
  "dec_each f [] = Inr []"
| "dec_each f (r # rs) = (case f r of Inl e \<Rightarrow> Inl e
     | Inr a \<Rightarrow> (case dec_each f rs of Inl e \<Rightarrow> Inl e | Inr as \<Rightarrow> Inr (a # as)))"

definition dec_list ::
    "(string \<Rightarrow> 'a res) \<Rightarrow> ('a list \<Rightarrow> 's \<Rightarrow> 's) \<Rightarrow> string \<Rightarrow> 's \<Rightarrow> 's res" where
  "dec_list f upd raw s = (case json_view raw of
     Some VNull \<Rightarrow> Inr (upd [] s)
   | Some (VArr rs) \<Rightarrow> map_sum id (\<lambda>as. upd as s) (dec_each f rs)
   | _ \<Rightarrow> Inl (json_type_err ''slice''))"

definition dec_str_elem :: "string \<Rightarrow> string res" where
  "dec_str_elem raw = dec_string (\<lambda>x _. x) raw []"

definition find_field :: "'s field_table \<Rightarrow> string \<Rightarrow> (string \<Rightarrow> 's \<Rightarrow> 's res) option" where
  "find_field fs k = (case map_of fs k of Some f \<Rightarrow> Some f
     | None \<Rightarrow> map_option snd (find (\<lambda>(n, _). str_ToLower n = str_ToLower k) fs))"

fun dec_members :: "'s field_table \<Rightarrow> (string \<times> string) list \<Rightarrow> 's \<Rightarrow> 's res" where
  "dec_members fs [] s = Inr s"
| "dec_members fs ((k, raw) # ms) s =
     (case find_field fs k of None \<Rightarrow> dec_members fs ms s
      | Some f \<Rightarrow> (case f raw s of Inl e \<Rightarrow> Inl e | Inr s' \<Rightarrow> dec_members fs ms s'))"

definition json_Unmarshal :: "'s field_table \<Rightarrow> 's \<Rightarrow> string \<Rightarrow> 's res" where
  "json_Unmarshal fs zero text = (case json_view text of
     None \<Rightarrow> Inl json_syntax_err
   | Some VNull \<Rightarrow> Inr zero
   | Some (VObj ms) \<Rightarrow> dec_members fs ms zero
   | Some _ \<Rightarrow> Inl (json_type_err ''struct''))"

text \<open>A nested struct field (decoded into what is there) and a \<open>*string\<close> field (null is nil).\<close>

definition dec_struct :: "'t field_table \<Rightarrow> ('s \<Rightarrow> 't) \<Rightarrow> ('t \<Rightarrow> 's \<Rightarrow> 's) \<Rightarrow> string \<Rightarrow> 's \<Rightarrow> 's res" where
  "dec_struct fs get upd raw s = map_sum id (\<lambda>t. upd t s) (json_Unmarshal fs (get s) raw)"

definition dec_opt_string :: "(string option \<Rightarrow> 's \<Rightarrow> 's) \<Rightarrow> string \<Rightarrow> 's \<Rightarrow> 's res" where
  "dec_opt_string upd raw s = (case json_view raw of
     Some VNull \<Rightarrow> Inr (upd None s) | Some (VStr x) \<Rightarrow> Inr (upd (Some x) s)
   | _ \<Rightarrow> Inl (json_type_err ''string''))"

section \<open>Decoding what was encoded\<close>

lemma dec_string_enc [go_json]: "dec_string upd (json_enc (JStr x)) s = Inr (upd (utf8_coerce x) s)"
  using json_view_json_enc [of "JStr x"] by (simp add: dec_string_def)

lemma dec_string_null [go_json]: "dec_string upd (json_enc JNull) s = Inr s"
  using json_view_json_enc [of JNull] by (simp add: dec_string_def)

lemma dec_int_enc [go_json]: "in_i64 i \<Longrightarrow> dec_int upd (json_enc (JNum (int_dec i))) s = Inr (upd i s)"
  using json_view_json_enc [of "JNum (int_dec i)"] by (simp add: dec_int_def)

lemma dec_bool_enc [go_json]: "dec_bool upd (json_enc (JBool b)) s = Inr (upd b s)"
  using json_view_json_enc [of "JBool b"] by (simp add: dec_bool_def)

lemma dec_raw_enc [go_json]: "dec_raw upd r s = Inr (upd r s)"
  by (simp add: dec_raw_def)

lemma dec_each_enc:
  "(\<And>a. a \<in> set as \<Longrightarrow> f (json_enc (g a)) = Inr (h a)) \<Longrightarrow>
    dec_each f (map (\<lambda>a. json_enc (g a)) as) = Inr (map h as)"
  by (induction as) auto

lemma dec_list_enc:
  assumes "\<And>a. a \<in> set as \<Longrightarrow> json_plain (g a)"
    "\<And>a. a \<in> set as \<Longrightarrow> f (json_enc (g a)) = Inr (h a)"
  shows "dec_list f upd (json_enc (JArr (map g as))) s = Inr (upd (map h as) s)"
proof -
  have "json_plain (JArr (map g as))" using assms(1) by (simp add: list_all_iff)
  from json_view_json_enc [OF this] have "json_view (json_enc (JArr (map g as)))
      = Some (VArr (map (\<lambda>a. json_enc (g a)) as))" by (simp add: comp_def)
  with dec_each_enc [of as f g h, OF assms(2)] show ?thesis by (simp add: dec_list_def)
qed

lemma json_Unmarshal_enc:
  assumes "json_plain (JObj ms)"
  shows "json_Unmarshal fs zero (json_enc (JObj ms))
    = dec_members fs (map (\<lambda>(k, j). (utf8_coerce k, json_enc j)) ms) zero"
  using json_view_json_enc [OF assms] by (simp add: json_Unmarshal_def)

lemma find_field_hit [simp]: "map_of fs k = Some f \<Longrightarrow> find_field fs k = Some f"
  by (simp add: find_field_def)

section \<open>The codec interface\<close>

text \<open>
  What a sender and a receiver of a message type rely on: a well-formed message is encoded, and
  decoding the bytes gives the message back.
\<close>

locale message_codec =
  fixes encode :: "'m \<Rightarrow> string res"
    and decode :: "string \<Rightarrow> 'm res"
    and wf_msg :: "'m \<Rightarrow> bool"
  assumes decode_encode: "wf_msg m \<Longrightarrow> \<exists>b. encode m = Inr b \<and> decode b = Inr m"
begin

lemma encode_total: "wf_msg m \<Longrightarrow> encode m \<noteq> Inl e"
  using decode_encode [of m] by auto

lemma encode_bytes: "wf_msg m \<Longrightarrow> encode m = Inr b \<Longrightarrow> decode b = Inr m"
  using decode_encode [of m] by auto

lemma encode_inj: "wf_msg m \<Longrightarrow> wf_msg m' \<Longrightarrow> encode m = encode m' \<Longrightarrow> m = m'"
  using decode_encode [of m] decode_encode [of m'] by auto

end

end
