(* ===== verification/Host.thy ===== *)
theory Host
  imports JsonDecode
begin

text \<open>
  The machine the agent runs on, as an explicit state: its files, the clock, and the trace of what
  the agent did (log calls, processes started, messages handed to NATS). Everything outside the
  agent that reacts to it (the processes it starts, the NATS library) is a parameter of the
  operations that call it; such code may change the world part of the state, which has a
  component of arbitrary type for its own memory.

  Paths are absolute and in the form \<open>filepath.Clean\<close> returns; symbolic links and permission
  bits as an obstacle are not modelled, failures of file operations are (\<open>w_fault\<close>).
\<close>

section \<open>The world\<close>

datatype fnode = File string nat | Dir

datatype fsop = OpStat | OpRead | OpWrite | OpMkdir | OpRename | OpRemove | OpTemp

text \<open>A file operation fails before doing anything, or (a write) after some bytes.\<close>

datatype fault = NoFault | FailClean | FailAfter nat

record 'x world =
  w_files :: "string \<Rightarrow> fnode option"
  w_fault :: "fsop \<Rightarrow> string \<Rightarrow> fault"
  w_tmpdir :: string
  w_tmp :: nat
  w_now :: int
  w_ext :: 'x

section \<open>The trace\<close>

datatype level = DebugLevel | InfoLevel | WarnLevel | ErrorLevel

datatype fval =
    FString string | FInt int | FBool bool | FStrings "string list" | FBytes string
  | FError gerr | FDuration int | FAny json

datatype logent = LogEnt (le_level: level) (le_msg: string) (le_fields: "(string \<times> fval) list")

text \<open>One start of a process: binary, arguments, piped standard input, and the time limit in ns.\<close>

record call =
  c_cmd :: string
  c_args :: "string list"
  c_stdin :: "string option"
  c_timeout :: int

text \<open>
  How \<open>cmd.Run\<close> ends: \<open>ExitError code text\<close> is an \<open>*exec.ExitError\<close>, \<open>RunError e\<close> any other
  error (the binary is not found, a pipe fails). \<open>o_deadline\<close> says that the context's deadline has
  passed when the process is back.
\<close>

datatype run_err = ExitError int string | RunError gerr

record outcome =
  o_stdout :: string
  o_stderr :: string
  o_err :: "run_err option"
  o_deadline :: bool
  o_elapsed :: int

type_synonym 'x runner = "call \<Rightarrow> 'x world \<Rightarrow> outcome \<times> 'x world"

record 'x host =
  h_world :: "'x world"
  h_log :: "logent list"
  h_procs :: "call list"
  h_pub :: "(string \<times> string) list"
  h_rand :: "nat \<Rightarrow> 8 word"
  h_rpos :: nat

type_synonym ('x, 'a) op = "('x host, 'a) state"

abbreviation ret :: "'a \<Rightarrow> ('s, 'a) state" where
  "ret \<equiv> State_Monad.return"

definition gets :: "('s \<Rightarrow> 'a) \<Rightarrow> ('s, 'a) state" where
  "gets f = State (\<lambda>s. (f s, s))"

definition modify :: "('s \<Rightarrow> 's) \<Rightarrow> ('s, unit) state" where
  "modify f = State (\<lambda>s. ((), f s))"

lemma run_gets [simp]: "run_state (gets f) s = (f s, s)"
  by (simp add: gets_def)

lemma run_modify [simp]: "run_state (modify f) s = ((), f s)"
  by (simp add: modify_def)

definition logger :: "level \<Rightarrow> string \<Rightarrow> (string \<times> fval) list \<Rightarrow> ('x, unit) op" where
  "logger l m fs = modify (h_log_update (\<lambda>es. es @ [LogEnt l m fs]))"

lemma run_logger [simp]:
  "run_state (logger l m fs) s = ((), s\<lparr>h_log := h_log s @ [LogEnt l m fs]\<rparr>)"
  by (simp add: logger_def)

text \<open>\<open>time.Now()\<close> in nanoseconds since the Unix epoch, and \<open>Unix()\<close> of it.\<close>

definition second :: int where "second = 1000000000"

definition time_Now :: "('x, int) op" where
  "time_Now = gets (\<lambda>s. w_now (h_world s))"

definition time_Unix :: "int \<Rightarrow> int" where
  "time_Unix t = t div second"

lemma run_time_Now [simp]: "run_state time_Now s = (w_now (h_world s), s)"
  by (simp add: time_Now_def)

section \<open>Package os\<close>

abbreviation wfiles :: "'x host \<Rightarrow> string \<Rightarrow> fnode option" where
  "wfiles s \<equiv> w_files (h_world s)"

abbreviation wfault :: "'x host \<Rightarrow> fsop \<Rightarrow> string \<Rightarrow> fault" where
  "wfault s \<equiv> w_fault (h_world s)"

definition set_file :: "string \<Rightarrow> fnode option \<Rightarrow> 'x host \<Rightarrow> 'x host" where
  "set_file p v s = s\<lparr>h_world := (h_world s)\<lparr>w_files := (wfiles s)(p := v)\<rparr>\<rparr>"

definition path_err :: "string \<Rightarrow> string \<Rightarrow> string \<Rightarrow> gerr" where
  "path_err opn p why = ErrNew (if why = ''no such file or directory'' then ErrNotExist else OtherErr)
     (opn @ '' '' @ p @ '': '' @ why)"

definition os_Stat :: "string \<Rightarrow> ('x, unit res) op" where
  "os_Stat p = gets (\<lambda>s.
     if wfault s OpStat p \<noteq> NoFault then Inl (path_err ''stat'' p ''input/output error'')
     else if wfiles s p = None then Inl (path_err ''stat'' p ''no such file or directory'')
     else Inr ())"

definition os_ReadFile :: "string \<Rightarrow> ('x, string res) op" where
  "os_ReadFile p = gets (\<lambda>s.
     if wfault s OpRead p \<noteq> NoFault then Inl (path_err ''open'' p ''input/output error'')
     else (case wfiles s p of
        None \<Rightarrow> Inl (path_err ''open'' p ''no such file or directory'')
      | Some Dir \<Rightarrow> Inl (path_err ''read'' p ''is a directory'')
      | Some (File c m) \<Rightarrow> Inr c))"

text \<open>
  \<open>os.WriteFile\<close> truncates or creates the file (an existing file keeps its mode) and then writes;
  a failure part way leaves the bytes written so far.
\<close>

definition os_WriteFile :: "string \<Rightarrow> string \<Rightarrow> nat \<Rightarrow> ('x, unit res) op" where
  "os_WriteFile p c mode = State (\<lambda>s.
     let m = (case wfiles s p of Some (File _ m) \<Rightarrow> m | _ \<Rightarrow> mode) in
     if wfiles s p = Some Dir then (Inl (path_err ''open'' p ''is a directory''), s)
     else if wfiles s (filepath_Dir p) \<noteq> Some Dir then
       (Inl (path_err ''open'' p ''no such file or directory''), s)
     else (case wfault s OpWrite p of
        NoFault \<Rightarrow> (Inr (), set_file p (Some (File c m)) s)
      | FailClean \<Rightarrow> (Inl (path_err ''open'' p ''permission denied''), s)
      | FailAfter n \<Rightarrow> (Inl (path_err ''write'' p ''no space left on device''),
           set_file p (Some (File (take n c) m)) s)))"

text \<open>Whether the first path is the second or one of its parents.\<close>

definition path_upto :: "string \<Rightarrow> string \<Rightarrow> bool" where
  "path_upto q p \<longleftrightarrow> q = p \<or> q = ''/'' \<or> str_HasPrefix p (q @ ''/'')"

definition path_parents :: "string \<Rightarrow> string list" where
  "path_parents p = filter (\<lambda>q. path_upto q p) (map (\<lambda>n. take n p) [1 ..< Suc (length p)])"

lemma path_parents_length: "q \<in> set (path_parents p) \<Longrightarrow> length q \<le> length p"
  by (auto simp: path_parents_def)

definition os_MkdirAll :: "string \<Rightarrow> nat \<Rightarrow> ('x, unit res) op" where
  "os_MkdirAll p mode = State (\<lambda>s.
     let blocked = (\<lambda>q. case wfiles s q of Some (File _ _) \<Rightarrow> True | _ \<Rightarrow> False)
     in if wfault s OpMkdir p \<noteq> NoFault then (Inl (path_err ''mkdir'' p ''permission denied''), s)
        else if list_ex blocked (path_parents p) then (Inl (path_err ''mkdir'' p ''not a directory''), s)
        else (Inr (), fold (\<lambda>q. set_file q (Some Dir)) (path_parents p) s))"

definition os_Rename :: "string \<Rightarrow> string \<Rightarrow> ('x, unit res) op" where
  "os_Rename a b = State (\<lambda>s.
     if wfault s OpRename a \<noteq> NoFault then (Inl (path_err ''rename'' a ''input/output error''), s)
     else (case wfiles s a of
        Some (File c m) \<Rightarrow>
          if wfiles s b = Some Dir then (Inl (path_err ''rename'' a ''file exists''), s)
          else if wfiles s (filepath_Dir b) \<noteq> Some Dir then
            (Inl (path_err ''rename'' a ''no such file or directory''), s)
          else (Inr (), set_file b (Some (File c m)) (set_file a None s))
      | _ \<Rightarrow> (Inl (path_err ''rename'' a ''no such file or directory''), s)))"

definition os_RemoveAll :: "string \<Rightarrow> ('x, unit) op" where
  "os_RemoveAll d = modify (\<lambda>s.
     if wfault s OpRemove d \<noteq> NoFault then s
     else s\<lparr>h_world := (h_world s)\<lparr>w_files :=
       (\<lambda>q. if path_upto d q \<and> d \<noteq> ''/'' then None else wfiles s q)\<rparr>\<rparr>)"

text \<open>
  \<open>os.MkdirTemp("", pattern)\<close>: up to 10000 candidate names under the temporary directory are
  tried; \<open>w_tmp\<close> is the first candidate's number.
\<close>

fun first_free :: "(string \<Rightarrow> bool) \<Rightarrow> string \<Rightarrow> nat \<Rightarrow> nat \<Rightarrow> string option" where
  "first_free taken pre k tries =
     (if tries = 0 then None
      else if taken (pre @ nat_dec k) then first_free taken pre (Suc k) (tries - 1)
      else Some (pre @ nat_dec k))"

declare first_free.simps [simp del]

definition os_MkdirTemp :: "string \<Rightarrow> ('x, string res) op" where
  "os_MkdirTemp pattern = State (\<lambda>s.
     let base = w_tmpdir (h_world s) in
     if wfault s OpTemp base \<noteq> NoFault then (Inl (path_err ''mkdir'' base ''permission denied''), s)
     else (case first_free (\<lambda>q. wfiles s q \<noteq> None) (base @ ''/'' @ pattern) (w_tmp (h_world s)) 10000 of
        None \<Rightarrow> (Inl (path_err ''mkdirtemp'' base ''file exists''), s)
      | Some d \<Rightarrow> (Inr d, set_file d (Some Dir) s)))"

lemma first_free_not_taken: "first_free taken pre k n = Some d \<Longrightarrow> \<not> taken d"
  by (induction taken pre k n rule: first_free.induct)
    (subst (asm) (2) first_free.simps, auto split: if_splits)

lemma first_free_prefix: "first_free taken pre k n = Some d \<Longrightarrow> \<exists>j. d = pre @ nat_dec j"
  by (induction taken pre k n rule: first_free.induct)
    (subst (asm) (2) first_free.simps, auto split: if_splits)

lemma fold_set_file_files:
  "wfiles (fold (\<lambda>q. set_file q v) qs s) p = (if p \<in> set qs then v else wfiles s p)"
  by (induction qs arbitrary: s) (auto simp: set_file_def)

lemma fold_set_file_fault [simp]: "wfault (fold (\<lambda>q. set_file q v) qs s) = wfault s"
  by (induction qs arbitrary: s) (auto simp: set_file_def)

lemma set_file_simps [simp]:
  "wfiles (set_file p v s) q = (if q = p then v else wfiles s q)"
  "wfault (set_file p v s) = wfault s"
  by (simp_all add: set_file_def)

section \<open>What an operation may add to the trace\<close>

text \<open>
  Operations are related to the states they start and end in. A reflexive and transitive relation
  that holds of every primitive holds of every composed operation; the rules below push it
  through the monad.
\<close>

definition keeps :: "('x host \<Rightarrow> 'x host \<Rightarrow> bool) \<Rightarrow> ('x, 'a) op \<Rightarrow> bool" where
  "keeps R m \<longleftrightarrow> (\<forall>s. R s (snd (run_state m s)))"

locale trace_relation =
  fixes R :: "'x host \<Rightarrow> 'x host \<Rightarrow> bool"
  assumes R_refl: "R s s"
    and R_trans: "R s t \<Longrightarrow> R t u \<Longrightarrow> R s u"
begin

lemma keepsD: "keeps R m \<Longrightarrow> run_state m s = (a, t) \<Longrightarrow> R s t"
  unfolding keeps_def by (metis snd_conv)

lemma keeps_run: "keeps R m \<Longrightarrow> R s (snd (run_state m s))"
  by (simp add: keeps_def)

lemma keeps_return: "keeps R (ret a)"
  by (simp add: keeps_def R_refl)

lemma keeps_gets: "keeps R (gets f)"
  by (simp add: keeps_def R_refl)

lemma keeps_bind: "keeps R m \<Longrightarrow> (\<And>a. keeps R (f a)) \<Longrightarrow> keeps R (State_Monad.bind m f)"
  unfolding keeps_def by (auto split: prod.splits) (metis R_trans snd_conv)

lemma keeps_if: "(b \<Longrightarrow> keeps R m) \<Longrightarrow> (\<not> b \<Longrightarrow> keeps R n) \<Longrightarrow> keeps R (if b then m else n)"
  by simp

lemma keeps_res:
  "(\<And>e. r = Inl e \<Longrightarrow> keeps R (f e)) \<Longrightarrow> (\<And>a. r = Inr a \<Longrightarrow> keeps R (g a)) \<Longrightarrow>
    keeps R (case r of Inl e \<Rightarrow> f e | Inr a \<Rightarrow> g a)"
  by (cases r) auto

lemma keeps_option:
  "(r = None \<Longrightarrow> keeps R f) \<Longrightarrow> (\<And>a. r = Some a \<Longrightarrow> keeps R (g a)) \<Longrightarrow>
    keeps R (case r of None \<Rightarrow> f | Some a \<Rightarrow> g a)"
  by (cases r) auto

lemma keeps_prod: "(\<And>a b. r = (a, b) \<Longrightarrow> keeps R (f a b)) \<Longrightarrow> keeps R (case r of (a, b) \<Rightarrow> f a b)"
  by (cases r) auto

lemma keeps_let: "keeps R (f x) \<Longrightarrow> keeps R (Let x f)"
  by simp

lemmas keeps_rules = keeps_return keeps_gets keeps_bind keeps_if keeps_res keeps_option keeps_prod keeps_let

end

text \<open>The trace only grows, and what is added satisfies the given predicates.\<close>

definition adds :: "(logent \<Rightarrow> bool) \<Rightarrow> (call \<Rightarrow> bool) \<Rightarrow> (string \<times> string \<Rightarrow> bool) \<Rightarrow>
    'x host \<Rightarrow> 'x host \<Rightarrow> bool" where
  "adds L P Q s t \<longleftrightarrow>
     (\<exists>es. h_log t = h_log s @ es \<and> list_all L es) \<and>
     (\<exists>cs. h_procs t = h_procs s @ cs \<and> list_all P cs) \<and>
     (\<exists>ms. h_pub t = h_pub s @ ms \<and> list_all Q ms) \<and>
     h_rand t = h_rand s"

lemma adds_refl: "adds L P Q s s"
  by (simp add: adds_def)

lemma adds_trans: "adds L P Q s t \<Longrightarrow> adds L P Q t u \<Longrightarrow> adds L P Q s u"
  unfolding adds_def by (elim conjE exE) (intro conjI; simp)

lemma list_all_none: "list_all (\<lambda>_. False) xs \<longleftrightarrow> xs = []"
  by (cases xs) auto

lemma adds_no_pub: "adds L P (\<lambda>_. False) s t \<Longrightarrow> h_pub t = h_pub s"
  by (auto simp: adds_def list_all_none)

lemma adds_no_procs: "adds L (\<lambda>_. False) Q s t \<Longrightarrow> h_procs t = h_procs s"
  by (auto simp: adds_def list_all_none)

lemma adds_mono:
  "adds L P Q s t \<Longrightarrow> (\<And>e. L e \<Longrightarrow> L' e) \<Longrightarrow> (\<And>c. P c \<Longrightarrow> P' c) \<Longrightarrow> (\<And>m. Q m \<Longrightarrow> Q' m) \<Longrightarrow>
    adds L' P' Q' s t"
  unfolding adds_def list_all_iff by blast

interpretation adds: trace_relation "adds L P Q"
  for L :: "logent \<Rightarrow> bool" and P :: "call \<Rightarrow> bool" and Q :: "string \<times> string \<Rightarrow> bool"
  by unfold_locales (rule adds_refl, rule adds_trans)


lemma adds_set_file [simp]: "adds L P Q s (set_file p v t) = adds L P Q s t"
  by (simp add: adds_def set_file_def)

lemma adds_files [simp]: "adds L P Q s (t\<lparr>h_world := w\<rparr>) = adds L P Q s t"
  by (simp add: adds_def)

lemma adds_fold_set_file [simp]:
  "adds L P Q s (fold (\<lambda>q. set_file q v) qs t) = adds L P Q s t"
  by (induction qs arbitrary: t) simp_all

lemma keeps_State: "(\<And>s. R s (snd (f s))) \<Longrightarrow> keeps R (State f)"
  by (simp add: keeps_def)

lemma adds_os [intro!]:
  "keeps (adds L P Q) (os_Stat p)"
  "keeps (adds L P Q) (os_ReadFile p)"
  "keeps (adds L P Q) (os_WriteFile p c m)"
  "keeps (adds L P Q) (os_MkdirAll p m)"
  "keeps (adds L P Q) (os_Rename p q)"
  "keeps (adds L P Q) (os_RemoveAll p)"
  "keeps (adds L P Q) (os_MkdirTemp p)"
  "keeps (adds L P Q) time_Now"
  unfolding os_Stat_def os_ReadFile_def os_WriteFile_def os_MkdirAll_def os_Rename_def
    os_RemoveAll_def os_MkdirTemp_def time_Now_def modify_def
  by (auto intro!: keeps_State adds.keeps_gets simp: Let_def adds_refl
      split: fault.split fnode.split option.split)

lemma adds_logger: "L (LogEnt l m fs) \<Longrightarrow> keeps (adds L P Q) (logger l m fs)"
  by (simp add: keeps_def adds_def)

lemmas adds_rules = adds_os adds_logger adds.keeps_rules

end
