(* ===== verification/Protocol.thy ===== *)
theory Protocol
  imports Host
begin

unbundle bit_operations_syntax

text \<open>
  internal/protocol/envelope.go: the message envelope and the payload shapes, their JSON encoding
  and decoding, UUID generation, and the constructors \<open>New\<close> and \<open>ResultFor\<close>. The interpretation
  of \<open>message_codec\<close> at the end is the wire contract the NATS client relies on.
\<close>

section \<open>Constants\<close>

definition TypeCommand :: string where "TypeCommand = ''command''"
definition TypeHeartbeat :: string where "TypeHeartbeat = ''heartbeat''"
definition TypeTelemetry :: string where "TypeTelemetry = ''telemetry''"
definition TypeResult :: string where "TypeResult = ''result''"
definition TypeCapabilities :: string where "TypeCapabilities = ''capabilities''"

definition StatusCompleted :: string where "StatusCompleted = ''completed''"
definition StatusFailed :: string where "StatusFailed = ''failed''"
definition StatusRejected :: string where "StatusRejected = ''rejected''"

section \<open>Types\<close>

record Envelope =
  env_V :: i64
  env_ID :: string
  env_Type :: string
  env_AgentType :: string
  env_AgentUUID :: string
  env_Timestamp :: i64
  env_ReplyTo :: string
  env_Payload :: string

definition zero_Envelope :: Envelope where
  "zero_Envelope = \<lparr>env_V = 0, env_ID = [], env_Type = [], env_AgentType = [], env_AgentUUID = [],
     env_Timestamp = 0, env_ReplyTo = [], env_Payload = []\<rparr>"

record CommandPayload =
  cmd_Operation :: string
  cmd_Params :: string
  cmd_TimeoutS :: i64

record ResultPayload =
  res_CommandID :: string
  res_Status :: string
  res_Message :: string
  res_Output :: "json option"

record HeartbeatPayload =
  hb_Version :: string
  hb_UptimeS :: i64
  hb_TasksQueued :: i64

record OperationParam =
  op_Name :: string
  op_Type :: string
  op_Required :: bool
  op_Description :: string
  op_MinValue :: "i64 option"
  op_Sensitive :: bool

record OperationSchema =
  os_Operation :: string
  os_Description :: string
  os_Params :: "OperationParam list"

record CapabilitiesPayload =
  cap_Operations :: "OperationSchema list"
  cap_ExecCommands :: "string list"

section \<open>Encoding\<close>

abbreviation JInt :: "int \<Rightarrow> json" where
  "JInt i \<equiv> JNum (int_dec i)"

text \<open>The \<open>omitempty\<close> members.\<close>

definition omit_str :: "string \<Rightarrow> string \<Rightarrow> (string \<times> json) list" where
  "omit_str k s = (if s = [] then [] else [(k, JStr s)])"

definition omit_int :: "string \<Rightarrow> int \<Rightarrow> (string \<times> json) list" where
  "omit_int k i = (if i = 0 then [] else [(k, JInt i)])"

definition omit_bool :: "string \<Rightarrow> bool \<Rightarrow> (string \<times> json) list" where
  "omit_bool k b = (if b then [(k, JBool b)] else [])"

definition omit_list :: "string \<Rightarrow> json list \<Rightarrow> (string \<times> json) list" where
  "omit_list k js = (if js = [] then [] else [(k, JArr js)])"

text \<open>A \<open>json.RawMessage\<close>: nil encodes as null.\<close>

definition JRawMsg :: "string \<Rightarrow> json" where
  "JRawMsg r = (if r = [] then JNull else JRaw r)"

definition Envelope_json :: "Envelope \<Rightarrow> json" where
  "Envelope_json e = JObj ([(''v'', JInt (env_V e)), (''id'', JStr (env_ID e)),
     (''type'', JStr (env_Type e)), (''agent_type'', JStr (env_AgentType e)),
     (''agent_uuid'', JStr (env_AgentUUID e)), (''timestamp'', JInt (env_Timestamp e))] @
     omit_str ''reply_to'' (env_ReplyTo e) @ [(''payload'', JRawMsg (env_Payload e))])"

definition CommandPayload_json :: "CommandPayload \<Rightarrow> json" where
  "CommandPayload_json c = JObj ([(''operation'', JStr (cmd_Operation c))] @
     (if cmd_Params c = [] then [] else [(''params'', JRaw (cmd_Params c))]) @
     omit_int ''timeout_s'' (cmd_TimeoutS c))"

definition ResultPayload_json :: "ResultPayload \<Rightarrow> json" where
  "ResultPayload_json r = JObj ([(''command_id'', JStr (res_CommandID r)),
     (''status'', JStr (res_Status r))] @ omit_str ''message'' (res_Message r) @
     (case res_Output r of None \<Rightarrow> [] | Some j \<Rightarrow> [(''output'', j)]))"

definition HeartbeatPayload_json :: "HeartbeatPayload \<Rightarrow> json" where
  "HeartbeatPayload_json h = JObj [(''version'', JStr (hb_Version h)),
     (''uptime_s'', JInt (hb_UptimeS h)), (''tasks_queued'', JInt (hb_TasksQueued h))]"

definition OperationParam_json :: "OperationParam \<Rightarrow> json" where
  "OperationParam_json p = JObj ([(''name'', JStr (op_Name p)), (''type'', JStr (op_Type p)),
     (''required'', JBool (op_Required p)), (''description'', JStr (op_Description p))] @
     (case op_MinValue p of None \<Rightarrow> [] | Some v \<Rightarrow> [(''min_value'', JInt v)]) @
     omit_bool ''sensitive'' (op_Sensitive p))"

definition OperationSchema_json :: "OperationSchema \<Rightarrow> json" where
  "OperationSchema_json o' = JObj ([(''operation'', JStr (os_Operation o')),
     (''description'', JStr (os_Description o'))] @
     omit_list ''params'' (map OperationParam_json (os_Params o')))"

definition CapabilitiesPayload_json :: "CapabilitiesPayload \<Rightarrow> json" where
  "CapabilitiesPayload_json c = JObj ([(''operations'', JArr (map OperationSchema_json (cap_Operations c)))] @
     omit_list ''exec_commands'' (map JStr (cap_ExecCommands c)))"

section \<open>Decoding\<close>

definition Envelope_fields :: "Envelope field_table" where
  "Envelope_fields =
     [(''v'', dec_int (\<lambda>x. env_V_update (\<lambda>_. x))), (''id'', dec_string (\<lambda>x. env_ID_update (\<lambda>_. x))),
      (''type'', dec_string (\<lambda>x. env_Type_update (\<lambda>_. x))),
      (''agent_type'', dec_string (\<lambda>x. env_AgentType_update (\<lambda>_. x))),
      (''agent_uuid'', dec_string (\<lambda>x. env_AgentUUID_update (\<lambda>_. x))),
      (''timestamp'', dec_int (\<lambda>x. env_Timestamp_update (\<lambda>_. x))),
      (''reply_to'', dec_string (\<lambda>x. env_ReplyTo_update (\<lambda>_. x))),
      (''payload'', dec_raw (\<lambda>x. env_Payload_update (\<lambda>_. x)))]"

definition Envelope_decode :: "string \<Rightarrow> Envelope res" where
  "Envelope_decode b = json_Unmarshal Envelope_fields zero_Envelope b"

definition zero_CommandPayload :: CommandPayload where
  "zero_CommandPayload = \<lparr>cmd_Operation = [], cmd_Params = [], cmd_TimeoutS = 0\<rparr>"

definition CommandPayload_fields :: "CommandPayload field_table" where
  "CommandPayload_fields =
     [(''operation'', dec_string (\<lambda>x. cmd_Operation_update (\<lambda>_. x))),
      (''params'', dec_raw (\<lambda>x. cmd_Params_update (\<lambda>_. x))),
      (''timeout_s'', dec_int (\<lambda>x. cmd_TimeoutS_update (\<lambda>_. x)))]"

text \<open>\<open>env.DecodePayload(&cmd)\<close> on a command envelope.\<close>

definition DecodePayload :: "Envelope \<Rightarrow> CommandPayload res" where
  "DecodePayload e = json_Unmarshal CommandPayload_fields zero_CommandPayload (env_Payload e)"

section \<open>UUIDs and constructors\<close>

definition rand_Read :: "nat \<Rightarrow> ('x, 8 word list) op" where
  "rand_Read n = State (\<lambda>s. (map (\<lambda>i. h_rand s (h_rpos s + i)) [0 ..< n], s\<lparr>h_rpos := h_rpos s + n\<rparr>))"

definition uuid_bytes :: "8 word list \<Rightarrow> 8 word list" where
  "uuid_bytes b = b[6 := (b ! 6 AND 0x0f) OR 0x40, 8 := (b ! 8 AND 0x3f) OR 0x80]"

definition uuid_format :: "8 word list \<Rightarrow> string" where
  "uuid_format b = hex_bytes (take 4 b) @ ''-'' @ hex_bytes (take 2 (drop 4 b)) @ ''-'' @
     hex_bytes (take 2 (drop 6 b)) @ ''-'' @ hex_bytes (take 2 (drop 8 b)) @ ''-'' @
     hex_bytes (drop 10 b)"

definition newUUID :: "('x, string) op" where
  "newUUID = do { b \<leftarrow> rand_Read 16; ret (uuid_format (uuid_bytes b)) }"

definition Envelope_New :: "string \<Rightarrow> string \<Rightarrow> json \<Rightarrow> ('x, Envelope res) op" where
  "Envelope_New agentUUID msgType payload =
     (case json_Marshal payload of
        Inl e \<Rightarrow> ret (Inl (errorf_w ''marshalling payload: '' e []))
      | Inr raw \<Rightarrow> do {
          id' \<leftarrow> newUUID;
          now \<leftarrow> time_Now;
          ret (Inr \<lparr>env_V = 1, env_ID = id', env_Type = msgType, env_AgentType = ''vm'',
            env_AgentUUID = agentUUID, env_Timestamp = time_Unix now, env_ReplyTo = [], env_Payload = raw\<rparr>)
        })"

definition ResultFor ::
    "Envelope \<Rightarrow> string \<Rightarrow> string \<Rightarrow> string \<Rightarrow> json option \<Rightarrow> ('x, Envelope res) op" where
  "ResultFor src agentUUID status message output =
     Envelope_New agentUUID TypeResult (ResultPayload_json
       \<lparr>res_CommandID = env_ID src, res_Status = status, res_Message = message, res_Output = output\<rparr>)"

definition Envelope_encode :: "Envelope \<Rightarrow> string res" where
  "Envelope_encode e = json_Marshal (Envelope_json e)"

section \<open>The wire contract\<close>

text \<open>
  An envelope that can travel unchanged: 64-bit numbers in range, text fields that are valid
  UTF-8, and a payload that some value encodes to.
\<close>

definition wf_text :: "string \<Rightarrow> bool" where
  "wf_text s \<longleftrightarrow> utf8_coerce s = s"

definition wf_Envelope :: "Envelope \<Rightarrow> bool" where
  "wf_Envelope e \<longleftrightarrow> in_i64 (env_V e) \<and> in_i64 (env_Timestamp e) \<and> wf_text (env_ID e) \<and>
     wf_text (env_Type e) \<and> wf_text (env_AgentType e) \<and> wf_text (env_AgentUUID e) \<and>
     wf_text (env_ReplyTo e) \<and> (\<exists>j. json_plain j \<and> env_Payload e = json_enc j)"

lemma ascii_wf_text [simp]: "ascii s \<Longrightarrow> wf_text s"
  by (simp add: wf_text_def)

lemma json_view_enc_not_None: "json_plain j \<Longrightarrow> json_view (json_enc j) \<noteq> None"
  by (simp add: json_view_json_enc)

lemma Envelope_roundtrip:
  assumes "wf_Envelope e"
  shows "\<exists>b. Envelope_encode e = Inr b \<and> Envelope_decode b = Inr e"
proof -
  obtain j where j: "json_plain j" "env_Payload e = json_enc j"
    using assms by (auto simp: wf_Envelope_def)
  let ?ms = "[(''v'', JInt (env_V e)), (''id'', JStr (env_ID e)),
     (''type'', JStr (env_Type e)), (''agent_type'', JStr (env_AgentType e)),
     (''agent_uuid'', JStr (env_AgentUUID e)), (''timestamp'', JInt (env_Timestamp e))] @
     omit_str ''reply_to'' (env_ReplyTo e) @ [(''payload'', j)]"
  have ne: "env_Payload e \<noteq> []" using j json_enc_pos [of j] by auto
  have plain: "json_plain (JObj ?ms)" using j(1) by (simp add: omit_str_def)
  have "json_enc (Envelope_json e) = json_enc (JObj ?ms)"
    using ne json_enc_raw [OF j(1)] j(2) by (simp add: Envelope_json_def JRawMsg_def omit_str_def)
  moreover have "json_encodable (Envelope_json e)"
    using ne j json_view_enc_not_None [OF j(1)]
    by (simp add: Envelope_json_def JRawMsg_def omit_str_def)
  ultimately have enc: "Envelope_encode e = Inr (json_enc (JObj ?ms))"
    by (simp add: Envelope_encode_def json_Marshal_def)
  have "Envelope_decode (json_enc (JObj ?ms)) = Inr e"
    unfolding Envelope_decode_def json_Unmarshal_enc [OF plain]
    using assms j(2)
    by (cases e) (auto simp: omit_str_def Envelope_fields_def zero_Envelope_def go_json wf_Envelope_def
        wf_text_def simp del: json_enc.simps)
  with enc show ?thesis by blast
qed

interpretation envelope_codec: message_codec Envelope_encode Envelope_decode wf_Envelope
  by unfold_locales (rule Envelope_roundtrip)


section \<open>Generated identifiers\<close>

lemma unat_div_16: "unat (w :: 8 word) div 16 = unat (drop_bit 4 w)"
  unfolding unat_drop_bit_eq by (simp add: drop_bit_eq_div)

lemma version_nibble: "unat ((b AND 0x0f) OR 0x40 :: 8 word) div 16 = 4"
  unfolding unat_div_16 drop_bit_or drop_bit_and by simp

lemma and_3_cases: "(c :: 8 word) AND 3 \<in> {0, 1, 2, 3}"
proof -
  have "c AND 3 = take_bit 2 c" by (simp add: take_bit_eq_mask mask_eq_decr_exp)
  moreover have "unat (take_bit 2 c) < 4" 
    unfolding unsigned_take_bit_eq by (simp add: take_bit_eq_mod)
  ultimately have "unat (c AND 3) \<in> {0, 1, 2, 3}" by auto
  then have "word_of_nat (unat (c AND 3)) \<in> (word_of_nat ` {0, 1, 2, 3} :: 8 word set)"
    by (rule imageI)
  then show ?thesis by simp
qed

lemma variant_nibble: "unat ((b AND 0x3f) OR 0x80 :: 8 word) div 16 \<in> {8, 9, 10, 11}"
  unfolding unat_div_16 drop_bit_or drop_bit_and
  using and_3_cases [of "drop_bit 4 b"] by auto


definition uuid_shape :: "string \<Rightarrow> bool" where
  "uuid_shape u \<longleftrightarrow> length u = 36 \<and> u ! 14 = CHR ''4'' \<and> u ! 19 \<in> set ''89ab'' \<and>
     list_all (\<lambda>i. if i \<in> {8, 13, 18, 23} then u ! i = CHR ''-'' else is_hex (u ! i)) [0 ..< 36]"

lemma hex_byte_digits: "is_hex (hex_char (unat (b :: 8 word) div 16))" "is_hex (hex_char (unat b mod 16))"
proof -
  have "unat b < 256" using unsigned_less [of b, where 'a = nat] by simp
  then show "is_hex (hex_char (unat b div 16))" by (intro is_hex_hex_char) simp
qed simp

lemma list_16:
  assumes "length b = 16"
  obtains b0 b1 b2 b3 b4 b5 b6 b7 b8 b9 ba bb bc bd be bf where
    "b = [b0, b1, b2, b3, b4, b5, b6, b7, b8, b9, ba, bb, bc, bd, be, bf]"
  using assms by (auto simp: eval_nat_numeral length_Suc_conv)

lemma uuid_shape_format:
  assumes "length b = 16"
  shows "uuid_shape (uuid_format (uuid_bytes b))"
proof -
  obtain b0 b1 b2 b3 b4 b5 b6 b7 b8 b9 ba bb bc bd be bf where
    b: "b = [b0, b1, b2, b3, b4, b5, b6, b7, b8, b9, ba, bb, bc, bd, be, bf]"
    using assms by (rule list_16)
  let ?v = "(b6 AND 0x0f) OR 0x40" and ?w = "(b8 AND 0x3f) OR 0x80"
  have ub: "uuid_bytes b = [b0, b1, b2, b3, b4, b5, ?v, b7, ?w, b9, ba, bb, bc, bd, be, bf]"
    by (simp add: b uuid_bytes_def)
  have v: "hex_char (unat ?v div 16) = CHR ''4''"
    by (simp add: version_nibble hex_char_def)
  have w: "hex_char (unat ?w div 16) \<in> set ''89ab''"
    using variant_nibble [of b8] by (auto simp: hex_char_def)
  have up: "[0 ..< 36 :: nat] = [0, 1, 2, 3, 4, 5, 6, 7, 8, 9, 10, 11, 12, 13, 14, 15, 16, 17, 18, 19,
    20, 21, 22, 23, 24, 25, 26, 27, 28, 29, 30, 31, 32, 33, 34, 35]" by code_simp
  show ?thesis
    unfolding ub uuid_shape_def up
    using v w by (simp add: uuid_format_def hex_bytes_def hex_byte_def hex_byte_digits
        is_hex_def [of "CHR ''4''"])
qed

lemma length_rand_Read [simp]: "length (fst (run_state (rand_Read n) s)) = n"
  by (simp add: rand_Read_def)

lemma newUUID_shape: "uuid_shape (fst (run_state newUUID s))"
  by (auto simp: newUUID_def rand_Read_def intro!: uuid_shape_format)


lemma run_newUUID: "snd (run_state newUUID s) = s\<lparr>h_rpos := h_rpos s + 16\<rparr>"
  by (simp add: newUUID_def rand_Read_def)

lemma run_Envelope_New_ok:
  assumes "json_encodable p"
  shows "run_state (Envelope_New a ty p) s =
    (Inr \<lparr>env_V = 1, env_ID = fst (run_state newUUID s), env_Type = ty, env_AgentType = ''vm'',
       env_AgentUUID = a, env_Timestamp = time_Unix (w_now (h_world s)), env_ReplyTo = [],
       env_Payload = json_enc p\<rparr>, s\<lparr>h_rpos := h_rpos s + 16\<rparr>)"
  using assms run_newUUID [of s]
  by (cases "run_state newUUID s") (simp add: Envelope_New_def json_Marshal_def)

lemma run_Envelope_New_err:
  assumes "\<not> json_encodable p"
  shows "run_state (Envelope_New a ty p) s =
    (Inl (errorf_w ''marshalling payload: '' (errorf ''json: unsupported value'') []), s)"
  using assms by (simp add: Envelope_New_def json_Marshal_def)

lemma adds_newUUID [intro!]: "keeps (adds L P Q) newUUID"
  by (simp add: keeps_def run_newUUID adds_def)

lemma adds_Envelope_New [intro!]: "keeps (adds L P Q) (Envelope_New a ty p)"
  unfolding Envelope_New_def by (intro adds_rules adds_newUUID)

lemma adds_ResultFor [intro!]: "keeps (adds L P Q) (ResultFor e a st m out)"
  unfolding ResultFor_def by (rule adds_Envelope_New)


section \<open>Properties\<close>

text \<open>C16: Every generated message id is a version 4 UUID in canonical form: 36 characters, hyphens at
  positions 8, 13, 18 and 23, lower-case hexadecimal digits elsewhere, version digit 4 and variant
  digit 8, 9, a or b, for any random bytes.\<close>

theorem newUUID_is_v4: "uuid_shape (fst (run_state newUUID s))"
  by (rule newUUID_shape)

text \<open>C15: The wire format loses nothing: every well-formed envelope is encoded, and decoding the bytes
  gives the same envelope, field by field, with the payload byte for byte.\<close>

theorem envelope_roundtrip:
  "wf_Envelope e \<Longrightarrow> \<exists>b. Envelope_encode e = Inr b \<and> Envelope_decode b = Inr e"
  by (rule envelope_codec.decode_encode)

definition demo_envelope :: Envelope where
  "demo_envelope = \<lparr>env_V = 1, env_ID = ''42'', env_Type = ''command'', env_AgentType = ''vm'',
     env_AgentUUID = ''a-1'', env_Timestamp = 1700000000, env_ReplyTo = ''_INBOX.7'',
     env_Payload = json_enc (JObj [(''operation'', JStr ''system.info'')])\<rparr>"

lemma demo_envelope_wf: "wf_Envelope demo_envelope"
  by (auto simp: demo_envelope_def wf_Envelope_def in_i64_def ascii_def
      intro!: exI [of _ "JObj [(''operation'', JStr ''system.info'')]"])

theorem envelope_roundtrip_witness:
  "\<exists>b. Envelope_encode demo_envelope = Inr b \<and> Envelope_decode b = Inr demo_envelope"
  using envelope_roundtrip [OF demo_envelope_wf] .

text \<open>A result envelope that can be built at all is a version 1 message of type result from this
  agent, with a fresh UUID as its id, whose payload is the encoding of the source command's id, the
  status, the message and the output; it is addressed to no reply inbox.\<close>

theorem ResultFor_echoes_command:
  assumes "run_state (ResultFor src agent status msg out) s = (Inr env, t)"
  shows "env_V env = 1 \<and> env_Type env = TypeResult \<and> env_AgentUUID env = agent \<and> uuid_shape (env_ID env) \<and>
    env_ReplyTo env = [] \<and> env_Timestamp env = time_Unix (w_now (h_world s)) \<and>
    env_Payload env = json_enc (ResultPayload_json \<lparr>res_CommandID = env_ID src, res_Status = status,
      res_Message = msg, res_Output = out\<rparr>)"
proof -
  let ?p = "ResultPayload_json \<lparr>res_CommandID = env_ID src, res_Status = status, res_Message = msg, res_Output = out\<rparr>"
  have "json_encodable ?p"
    using assms run_Envelope_New_err [of ?p agent TypeResult s] by (auto simp: ResultFor_def)
  from run_Envelope_New_ok [OF this, of agent TypeResult s] assms show ?thesis
    using newUUID_shape [of s] by (auto simp: ResultFor_def)
qed

definition blank_host :: "unit host" where
  "blank_host = \<lparr>h_world = \<lparr>w_files = (\<lambda>_. None), w_fault = (\<lambda>_ _. NoFault), w_tmpdir = ''/tmp'', w_tmp = 0,
     w_now = 1700000001 * second, w_ext = ()\<rparr>, h_log = [], h_procs = [], h_pub = [], h_rand = (\<lambda>n. word_of_nat n), h_rpos = 0\<rparr>"

theorem ResultFor_echoes_command_witness:
  "\<exists>env t. run_state (ResultFor demo_envelope ''a-1'' StatusRejected ''no'' None) blank_host = (Inr env, t) \<and>
     env_V env = 1 \<and> env_Type env = TypeResult"
proof -
  have "json_encodable (ResultPayload_json \<lparr>res_CommandID = env_ID demo_envelope, res_Status = StatusRejected,
      res_Message = ''no'', res_Output = None\<rparr>)"
    by (simp add: ResultPayload_json_def omit_str_def)
  from run_Envelope_New_ok [OF this, of "''a-1''" TypeResult blank_host]
  obtain env t where r: "run_state (ResultFor demo_envelope ''a-1'' StatusRejected ''no'' None) blank_host = (Inr env, t)"
    by (simp add: ResultFor_def)
  from ResultFor_echoes_command [OF this] r show ?thesis by blast
qed

end
