(* ===== verification/Executor.thy ===== *)
theory Executor
  imports Protocol
begin

text \<open>
  internal/executor/executor.go: every command is run directly with its argument vector, its
  output is captured, and one audit entry is logged per run. How a process behaves is the
  parameter \<open>rp\<close>; the call carries the effective time limit of the executor.
\<close>

definition defaultTimeout :: int where
  "defaultTimeout = 30 * second"

text \<open>The executor's own field besides the logger.\<close>

record Executor =
  ex_timeout :: int

definition Executor_New :: Executor where
  "Executor_New = \<lparr>ex_timeout = defaultTimeout\<rparr>"

definition NewWithTimeout :: "int \<Rightarrow> Executor" where
  "NewWithTimeout t = \<lparr>ex_timeout = t\<rparr>"

fun exit_code :: "run_err option \<Rightarrow> int" where
  "exit_code None = 0"
| "exit_code (Some (ExitError c m)) = c"
| "exit_code (Some (RunError e)) = -1"

fun run_error :: "run_err \<Rightarrow> gerr" where
  "run_error (ExitError c m) = errorf m"
| "run_error (RunError e) = e"

text \<open>
  \<open>time.Duration.String\<close> for whole seconds, which is what the time limits of the agent are:
  the largest unit is the hour.
\<close>

definition Duration_String :: "int \<Rightarrow> string" where
  "Duration_String d = (let s = d div second; h = s div 3600; m = s div 60 mod 60 in
     (if h > 0 then int_dec h @ ''h'' @ int_dec m @ ''m'' else if m > 0 then int_dec m @ ''m'' else []) @
     int_dec (s mod 60) @ ''s'')"

lemma Duration_String_default: "Duration_String defaultTimeout = ''30s''"
  by (simp add: Duration_String_def defaultTimeout_def second_def int_dec_def nat_dec.simps digit_char_def)

definition audit_entry :: "string \<Rightarrow> string list \<Rightarrow> outcome \<Rightarrow> logent" where
  "audit_entry command args r = LogEnt InfoLevel ''command executed''
     [(''command'', FString command), (''args'', FStrings args), (''duration'', FDuration (o_elapsed r)),
      (''exit_code'', FInt (exit_code (o_err r))), (''success'', FBool (o_err r = None))]"

abbreviation excall :: "Executor \<Rightarrow> string option \<Rightarrow> string \<Rightarrow> string list \<Rightarrow> call" where
  "excall ex stdin command args \<equiv>
     \<lparr>c_cmd = command, c_args = args, c_stdin = stdin, c_timeout = ex_timeout ex\<rparr>"

definition run_proc :: "'x runner \<Rightarrow> call \<Rightarrow> ('x, outcome) op" where
  "run_proc rp c = State (\<lambda>s. case rp c (h_world s) of
     (r, w) \<Rightarrow> (r, s\<lparr>h_world := w, h_procs := h_procs s @ [c]\<rparr>))"

definition exec_error :: "Executor \<Rightarrow> string \<Rightarrow> outcome \<Rightarrow> gerr option" where
  "exec_error ex command r = (case o_err r of None \<Rightarrow> None
     | Some e \<Rightarrow>
       if o_deadline r then
         Some (errorf (''command timed out after '' @ Duration_String (ex_timeout ex) @ '': '' @ command))
       else Some (errorf_w (''command failed (exit '' @ int_dec (exit_code (o_err r)) @ ''): '')
         (run_error e) []))"

definition ExecuteWithStdin ::
    "'x runner \<Rightarrow> Executor \<Rightarrow> string option \<Rightarrow> string \<Rightarrow> string list \<Rightarrow>
     ('x, string \<times> string \<times> gerr option) op" where
  "ExecuteWithStdin rp ex stdin command args = do {
     r \<leftarrow> run_proc rp (excall ex stdin command args);
     logger InfoLevel ''command executed''
       [(''command'', FString command), (''args'', FStrings args), (''duration'', FDuration (o_elapsed r)),
        (''exit_code'', FInt (exit_code (o_err r))), (''success'', FBool (o_err r = None))];
     ret (o_stdout r, o_stderr r, exec_error ex command r)
   }"

definition Execute ::
    "'x runner \<Rightarrow> Executor \<Rightarrow> string \<Rightarrow> string list \<Rightarrow> ('x, string \<times> string \<times> gerr option) op" where
  "Execute rp ex command args = ExecuteWithStdin rp ex None command args"

section \<open>What a run does\<close>

lemma run_ExecuteWithStdin:
  "run_state (ExecuteWithStdin rp ex stdin command args) s =
    (case rp (excall ex stdin command args) (h_world s) of (r, w) \<Rightarrow>
      ((o_stdout r, o_stderr r, exec_error ex command r),
       s\<lparr>h_world := w, h_procs := h_procs s @ [excall ex stdin command args],
         h_log := h_log s @ [audit_entry command args r]\<rparr>))"
  by (simp add: ExecuteWithStdin_def run_proc_def audit_entry_def split: prod.splits)

lemma run_Execute:
  "run_state (Execute rp ex command args) s =
    (case rp (excall ex None command args) (h_world s) of (r, w) \<Rightarrow>
      ((o_stdout r, o_stderr r, exec_error ex command r),
       s\<lparr>h_world := w, h_procs := h_procs s @ [excall ex None command args],
         h_log := h_log s @ [audit_entry command args r]\<rparr>))"
  by (simp add: Execute_def run_ExecuteWithStdin)

lemma adds_ExecuteWithStdin:
  assumes "P (excall ex stdin command args)" "\<And>r. L (audit_entry command args r)"
  shows "keeps (adds L P Q) (ExecuteWithStdin rp ex stdin command args)"
  using assms by (simp add: keeps_def run_ExecuteWithStdin adds_def split: prod.splits)

lemma adds_Execute:
  assumes "P (excall ex None command args)" "\<And>r. L (audit_entry command args r)"
  shows "keeps (adds L P Q) (Execute rp ex command args)"
  unfolding Execute_def using assms by (rule adds_ExecuteWithStdin)

lemma exec_error_None [simp]: "exec_error ex command r = None \<longleftrightarrow> o_err r = None"
  by (simp add: exec_error_def split: option.splits)

lemma exec_error_Is:
  "o_err r = Some e \<Longrightarrow> \<not> o_deadline r \<Longrightarrow>
    \<exists>x. exec_error ex command r = Some x \<and> (\<forall>t. errors_Is x t = errors_Is (run_error e) t)"
  by (simp add: exec_error_def)

section \<open>The interface CommandRunner\<close>

text \<open>
  What the modules that are given a \<open>CommandRunner\<close> rely on: a call starts exactly the command
  they name, with no standard input, and the trace records it.
\<close>

locale command_runner =
  fixes execute :: "string \<Rightarrow> string list \<Rightarrow> ('x, string \<times> string \<times> gerr option) op"
    and limit :: int
  assumes starts: "\<exists>e. h_procs (snd (run_state (execute cmd args) s)) =
      h_procs s @ [\<lparr>c_cmd = cmd, c_args = args, c_stdin = None, c_timeout = limit\<rparr>] \<and>
      h_log (snd (run_state (execute cmd args) s)) = h_log s @ [e] \<and>
      h_pub (snd (run_state (execute cmd args) s)) = h_pub s \<and>
      h_rand (snd (run_state (execute cmd args) s)) = h_rand s"
begin

lemma one_process:
  "h_procs (snd (run_state (execute cmd args) s)) =
    h_procs s @ [\<lparr>c_cmd = cmd, c_args = args, c_stdin = None, c_timeout = limit\<rparr>]"
  using starts by blast

lemma keeps_execute:
  "P \<lparr>c_cmd = cmd, c_args = args, c_stdin = None, c_timeout = limit\<rparr> \<Longrightarrow>
    keeps (adds (\<lambda>_. True) P Q) (execute cmd args)"
  unfolding keeps_def adds_def using starts by fastforce

end

interpretation execute_runner: command_runner "Execute rp ex" "ex_timeout ex"
  for rp :: "'x runner" and ex :: Executor
  by unfold_locales (simp add: run_Execute split: prod.splits)


section \<open>Properties\<close>

text \<open>C17: Every command execution starts exactly one process, the given binary with exactly the given
  argument vector (no shell in between), and writes exactly one audit entry, whatever the outcome.
  The entry is a function of command, arguments and outcome: what is piped to standard input never
  reaches the log.\<close>

theorem execute_audits_once:
  "\<exists>r. h_procs (snd (run_state (ExecuteWithStdin rp ex stdin command args) s)) =
      h_procs s @ [\<lparr>c_cmd = command, c_args = args, c_stdin = stdin, c_timeout = ex_timeout ex\<rparr>] \<and>
    h_log (snd (run_state (ExecuteWithStdin rp ex stdin command args) s)) = h_log s @ [audit_entry command args r] \<and>
    fst (run_state (ExecuteWithStdin rp ex stdin command args) s) =
      (o_stdout r, o_stderr r, exec_error ex command r)"
  by (cases "rp (excall ex stdin command args) (h_world s)") (auto simp: run_ExecuteWithStdin)

text \<open>C18: An execution reports success exactly when the process did; a process that failed without
  running out of time is reported with an error whose chain still contains the cause, so a missing
  binary can be recognised by the caller, while a timeout is reported as such with the limit and
  the command.\<close>

theorem execute_error_classes:
  assumes "rp (excall ex stdin command args) (h_world s) = (r, w)"
  shows "\<exists>out err res. fst (run_state (ExecuteWithStdin rp ex stdin command args) s) = (out, err, res) \<and>
    (res = None \<longleftrightarrow> o_err r = None) \<and>
    (\<forall>e. o_err r = Some e \<longrightarrow> o_deadline r \<longrightarrow>
      res = Some (errorf (''command timed out after '' @ Duration_String (ex_timeout ex) @ '': '' @ command))) \<and>
    (\<forall>e x. o_err r = Some e \<longrightarrow> \<not> o_deadline r \<longrightarrow> res = Some x \<longrightarrow>
      (\<forall>t. errors_Is x t = errors_Is (run_error e) t))"
  using assms by (cases "o_err r") (simp_all add: run_ExecuteWithStdin exec_error_def)

definition missing_binary :: "unit runner" where
  "missing_binary c w = (\<lparr>o_stdout = [], o_stderr = [], o_err = Some (RunError (ErrNew ErrNotFound ''not found'')),
     o_deadline = False, o_elapsed = 0\<rparr>, w)"

theorem execute_error_classes_witness:
  "\<exists>out err x. fst (run_state (ExecuteWithStdin missing_binary Executor_New None ''growpart'' [''/dev/sda'', ''1'']) blank_host)
     = (out, err, Some x) \<and> errors_Is x ErrNotFound"
proof -
  obtain r w where r: "missing_binary (excall Executor_New None ''growpart'' [''/dev/sda'', ''1'']) (h_world blank_host) = (r, w)"
    "o_err r = Some (RunError (ErrNew ErrNotFound ''not found''))" "\<not> o_deadline r"
    by (simp add: missing_binary_def)
  from execute_error_classes [where rp = missing_binary and s = blank_host, OF r(1)] r(2,3)
  show ?thesis by fastforce
qed

end
