(* ===== verification/Config.thy ===== *)
theory Config
  imports Executor
begin

text \<open>
  internal/config/config.go. The layering itself is done by the viper library, which is a
  parameter: a record of the calls the agent makes on it. The defaults the agent registers, the
  guard on the metadata settings and the decoding of the settings object are the agent's own.
\<close>

section \<open>Configuration types\<close>

record NATSConfig =
  nc_ConnectionType :: string
  nc_URL :: string
  nc_WebSocketURL :: string
  nc_AgentUUID :: string
  nc_APIKey :: string
  nc_MaxReconnects :: int
  nc_ReconnectWait :: int

record AgentConfig =
  ac_HeartbeatInterval :: int
  ac_TelemetryInterval :: int
  ac_AllowedOperations :: "string list"
  ac_AllowedCommands :: "string list"

record ISOConfig =
  ic_MountPath :: string
  ic_FallbackEnv :: bool
  ic_Label :: string
  ic_CachePath :: string

record LogConfig =
  lc_Level :: string
  lc_Format :: string
  lc_File :: string

record AutohealConfig =
  hc_Enabled :: bool
  hc_RestartDelay :: int

record Config =
  cfg_NATS :: NATSConfig
  cfg_Agent :: AgentConfig
  cfg_ISO :: ISOConfig
  cfg_Log :: LogConfig
  cfg_Autoheal :: AutohealConfig

definition ConnectionTypeNATS :: string where "ConnectionTypeNATS = ''nats''"
definition ConnectionTypeWebSocket :: string where "ConnectionTypeWebSocket = ''websocket''"

definition ActiveURL :: "NATSConfig \<Rightarrow> string" where
  "ActiveURL c = (if nc_ConnectionType c = ConnectionTypeWebSocket then nc_WebSocketURL c else nc_URL c)"

section \<open>Defaults\<close>

datatype setting = SStr string | SInt int | SBool bool | SDur int | SStrs "string list"

definition default_operations :: "string list" where
  "default_operations = [''agent.allowed_operations'', ''agent.version'', ''services.list'',
     ''services.get'', ''services.start'', ''services.stop'', ''services.restart'',
     ''services.reload'', ''services.enable'', ''services.disable'', ''system.info'',
     ''system.metrics'', ''system.cpu'', ''system.memory'', ''system.disk'', ''system.network'',
     ''system.update'', ''telemetry.set_interval'', ''vm.reboot'', ''vm.shutdown'']"

definition default_settings :: "(string \<times> setting) list" where
  "default_settings =
     [(''nats.connection_type'', SStr ConnectionTypeNATS),
      (''nats.url'', SStr ''nats://localhost:4222''),
      (''nats.websocket_url'', SStr ''ws://localhost:8080''),
      (''nats.agent_uuid'', SStr []),
      (''nats.api_key'', SStr []),
      (''nats.max_reconnects'', SInt (-1)),
      (''nats.reconnect_wait'', SDur (5 * second)),
      (''agent.heartbeat_interval'', SDur (30 * second)),
      (''agent.telemetry_interval'', SDur (30 * second)),
      (''agent.allowed_operations'', SStrs default_operations),
      (''agent.allowed_commands'', SStrs []),
      (''iso.mount_path'', SStr ''/media/plusclouds-config''),
      (''iso.fallback_env'', SBool True),
      (''iso.label'', SStr ''cidata''),
      (''iso.cache_path'', SStr ''/var/lib/plusclouds/cache/pc-meta-data.json''),
      (''log.level'', SStr ''info''),
      (''log.format'', SStr ''json''),
      (''log.file'', SStr []),
      (''autoheal.enabled'', SBool True),
      (''autoheal.restart_delay'', SDur (10 * second))]"

section \<open>Loading\<close>

text \<open>
  The viper calls, on a configuration object of type \<open>'v\<close>. \<open>vp_merge\<close> is given the members of the
  settings object with their raw JSON values; \<open>vp_env\<close> is \<open>SetEnvPrefix\<close>, \<open>SetEnvKeyReplacer\<close>
  and \<open>AutomaticEnv\<close>.
\<close>

record 'v viper =
  vp_new :: 'v
  vp_default :: "string \<Rightarrow> setting \<Rightarrow> 'v \<Rightarrow> 'v"
  vp_merge :: "(string \<times> string) list \<Rightarrow> 'v \<Rightarrow> 'v res"
  vp_env :: "string \<Rightarrow> 'v \<Rightarrow> 'v"
  vp_unmarshal :: "'v \<Rightarrow> Config res"

definition setDefaults :: "'v viper \<Rightarrow> 'v \<Rightarrow> 'v" where
  "setDefaults vp v = fold (\<lambda>(k, x). vp_default vp k x) default_settings v"

text \<open>\<open>json.Unmarshal\<close> into a \<open>map[string]any\<close>: the members, later duplicates last.\<close>

definition decode_map :: "string \<Rightarrow> (string \<times> string) list res" where
  "decode_map raw = (case json_view raw of
     Some (VObj ms) \<Rightarrow> Inr ms
   | Some VNull \<Rightarrow> Inr []
   | Some _ \<Rightarrow> Inl (json_type_err ''map[string]interface {}'')
   | None \<Rightarrow> Inl json_syntax_err)"

definition has_settings :: "string \<Rightarrow> bool" where
  "has_settings raw \<longleftrightarrow> length (str_TrimSpace raw) > 0 \<and> str_TrimSpace raw \<noteq> ''null''"

definition Config_Load :: "'v viper \<Rightarrow> string \<Rightarrow> Config res" where
  "Config_Load vp agentSettings =
     (let v = setDefaults vp (vp_new vp);
          merged = (if has_settings agentSettings then
              (case decode_map agentSettings of
                 Inl e \<Rightarrow> Inl (errorf_w ''parsing agent settings from config-drive metadata: '' e [])
               | Inr m \<Rightarrow> (case vp_merge vp m v of
                   Inl e \<Rightarrow> Inl (errorf_w ''merging agent settings from config-drive metadata: '' e [])
                 | Inr v' \<Rightarrow> Inr v'))
            else Inr v)
      in case merged of Inl e \<Rightarrow> Inl e
         | Inr v' \<Rightarrow> (case vp_unmarshal vp (vp_env vp ''PLUSCLOUDS_AGENT'' v') of
             Inl e \<Rightarrow> Inl (errorf_w ''unmarshalling config: '' e [])
           | Inr cfg \<Rightarrow> Inr cfg))"

section \<open>What the agent relies on in viper\<close>

text \<open>The struct tags of \<open>Config\<close>: which key each field is read from.\<close>

definition get_str :: "(string \<Rightarrow> setting option) \<Rightarrow> string \<Rightarrow> string" where
  "get_str lk k = (case lk k of Some (SStr s) \<Rightarrow> s | _ \<Rightarrow> [])"

definition get_int :: "(string \<Rightarrow> setting option) \<Rightarrow> string \<Rightarrow> int" where
  "get_int lk k = (case lk k of Some (SInt i) \<Rightarrow> i | Some (SDur d) \<Rightarrow> d | _ \<Rightarrow> 0)"

definition get_bool :: "(string \<Rightarrow> setting option) \<Rightarrow> string \<Rightarrow> bool" where
  "get_bool lk k = (case lk k of Some (SBool b) \<Rightarrow> b | _ \<Rightarrow> False)"

definition get_strs :: "(string \<Rightarrow> setting option) \<Rightarrow> string \<Rightarrow> string list" where
  "get_strs lk k = (case lk k of Some (SStrs ss) \<Rightarrow> ss | _ \<Rightarrow> [])"

definition config_of :: "(string \<Rightarrow> setting option) \<Rightarrow> Config" where
  "config_of lk = \<lparr>
     cfg_NATS = \<lparr>nc_ConnectionType = get_str lk ''nats.connection_type'', nc_URL = get_str lk ''nats.url'',
       nc_WebSocketURL = get_str lk ''nats.websocket_url'', nc_AgentUUID = get_str lk ''nats.agent_uuid'',
       nc_APIKey = get_str lk ''nats.api_key'', nc_MaxReconnects = get_int lk ''nats.max_reconnects'',
       nc_ReconnectWait = get_int lk ''nats.reconnect_wait''\<rparr>,
     cfg_Agent = \<lparr>ac_HeartbeatInterval = get_int lk ''agent.heartbeat_interval'',
       ac_TelemetryInterval = get_int lk ''agent.telemetry_interval'',
       ac_AllowedOperations = get_strs lk ''agent.allowed_operations'',
       ac_AllowedCommands = get_strs lk ''agent.allowed_commands''\<rparr>,
     cfg_ISO = \<lparr>ic_MountPath = get_str lk ''iso.mount_path'', ic_FallbackEnv = get_bool lk ''iso.fallback_env'',
       ic_Label = get_str lk ''iso.label'', ic_CachePath = get_str lk ''iso.cache_path''\<rparr>,
     cfg_Log = \<lparr>lc_Level = get_str lk ''log.level'', lc_Format = get_str lk ''log.format'',
       lc_File = get_str lk ''log.file''\<rparr>,
     cfg_Autoheal = \<lparr>hc_Enabled = get_bool lk ''autoheal.enabled'',
       hc_RestartDelay = get_int lk ''autoheal.restart_delay''\<rparr>\<rparr>"

text \<open>
  Documented behaviour of viper when no environment variable with the prefix is set: registered
  defaults are read back, merging changes only the keys it carries, and unmarshalling reads the
  keys of the struct tags. \<open>look\<close> reads a key, \<open>keys_of\<close> are the keys a settings object carries.
\<close>

definition viper_ok ::
    "'v viper \<Rightarrow> ('v \<Rightarrow> string \<Rightarrow> setting option) \<Rightarrow> ((string \<times> string) list \<Rightarrow> string set) \<Rightarrow> bool" where
  "viper_ok vp look keys_of \<longleftrightarrow>
     (\<forall>xs. look (fold (\<lambda>(k, x). vp_default vp k x) xs (vp_new vp)) = map_of (rev xs)) \<and>
     (\<forall>m v v' k. vp_merge vp m v = Inr v' \<longrightarrow> k \<notin> keys_of m \<longrightarrow> look v' k = look v k) \<and>
     (\<forall>p v. look (vp_env vp p v) = look v) \<and>
     (\<forall>v. vp_unmarshal vp v = Inr (config_of (look v)))"

lemma look_setDefaults:
  assumes "viper_ok vp look keys_of"
  shows "look (setDefaults vp (vp_new vp)) = map_of default_settings"
proof -
  have "look (setDefaults vp (vp_new vp)) = map_of (rev default_settings)"
    using assms by (simp add: viper_ok_def setDefaults_def)
  also have "\<dots> = map_of default_settings"
    by (rule map_of_rev_distinct) (simp add: default_settings_def)
  finally show ?thesis .
qed

lemma Config_Load_blank:
  assumes "\<not> has_settings raw"
  shows "Config_Load vp raw = (case vp_unmarshal vp (vp_env vp ''PLUSCLOUDS_AGENT'' (setDefaults vp (vp_new vp))) of
    Inl e \<Rightarrow> Inl (errorf_w ''unmarshalling config: '' e []) | Inr cfg \<Rightarrow> Inr cfg)"
  using assms by (simp add: Config_Load_def)

lemma Config_Load_bad_json:
  assumes "has_settings raw" "decode_map raw = Inl e"
  shows "Config_Load vp raw = Inl (errorf_w ''parsing agent settings from config-drive metadata: '' e [])"
  using assms by (simp add: Config_Load_def)


section \<open>Properties\<close>

lemmas get_defs = get_str_def get_int_def get_bool_def get_strs_def

text \<open>Without settings from the config-drive (nothing, blanks or a JSON null) and without
  overriding environment variables, loading succeeds with the built-in defaults: the twenty default
  operations and no exec commands, plain NATS on localhost with unlimited reconnects, the cidata
  label and the cache file under /var/lib/plusclouds.\<close>

theorem Config_Load_defaults:
  assumes "viper_ok vp look keys_of" "\<not> has_settings raw"
  shows "\<exists>cfg. Config_Load vp raw = Inr cfg \<and>
    ac_AllowedOperations (cfg_Agent cfg) = default_operations \<and> ac_AllowedCommands (cfg_Agent cfg) = [] \<and>
    ac_HeartbeatInterval (cfg_Agent cfg) = 30 * second \<and> ac_TelemetryInterval (cfg_Agent cfg) = 30 * second \<and>
    ActiveURL (cfg_NATS cfg) = ''nats://localhost:4222'' \<and> nc_MaxReconnects (cfg_NATS cfg) = - 1 \<and>
    nc_AgentUUID (cfg_NATS cfg) = [] \<and> nc_APIKey (cfg_NATS cfg) = [] \<and>
    ic_MountPath (cfg_ISO cfg) = ''/media/plusclouds-config'' \<and> ic_Label (cfg_ISO cfg) = ''cidata'' \<and>
    ic_CachePath (cfg_ISO cfg) = ''/var/lib/plusclouds/cache/pc-meta-data.json'' \<and>
    lc_Level (cfg_Log cfg) = ''info'' \<and> lc_File (cfg_Log cfg) = []"
proof -
  have "vp_unmarshal vp (vp_env vp ''PLUSCLOUDS_AGENT'' (setDefaults vp (vp_new vp)))
      = Inr (config_of (map_of default_settings))"
    using assms(1) look_setDefaults [OF assms(1)] by (simp add: viper_ok_def)
  with Config_Load_blank [OF assms(2), of vp] have "Config_Load vp raw = Inr (config_of (map_of default_settings))"
    by simp
  then show ?thesis
    by (simp add: config_of_def get_defs default_settings_def ActiveURL_def ConnectionTypeNATS_def
        ConnectionTypeWebSocket_def)
qed

text \<open>A layered object as an association list, with every merge accepted and ignored.\<close>

definition assoc_viper :: "(string \<times> setting) list viper" where
  "assoc_viper = \<lparr>vp_new = [], vp_default = (\<lambda>k x v. (k, x) # v), vp_merge = (\<lambda>m v. Inr v),
     vp_env = (\<lambda>p v. v), vp_unmarshal = (\<lambda>v. Inr (config_of (map_of v)))\<rparr>"

lemma assoc_viper_ok: "viper_ok assoc_viper map_of (\<lambda>m. set (map fst m))"
proof -
  have "fold (\<lambda>(k, x). (#) (k, x)) xs v = rev xs @ v" for xs :: "(string \<times> setting) list" and v
    by (induction xs arbitrary: v) auto
  then show ?thesis by (simp add: viper_ok_def assoc_viper_def)
qed

lemma trim_blank: "\<not> has_settings []"
  by (simp add: has_settings_def)

theorem Config_Load_defaults_witness:
  "\<exists>cfg. Config_Load assoc_viper [] = Inr cfg \<and> ac_AllowedOperations (cfg_Agent cfg) = default_operations"
  using Config_Load_defaults [OF assoc_viper_ok trim_blank] by blast

text \<open>Merging the settings of the config-drive changes only the keys they carry: for every
  other key the loaded configuration is read from the built-in default.\<close>

theorem Config_Load_merge:
  assumes "viper_ok vp look keys_of" "has_settings raw" "decode_map raw = Inr m"
    "vp_merge vp m (setDefaults vp (vp_new vp)) = Inr v'"
  shows "\<exists>lk. Config_Load vp raw = Inr (config_of lk) \<and> (\<forall>k. k \<notin> keys_of m \<longrightarrow> lk k = map_of default_settings k)"
proof (intro exI conjI allI impI)
  show "Config_Load vp raw = Inr (config_of (look v'))"
    using assms by (simp add: Config_Load_def viper_ok_def)
  fix k assume "k \<notin> keys_of m"
  with assms show "look v' k = map_of default_settings k"
    using look_setDefaults [OF assms(1)] by (simp add: viper_ok_def)
qed

lemma decode_map_empty_object: "decode_map [CHR 0x7B, CHR 0x7D] = Inr []" "has_settings [CHR 0x7B, CHR 0x7D]"
  using json_view_json_enc [of "JObj []"]
  by (simp_all add: decode_map_def has_settings_def str_TrimSpace_visible visible_def)

theorem Config_Load_merge_witness:
  "\<exists>lk. Config_Load assoc_viper [CHR 0x7B, CHR 0x7D] = Inr (config_of lk) \<and>
    lk ''iso.label'' = Some (SStr ''cidata'')"
proof -
  have "vp_merge assoc_viper [] (setDefaults assoc_viper (vp_new assoc_viper))
      = Inr (setDefaults assoc_viper (vp_new assoc_viper))" by (simp add: assoc_viper_def)
  from Config_Load_merge [OF assoc_viper_ok decode_map_empty_object(2,1) this]
  obtain lk where "Config_Load assoc_viper [CHR 0x7B, CHR 0x7D] = Inr (config_of lk)"
    "lk ''iso.label'' = map_of default_settings ''iso.label''" by auto
  moreover have "map_of default_settings ''iso.label'' = Some (SStr ''cidata'')"
    by (simp add: default_settings_def)
  ultimately show ?thesis by auto
qed

end
