(* ===== verification/IsoMeta.thy ===== *)
theory IsoMeta
  imports Config
begin

text \<open>
  pkg/isoconfig/reader.go: the metadata types of the config-drive, how pc-meta-data.json is decoded
  into them, the nil-safe accessors of \<open>ISOMetadata\<close>, and the reader.
\<close>

section \<open>Metadata types\<close>

record VirtualDisk =
  vd_DiskType :: string
  vd_DeviceNumber :: i64
  vd_TotalDisk :: i64

definition zero_VirtualDisk :: VirtualDisk where
  "zero_VirtualDisk = \<lparr>vd_DiskType = [], vd_DeviceNumber = 0, vd_TotalDisk = 0\<rparr>"

definition VirtualDisk_fields :: "VirtualDisk field_table" where
  "VirtualDisk_fields =
     [(''disk_type'', dec_string (\<lambda>x. vd_DiskType_update (\<lambda>_. x))),
      (''device_number'', dec_int (\<lambda>x. vd_DeviceNumber_update (\<lambda>_. x))),
      (''total_disk'', dec_int (\<lambda>x. vd_TotalDisk_update (\<lambda>_. x)))]"

record IPEntry =
  ip_ID :: i64
  ip_IPAddr :: string
  ip_IsReserved :: bool

definition zero_IPEntry :: IPEntry where
  "zero_IPEntry = \<lparr>ip_ID = 0, ip_IPAddr = [], ip_IsReserved = False\<rparr>"

definition IPEntry_fields :: "IPEntry field_table" where
  "IPEntry_fields =
     [(''id'', dec_int (\<lambda>x. ip_ID_update (\<lambda>_. x))),
      (''ip_addr'', dec_string (\<lambda>x. ip_IPAddr_update (\<lambda>_. x))),
      (''is_reserved'', dec_bool (\<lambda>x. ip_IsReserved_update (\<lambda>_. x)))]"

record IPDataList =
  dl_Data :: "IPEntry list"

definition zero_IPDataList :: IPDataList where
  "zero_IPDataList = \<lparr>dl_Data = []\<rparr>"

definition IPDataList_fields :: "IPDataList field_table" where
  "IPDataList_fields =
     [(''data'', dec_list (json_Unmarshal IPEntry_fields zero_IPEntry) (\<lambda>x. dl_Data_update (\<lambda>_. x)))]"

record Network =
  nw_Name :: string
  nw_IPAddr :: string
  nw_IPRangeStart :: string
  nw_IPRangeEnd :: string
  nw_Gateway :: "string option"
  nw_Subnet :: string
  nw_Netmask :: string
  nw_NetworkAddress :: string
  nw_DHCPServer :: string
  nw_DNSNameservers :: "string list"
  nw_MTU :: i64

definition zero_Network :: Network where
  "zero_Network = \<lparr>nw_Name = [], nw_IPAddr = [], nw_IPRangeStart = [], nw_IPRangeEnd = [], nw_Gateway = None,
     nw_Subnet = [], nw_Netmask = [], nw_NetworkAddress = [], nw_DHCPServer = [],
     nw_DNSNameservers = [], nw_MTU = 0\<rparr>"

definition Network_fields :: "Network field_table" where
  "Network_fields =
     [(''name'', dec_string (\<lambda>x. nw_Name_update (\<lambda>_. x))),
      (''ip_addr'', dec_string (\<lambda>x. nw_IPAddr_update (\<lambda>_. x))),
      (''ip_range_start'', dec_string (\<lambda>x. nw_IPRangeStart_update (\<lambda>_. x))),
      (''ip_range_end'', dec_string (\<lambda>x. nw_IPRangeEnd_update (\<lambda>_. x))),
      (''gateway'', dec_opt_string (\<lambda>x. nw_Gateway_update (\<lambda>_. x))),
      (''subnet'', dec_string (\<lambda>x. nw_Subnet_update (\<lambda>_. x))),
      (''netmask'', dec_string (\<lambda>x. nw_Netmask_update (\<lambda>_. x))),
      (''network'', dec_string (\<lambda>x. nw_NetworkAddress_update (\<lambda>_. x))),
      (''dhcp_server'', dec_string (\<lambda>x. nw_DHCPServer_update (\<lambda>_. x))),
      (''dns_nameservers'', dec_list dec_str_elem (\<lambda>x. nw_DNSNameservers_update (\<lambda>_. x))),
      (''mtu'', dec_int (\<lambda>x. nw_MTU_update (\<lambda>_. x)))]"

record VirtualNetworkCard =
  nic_DeviceNumber :: i64
  nic_MACAddr :: string
  nic_NetworkName :: string
  nic_Network :: Network
  nic_IPList :: IPDataList

definition zero_VirtualNetworkCard :: VirtualNetworkCard where
  "zero_VirtualNetworkCard = \<lparr>nic_DeviceNumber = 0, nic_MACAddr = [], nic_NetworkName = [], nic_Network = zero_Network,
     nic_IPList = zero_IPDataList\<rparr>"

definition VirtualNetworkCard_fields :: "VirtualNetworkCard field_table" where
  "VirtualNetworkCard_fields =
     [(''device_number'', dec_int (\<lambda>x. nic_DeviceNumber_update (\<lambda>_. x))),
      (''mac_addr'', dec_string (\<lambda>x. nic_MACAddr_update (\<lambda>_. x))),
      (''network_name'', dec_string (\<lambda>x. nic_NetworkName_update (\<lambda>_. x))),
      (''network'', dec_struct Network_fields nic_Network (\<lambda>x. nic_Network_update (\<lambda>_. x))),
      (''ip_list'', dec_struct IPDataList_fields nic_IPList (\<lambda>x. nic_IPList_update (\<lambda>_. x)))]"

record ServiceRole =
  sr_Name :: string
  sr_Config :: string

definition zero_ServiceRole :: ServiceRole where
  "zero_ServiceRole = \<lparr>sr_Name = [], sr_Config = []\<rparr>"

definition ServiceRole_fields :: "ServiceRole field_table" where
  "ServiceRole_fields =
     [(''name'', dec_string (\<lambda>x. sr_Name_update (\<lambda>_. x))),
      (''config'', dec_string (\<lambda>x. sr_Config_update (\<lambda>_. x)))]"

record ComputePool =
  cp_ID :: string
  cp_Name :: string
  cp_PoolType :: string
  cp_HypervisorType :: "string option"
  cp_HypervisorVersion :: "string option"

definition zero_ComputePool :: ComputePool where
  "zero_ComputePool = \<lparr>cp_ID = [], cp_Name = [], cp_PoolType = [], cp_HypervisorType = None, cp_HypervisorVersion
     = None\<rparr>"

definition ComputePool_fields :: "ComputePool field_table" where
  "ComputePool_fields =
     [(''id'', dec_string (\<lambda>x. cp_ID_update (\<lambda>_. x))),
      (''name'', dec_string (\<lambda>x. cp_Name_update (\<lambda>_. x))),
      (''pool_type'', dec_string (\<lambda>x. cp_PoolType_update (\<lambda>_. x))),
      (''hypervisor_type'', dec_opt_string (\<lambda>x. cp_HypervisorType_update (\<lambda>_. x))),
      (''hypervisor_version'', dec_opt_string (\<lambda>x. cp_HypervisorVersion_update (\<lambda>_. x)))]"

record CloudNode =
  cn_ID :: string
  cn_Name :: string
  cn_Location :: "string option"
  cn_Provider :: "string option"
  cn_Region :: "string option"

definition zero_CloudNode :: CloudNode where
  "zero_CloudNode = \<lparr>cn_ID = [], cn_Name = [], cn_Location = None, cn_Provider = None, cn_Region = None\<rparr>"

definition CloudNode_fields :: "CloudNode field_table" where
  "CloudNode_fields =
     [(''id'', dec_string (\<lambda>x. cn_ID_update (\<lambda>_. x))),
      (''name'', dec_string (\<lambda>x. cn_Name_update (\<lambda>_. x))),
      (''location'', dec_opt_string (\<lambda>x. cn_Location_update (\<lambda>_. x))),
      (''provider'', dec_opt_string (\<lambda>x. cn_Provider_update (\<lambda>_. x))),
      (''region'', dec_opt_string (\<lambda>x. cn_Region_update (\<lambda>_. x)))]"

record VirtualMachineMetadata =
  vm_Hostname :: string
  vm_Username :: string
  vm_Password :: string
  vm_VirtualMachineID :: string
  vm_AgentAPIKey :: string
  vm_VirtualDisks :: "VirtualDisk list"
  vm_VirtualNetworkCards :: "VirtualNetworkCard list"
  vm_ServiceRoles :: "ServiceRole list"
  vm_ComputePool :: ComputePool
  vm_CloudNode :: CloudNode
  vm_SSHKeys :: "string list"
  vm_EnvVars :: "string list"
  vm_Tokens :: "string list"
  vm_Agent :: string

definition zero_VirtualMachineMetadata :: VirtualMachineMetadata where
  "zero_VirtualMachineMetadata = \<lparr>vm_Hostname = [], vm_Username = [], vm_Password = [], vm_VirtualMachineID = [],
     vm_AgentAPIKey = [], vm_VirtualDisks = [], vm_VirtualNetworkCards = [],
     vm_ServiceRoles = [], vm_ComputePool = zero_ComputePool, vm_CloudNode =
     zero_CloudNode, vm_SSHKeys = [], vm_EnvVars = [], vm_Tokens = [], vm_Agent = []\<rparr>"

definition VirtualMachineMetadata_fields :: "VirtualMachineMetadata field_table" where
  "VirtualMachineMetadata_fields =
     [(''hostname'', dec_string (\<lambda>x. vm_Hostname_update (\<lambda>_. x))),
      (''username'', dec_string (\<lambda>x. vm_Username_update (\<lambda>_. x))),
      (''password'', dec_string (\<lambda>x. vm_Password_update (\<lambda>_. x))),
      (''virtual_machine_id'', dec_string (\<lambda>x. vm_VirtualMachineID_update (\<lambda>_. x))),
      (''agent_api_key'', dec_string (\<lambda>x. vm_AgentAPIKey_update (\<lambda>_. x))),
      (''virtual_disks'', dec_list (json_Unmarshal VirtualDisk_fields zero_VirtualDisk) (\<lambda>x. vm_VirtualDisks_update (\<lambda>_. x))),
      (''virtual_network_cards'', dec_list (json_Unmarshal VirtualNetworkCard_fields zero_VirtualNetworkCard) (\<lambda>x. vm_VirtualNetworkCards_update (\<lambda>_. x))),
      (''service_roles'', dec_list (json_Unmarshal ServiceRole_fields zero_ServiceRole) (\<lambda>x. vm_ServiceRoles_update (\<lambda>_. x))),
      (''compute_pool'', dec_struct ComputePool_fields vm_ComputePool (\<lambda>x. vm_ComputePool_update (\<lambda>_. x))),
      (''cloud_node'', dec_struct CloudNode_fields vm_CloudNode (\<lambda>x. vm_CloudNode_update (\<lambda>_. x))),
      (''ssh_keys'', dec_list dec_str_elem (\<lambda>x. vm_SSHKeys_update (\<lambda>_. x))),
      (''env_vars'', dec_list Inr (\<lambda>x. vm_EnvVars_update (\<lambda>_. x))),
      (''tokens'', dec_list Inr (\<lambda>x. vm_Tokens_update (\<lambda>_. x))),
      (''agent'', dec_raw (\<lambda>x. vm_Agent_update (\<lambda>_. x)))]"

section \<open>Accessors\<close>

text \<open>
  An \<open>*ISOMetadata\<close> is nil, or wraps a nil or non-nil \<open>*VirtualMachineMetadata\<close>; all accessors
  treat the two nil cases alike, so the model keeps only the inner pointer.
\<close>

type_synonym ISOMetadata = "VirtualMachineMetadata option"

definition Raw :: "ISOMetadata \<Rightarrow> VirtualMachineMetadata option" where
  "Raw m = m"

definition VMID :: "ISOMetadata \<Rightarrow> string" where
  "VMID m = (case m of None \<Rightarrow> [] | Some r \<Rightarrow> vm_VirtualMachineID r)"

definition Hostname :: "ISOMetadata \<Rightarrow> string" where
  "Hostname m = (case m of None \<Rightarrow> [] | Some r \<Rightarrow> vm_Hostname r)"

definition Username :: "ISOMetadata \<Rightarrow> string" where
  "Username m = (case m of None \<Rightarrow> [] | Some r \<Rightarrow> vm_Username r)"

definition Password :: "ISOMetadata \<Rightarrow> string" where
  "Password m = (case m of None \<Rightarrow> [] | Some r \<Rightarrow> vm_Password r)"

definition TenantID :: "ISOMetadata \<Rightarrow> string" where
  "TenantID m = []"

definition APIKey :: "ISOMetadata \<Rightarrow> string" where
  "APIKey m = Password m"

definition AgentAPIKey :: "ISOMetadata \<Rightarrow> string" where
  "AgentAPIKey m = (case m of None \<Rightarrow> [] | Some r \<Rightarrow> vm_AgentAPIKey r)"

definition AgentToken :: "ISOMetadata \<Rightarrow> string" where
  "AgentToken m = AgentAPIKey m"

definition AgentSettings :: "ISOMetadata \<Rightarrow> string" where
  "AgentSettings m = (case m of None \<Rightarrow> [] | Some r \<Rightarrow> vm_Agent r)"

fun first_ip :: "VirtualNetworkCard list \<Rightarrow> string" where
  "first_ip [] = []"
| "first_ip (n # ns) =
     (if length (dl_Data (nic_IPList n)) > 0 then ip_IPAddr (dl_Data (nic_IPList n) ! 0) else first_ip ns)"

definition PrimaryIP :: "ISOMetadata \<Rightarrow> string" where
  "PrimaryIP m = (case m of None \<Rightarrow> [] | Some r \<Rightarrow> first_ip (vm_VirtualNetworkCards r))"

fun first_gateway :: "VirtualNetworkCard list \<Rightarrow> string" where
  "first_gateway [] = []"
| "first_gateway (n # ns) =
     (case nw_Gateway (nic_Network n) of Some g \<Rightarrow> g | None \<Rightarrow> first_gateway ns)"

definition Gateway :: "ISOMetadata \<Rightarrow> string" where
  "Gateway m = (case m of None \<Rightarrow> [] | Some r \<Rightarrow> first_gateway (vm_VirtualNetworkCards r))"

fun first_dns :: "VirtualNetworkCard list \<Rightarrow> string list" where
  "first_dns [] = []"
| "first_dns (n # ns) =
     (if length (nw_DNSNameservers (nic_Network n)) > 0 then nw_DNSNameservers (nic_Network n)
      else first_dns ns)"

definition DNSNameservers :: "ISOMetadata \<Rightarrow> string list" where
  "DNSNameservers m = (case m of None \<Rightarrow> [] | Some r \<Rightarrow> first_dns (vm_VirtualNetworkCards r))"

definition NetworkCards :: "ISOMetadata \<Rightarrow> VirtualNetworkCard list" where
  "NetworkCards m = (case m of None \<Rightarrow> [] | Some r \<Rightarrow> vm_VirtualNetworkCards r)"

section \<open>Reading\<close>

definition metadata_file :: string where
  "metadata_file = ''pc-meta-data.json''"

definition parse_metadata :: "string \<Rightarrow> VirtualMachineMetadata res" where
  "parse_metadata data = json_Unmarshal VirtualMachineMetadata_fields zero_VirtualMachineMetadata data"

definition Reader_Read :: "string \<Rightarrow> ('x, ISOMetadata res) op" where
  "Reader_Read mountPath = do {
     r \<leftarrow> os_ReadFile (filepath_Join mountPath metadata_file);
     ret (case r of
        Inl e \<Rightarrow> if errors_Is e ErrNotExist then Inr None
                else Inl (errorf_w ''reading pc-meta-data.json: '' e [])
      | Inr data \<Rightarrow> (case parse_metadata data of
           Inl e \<Rightarrow> Inl (errorf_w ''parsing pc-meta-data.json: '' e [])
         | Inr vm \<Rightarrow> Inr (Some vm)))
   }"

lemma run_Reader_Read_file:
  assumes "wfault s OpRead (filepath_Join d metadata_file) = NoFault"
    "wfiles s (filepath_Join d metadata_file) = Some (File c m)" "parse_metadata c = Inr vm"
  shows "run_state (Reader_Read d) s = (Inr (Some vm), s)"
  using assms by (simp add: Reader_Read_def os_ReadFile_def)

lemma run_Reader_Read_absent:
  assumes "wfault s OpRead (filepath_Join d metadata_file) = NoFault"
    "wfiles s (filepath_Join d metadata_file) = None"
  shows "run_state (Reader_Read d) s = (Inr None, s)"
  using assms by (simp add: Reader_Read_def os_ReadFile_def path_err_def)

lemma Reader_Read_pure: "snd (run_state (Reader_Read d) s) = s"
  by (simp add: Reader_Read_def os_ReadFile_def)

lemma adds_Reader_Read [intro!]: "keeps (adds L P Q) (Reader_Read d)"
  by (simp add: keeps_def Reader_Read_pure adds_refl)

lemma first_ip_spec:
  "first_ip ns = (case find (\<lambda>n. dl_Data (nic_IPList n) \<noteq> []) ns of
     None \<Rightarrow> [] | Some n \<Rightarrow> ip_IPAddr (hd (dl_Data (nic_IPList n))))"
  by (induction ns) (auto simp: hd_conv_nth)

lemma first_gateway_spec:
  "first_gateway ns = (case find (\<lambda>n. nw_Gateway (nic_Network n) \<noteq> None) ns of
     None \<Rightarrow> [] | Some n \<Rightarrow> the (nw_Gateway (nic_Network n)))"
  by (induction ns) (auto split: option.splits)

end
