(* ===== verification/IsoLocator.thy ===== *)
theory IsoLocator
  imports IsoMeta
begin

text \<open>
  pkg/isoconfig/locator.go and its Linux, FreeBSD and Windows implementations. The closure
  \<open>unmount\<close> that \<open>Locate\<close> returns is kept as data (\<open>Noop\<close>, or \<open>Unmount\<close> of a mount point) and run
  by \<open>run_unmount\<close>.
\<close>

datatype unmount = Noop | Unmount string

type_synonym location = "string \<times> unmount \<times> gerr option"

definition run_unmount :: "'x runner \<Rightarrow> Executor \<Rightarrow> unmount \<Rightarrow> ('x, unit) op" where
  "run_unmount rp ex u = (case u of
     Noop \<Rightarrow> ret ()
   | Unmount mountPath \<Rightarrow> do {
       r \<leftarrow> Execute rp ex ''umount'' [mountPath];
       case r of (_, stderr, err) \<Rightarrow> (case err of
         Some e \<Rightarrow> logger WarnLevel ''could not unmount config-drive''
           [(''mount_path'', FString mountPath), (''error'', FError e), (''stderr'', FString stderr)]
       | None \<Rightarrow> logger InfoLevel ''unmounted config-drive'' [(''mount_path'', FString mountPath)])
     })"

section \<open>Linux\<close>

text \<open>\<open>bufio.Scanner\<close>: lines without their terminator, up to the first one longer than its buffer.\<close>

definition scan_lines :: "string \<Rightarrow> string list" where
  "scan_lines s =
     (let ls = str_Split (byte 10) s; full = (if last ls = [] then butlast ls else ls)
      in map (\<lambda>l. str_TrimSuffix l [byte 13]) (takeWhile (\<lambda>l. length l < 65536) full))"

definition mountinfo_line_matches :: "string \<Rightarrow> string \<Rightarrow> bool" where
  "mountinfo_line_matches mountPath line =
     (case str_Cut line '' - '' of (pre, post, ok) \<Rightarrow>
        ok \<and> (let preFields = str_Fields [] pre; postFields = str_Fields [] post in
          \<not> (length preFields < 5 \<or> length postFields < 1) \<and>
          preFields ! 4 = mountPath \<and> postFields ! 0 \<in> {''iso9660'', ''udf''}))"

definition mountInfoHasConfigDrive :: "string \<Rightarrow> string \<Rightarrow> ('x, bool) op" where
  "mountInfoHasConfigDrive mountInfoPath mountPath = do {
     r \<leftarrow> os_ReadFile mountInfoPath;
     ret (case r of Inl _ \<Rightarrow> False
       | Inr text \<Rightarrow> list_ex (mountinfo_line_matches mountPath) (scan_lines text))
   }"

definition isConfigDriveMounted :: "string \<Rightarrow> ('x, bool) op" where
  "isConfigDriveMounted mountPath = mountInfoHasConfigDrive ''/proc/self/mountinfo'' mountPath"

definition mount_drive ::
    "'x runner \<Rightarrow> Executor \<Rightarrow> string list \<Rightarrow> string \<Rightarrow> string \<Rightarrow> ('x, location) op" where
  "mount_drive rp ex opts devicePath mountPath = do {
     r \<leftarrow> os_MkdirAll mountPath 493;
     (case r of
       Inl e \<Rightarrow> ret ([], Noop, Some (errorf_w (''creating mount point '' @ str_Quote mountPath @ '': '') e []))
     | Inr _ \<Rightarrow> do {
         m \<leftarrow> Execute rp ex ''mount'' (opts @ [devicePath, mountPath]);
         (case m of (_, stderr, err) \<Rightarrow> (case err of
           Some e \<Rightarrow> ret ([], Noop, Some (errorf_w
             (''mounting '' @ str_Quote devicePath @ '' at '' @ str_Quote mountPath @ '': '') e
             ('' (stderr: '' @ stderr @ '')'')))
         | None \<Rightarrow> do {
             logger InfoLevel ''mounted config-drive''
               [(''device'', FString devicePath), (''mount_path'', FString mountPath)];
             ret (mountPath, Unmount mountPath, None)
           }))
       })
   }"

definition Locate_linux :: "'x runner \<Rightarrow> Executor \<Rightarrow> string \<Rightarrow> string \<Rightarrow> ('x, location) op" where
  "Locate_linux rp ex mountPath label = do {
     r \<leftarrow> os_Stat (''/dev/disk/by-label/'' @ label);
     (case r of
       Inl _ \<Rightarrow> ret ([], Noop, None)
     | Inr _ \<Rightarrow> do {
         mounted \<leftarrow> isConfigDriveMounted mountPath;
         if mounted then do {
           logger DebugLevel ''config-drive already mounted'' [(''mount_path'', FString mountPath)];
           ret (mountPath, Noop, None)
         } else mount_drive rp ex [] (''/dev/disk/by-label/'' @ label) mountPath
       })
   }"

section \<open>FreeBSD\<close>

definition mount_line_matches :: "string \<Rightarrow> string \<Rightarrow> bool" where
  "mount_line_matches mountPath line =
     (let needle = '' on '' @ mountPath @ '' ('' in
      case str_Index line needle of
        None \<Rightarrow> False
      | Some idx \<Rightarrow>
          (let rest = drop (idx + length needle) line;
               fstype = fst (str_Cut rest '','');
               fstype' = fst (str_Cut fstype '')'')
           in str_TrimSpace fstype' \<in> {''cd9660'', ''udf''}))"

definition mountOutputHasConfigDrive :: "string \<Rightarrow> string \<Rightarrow> bool" where
  "mountOutputHasConfigDrive mountOutput mountPath =
     list_ex (mount_line_matches mountPath) (str_Split (byte 10) mountOutput)"

definition isConfigDriveMounted_freebsd :: "'x runner \<Rightarrow> Executor \<Rightarrow> string \<Rightarrow> ('x, bool res) op" where
  "isConfigDriveMounted_freebsd rp ex mountPath = do {
     r \<leftarrow> Execute rp ex ''mount'' [];
     ret (case r of (stdout, _, err) \<Rightarrow>
       (case err of Some e \<Rightarrow> Inl e | None \<Rightarrow> Inr (mountOutputHasConfigDrive stdout mountPath)))
   }"

definition Locate_freebsd :: "'x runner \<Rightarrow> Executor \<Rightarrow> string \<Rightarrow> string \<Rightarrow> ('x, location) op" where
  "Locate_freebsd rp ex mountPath label = do {
     r \<leftarrow> os_Stat (''/dev/iso9660/'' @ label);
     (case r of
       Inl _ \<Rightarrow> ret ([], Noop, None)
     | Inr _ \<Rightarrow> do {
         m \<leftarrow> isConfigDriveMounted_freebsd rp ex mountPath;
         (case m of
           Inl e \<Rightarrow> ret ([], Noop, Some (errorf_w
             (''checking mount status of '' @ str_Quote mountPath @ '': '') e []))
         | Inr mounted \<Rightarrow>
           if mounted then do {
             logger DebugLevel ''config-drive already mounted'' [(''mount_path'', FString mountPath)];
             ret (mountPath, Noop, None)
           } else mount_drive rp ex [''-t'', ''cd9660''] (''/dev/iso9660/'' @ label) mountPath)
       })
   }"

section \<open>Windows\<close>

definition Locate_windows :: "'x runner \<Rightarrow> Executor \<Rightarrow> string \<Rightarrow> string \<Rightarrow> ('x, location) op" where
  "Locate_windows rp ex mountPath label = do {
     r \<leftarrow> Execute rp ex ''powershell'' [''-NoProfile'', ''-NonInteractive'', ''-Command'',
       ''(Get-Volume | Where-Object FileSystemLabel -eq '' @ [CHR 0x27] @ label @ [CHR 0x27] @
       '' | Select-Object -First 1).DriveLetter''];
     (case r of (stdout, stderr, err) \<Rightarrow> (case err of
       Some e \<Rightarrow> ret ([], Noop, Some (errorf_w
         (''querying volumes for label '' @ str_Quote label @ '': '') e ('' (stderr: '' @ stderr @ '')'')))
     | None \<Rightarrow>
       (let letter = str_TrimSpace stdout in
        if letter = [] then ret ([], Noop, None)
        else do {
          logger InfoLevel ''found config-drive volume'' [(''drive_letter'', FString letter)];
          ret (letter @ '':'' @ [CHR 0x5C], Noop, None)
        })))
   }"


section \<open>The interface Locator\<close>

text \<open>
  The promise of locator.go: a failed or empty search has nothing to unmount, and a real unmount
  is handed out only for a mount this call performed at the mount point it returns.
\<close>

locale iso_locator =
  fixes locate :: "string \<Rightarrow> string \<Rightarrow> ('x, location) op"
  assumes failed: "run_state (locate mp label) s = ((dir, u, Some e), t) \<Longrightarrow> dir = [] \<and> u = Noop"
    and mounted_here: "run_state (locate mp label) s = ((dir, Unmount p, err), t) \<Longrightarrow>
      dir = mp \<and> p = mp \<and> err = None \<and>
      (\<exists>cs c. h_procs t = h_procs s @ cs @ [c] \<and> c_cmd c = ''mount'' \<and> last (c_args c) = mp)"
    and only_adds: "keeps (adds (\<lambda>_. True) (\<lambda>_. True) (\<lambda>_. False)) (locate mp label)"
begin

lemma unmount_cases:
  "run_state (locate mp label) s = ((dir, u, err), t) \<Longrightarrow> u = Noop \<or> u = Unmount mp \<and> dir = mp \<and> err = None"
  using mounted_here by (cases u) blast+

lemma no_messages: "run_state (locate mp label) s = (l, t) \<Longrightarrow> h_pub t = h_pub s"
  by (rule adds_no_pub [OF adds.keepsD [OF only_adds]])

end

lemma run_mount_drive_cases:
  assumes "run_state (mount_drive rp ex opts dev mp) s = ((dir, u, err), t)"
  shows "(dir = [] \<and> u = Noop \<and> err \<noteq> None) \<or>
    (dir = mp \<and> u = Unmount mp \<and> err = None \<and>
      h_procs t = h_procs s @ [excall ex None ''mount'' (opts @ [dev, mp])])"
proof -
  have procs: "h_procs (fold (\<lambda>q. set_file q v) qs s') = h_procs s'" for v qs and s' :: "'a host"
    by (induction qs arbitrary: s') (simp_all add: set_file_def)
  show ?thesis using assms
    by (auto simp: mount_drive_def os_MkdirAll_def Let_def run_Execute procs
        split: if_splits prod.splits option.splits)
qed

lemma adds_mount_drive: "keeps (adds (\<lambda>_. True) (\<lambda>_. True) Q) (mount_drive rp ex opts dev mp)"
  unfolding mount_drive_def by (intro adds_rules adds_Execute TrueI)

lemma isConfigDriveMounted_pure: "snd (run_state (isConfigDriveMounted mp) s) = s"
  by (simp add: isConfigDriveMounted_def mountInfoHasConfigDrive_def os_ReadFile_def)

lemma adds_Locate_linux: "keeps (adds (\<lambda>_. True) (\<lambda>_. True) Q) (Locate_linux rp ex mp label)"
  unfolding Locate_linux_def isConfigDriveMounted_def mountInfoHasConfigDrive_def
  by (intro adds_rules adds_mount_drive TrueI)

lemma adds_Locate_freebsd: "keeps (adds (\<lambda>_. True) (\<lambda>_. True) Q) (Locate_freebsd rp ex mp label)"
  unfolding Locate_freebsd_def isConfigDriveMounted_freebsd_def
  by (intro adds_rules adds_mount_drive adds_Execute TrueI)

lemma adds_Locate_windows: "keeps (adds (\<lambda>_. True) (\<lambda>_. True) Q) (Locate_windows rp ex mp label)"
  unfolding Locate_windows_def Let_def
  by (intro adds_rules adds_Execute TrueI)

lemma Locate_linux_cases:
  assumes "run_state (Locate_linux rp ex mp label) s = ((dir, u, err), t)"
  shows "(u = Noop \<and> (err \<noteq> None \<longrightarrow> dir = [])) \<or>
    (dir = mp \<and> u = Unmount mp \<and> err = None \<and>
      h_procs t = h_procs s @ [excall ex None ''mount'' [''/dev/disk/by-label/'' @ label, mp]])"
  using assms isConfigDriveMounted_pure [of mp s]
  by (auto simp: Locate_linux_def os_Stat_def split: if_splits prod.splits
      dest!: run_mount_drive_cases)

lemma Locate_freebsd_cases:
  assumes "run_state (Locate_freebsd rp ex mp label) s = ((dir, u, err), t)"
  shows "(u = Noop \<and> (err \<noteq> None \<longrightarrow> dir = [])) \<or>
    (dir = mp \<and> u = Unmount mp \<and> err = None \<and>
      h_procs t = h_procs s @ [excall ex None ''mount'' [],
        excall ex None ''mount'' [''-t'', ''cd9660'', ''/dev/iso9660/'' @ label, mp]])"
  using assms
  by (auto simp: Locate_freebsd_def isConfigDriveMounted_freebsd_def os_Stat_def run_Execute
      split: if_splits prod.splits option.splits dest!: run_mount_drive_cases)

lemma Locate_windows_cases:
  assumes "run_state (Locate_windows rp ex mp label) s = ((dir, u, err), t)"
  shows "u = Noop \<and> (err \<noteq> None \<longrightarrow> dir = [])"
  using assms
  by (auto simp: Locate_windows_def Let_def run_Execute split: if_splits prod.splits option.splits)

interpretation linux_locator: iso_locator "Locate_linux rp ex"
  for rp :: "'x runner" and ex :: Executor
proof
  fix mp label dir u e p err and s t :: "'x host"
  show "run_state (Locate_linux rp ex mp label) s = ((dir, u, Some e), t) \<Longrightarrow> dir = [] \<and> u = Noop"
    by (drule Locate_linux_cases) auto
  show "run_state (Locate_linux rp ex mp label) s = ((dir, Unmount p, err), t) \<Longrightarrow>
      dir = mp \<and> p = mp \<and> err = None \<and>
      (\<exists>cs c. h_procs t = h_procs s @ cs @ [c] \<and> c_cmd c = ''mount'' \<and> last (c_args c) = mp)"
    by (drule Locate_linux_cases) (auto intro!: exI [of _ "[]"])
qed (rule adds_Locate_linux)

interpretation freebsd_locator: iso_locator "Locate_freebsd rp ex"
  for rp :: "'x runner" and ex :: Executor
proof
  fix mp label dir u e p err and s t :: "'x host"
  show "run_state (Locate_freebsd rp ex mp label) s = ((dir, u, Some e), t) \<Longrightarrow> dir = [] \<and> u = Noop"
    by (drule Locate_freebsd_cases) auto
  show "run_state (Locate_freebsd rp ex mp label) s = ((dir, Unmount p, err), t) \<Longrightarrow>
      dir = mp \<and> p = mp \<and> err = None \<and>
      (\<exists>cs c. h_procs t = h_procs s @ cs @ [c] \<and> c_cmd c = ''mount'' \<and> last (c_args c) = mp)"
    by (drule Locate_freebsd_cases) (auto intro!: exI [of _ "[excall ex None ''mount'' []]"])
qed (rule adds_Locate_freebsd)

interpretation windows_locator: iso_locator "Locate_windows rp ex"
  for rp :: "'x runner" and ex :: Executor
  by unfold_locales (use Locate_windows_cases in blast, use Locate_windows_cases in blast, rule adds_Locate_windows)


section \<open>Reading the mount table\<close>

lemma space_head_blank [simp]: "space_head (CHR '' '' # s) = Suc 0"
  by (simp add: space_head_def space_seqs_def str_HasPrefix_def char_of_def bit_0)

lemma str_Fields_blank: "str_Fields acc (CHR '' '' # s) = (if acc = [] then [] else [acc]) @ str_Fields [] s"
  by (simp add: str_Fields.simps)

lemma str_Fields_word: "list_all visible w \<Longrightarrow> str_Fields acc (w @ s) = str_Fields (acc @ w) s"
  by (induction w arbitrary: acc) (simp_all add: str_Fields.simps space_head_visible)

text \<open>Words of visible characters, as the fields of the mount table are (blanks are escaped there).\<close>

definition mi_word :: "string \<Rightarrow> bool" where
  "mi_word w \<longleftrightarrow> w \<noteq> [] \<and> list_all visible w"

lemma str_Fields_Join: "list_all mi_word ws \<Longrightarrow> str_Fields [] (str_Join ws '' '') = ws"
proof (induction ws rule: induct_list012)
  case (2 w)
  then show ?case using str_Fields_word [of w "[]" "[]"] by (simp add: mi_word_def)
next
  case (3 w v ws)
  then show ?case
    using str_Fields_word [of w "[]" "CHR '' '' # str_Join (v # ws) '' ''"]
    by (simp add: mi_word_def str_Fields_blank)
qed simp

lemma str_Index_skip: "visible c \<Longrightarrow> str_Index (c # s) '' - '' = map_option Suc (str_Index s '' - '')"
  by (auto simp: str_HasPrefix_def visible_def)

lemma str_Index_skip_word:
  "list_all visible w \<Longrightarrow> str_Index (w @ s) '' - '' = map_option ((+) (length w)) (str_Index s '' - '')"
  by (induction w; cases "str_Index s '' - ''") (simp_all add: str_Index_skip del: str_Index.simps(2))

lemma str_Index_dash:
  "ws \<noteq> [] \<Longrightarrow> list_all mi_word ws \<Longrightarrow> list_all (\<lambda>w. w \<noteq> ''-'') ws \<Longrightarrow>
    str_Index (str_Join ws '' '' @ '' - '' @ r) '' - '' = Some (length (str_Join ws '' ''))"
proof (induction ws rule: induct_list012)
  case (2 w)
  then show ?case
    using str_Index_skip_word [of w "'' - '' @ r"] by (simp add: mi_word_def str_HasPrefix_def)
next
  case (3 w v ws)
  obtain a v' where v: "v = a # v'" "visible a" using 3 by (cases v) (auto simp: mi_word_def)
  have "\<not> str_HasPrefix (CHR '' '' # str_Join (v # ws) '' '' @ '' - '' @ r) '' - ''"
  proof (cases "a = CHR ''-''")
    case True
    with v 3 obtain b u where "v' = b # u" "visible b" by (cases v') (auto simp: mi_word_def)
    with v show ?thesis by (cases ws) (auto simp: str_HasPrefix_def visible_def)
  qed (use v in \<open>cases ws; auto simp: str_HasPrefix_def\<close>)
  then have "str_Index (CHR '' '' # str_Join (v # ws) '' '' @ '' - '' @ r) '' - ''
      = map_option Suc (str_Index (str_Join (v # ws) '' '' @ '' - '' @ r) '' - '')"
    by simp
  with 3 str_Index_skip_word [of w "CHR '' '' # str_Join (v # ws) '' '' @ '' - '' @ r"]
  show ?case by (simp add: mi_word_def del: str_Index.simps(2))
qed simp

text \<open>
  A line of the mount table as the kernel prints it: the fields before the separator (at least
  five, the fifth is the mount point), and the file system type, source and options after it.
\<close>

definition mi_line :: "string list \<Rightarrow> string list \<Rightarrow> string" where
  "mi_line pre post = str_Join pre '' '' @ '' - '' @ str_Join post '' ''"

lemma mountinfo_line_spec:
  assumes "list_all mi_word pre" "list_all (\<lambda>w. w \<noteq> ''-'') pre" "5 \<le> length pre"
    "list_all mi_word post" "1 \<le> length post"
  shows "mountinfo_line_matches mp (mi_line pre post) \<longleftrightarrow>
    pre ! 4 = mp \<and> hd post \<in> {''iso9660'', ''udf''}"
proof -
  have "pre \<noteq> []" using assms(3) by auto
  then have "str_Cut (mi_line pre post) '' - '' = (str_Join pre '' '', str_Join post '' '', True)"
    using str_Index_dash [of pre "str_Join post '' ''"] assms by (simp add: str_Cut_def mi_line_def)
  moreover have "post ! 0 = hd post" using assms(5) by (cases post) auto
  ultimately show ?thesis
    using assms by (auto simp: mountinfo_line_matches_def str_Fields_Join)
qed


definition wf_mi_entry :: "string list \<times> string list \<Rightarrow> bool" where
  "wf_mi_entry e = (case e of (pre, post) \<Rightarrow>
     list_all mi_word pre \<and> list_all (\<lambda>w. w \<noteq> ''-'') pre \<and> 5 \<le> length pre \<and>
     list_all mi_word post \<and> 1 \<le> length post \<and> length (mi_line pre post) < 65536)"

definition mi_table :: "(string list \<times> string list) list \<Rightarrow> string" where
  "mi_table es = concat (map (\<lambda>(pre, post). mi_line pre post @ [byte 10]) es)"

lemma set_str_Join: "set (str_Join ws sep) \<subseteq> \<Union> (set ` set ws) \<union> set sep"
  by (induction ws rule: induct_list012) auto

lemma mi_word_chars: "list_all mi_word ws \<Longrightarrow> c \<in> set (str_Join ws '' '') \<Longrightarrow> visible c \<or> c = CHR '' ''"
  using set_str_Join [of ws "'' ''"] by (fastforce simp: list_all_iff mi_word_def)

lemma not_visible_nl: "\<not> visible (byte 10)" "\<not> visible (byte 13)" "byte 10 \<noteq> CHR '' ''"
  "byte 10 \<noteq> CHR ''-''"
  by (simp_all add: visible_def char_of_def bit_0)

lemma str_Join_last: "ws \<noteq> [] \<Longrightarrow> list_all mi_word ws \<Longrightarrow> str_Join ws '' '' \<noteq> [] \<and> visible (last (str_Join ws '' ''))"
  by (induction ws rule: induct_list012) (auto simp: mi_word_def list_all_iff)

lemma wf_mi_line:
  assumes "wf_mi_entry (pre, post)"
  shows "byte 10 \<notin> set (mi_line pre post)" "str_TrimSuffix (mi_line pre post) [byte 13] = mi_line pre post"
    "mi_line pre post \<noteq> []"
proof -
  have a: "list_all mi_word pre" "list_all mi_word post" "post \<noteq> []"
    using assms by (auto simp: wf_mi_entry_def)
  show "byte 10 \<notin> set (mi_line pre post)"
    using mi_word_chars [OF a(1)] mi_word_chars [OF a(2)] not_visible_nl by (fastforce simp: mi_line_def)
  have l: "str_Join post '' '' \<noteq> []" "visible (last (str_Join post '' ''))"
    using str_Join_last [OF a(3,2)] by auto
  then have "last (mi_line pre post) \<noteq> byte 13" using not_visible_nl by (auto simp: mi_line_def)
  then have "\<not> str_HasSuffix (mi_line pre post) [byte 13]"
    by (auto simp: str_HasSuffix_iff)
  then show "str_TrimSuffix (mi_line pre post) [byte 13] = mi_line pre post"
    by (simp add: str_TrimSuffix_def)
  show "mi_line pre post \<noteq> []" by (simp add: mi_line_def)
qed

lemma str_Split_lines:
  "list_all (\<lambda>l. c \<notin> set l) ls \<Longrightarrow> str_Split c (concat (map (\<lambda>l. l @ [c]) ls)) = ls @ [[]]"
  by (induction ls) (simp_all add: str_Split_append)

lemma scan_lines_table:
  assumes "list_all wf_mi_entry es"
  shows "scan_lines (mi_table es) = map (\<lambda>(pre, post). mi_line pre post) es"
proof -
  define ls where "ls = map (\<lambda>(pre, post). mi_line pre post) es"
  have l: "list_all (\<lambda>l. byte 10 \<notin> set l) ls"
    "\<And>l. l \<in> set ls \<Longrightarrow> str_TrimSuffix l [byte 13] = l" "\<And>l. l \<in> set ls \<Longrightarrow> length l < 65536"
    using assms wf_mi_line by (auto simp: ls_def list_all_iff wf_mi_entry_def)
  have "mi_table es = concat (map (\<lambda>l. l @ [byte 10]) ls)"
    by (simp add: ls_def mi_table_def comp_def case_prod_unfold)
  then have split: "str_Split (byte 10) (mi_table es) = ls @ [[]]"
    using str_Split_lines [OF l(1)] by simp
  have tw: "takeWhile (\<lambda>l. length l < 65536) ls = ls" using l(3) by (simp add: takeWhile_eq_all_conv)
  have "map (\<lambda>l. str_TrimSuffix l [byte 13]) ls = ls" using l(2) by (intro map_idI) simp
  then have "scan_lines (mi_table es) = ls" unfolding scan_lines_def Let_def split by (simp add: tw)
  then show ?thesis by (simp add: ls_def)
qed

text \<open>C21: The Linux check for an already mounted config-drive is exact on the kernel's mount table: it
  answers yes if and only if some entry has the mount path as its mount point and an iso9660 or udf
  file system (so a bind mount of the host file system onto that path is not mistaken for the drive).\<close>

theorem mount_table_check_exact:
  assumes "wfiles s ''/proc/self/mountinfo'' = Some (File (mi_table es) m)"
    "wfault s OpRead ''/proc/self/mountinfo'' = NoFault" "list_all wf_mi_entry es"
  shows "run_state (isConfigDriveMounted mp) s =
    (list_ex (\<lambda>(pre, post). pre ! 4 = mp \<and> hd post \<in> {''iso9660'', ''udf''}) es, s)"
proof -
  have "mountinfo_line_matches mp (mi_line pre post) = (pre ! 4 = mp \<and> hd post \<in> {''iso9660'', ''udf''})"
    if "(pre, post) \<in> set es" for pre post
    using that assms(3) by (intro mountinfo_line_spec) (auto simp: list_all_iff wf_mi_entry_def)
  then have "list_ex (mountinfo_line_matches mp) (map (\<lambda>(pre, post). mi_line pre post) es) =
      list_ex (\<lambda>(pre, post). pre ! 4 = mp \<and> hd post \<in> {''iso9660'', ''udf''}) es"
    unfolding list_ex_iff set_map bex_simps by (intro bex_cong refl) auto
  with assms scan_lines_table [OF assms(3)] show ?thesis
    by (simp add: isConfigDriveMounted_def mountInfoHasConfigDrive_def os_ReadFile_def)
qed


text \<open>The two fixtures of the unit tests: a bind mount of the root file system, and a real drive.\<close>

definition demo_mounts :: "(string list \<times> string list) list" where
  "demo_mounts =
     [([''359'', ''337'', ''202:2'', ''/media/pc'', ''/media/pc'', ''rw,relatime'', ''shared:300''],
       [''ext4'', ''/dev/xvda2'', ''rw'']),
      ([''412'', ''337'', ''11:0'', ''/'', ''/media/iso'', ''ro,relatime''], [''iso9660'', ''/dev/sr0'', ''ro''])]"

lemma demo_mounts_wf: "list_all wf_mi_entry demo_mounts"
  by (simp add: demo_mounts_def wf_mi_entry_def mi_word_def visible_def mi_line_def)

definition demo_mount_host :: "unit host" where
  "demo_mount_host = \<lparr>h_world = \<lparr>w_files = [''/proc/self/mountinfo'' \<mapsto> File (mi_table demo_mounts) 292],
     w_fault = (\<lambda>_ _. NoFault), w_tmpdir = ''/tmp'', w_tmp = 0, w_now = 0, w_ext = ()\<rparr>,
     h_log = [], h_procs = [], h_pub = [], h_rand = (\<lambda>_. 0), h_rpos = 0\<rparr>"

theorem mount_table_check_exact_witness:
  "fst (run_state (isConfigDriveMounted ''/media/iso'') demo_mount_host) \<and>
   \<not> fst (run_state (isConfigDriveMounted ''/media/pc'') demo_mount_host)"
proof -
  have f: "wfiles demo_mount_host ''/proc/self/mountinfo'' = Some (File (mi_table demo_mounts) 292)"
    "wfault demo_mount_host OpRead ''/proc/self/mountinfo'' = NoFault" by (simp_all add: demo_mount_host_def)
  show ?thesis
    using mount_table_check_exact [OF f demo_mounts_wf, of "''/media/iso''"]
      mount_table_check_exact [OF f demo_mounts_wf, of "''/media/pc''"]
    by (simp add: demo_mounts_def)
qed

end
