(* ===== verification/IsoLoad.thy ===== *)
theory IsoLoad
  imports IsoLocator
begin

text \<open>
  pkg/isoconfig/load.go: reading the metadata from the config-drive, caching a copy for later
  boots, and falling back to the cache. The deferred unmount runs after everything else, on every
  path. The lemmas about \<open>Load\<close> are proved once for any locator, inside \<open>iso_locator\<close>.
\<close>

definition cacheCopy :: "string \<Rightarrow> string \<Rightarrow> ('x, gerr option) op" where
  "cacheCopy srcDir cachePath = do {
     r \<leftarrow> os_ReadFile (filepath_Join srcDir metadata_file);
     (case r of
       Inl e \<Rightarrow> ret (Some (errorf_w ''reading source file: '' e []))
     | Inr data \<Rightarrow> do {
         m \<leftarrow> os_MkdirAll (filepath_Dir cachePath) 448;
         (case m of
           Inl e \<Rightarrow> ret (Some (errorf_w ''creating cache dir: '' e []))
         | Inr _ \<Rightarrow> do {
             w \<leftarrow> os_WriteFile (cachePath @ ''.tmp'') data 384;
             (case w of
               Inl e \<Rightarrow> ret (Some (errorf_w ''writing temp cache file: '' e []))
             | Inr _ \<Rightarrow> do {
                 n \<leftarrow> os_Rename (cachePath @ ''.tmp'') cachePath;
                 (case n of
                   Inl e \<Rightarrow> ret (Some (errorf_w ''renaming temp cache file: '' e []))
                 | Inr _ \<Rightarrow> ret None)
               })
           })
       })
   }"

definition load_cache :: "string \<Rightarrow> ('x, ISOMetadata res) op" where
  "load_cache cachePath = do {
     r \<leftarrow> Reader_Read (filepath_Dir cachePath);
     (case r of
       Inl e \<Rightarrow> ret (Inl (errorf_w ''reading cached pc-meta-data.json: '' e []))
     | Inr meta \<Rightarrow> do {
         (if Raw meta \<noteq> None then
            logger InfoLevel ''loaded pc-meta-data.json from local cache'' [(''cache_path'', FString cachePath)]
          else logger DebugLevel (''no config-drive and no cached pc-meta-data.json '' @
            [byte 226, byte 128, byte 148] @ '' using config-file identity'') []);
         ret (Inr meta)
       })
   }"

definition load_drive :: "string \<Rightarrow> gerr option \<Rightarrow> string \<Rightarrow> ('x, ISOMetadata res) op" where
  "load_drive dir err cachePath =
     (if err = None \<and> dir \<noteq> [] then do {
        r \<leftarrow> Reader_Read dir;
        (case r of
          Inl e \<Rightarrow> do {
            logger WarnLevel ''could not read pc-meta-data.json from config-drive, falling back to cache''
              [(''error'', FError e)];
            load_cache cachePath
          }
        | Inr meta \<Rightarrow>
          if Raw meta \<noteq> None then do {
            c \<leftarrow> cacheCopy dir cachePath;
            (case c of None \<Rightarrow> ret ()
             | Some e \<Rightarrow> logger WarnLevel ''could not cache pc-meta-data.json'' [(''error'', FError e)]);
            logger InfoLevel ''loaded pc-meta-data.json from config-drive'' [(''dir'', FString dir)];
            ret (Inr meta)
          } else load_cache cachePath)
      } else do {
        (case err of None \<Rightarrow> ret ()
         | Some e \<Rightarrow> logger WarnLevel ''could not locate/mount config-drive, falling back to cache''
             [(''error'', FError e)]);
        load_cache cachePath
      })"

definition Load ::
    "'x runner \<Rightarrow> Executor \<Rightarrow> (string \<Rightarrow> string \<Rightarrow> ('x, location) op) \<Rightarrow>
     string \<Rightarrow> string \<Rightarrow> string \<Rightarrow> ('x, ISOMetadata res) op" where
  "Load rp ex loc mountPath cachePath label = do {
     l \<leftarrow> loc mountPath label;
     (case l of (dir, unmount, err) \<Rightarrow> do {
       r \<leftarrow> load_drive dir err cachePath;
       run_unmount rp ex unmount;
       ret r
     })
   }"

section \<open>The cache file\<close>

lemma os_MkdirAll_files:
  assumes "run_state (os_MkdirAll d m) s = (r, t)" "length d < length p"
  shows "wfiles t p = wfiles s p" "wfault t = wfault s"
proof -
  have "p \<notin> set (path_parents d)" using assms(2) path_parents_length by fastforce
  then show "wfiles t p = wfiles s p" "wfault t = wfault s"
    using assms(1) by (auto simp: os_MkdirAll_def Let_def fold_set_file_files split: if_splits)
qed

text \<open>
  All the outcomes of \<open>cacheCopy\<close>: the cache file is replaced in one step by the bytes read from
  the drive, or not touched.
\<close>

lemma cacheCopy_atomic:
  assumes run: "run_state (cacheCopy d c) s = (r, t)" and len: "length (filepath_Dir c) < length c"
  shows "case r of
      Some e \<Rightarrow> wfiles t c = wfiles s c
    | None \<Rightarrow> (\<exists>data m. wfiles s (filepath_Join d metadata_file) = Some (File data m) \<and>
        wfiles t c = Some (File data (case wfiles s (c @ ''.tmp'') of Some (File _ k) \<Rightarrow> k | _ \<Rightarrow> 384)) \<and>
        wfiles t (c @ ''.tmp'') = None)"
proof -
  obtain rd where rd: "run_state (os_ReadFile (filepath_Join d metadata_file)) s = (rd, s)"
    by (simp add: os_ReadFile_def)
  show ?thesis
  proof (cases rd)
    case (Inl e)
    with rd run show ?thesis by (auto simp: cacheCopy_def)
  next
    case (Inr data)
    then obtain k where src: "wfiles s (filepath_Join d metadata_file) = Some (File data k)"
      using rd by (auto simp: os_ReadFile_def split: if_splits option.splits fnode.splits)
    obtain mr s1 where mk: "run_state (os_MkdirAll (filepath_Dir c) 448) s = (mr, s1)" by fastforce
    have c1: "wfiles s1 c = wfiles s c" "wfiles s1 (c @ ''.tmp'') = wfiles s (c @ ''.tmp'')"
      using os_MkdirAll_files(1) [OF mk] len by simp_all
    obtain wr s2 where wr: "run_state (os_WriteFile (c @ ''.tmp'') data 384) s1 = (wr, s2)" by fastforce
    have c2: "wfiles s2 c = wfiles s1 c"
      using wr by (auto simp: os_WriteFile_def Let_def split: if_splits fault.splits)
    have c2': "wfiles s2 (c @ ''.tmp'') = Some (File data
        (case wfiles s (c @ ''.tmp'') of Some (File _ k) \<Rightarrow> k | _ \<Rightarrow> 384))" if "wr = Inr ()"
      using wr that c1(2) by (auto simp: os_WriteFile_def Let_def split: if_splits fault.splits)
    obtain nr s3 where nr: "run_state (os_Rename (c @ ''.tmp'') c) s2 = (nr, s3)" by fastforce
    have c3: "nr = Inl e \<Longrightarrow> wfiles s3 c = wfiles s2 c" for e
      using nr by (auto simp: os_Rename_def split: if_splits option.splits fnode.splits)
    have c3': "wfiles s3 c = wfiles s2 (c @ ''.tmp'') \<and> wfiles s3 (c @ ''.tmp'') = None" if "nr = Inr ()"
      using nr that by (auto simp: os_Rename_def split: if_splits option.splits fnode.splits)
    show ?thesis
      using run rd Inr mk wr nr src c1 c2 c2' c3 c3'
      by (auto simp: cacheCopy_def split: sum.splits)
  qed
qed


section \<open>Loading\<close>

lemma adds_load_drive: "keeps (adds (\<lambda>_. True) (\<lambda>_. False) (\<lambda>_. False)) (load_drive dir err c)"
  unfolding load_drive_def load_cache_def cacheCopy_def
  by (intro adds_rules adds_Reader_Read TrueI)

lemma load_drive_procs: "h_procs (snd (run_state (load_drive dir err c) s)) = h_procs s"
  using adds_no_procs [OF adds.keeps_run [OF adds_load_drive]] .

lemma run_unmount_procs:
  "h_procs (snd (run_state (run_unmount rp ex u) s)) =
    h_procs s @ (case u of Noop \<Rightarrow> [] | Unmount p \<Rightarrow> [excall ex None ''umount'' [p]])"
  by (auto simp: run_unmount_def run_Execute split: unmount.splits prod.splits option.splits)

lemma run_Load:
  assumes "run_state (loc mp label) s = ((dir, u, err), s1)"
    "run_state (load_drive dir err c) s1 = (r, s2)"
  shows "run_state (Load rp ex loc mp c label) s = (r, snd (run_state (run_unmount rp ex u) s2))"
  using assms by (simp add: Load_def split: prod.splits)

lemma load_cache_result:
  "fst (run_state (load_cache c) s) = (case fst (run_state (Reader_Read (filepath_Dir c)) s) of
     Inl e \<Rightarrow> Inl (errorf_w ''reading cached pc-meta-data.json: '' e []) | Inr m \<Rightarrow> Inr m)"
  by (auto simp: load_cache_def split: prod.splits sum.splits)

lemma run_load_drive_ok:
  assumes "dir \<noteq> []" "run_state (Reader_Read dir) s = (Inr (Some vm), s)"
    "run_state (cacheCopy dir c) s = (None, s2)"
  shows "run_state (load_drive dir None c) s =
    (Inr (Some vm), s2\<lparr>h_log := h_log s2 @
      [LogEnt InfoLevel ''loaded pc-meta-data.json from config-drive'' [(''dir'', FString dir)]]\<rparr>)"
  using assms by (simp add: load_drive_def Raw_def)

lemma run_load_drive_absent: "run_state (load_drive [] None c) s = run_state (load_cache c) s"
  by (simp add: load_drive_def)

text \<open>A runner that never writes to the given path.\<close>

definition leaves_alone :: "'x runner \<Rightarrow> string \<Rightarrow> bool" where
  "leaves_alone rp p \<longleftrightarrow> (\<forall>c w. w_files (snd (rp c w)) p = w_files w p)"

lemma run_unmount_files:
  "leaves_alone rp p \<Longrightarrow> wfiles (snd (run_state (run_unmount rp ex u) s)) p = wfiles s p"
  unfolding leaves_alone_def run_unmount_def
  by (auto simp: run_Execute split: unmount.splits prod.splits option.splits) (metis snd_conv)+

context iso_locator
begin

text \<open>Whatever happens in between, a mount made by the locator is undone as the last process.\<close>

lemma Load_unmounts:
  assumes "run_state (locate mp label) s = ((dir, Unmount p, err), s1)"
  shows "\<exists>cs m. h_procs (snd (run_state (Load rp ex locate mp c label) s)) =
    h_procs s @ cs @ [m, excall ex None ''umount'' [mp]] \<and> c_cmd m = ''mount'' \<and> last (c_args m) = mp"
proof -
  obtain cs m where m: "h_procs s1 = h_procs s @ cs @ [m]" "c_cmd m = ''mount''" "last (c_args m) = mp" "p = mp"
    using mounted_here [OF assms] by blast
  obtain r s2 where r: "run_state (load_drive dir err c) s1 = (r, s2)" by fastforce
  have "h_procs s2 = h_procs s1" using load_drive_procs [of dir err c s1] r by simp
  then have "h_procs (snd (run_state (Load rp ex locate mp c label) s)) =
      h_procs s @ cs @ [m, excall ex None ''umount'' [mp]]"
    using run_Load [where loc = locate and mp = mp and label = label, OF assms r] m run_unmount_procs [of rp ex "Unmount p" s2] by simp
  with m show ?thesis by blast
qed

lemma Load_nothing_to_unmount:
  assumes "run_state (locate mp label) s = ((dir, Noop, err), s1)"
  shows "h_procs (snd (run_state (Load rp ex locate mp c label) s)) = h_procs s1"
proof -
  obtain r s2 where r: "run_state (load_drive dir err c) s1 = (r, s2)" by fastforce
  then have "h_procs s2 = h_procs s1" using load_drive_procs [of dir err c s1] by simp
  with run_Load [where loc = locate and mp = mp and label = label, OF assms r] run_unmount_procs [of rp ex Noop s2] show ?thesis by simp
qed

lemma Load_publishes_nothing: "h_pub (snd (run_state (Load rp ex locate mp c label) s)) = h_pub s"
proof -
  have "keeps (adds (\<lambda>_. True) (\<lambda>_. True) (\<lambda>_. False)) (Load rp ex locate mp c label)"
    unfolding Load_def run_unmount_def load_drive_def load_cache_def cacheCopy_def
    by (intro adds_rules only_adds adds_Reader_Read adds_Execute TrueI)
      (auto intro!: adds_rules adds_Execute split: unmount.split)
  then show ?thesis using adds_no_pub adds.keeps_run by blast
qed

end

lemma Load_fills_cache:
  assumes "run_state (loc mp label) s = ((dir, u, None), s1)" "dir \<noteq> []"
    "wfault s1 OpRead (filepath_Join dir metadata_file) = NoFault"
    "wfiles s1 (filepath_Join dir metadata_file) = Some (File data m)" "parse_metadata data = Inr vm"
    "run_state (cacheCopy dir c) s1 = (None, s2)" "length (filepath_Dir c) < length c" "leaves_alone rp c"
  shows "fst (run_state (Load rp ex loc mp c label) s) = Inr (Some vm)"
    "\<exists>k. wfiles (snd (run_state (Load rp ex loc mp c label) s)) c = Some (File data k)"
proof -
  have rd: "run_state (Reader_Read dir) s1 = (Inr (Some vm), s1)"
    using assms(3-5) by (rule run_Reader_Read_file)
  note d = run_load_drive_ok [OF assms(2) rd assms(6)]
  note run = run_Load [where loc = loc and mp = mp and label = label, OF assms(1) d, of rp ex]
  show "fst (run_state (Load rp ex loc mp c label) s) = Inr (Some vm)" using run by simp
  have "\<exists>k. wfiles s2 c = Some (File data k)"
    using cacheCopy_atomic [OF assms(6,7)] assms(4) by auto
  with run_unmount_files [OF assms(8)] run
  show "\<exists>k. wfiles (snd (run_state (Load rp ex loc mp c label) s)) c = Some (File data k)" by simp
qed

lemma Load_from_cache:
  assumes "run_state (loc mp label) s = (([], Noop, None), s)"
    "filepath_Join (filepath_Dir c) metadata_file = c"
    "wfault s OpRead c = NoFault" "wfiles s c = Some (File data k)" "parse_metadata data = Inr vm"
  shows "fst (run_state (Load rp ex loc mp c label) s) = Inr (Some vm)"
proof -
  have "run_state (Reader_Read (filepath_Dir c)) s = (Inr (Some vm), s)"
    by (rule run_Reader_Read_file) (use assms in simp_all)
  then have "fst (run_state (load_cache c) s) = Inr (Some vm)" using load_cache_result [of c s] by simp
  then obtain s2 where "run_state (load_drive [] None c) s = (Inr (Some vm), s2)"
    by (cases "run_state (load_drive [] None c) s") (simp add: run_load_drive_absent)
  from run_Load [where loc = loc and mp = mp and label = label, OF assms(1) this] show ?thesis by simp
qed

section \<open>Properties\<close>

text \<open>C19: Caching the metadata is atomic: whatever file operation fails, the old cache file is
  untouched; when it succeeds the cache holds exactly the bytes read from the drive, the temporary
  file is gone, and a file that was not there before was created with mode 0600.\<close>

theorem cache_copy_atomic:
  assumes "run_state (cacheCopy d c) s = (r, t)" "length (filepath_Dir c) < length c"
  shows "case r of
      Some e \<Rightarrow> wfiles t c = wfiles s c
    | None \<Rightarrow> (\<exists>data m. wfiles s (filepath_Join d metadata_file) = Some (File data m) \<and>
        wfiles t c = Some (File data (case wfiles s (c @ ''.tmp'') of Some (File _ k) \<Rightarrow> k | _ \<Rightarrow> 384)) \<and>
        wfiles t (c @ ''.tmp'') = None)"
  using assms by (rule cacheCopy_atomic)

text \<open>A small machine for the witnesses: a drive that appears at /m when mount is run.\<close>

definition demo_files :: "string \<Rightarrow> fnode option" where
  "demo_files = [''/'' \<mapsto> Dir, ''/m'' \<mapsto> Dir, ''/c'' \<mapsto> Dir, ''/dev/disk/by-label/cidata'' \<mapsto> File [] 420,
     ''/d/pc-meta-data.json'' \<mapsto> File [CHR 0x7B, CHR 0x7D] 420]"

definition demo_host :: "unit host" where
  "demo_host = \<lparr>h_world = \<lparr>w_files = demo_files, w_fault = (\<lambda>_ _. NoFault), w_tmpdir = ''/tmp'', w_tmp = 0,
     w_now = 0, w_ext = ()\<rparr>, h_log = [], h_procs = [], h_pub = [], h_rand = (\<lambda>_. 0), h_rpos = 0\<rparr>"

definition demo_runner :: "unit runner" where
  "demo_runner c w = (\<lparr>o_stdout = [], o_stderr = [], o_err = None, o_deadline = False, o_elapsed = 0\<rparr>,
     if c_cmd c = ''mount'' then w\<lparr>w_files := (w_files w)(''/m/pc-meta-data.json'' \<mapsto> File [CHR 0x7B, CHR 0x7D] 420)\<rparr>
     else if c_cmd c = ''umount'' then w\<lparr>w_files := (w_files w)(''/m/pc-meta-data.json'' := None)\<rparr> else w)"

lemmas demo_defs = demo_host_def demo_files_def demo_runner_def metadata_file_def
  filepath_Join_def filepath_Dir_def filepath_Clean_def str_HasPrefix_def

lemma demo_cacheCopy:
  "\<exists>t. run_state (cacheCopy ''/d'' ''/c/pc-meta-data.json'') demo_host = (None, t)"
  by (simp add: cacheCopy_def os_ReadFile_def os_MkdirAll_def os_WriteFile_def os_Rename_def Let_def
      path_parents_def path_upto_def demo_defs upt_rec)


lemma demo_cache_path:
  "length (filepath_Dir ''/c/pc-meta-data.json'') < length ''/c/pc-meta-data.json''"
  "filepath_Join (filepath_Dir ''/c/pc-meta-data.json'') metadata_file = ''/c/pc-meta-data.json''"
  by (simp_all add: demo_defs)

theorem cache_copy_atomic_witness:
  "\<exists>t data m. run_state (cacheCopy ''/d'' ''/c/pc-meta-data.json'') demo_host = (None, t) \<and>
    wfiles demo_host ''/d/pc-meta-data.json'' = Some (File data m) \<and>
    wfiles t ''/c/pc-meta-data.json'' = Some (File data 384)"
proof -
  obtain t where t: "run_state (cacheCopy ''/d'' ''/c/pc-meta-data.json'') demo_host = (None, t)"
    using demo_cacheCopy by blast
  from cache_copy_atomic [OF t demo_cache_path(1)] t show ?thesis
    by (simp add: demo_defs)
qed

text \<open>C20: On Linux, when loading had to mount the config-drive itself, the drive is unmounted again
  as the last thing that is run, whether reading, caching or falling back to the cache succeeded
  or not; exactly one mount and one umount of the configured mount point are run.\<close>

theorem load_unmounts_what_it_mounted:
  assumes "run_state (Locate_linux rp ex mp label) s = ((dir, Unmount p, err), s1)"
  shows "h_procs (snd (run_state (Load rp ex (Locate_linux rp ex) mp c label) s)) =
    h_procs s @ [excall ex None ''mount'' [''/dev/disk/by-label/'' @ label, mp],
      excall ex None ''umount'' [mp]]"
proof -
  obtain r s2 where r: "run_state (load_drive dir err c) s1 = (r, s2)" by fastforce
  have "h_procs s2 = h_procs s1" using load_drive_procs [of dir err c s1] r by simp
  with run_Load [where loc = "Locate_linux rp ex" and mp = mp and label = label, OF assms r]
    run_unmount_procs [of rp ex "Unmount p" s2] Locate_linux_cases [OF assms]
  show ?thesis by simp
qed

lemma demo_locate:
  "\<exists>t. run_state (Locate_linux demo_runner Executor_New ''/m'' ''cidata'') demo_host
     = ((''/m'', Unmount ''/m'', None), t)"
  by (simp add: Locate_linux_def os_Stat_def isConfigDriveMounted_def mountInfoHasConfigDrive_def
      os_ReadFile_def mount_drive_def os_MkdirAll_def path_parents_def path_upto_def run_Execute Let_def
      demo_defs upt_rec exec_error_def)

theorem load_unmounts_what_it_mounted_witness:
  "h_procs (snd (run_state (Load demo_runner Executor_New (Locate_linux demo_runner Executor_New)
      ''/m'' ''/c/pc-meta-data.json'' ''cidata'') demo_host)) =
    [excall Executor_New None ''mount'' [''/dev/disk/by-label/cidata'', ''/m''],
     excall Executor_New None ''umount'' [''/m'']]"
proof -
  obtain t where "run_state (Locate_linux demo_runner Executor_New ''/m'' ''cidata'') demo_host
     = ((''/m'', Unmount ''/m'', None), t)" using demo_locate by blast
  from load_unmounts_what_it_mounted [OF this] show ?thesis by (simp add: demo_host_def)
qed

text \<open>Metadata survives the config-drive: after one boot that read valid metadata from the drive
  and cached it, every later boot without a drive returns the same metadata from the cache, as long
  as the cache file is still there. The cache path must be named pc-meta-data.json (as the built-in
  default is), and the mount and umount programs must not write to it.\<close>

theorem metadata_survives_boots:
  assumes "run_state (Locate_linux rp ex mp label) s = ((dir, u, None), s1)" "dir \<noteq> []"
    "wfault s1 OpRead (filepath_Join dir metadata_file) = NoFault"
    "wfiles s1 (filepath_Join dir metadata_file) = Some (File data m)" "parse_metadata data = Inr vm"
    "run_state (cacheCopy dir c) s1 = (None, s2)" "leaves_alone rp c"
    "length (filepath_Dir c) < length c" "filepath_Join (filepath_Dir c) metadata_file = c"
    "wfiles later c = wfiles (snd (run_state (Load rp ex (Locate_linux rp ex) mp c label) s)) c"
    "wfault later OpRead c = NoFault" "wfiles later (''/dev/disk/by-label/'' @ label) = None"
  shows "fst (run_state (Load rp ex (Locate_linux rp ex) mp c label) s) = Inr (Some vm) \<and>
    fst (run_state (Load rp ex (Locate_linux rp ex) mp c label) later) = Inr (Some vm)"
proof
  note fill = Load_fills_cache [where loc = "Locate_linux rp ex" and mp = mp and label = label,
      OF assms(1-6) assms(8) assms(7)]
  show "fst (run_state (Load rp ex (Locate_linux rp ex) mp c label) s) = Inr (Some vm)"
    by (rule fill(1))
  obtain k where k: "wfiles later c = Some (File data k)" using fill(2) assms(10) by auto
  have "run_state (Locate_linux rp ex mp label) later = (([], Noop, None), later)"
    using assms(12) by (simp add: Locate_linux_def os_Stat_def)
  then show "fst (run_state (Load rp ex (Locate_linux rp ex) mp c label) later) = Inr (Some vm)"
    using Load_from_cache [where loc = "Locate_linux rp ex" and mp = mp and label = label,
      OF _ assms(9,11) k assms(5)] by blast
qed

lemma demo_parse: "parse_metadata [CHR 0x7B, CHR 0x7D] = Inr zero_VirtualMachineMetadata"
  using json_Unmarshal_enc [of "[]" VirtualMachineMetadata_fields zero_VirtualMachineMetadata]
  by (simp add: parse_metadata_def)

lemma demo_leaves_alone: "leaves_alone demo_runner ''/c/pc-meta-data.json''"
  by (simp add: leaves_alone_def demo_runner_def)


lemma demo_boot:
  "\<exists>t s2. run_state (Locate_linux demo_runner Executor_New ''/m'' ''cidata'') demo_host
       = ((''/m'', Unmount ''/m'', None), t) \<and>
     wfault t OpRead (filepath_Join ''/m'' metadata_file) = NoFault \<and>
     wfiles t (filepath_Join ''/m'' metadata_file) = Some (File [CHR 0x7B, CHR 0x7D] 420) \<and>
     run_state (cacheCopy ''/m'' ''/c/pc-meta-data.json'') t = (None, s2)"
  by (simp add: Locate_linux_def os_Stat_def isConfigDriveMounted_def mountInfoHasConfigDrive_def
      os_ReadFile_def mount_drive_def os_MkdirAll_def path_parents_def path_upto_def run_Execute Let_def
      demo_defs upt_rec exec_error_def cacheCopy_def os_WriteFile_def os_Rename_def)

theorem metadata_survives_boots_witness:
  "let first = run_state (Load demo_runner Executor_New (Locate_linux demo_runner Executor_New)
         ''/m'' ''/c/pc-meta-data.json'' ''cidata'') demo_host;
       later = demo_host\<lparr>h_world :=
         (h_world demo_host)\<lparr>w_files := (wfiles (snd first))(''/dev/disk/by-label/cidata'' := None)\<rparr>\<rparr>
   in fst first = Inr (Some zero_VirtualMachineMetadata) \<and>
     fst (run_state (Load demo_runner Executor_New (Locate_linux demo_runner Executor_New)
       ''/m'' ''/c/pc-meta-data.json'' ''cidata'') later) = Inr (Some zero_VirtualMachineMetadata)"
proof -
  obtain t s2 where t: "run_state (Locate_linux demo_runner Executor_New ''/m'' ''cidata'') demo_host
       = ((''/m'', Unmount ''/m'', None), t)"
     "wfault t OpRead (filepath_Join ''/m'' metadata_file) = NoFault"
     "wfiles t (filepath_Join ''/m'' metadata_file) = Some (File [CHR 0x7B, CHR 0x7D] 420)"
     "run_state (cacheCopy ''/m'' ''/c/pc-meta-data.json'') t = (None, s2)"
    using demo_boot by blast
  show ?thesis
    unfolding Let_def
    by (rule metadata_survives_boots [OF t(1) _ t(2,3) demo_parse t(4) demo_leaves_alone
        demo_cache_path])
      (simp_all add: demo_host_def set_file_def)
qed

text \<open>A cache path with another file name than pc-meta-data.json is written but never read: with no
  drive attached, loading looks only for pc-meta-data.json beside it and reports no metadata, even
  though the configured cache file is present and valid.\<close>

theorem load_ignores_renamed_cache:
  assumes "wfiles s (''/dev/disk/by-label/'' @ label) = None"
    "filepath_Join (filepath_Dir c) metadata_file \<noteq> c"
    "wfiles s (filepath_Join (filepath_Dir c) metadata_file) = None"
    "wfault s OpRead (filepath_Join (filepath_Dir c) metadata_file) = NoFault"
    "wfiles s c = Some (File data k)" "parse_metadata data = Inr vm"
  shows "fst (run_state (Load rp ex (Locate_linux rp ex) mp c label) s) = Inr None"
proof -
  have loc: "run_state (Locate_linux rp ex mp label) s = (([], Noop, None), s)"
    using assms(1) by (simp add: Locate_linux_def os_Stat_def)
  have "fst (run_state (load_drive [] None c) s) = Inr None"
    using run_Reader_Read_absent [OF assms(4,3)] load_cache_result [of c s]
    by (simp add: run_load_drive_absent)
  then obtain s2 where "run_state (load_drive [] None c) s = (Inr None, s2)"
    by (cases "run_state (load_drive [] None c) s") simp
  from run_Load [where loc = "Locate_linux rp ex" and mp = mp and label = label, OF loc this]
  show ?thesis by simp
qed

theorem load_ignores_renamed_cache_witness:
  "fst (run_state (Load demo_runner Executor_New (Locate_linux demo_runner Executor_New)
      ''/m'' ''/c/meta.json'' ''none'')
      (set_file ''/c/meta.json'' (Some (File [CHR 0x7B, CHR 0x7D] 384)) demo_host)) = Inr None"
  by (rule load_ignores_renamed_cache [OF _ _ _ _ _ demo_parse]) (simp_all add: demo_defs set_file_def)

end
