(* ===== verification/NatsClient.thy ===== *)
theory NatsClient
  imports IsoLoad
begin

text \<open>
  internal/nats/client.go: the client's subjects, connecting, the callback of the subscription and
  publishing. The nats.go library is a parameter: a record of the calls the agent makes on it.
  What is handed to the library is kept in \<open>h_pub\<close>.
\<close>

record connect_opts =
  co_Name :: string
  co_User :: string
  co_Password :: string
  co_MaxReconnects :: int
  co_ReconnectWait :: int
  co_Timeout :: "int option"

record 'x nats =
  nt_connect :: "connect_opts \<Rightarrow> string \<Rightarrow> 'x world \<Rightarrow> string res \<times> 'x world"
  nt_subscribe :: "string \<Rightarrow> 'x world \<Rightarrow> gerr option \<times> 'x world"
  nt_publish :: "string \<Rightarrow> string \<Rightarrow> 'x world \<Rightarrow> gerr option \<times> 'x world"
  nt_drain :: "'x world \<Rightarrow> gerr option \<times> 'x world"

text \<open>The client keeps the agent's UUID; the connection is part of the world.\<close>

record Client =
  cl_agentUUID :: string

definition on_world :: "('x world \<Rightarrow> 'a \<times> 'x world) \<Rightarrow> ('x, 'a) op" where
  "on_world f = State (\<lambda>s. case f (h_world s) of (a, w) \<Rightarrow> (a, s\<lparr>h_world := w\<rparr>))"

definition Connect ::
    "'x nats \<Rightarrow> NATSConfig \<Rightarrow> string \<Rightarrow> string \<Rightarrow> int option \<Rightarrow> ('x, Client res) op" where
  "Connect nt cfg agentUUID agentAPIKey timeout = do {
     logger InfoLevel ''connecting to NATS''
       [(''connection_type'', FString (nc_ConnectionType cfg)), (''url'', FString (ActiveURL cfg))];
     r \<leftarrow> on_world (nt_connect nt \<lparr>co_Name = ''plusclouds-vm-agent:'' @ agentUUID, co_User = agentUUID,
       co_Password = agentAPIKey, co_MaxReconnects = nc_MaxReconnects cfg,
       co_ReconnectWait = nc_ReconnectWait cfg, co_Timeout = timeout\<rparr> (ActiveURL cfg));
     (case r of
       Inl e \<Rightarrow> ret (Inl (errorf_w (''connecting to NATS ('' @ nc_ConnectionType cfg @ '') at '' @
         ActiveURL cfg @ '': '') e []))
     | Inr connectedUrl \<Rightarrow> do {
         logger InfoLevel ''connected to NATS''
           [(''connection_type'', FString (nc_ConnectionType cfg)), (''url'', FString connectedUrl),
            (''agent_uuid'', FString agentUUID)];
         ret (Inr \<lparr>cl_agentUUID = agentUUID\<rparr>)
       })
   }"

definition CmdSubject :: "Client \<Rightarrow> string" where
  "CmdSubject c = ''agent.vm.'' @ cl_agentUUID c @ ''.cmd''"

definition EvtSubject :: "Client \<Rightarrow> string" where
  "EvtSubject c = ''agent.vm.'' @ cl_agentUUID c @ ''.evt''"

definition TelemetrySubject :: "Client \<Rightarrow> string" where
  "TelemetrySubject c = ''vm.'' @ cl_agentUUID c @ ''.telemetry''"

text \<open>
  The callback \<open>Subscribe\<close> registers: one inbound message with its subject and bytes. It returns what
  the handler returned, and None when the message is dropped.
\<close>

definition on_message :: "(Envelope \<Rightarrow> ('x, 'a) op) \<Rightarrow> string \<Rightarrow> string \<Rightarrow> ('x, 'a option) op" where
  "on_message handler subject data = do {
     logger DebugLevel ''raw message received''
       [(''subject'', FString subject), (''bytes'', FInt (int (length data))), (''data'', FBytes data)];
     (case Envelope_decode data of
       Inl e \<Rightarrow> do {
         logger WarnLevel ''dropping unparseable command message''
           [(''subject'', FString subject), (''error'', FError e)];
         ret None
       }
     | Inr env \<Rightarrow>
       if env_V env \<noteq> 1 then do {
         logger WarnLevel ''dropping command with unknown protocol version''
           [(''subject'', FString subject), (''v'', FInt (env_V env))];
         ret None
       }
       else do { a \<leftarrow> handler env; ret (Some a) })
   }"

definition Subscribe :: "'x nats \<Rightarrow> Client \<Rightarrow> ('x, gerr option) op" where
  "Subscribe nt c = do {
     r \<leftarrow> on_world (nt_subscribe nt (CmdSubject c));
     (case r of
       Some e \<Rightarrow> ret (Some (errorf_w (''subscribing to '' @ CmdSubject c @ '': '') e []))
     | None \<Rightarrow> do {
         logger InfoLevel ''subscribed to cmd subject'' [(''subject'', FString (CmdSubject c))];
         ret None
       })
   }"

definition PublishToSubject :: "'x nats \<Rightarrow> string \<Rightarrow> Envelope \<Rightarrow> ('x, gerr option) op" where
  "PublishToSubject nt subject env =
     (case Envelope_encode env of
       Inl e \<Rightarrow> ret (Some (errorf_w ''marshalling envelope: '' e []))
     | Inr data \<Rightarrow> do {
         modify (h_pub_update (\<lambda>ms. ms @ [(subject, data)]));
         r \<leftarrow> on_world (nt_publish nt subject data);
         ret (case r of Some e \<Rightarrow> Some (errorf_w (''publishing to '' @ subject @ '': '') e []) | None \<Rightarrow> None)
       })"

definition Publish :: "'x nats \<Rightarrow> Client \<Rightarrow> Envelope \<Rightarrow> ('x, gerr option) op" where
  "Publish nt c env = PublishToSubject nt (EvtSubject c) env"

definition Drain :: "'x nats \<Rightarrow> ('x, unit) op" where
  "Drain nt = do {
     r \<leftarrow> on_world (nt_drain nt);
     (case r of Some e \<Rightarrow> logger WarnLevel ''NATS drain error'' [(''error'', FError e)] | None \<Rightarrow> ret ())
   }"

section \<open>What the operations add to the trace\<close>

lemma run_on_world: "run_state (on_world f) s = (case f (h_world s) of (a, w) \<Rightarrow> (a, s\<lparr>h_world := w\<rparr>))"
  by (simp add: on_world_def)

lemma adds_on_world [intro!]: "keeps (adds L P Q) (on_world f)"
  by (simp add: keeps_def run_on_world adds_refl split: prod.splits)

lemma adds_pub: "Q m \<Longrightarrow> keeps (adds L P Q) (modify (h_pub_update (\<lambda>ms. ms @ [m])))"
  by (simp add: keeps_def adds_def)

lemma adds_PublishToSubject:
  "(\<And>b. Q (subject, b)) \<Longrightarrow> keeps (adds L P Q) (PublishToSubject nt subject env)"
  unfolding PublishToSubject_def by (intro adds_rules adds_on_world adds_pub)

lemma adds_Publish: "(\<And>b. Q (EvtSubject c, b)) \<Longrightarrow> keeps (adds L P Q) (Publish nt c env)"
  unfolding Publish_def by (rule adds_PublishToSubject)

lemma run_PublishToSubject_ok:
  assumes "Envelope_encode env = Inr b" "nt_publish nt subject b (h_world s) = (None, w)"
  shows "run_state (PublishToSubject nt subject env) s = (None, s\<lparr>h_pub := h_pub s @ [(subject, b)], h_world := w\<rparr>)"
  using assms by (simp add: PublishToSubject_def run_on_world)

lemma PublishToSubject_pub:
  assumes "Envelope_encode env = Inr b"
  shows "h_pub (snd (run_state (PublishToSubject nt subject env) s)) = h_pub s @ [(subject, b)]"
  using assms by (simp add: PublishToSubject_def run_on_world split: prod.splits)

section \<open>Properties\<close>

text \<open>C31: A published envelope reaches the receiver unchanged: the bytes handed to NATS for a
  well-formed version 1 envelope make the receiving side's callback call its handler with exactly
  that envelope (after the debug entry), whatever the subject.\<close>

theorem publish_then_receive:
  assumes "wf_Envelope env" "env_V env = 1"
  shows "\<exists>b. h_pub (snd (run_state (PublishToSubject nt subject env) s)) = h_pub s @ [(subject, b)] \<and>
    (\<forall>handler r. snd (run_state (on_message handler subject b) r) =
      snd (run_state (handler env) (r\<lparr>h_log := h_log r @ [LogEnt DebugLevel ''raw message received''
        [(''subject'', FString subject), (''bytes'', FInt (int (length b))), (''data'', FBytes b)]]\<rparr>)))"
proof -
  obtain b where b: "Envelope_encode env = Inr b" "Envelope_decode b = Inr env"
    using envelope_codec.decode_encode [OF assms(1)] by blast
  with assms(2) show ?thesis
    by (intro exI [of _ b] conjI allI PublishToSubject_pub) (simp_all add: on_message_def split: prod.split)
qed

text \<open>The library when the server accepts everything.\<close>

definition demo_nats :: "unit nats" where
  "demo_nats = \<lparr>nt_connect = (\<lambda>_ url w. (Inr url, w)), nt_subscribe = (\<lambda>_ w. (None, w)),
     nt_publish = (\<lambda>_ _ w. (None, w)), nt_drain = (\<lambda>w. (None, w))\<rparr>"

theorem publish_then_receive_witness:
  "\<exists>b. h_pub (snd (run_state (PublishToSubject demo_nats ''s'' demo_envelope) blank_host)) = [(''s'', b)] \<and>
    length (h_log (snd (run_state (on_message (\<lambda>env. logger InfoLevel (env_ID env) []) ''s'' b) blank_host))) = 2"
proof -
  have "env_V demo_envelope = 1" by (simp add: demo_envelope_def)
  from publish_then_receive [OF demo_envelope_wf this, of demo_nats "''s''" blank_host]
  obtain b where b: "h_pub (snd (run_state (PublishToSubject demo_nats ''s'' demo_envelope) blank_host))
      = h_pub blank_host @ [(''s'', b)]"
    "\<And>(handler :: Envelope \<Rightarrow> (unit, unit) op) r. snd (run_state (on_message handler ''s'' b) r) =
      snd (run_state (handler demo_envelope) (r\<lparr>h_log := h_log r @ [LogEnt DebugLevel ''raw message received''
        [(''subject'', FString ''s''), (''bytes'', FInt (int (length b))), (''data'', FBytes b)]]\<rparr>))"
    by blast
  have "h_log blank_host = []" "h_pub blank_host = []" by (simp_all add: blank_host_def)
  with b(1) b(2) [of "\<lambda>env. logger InfoLevel (env_ID env) []" blank_host] show ?thesis by auto
qed

text \<open>C32: A message that is not a version 1 envelope is dropped: the handler is not called, and apart
  from two log entries (the raw message and a warning) nothing changes.\<close>

theorem foreign_messages_dropped:
  assumes "\<forall>env. Envelope_decode data = Inr env \<longrightarrow> env_V env \<noteq> 1"
  shows "\<exists>w. snd (run_state (on_message handler subject data) s) = s\<lparr>h_log := h_log s @ [LogEnt DebugLevel
      ''raw message received'' [(''subject'', FString subject), (''bytes'', FInt (int (length data))),
      (''data'', FBytes data)], w]\<rparr> \<and> le_level w = WarnLevel"
  using assms
  by (cases "Envelope_decode data") (simp add: on_message_def, rule exI, rule conjI, rule refl, simp)+

theorem foreign_messages_dropped_witness:
  "h_pub (snd (run_state (on_message (\<lambda>_. modify (h_pub_update (\<lambda>_. [(''x'', ''y'')]))) ''s'' ''[1]'') blank_host)) = []"
proof -
  have "json_view ''[1]'' = Some (VArr [''1''])" by code_simp
  then have "\<forall>env. Envelope_decode ''[1]'' = Inr env \<longrightarrow> env_V env \<noteq> 1"
    by (simp add: Envelope_decode_def json_Unmarshal_def)
  from foreign_messages_dropped [OF this, of "\<lambda>_. modify (h_pub_update (\<lambda>_. [(''x'', ''y'')]))" "''s''" blank_host]
  show ?thesis by (auto simp: blank_host_def)
qed

end
