(* ===== verification/SystemMetrics.thy ===== *)
theory SystemMetrics
  imports NatsClient Complex_Main
begin

text \<open>
  internal/modules/system: host information and resource metrics. The gopsutil library is a
  parameter. Counters are 64-bit unsigned and subtract with wrap-around; \<open>float64\<close> values are
  exact rationals or not finite (rounding is not modelled), and their decimal rendering in JSON is
  a parameter \<open>ff\<close>.
\<close>

section \<open>Types\<close>

datatype flt = Fin rat | NonFin

definition flt_json :: "(rat \<Rightarrow> string) \<Rightarrow> flt \<Rightarrow> json" where
  "flt_json ff x = (case x of Fin q \<Rightarrow> JNum (ff q) | NonFin \<Rightarrow> JUnsup)"

type_synonym u64 = "64 word"

abbreviation JU64 :: "u64 \<Rightarrow> json" where
  "JU64 w \<equiv> JNum (nat_dec (unat w))"

record SystemInfo =
  si_Hostname :: string
  si_OS :: string
  si_KernelVersion :: string
  si_Architecture :: string
  si_Uptime :: i64
  si_BootTime :: i64
  si_VMID :: string
  si_TenantID :: string

record CoreStat =
  co_ID :: i64
  co_UsagePct :: flt

record CPUStats =
  cs_UsagePct :: flt
  cs_CoreCount :: i64
  cs_LoadAvg :: "flt \<times> flt \<times> flt"
  cs_Cores :: "CoreStat list"

record MemoryStats =
  ms_TotalBytes :: u64
  ms_UsedBytes :: u64
  ms_UsagePct :: flt

record DiskIO =
  io_ReadBytesPerS :: flt
  io_WriteBytesPerS :: flt
  io_ReadIOPS :: flt
  io_WriteIOPS :: flt
  io_UtilPct :: flt

record DiskEntry =
  de_Device :: string
  de_Mountpoint :: string
  de_TotalBytes :: u64
  de_UsedBytes :: u64
  de_UsagePct :: flt
  de_IO :: "DiskIO option"

record NetworkEntry =
  ne_Interface :: string
  ne_BytesSent :: u64
  ne_BytesRecv :: u64
  ne_IsUp :: bool

record SystemMetrics =
  sm_CPU :: CPUStats
  sm_Memory :: MemoryStats
  sm_Disks :: "DiskEntry list option"
  sm_Network :: "NetworkEntry list option"

section \<open>Encoding\<close>

definition SystemInfo_json :: "SystemInfo \<Rightarrow> json" where
  "SystemInfo_json i = JObj ([(''hostname'', JStr (si_Hostname i)), (''os'', JStr (si_OS i)),
     (''kernel_version'', JStr (si_KernelVersion i)), (''architecture'', JStr (si_Architecture i)),
     (''uptime'', JInt (si_Uptime i)), (''boot_time'', JInt (si_BootTime i))] @
     omit_str ''vm_id'' (si_VMID i) @ omit_str ''tenant_id'' (si_TenantID i))"

definition CPUStats_json :: "(rat \<Rightarrow> string) \<Rightarrow> CPUStats \<Rightarrow> json" where
  "CPUStats_json ff c = JObj ([(''usage_pct'', flt_json ff (cs_UsagePct c)),
     (''core_count'', JInt (cs_CoreCount c)),
     (''load_avg'', (case cs_LoadAvg c of (a, b, d) \<Rightarrow> JArr [flt_json ff a, flt_json ff b, flt_json ff d]))] @
     omit_list ''cores'' (map (\<lambda>k. JObj [(''id'', JInt (co_ID k)), (''usage_pct'', flt_json ff (co_UsagePct k))])
       (cs_Cores c)))"

definition MemoryStats_json :: "(rat \<Rightarrow> string) \<Rightarrow> MemoryStats \<Rightarrow> json" where
  "MemoryStats_json ff m = JObj [(''total_bytes'', JU64 (ms_TotalBytes m)),
     (''used_bytes'', JU64 (ms_UsedBytes m)), (''usage_pct'', flt_json ff (ms_UsagePct m))]"

definition DiskIO_json :: "(rat \<Rightarrow> string) \<Rightarrow> DiskIO \<Rightarrow> json" where
  "DiskIO_json ff d = JObj [(''read_bytes_per_s'', flt_json ff (io_ReadBytesPerS d)),
     (''write_bytes_per_s'', flt_json ff (io_WriteBytesPerS d)), (''read_iops'', flt_json ff (io_ReadIOPS d)),
     (''write_iops'', flt_json ff (io_WriteIOPS d)), (''util_pct'', flt_json ff (io_UtilPct d))]"

definition DiskEntry_json :: "(rat \<Rightarrow> string) \<Rightarrow> DiskEntry \<Rightarrow> json" where
  "DiskEntry_json ff e = JObj ([(''device'', JStr (de_Device e)), (''mountpoint'', JStr (de_Mountpoint e)),
     (''total_bytes'', JU64 (de_TotalBytes e)), (''used_bytes'', JU64 (de_UsedBytes e)),
     (''usage_pct'', flt_json ff (de_UsagePct e))] @
     (case de_IO e of None \<Rightarrow> [] | Some d \<Rightarrow> [(''io'', DiskIO_json ff d)]))"

definition NetworkEntry_json :: "NetworkEntry \<Rightarrow> json" where
  "NetworkEntry_json n = JObj [(''interface'', JStr (ne_Interface n)), (''bytes_sent'', JU64 (ne_BytesSent n)),
     (''bytes_recv'', JU64 (ne_BytesRecv n)), (''is_up'', JBool (ne_IsUp n))]"

text \<open>A slice: nil encodes as null.\<close>

definition slice_json :: "('a \<Rightarrow> json) \<Rightarrow> 'a list option \<Rightarrow> json" where
  "slice_json f xs = (case xs of None \<Rightarrow> JNull | Some ys \<Rightarrow> JArr (map f ys))"

definition SystemMetrics_json :: "(rat \<Rightarrow> string) \<Rightarrow> SystemMetrics \<Rightarrow> json" where
  "SystemMetrics_json ff m = JObj [(''cpu'', CPUStats_json ff (sm_CPU m)),
     (''memory'', MemoryStats_json ff (sm_Memory m)), (''disks'', slice_json (DiskEntry_json ff) (sm_Disks m)),
     (''network'', slice_json NetworkEntry_json (sm_Network m))]"

section \<open>The gopsutil library\<close>

record HostInfo =
  hi_Hostname :: string
  hi_Platform :: string
  hi_PlatformVersion :: string
  hi_KernelVersion :: string
  hi_KernelArch :: string
  hi_Uptime :: u64
  hi_BootTime :: u64

record PartitionStat =
  ps_Device :: string
  ps_Mountpoint :: string
  ps_Fstype :: string

record UsageStat =
  us_Total :: u64
  us_Used :: u64
  us_UsedPercent :: flt

record IOStat =
  is_ReadCount :: u64
  is_WriteCount :: u64
  is_ReadBytes :: u64
  is_WriteBytes :: u64
  is_IoTime :: u64

record NetStat =
  ns_Name :: string
  ns_BytesSent :: u64
  ns_BytesRecv :: u64

record 'x gops =
  g_HostInfo :: "'x world \<Rightarrow> HostInfo res \<times> 'x world"
  g_Percent :: "bool \<Rightarrow> 'x world \<Rightarrow> flt list res \<times> 'x world"
  g_Counts :: "'x world \<Rightarrow> int res \<times> 'x world"
  g_Load :: "'x world \<Rightarrow> (flt \<times> flt \<times> flt) res \<times> 'x world"
  g_Memory :: "'x world \<Rightarrow> (u64 \<times> u64 \<times> flt) res \<times> 'x world"
  g_Partitions :: "'x world \<Rightarrow> PartitionStat list res \<times> 'x world"
  g_IOCounters :: "'x world \<Rightarrow> (string \<times> IOStat) list option \<times> 'x world"
  g_Usage :: "string \<Rightarrow> 'x world \<Rightarrow> UsageStat res \<times> 'x world"
  g_NetIO :: "'x world \<Rightarrow> NetStat list res \<times> 'x world"
  g_Interfaces :: "'x world \<Rightarrow> (string \<times> string list) list res \<times> 'x world"

section \<open>The module\<close>

text \<open>The module's state: the metadata and the previous I/O snapshot (\<open>None\<close> is the zero time).\<close>

record Module =
  md_iso :: "ISOMetadata option"
  md_prevIO :: "(string \<times> IOStat) list option"
  md_prevIOAt :: "int option"

definition Module_New :: "ISOMetadata option \<Rightarrow> Module" where
  "Module_New meta = \<lparr>md_iso = meta, md_prevIO = None, md_prevIOAt = None\<rparr>"

text \<open>\<open>int64\<close> of a \<open>uint64\<close>.\<close>

definition i64_of_u64 :: "u64 \<Rightarrow> int" where
  "i64_of_u64 w = sint w"

definition GetInfo :: "'x gops \<Rightarrow> Module \<Rightarrow> ('x, SystemInfo res) op" where
  "GetInfo g m = do {
     r \<leftarrow> on_world (g_HostInfo g);
     ret (case r of
       Inl e \<Rightarrow> Inl (errorf_w ''getting host info: '' e [])
     | Inr info \<Rightarrow> Inr \<lparr>si_Hostname = hi_Hostname info,
         si_OS = hi_Platform info @ '' '' @ hi_PlatformVersion info,
         si_KernelVersion = hi_KernelVersion info, si_Architecture = hi_KernelArch info,
         si_Uptime = i64_of_u64 (hi_Uptime info), si_BootTime = i64_of_u64 (hi_BootTime info),
         si_VMID = (case md_iso m of None \<Rightarrow> [] | Some meta \<Rightarrow> VMID meta),
         si_TenantID = (case md_iso m of None \<Rightarrow> [] | Some meta \<Rightarrow> TenantID meta)\<rparr>)
   }"

definition GetCPU :: "'x gops \<Rightarrow> ('x, CPUStats res) op" where
  "GetCPU g = do {
     overall \<leftarrow> on_world (g_Percent g False);
     (case overall of
       Inl e \<Rightarrow> ret (Inl (errorf_w ''cpu.Percent (overall): '' e []))
     | Inr os \<Rightarrow> do {
         n \<leftarrow> on_world (g_Counts g);
         (case n of
           Inl e \<Rightarrow> ret (Inl (errorf_w ''cpu.Counts: '' e []))
         | Inr coreCount \<Rightarrow> do {
             perCore \<leftarrow> on_world (g_Percent g True);
             avg \<leftarrow> on_world (g_Load g);
             ret (Inr \<lparr>cs_UsagePct = (case os of [] \<Rightarrow> Fin 0 | x # _ \<Rightarrow> x), cs_CoreCount = coreCount,
               cs_LoadAvg = (case avg of Inl _ \<Rightarrow> (Fin 0, Fin 0, Fin 0) | Inr a \<Rightarrow> a),
               cs_Cores = (case perCore of Inl _ \<Rightarrow> []
                 | Inr ps \<Rightarrow> map (\<lambda>(i, p). \<lparr>co_ID = int i, co_UsagePct = p\<rparr>) (enumerate 0 ps))\<rparr>)
           })
       })
   }"

definition GetMemory :: "'x gops \<Rightarrow> ('x, MemoryStats res) op" where
  "GetMemory g = do {
     r \<leftarrow> on_world (g_Memory g);
     ret (case r of Inl e \<Rightarrow> Inl (errorf_w ''mem.VirtualMemory: '' e [])
       | Inr (tot, used, pct) \<Rightarrow> Inr \<lparr>ms_TotalBytes = tot, ms_UsedBytes = used, ms_UsagePct = pct\<rparr>)
   }"

definition pseudoFS :: "string list" where
  "pseudoFS = [''tmpfs'', ''devtmpfs'', ''proc'', ''sysfs'', ''devpts'', ''cgroup'', ''cgroup2'',
     ''pstore'', ''hugetlbfs'', ''mqueue'', ''debugfs'', ''tracefs'', ''securityfs'', ''fusectl'',
     ''configfs'', ''bpf'', ''overlay'', ''squashfs'', ''efivarfs'']"

definition rate :: "u64 \<Rightarrow> u64 \<Rightarrow> rat \<Rightarrow> flt" where
  "rate cur old elapsed = Fin (of_nat (unat (cur - old)) / elapsed)"

definition util_pct :: "u64 \<Rightarrow> u64 \<Rightarrow> rat \<Rightarrow> rat" where
  "util_pct cur old elapsed =
     (let elapsedMs = elapsed * 1000 in
      if elapsedMs > 0 then
        (let u = of_nat (unat (cur - old)) / elapsedMs * 100 in if u > 100 then 100 else u)
      else 0)"

definition disk_io :: "IOStat \<Rightarrow> IOStat \<Rightarrow> rat \<Rightarrow> DiskIO" where
  "disk_io cur old elapsed = \<lparr>
     io_ReadBytesPerS = rate (is_ReadBytes cur) (is_ReadBytes old) elapsed,
     io_WriteBytesPerS = rate (is_WriteBytes cur) (is_WriteBytes old) elapsed,
     io_ReadIOPS = rate (is_ReadCount cur) (is_ReadCount old) elapsed,
     io_WriteIOPS = rate (is_WriteCount cur) (is_WriteCount old) elapsed,
     io_UtilPct = Fin (util_pct (is_IoTime cur) (is_IoTime old) elapsed)\<rparr>"

definition entry_io ::
    "rat \<Rightarrow> (string \<times> IOStat) list option \<Rightarrow> (string \<times> IOStat) list option \<Rightarrow> string \<Rightarrow> DiskIO option" where
  "entry_io elapsed prev cur device =
     (case (prev, cur) of
        (Some prevIO, Some curIO) \<Rightarrow>
          if elapsed > 0 then
            (let devName = str_TrimPrefix device ''/dev/'' in
             case (map_of curIO devName, map_of prevIO devName) of
               (Some c, Some o') \<Rightarrow> Some (disk_io c o' elapsed)
             | _ \<Rightarrow> None)
          else None
      | _ \<Rightarrow> None)"

fun disk_entries ::
    "'x gops \<Rightarrow> rat \<Rightarrow> (string \<times> IOStat) list option \<Rightarrow> (string \<times> IOStat) list option \<Rightarrow>
     PartitionStat list \<Rightarrow> ('x, DiskEntry list) op" where
  "disk_entries g elapsed prev cur [] = ret []"
| "disk_entries g elapsed prev cur (p # ps) =
     (if ps_Fstype p \<in> set pseudoFS then disk_entries g elapsed prev cur ps
      else do {
        u \<leftarrow> on_world (g_Usage g (ps_Mountpoint p));
        (case u of
          Inl _ \<Rightarrow> disk_entries g elapsed prev cur ps
        | Inr usage \<Rightarrow> do {
            rest \<leftarrow> disk_entries g elapsed prev cur ps;
            ret (\<lparr>de_Device = ps_Device p, de_Mountpoint = ps_Mountpoint p, de_TotalBytes = us_Total usage,
              de_UsedBytes = us_Used usage, de_UsagePct = us_UsedPercent usage,
              de_IO = entry_io elapsed prev cur (ps_Device p)\<rparr> # rest)
          })
      })"

text \<open>\<open>now.Sub(prevAt).Seconds()\<close>, or 0 before the first snapshot.\<close>

definition elapsed_s :: "int option \<Rightarrow> int \<Rightarrow> rat" where
  "elapsed_s prevAt now = (case prevAt of None \<Rightarrow> 0 | Some t \<Rightarrow> of_int (now - t) / of_int second)"

text \<open>A \<open>var entries []T\<close> that only grows by append is nil when it ends empty.\<close>

definition grown :: "'a list \<Rightarrow> 'a list option" where
  "grown xs = (if xs = [] then None else Some xs)"

definition GetDisk :: "'x gops \<Rightarrow> Module \<Rightarrow> ('x, DiskEntry list option res \<times> Module) op" where
  "GetDisk g m = do {
     r \<leftarrow> on_world (g_Partitions g);
     (case r of
       Inl e \<Rightarrow> ret (Inl (errorf_w ''disk.Partitions: '' e []), m)
     | Inr partitions \<Rightarrow> do {
         now \<leftarrow> time_Now;
         ioCounters \<leftarrow> on_world (g_IOCounters g);
         entries \<leftarrow> disk_entries g (elapsed_s (md_prevIOAt m) now) (md_prevIO m) ioCounters partitions;
         ret (Inr (grown entries), m\<lparr>md_prevIO := ioCounters, md_prevIOAt := Some now\<rparr>)
       })
   }"

definition isVirtualInterface :: "string \<Rightarrow> bool" where
  "isVirtualInterface name \<longleftrightarrow> name = ''lo'' \<or> str_HasPrefix name ''docker'' \<or> str_HasPrefix name ''veth'' \<or>
     str_HasPrefix name ''br-'' \<or> str_HasPrefix name ''virbr'' \<or> str_HasPrefix name ''vlan''"

definition network_entries :: "NetStat list \<Rightarrow> (string \<times> string list) list \<Rightarrow> NetworkEntry list" where
  "network_entries counters ifaces =
     (let ifaceMap = map_of (rev ifaces) in
      map (\<lambda>c. \<lparr>ne_Interface = ns_Name c, ne_BytesSent = ns_BytesSent c, ne_BytesRecv = ns_BytesRecv c,
          ne_IsUp = (case ifaceMap (ns_Name c) of None \<Rightarrow> False | Some flags \<Rightarrow> list_ex (\<lambda>f. f = ''up'') flags)\<rparr>)
        (filter (\<lambda>c. \<not> isVirtualInterface (ns_Name c)) counters))"

definition GetNetwork :: "'x gops \<Rightarrow> ('x, NetworkEntry list option res) op" where
  "GetNetwork g = do {
     r \<leftarrow> on_world (g_NetIO g);
     (case r of
       Inl e \<Rightarrow> ret (Inl (errorf_w ''net.IOCounters: '' e []))
     | Inr counters \<Rightarrow> do {
         i \<leftarrow> on_world (g_Interfaces g);
         ret (case i of
           Inl e \<Rightarrow> Inl (errorf_w ''net.Interfaces: '' e [])
         | Inr ifaces \<Rightarrow> Inr (grown (network_entries counters ifaces)))
       })
   }"

definition GetMetrics :: "'x gops \<Rightarrow> Module \<Rightarrow> ('x, SystemMetrics res \<times> Module) op" where
  "GetMetrics g m = do {
     c \<leftarrow> GetCPU g;
     (case c of
       Inl e \<Rightarrow> ret (Inl (errorf_w ''collecting CPU metrics: '' e []), m)
     | Inr cpu \<Rightarrow> do {
         y \<leftarrow> GetMemory g;
         (case y of
           Inl e \<Rightarrow> ret (Inl (errorf_w ''collecting memory metrics: '' e []), m)
         | Inr mem \<Rightarrow> do {
             d \<leftarrow> GetDisk g m;
             (case d of (dr, m') \<Rightarrow> (case dr of
               Inl e \<Rightarrow> ret (Inl (errorf_w ''collecting disk metrics: '' e []), m')
             | Inr disks \<Rightarrow> do {
                 n \<leftarrow> GetNetwork g;
                 ret (case n of
                   Inl e \<Rightarrow> Inl (errorf_w ''collecting network metrics: '' e [])
                 | Inr network \<Rightarrow> Inr \<lparr>sm_CPU = cpu, sm_Memory = mem, sm_Disks = disks, sm_Network = network\<rparr>, m')
               }))
           })
       })
   }"


section \<open>Properties\<close>

lemma adds_disk_entries [intro!]: "keeps (adds L P Q) (disk_entries g el prev cur ps)"
  by (induction ps) (auto intro!: adds_rules split: sum.split)

lemma adds_GetInfo [intro!]: "keeps (adds L P Q) (GetInfo g m)"
  unfolding GetInfo_def by (intro adds_rules adds_on_world)

lemma adds_GetCPU [intro!]: "keeps (adds L P Q) (GetCPU g)"
  unfolding GetCPU_def by (intro adds_rules adds_on_world)

lemma adds_GetMemory [intro!]: "keeps (adds L P Q) (GetMemory g)"
  unfolding GetMemory_def by (intro adds_rules adds_on_world)

lemma adds_GetDisk [intro!]: "keeps (adds L P Q) (GetDisk g m)"
  unfolding GetDisk_def by (intro adds_rules adds_on_world adds_disk_entries)

lemma adds_GetNetwork [intro!]: "keeps (adds L P Q) (GetNetwork g)"
  unfolding GetNetwork_def by (intro adds_rules adds_on_world)

lemma adds_GetMetrics [intro!]: "keeps (adds L P Q) (GetMetrics g m)"
  unfolding GetMetrics_def
  by (intro adds_rules adds_GetCPU adds_GetMemory adds_GetDisk adds_GetNetwork)

lemma disk_entries_from:
  "e \<in> set (fst (run_state (disk_entries g el prev cur ps) s)) \<Longrightarrow>
    \<exists>p \<in> set ps. ps_Fstype p \<notin> set pseudoFS \<and> de_Device e = ps_Device p \<and>
      de_Mountpoint e = ps_Mountpoint p \<and> de_IO e = entry_io el prev cur (ps_Device p)"
proof (induction ps arbitrary: s)
  case (Cons p ps)
  obtain u w where u: "g_Usage g (ps_Mountpoint p) (h_world s) = (u, w)" by fastforce
  show ?case
  proof (cases "ps_Fstype p \<in> set pseudoFS")
    case True
    with Cons.prems have "e \<in> set (fst (run_state (disk_entries g el prev cur ps) s))" by simp
    from Cons.IH [OF this] show ?thesis by auto
  next
    case real: False
    show ?thesis
    proof (cases u)
      case (Inl a)
      with Cons.prems u real have "e \<in> set (fst (run_state (disk_entries g el prev cur ps) (s\<lparr>h_world := w\<rparr>)))"
        by (simp add: run_on_world)
      from Cons.IH [OF this] show ?thesis by auto
    next
      case (Inr usage)
      obtain es t where es: "run_state (disk_entries g el prev cur ps) (s\<lparr>h_world := w\<rparr>) = (es, t)" by fastforce
      with Cons.prems u real Inr consider "e \<in> set es" | "de_Device e = ps_Device p"
          "de_Mountpoint e = ps_Mountpoint p" "de_IO e = entry_io el prev cur (ps_Device p)"
        by (auto simp: run_on_world)
      then show ?thesis using Cons.IH [of "s\<lparr>h_world := w\<rparr>"] es real by cases auto
    qed
  qed
qed simp

lemma util_pct_bounds: "0 \<le> util_pct cur old el" "util_pct cur old el \<le> 100"
proof -
  obtain n :: nat where n: "unat (cur - old) = n" by blast
  show "0 \<le> util_pct cur old el" "util_pct cur old el \<le> 100"
    unfolding util_pct_def n Let_def by simp_all
qed

lemma run_GetDisk:
  assumes "run_state (GetDisk g m) s = ((Inr es, m'), t)"
  shows "\<exists>now cur ps s1 s2. es = grown (fst (run_state (disk_entries g (elapsed_s (md_prevIOAt m) now) (md_prevIO m) cur ps) s2)) \<and>
    m' = m\<lparr>md_prevIO := cur, md_prevIOAt := Some now\<rparr> \<and> g_Partitions g (h_world s) = (Inr ps, s1) \<and> now = w_now s1 \<and>
    cur = fst (g_IOCounters g s1)"
  using assms
  by (auto simp: GetDisk_def run_on_world split: prod.splits sum.splits) (metis fst_conv)

text \<open>A disk report lists only partitions with a real file system (never one of the excluded
  pseudo file systems); the utilisation of a device is between 0 and 100 percent; there are no I/O
  figures on the first report; and the counters just read, with their time, become the baseline of
  the next report.\<close>

theorem GetDisk_report:
  assumes "run_state (GetDisk g m) s = ((Inr es, m'), t)"
  shows "(\<forall>e \<in> set (case es of None \<Rightarrow> [] | Some xs \<Rightarrow> xs).
      (\<exists>p ps w. g_Partitions g (h_world s) = (Inr ps, w) \<and> p \<in> set ps \<and> ps_Fstype p \<notin> set pseudoFS \<and>
        de_Device e = ps_Device p \<and> de_Mountpoint e = ps_Mountpoint p) \<and>
      (\<forall>io. de_IO e = Some io \<longrightarrow> (\<exists>u. io_UtilPct io = Fin u \<and> 0 \<le> u \<and> u \<le> 100)) \<and>
      (md_prevIOAt m = None \<longrightarrow> de_IO e = None)) \<and>
    md_prevIOAt m' \<noteq> None \<and> md_iso m' = md_iso m"
proof -
  obtain now cur ps s1 s2 where d:
    "es = grown (fst (run_state (disk_entries g (elapsed_s (md_prevIOAt m) now) (md_prevIO m) cur ps) s2))"
    "m' = m\<lparr>md_prevIO := cur, md_prevIOAt := Some now\<rparr>" "g_Partitions g (h_world s) = (Inr ps, s1)"
    using run_GetDisk [OF assms] by blast
  have io: "\<exists>u. io_UtilPct x = Fin u \<and> 0 \<le> u \<and> u \<le> 100"
    if "entry_io el prev c dev = Some x" for el prev c dev x
    using that util_pct_bounds
    by (auto simp: entry_io_def disk_io_def Let_def split: option.splits if_splits)
  have first: "entry_io (elapsed_s None now) prev c dev = None" for prev c dev
    by (simp add: entry_io_def elapsed_s_def split: option.splits)
  have mem: "e \<in> set (fst (run_state (disk_entries g (elapsed_s (md_prevIOAt m) now) (md_prevIO m) cur ps) s2))"
    if "e \<in> set (case es of None \<Rightarrow> [] | Some xs \<Rightarrow> xs)" for e
    using that d(1) by (auto simp: grown_def split: if_splits)
  show ?thesis
  proof (intro conjI ballI)
    fix e assume "e \<in> set (case es of None \<Rightarrow> [] | Some xs \<Rightarrow> xs)"
    then obtain p where p: "p \<in> set ps" "ps_Fstype p \<notin> set pseudoFS" "de_Device e = ps_Device p"
      "de_Mountpoint e = ps_Mountpoint p"
      "de_IO e = entry_io (elapsed_s (md_prevIOAt m) now) (md_prevIO m) cur (ps_Device p)"
      using disk_entries_from [OF mem] by blast
    then show "\<exists>p ps w. g_Partitions g (h_world s) = (Inr ps, w) \<and> p \<in> set ps \<and> ps_Fstype p \<notin> set pseudoFS \<and>
        de_Device e = ps_Device p \<and> de_Mountpoint e = ps_Mountpoint p" using d(3) by blast
    show "\<forall>io. de_IO e = Some io \<longrightarrow> (\<exists>u. io_UtilPct io = Fin u \<and> 0 \<le> u \<and> u \<le> 100)"
      using p(5) io by simp
    show "md_prevIOAt m = None \<longrightarrow> de_IO e = None" using p(5) first by simp
  qed (use d(2) in simp_all)
qed


definition demo_gops :: "unit gops" where
  "demo_gops = \<lparr>g_HostInfo = (\<lambda>w. (Inl (errorf ''none''), w)), g_Percent = (\<lambda>b w. (Inr [Fin 1], w)),
     g_Counts = (\<lambda>w. (Inr 1, w)), g_Load = (\<lambda>w. (Inl (errorf ''none''), w)),
     g_Memory = (\<lambda>w. (Inr (1024, 512, Fin 50), w)),
     g_Partitions = (\<lambda>w. (Inr [\<lparr>ps_Device = ''/dev/sda1'', ps_Mountpoint = ''/'', ps_Fstype = ''ext4''\<rparr>,
       \<lparr>ps_Device = ''tmpfs'', ps_Mountpoint = ''/run'', ps_Fstype = ''tmpfs''\<rparr>], w)),
     g_IOCounters = (\<lambda>w. (Some [(''sda1'', \<lparr>is_ReadCount = 1, is_WriteCount = 1, is_ReadBytes = 1, is_WriteBytes = 1,
       is_IoTime = 1\<rparr>)], w)),
     g_Usage = (\<lambda>p w. (Inr \<lparr>us_Total = 1024, us_Used = 1, us_UsedPercent = Fin 0\<rparr>, w)),
     g_NetIO = (\<lambda>w. (Inr [], w)), g_Interfaces = (\<lambda>w. (Inr [], w))\<rparr>"

theorem GetDisk_report_witness:
  "\<exists>e m' t. run_state (GetDisk demo_gops (Module_New None)) blank_host = ((Inr (Some [e]), m'), t) \<and>
    de_Mountpoint e = ''/'' \<and> de_IO e = None \<and> md_prevIOAt m' \<noteq> None"
proof -
  obtain e m' t where run: "run_state (GetDisk demo_gops (Module_New None)) blank_host = ((Inr (Some [e]), m'), t)"
    and mp: "de_Mountpoint e = ''/''"
    by (simp add: GetDisk_def demo_gops_def run_on_world pseudoFS_def grown_def)
  have "md_prevIOAt (Module_New None) = None" by (simp add: Module_New_def)
  with GetDisk_report [OF run] have "de_IO e = None" "md_prevIOAt m' \<noteq> None" by simp_all
  with run mp show ?thesis by blast
qed

text \<open>A reported rate is the exact difference of the two counters over the elapsed time as long as
  the counter did not go backwards; when it did (a reset or a replaced device) the unsigned
  subtraction wraps, and the rate is that of a difference increased by two to the 64th.\<close>

theorem disk_rate_wraps:
  "rate cur old el =
    (if old \<le> cur then Fin ((of_nat (unat cur) - of_nat (unat old)) / el)
     else Fin ((2 ^ 64 + of_nat (unat cur) - of_nat (unat old)) / el))"
proof (cases "old \<le> cur")
  case True
  then have "unat (cur - old) = unat cur - unat old" "unat old \<le> unat cur"
    by (simp_all add: unat_sub word_le_nat_alt)
  then show ?thesis using True by (simp only: rate_def if_True of_nat_diff)
next
  case False
  have "unat cur + 2 ^ 64 - unat old < 2 ^ 64" "unat old < 2 ^ 64"
    using False unsigned_less [of old, where 'a = nat] by (simp_all add: word_le_nat_alt)
  then have "unat (cur - old) = 2 ^ 64 + unat cur - unat old"
    using False by (simp add: unat_sub_if' word_le_nat_alt)
  moreover have "unat old \<le> 2 ^ 64 + unat cur" using \<open>unat old < 2 ^ 64\<close> by simp
  ultimately have "(of_nat (unat (cur - old)) :: rat) = 2 ^ 64 + of_nat (unat cur) - of_nat (unat old)"
    by (simp only: of_nat_diff of_nat_add of_nat_power of_nat_numeral)
  then show ?thesis using False by (simp only: rate_def if_False)
qed

end
