(* ===== verification/Services.thy ===== *)
theory Services
  imports SystemMetrics
begin

text \<open>
  internal/modules/services: the service manager of each platform. The systemd D-Bus connection of
  the Linux build is a parameter; a job call returns the string the job channel delivers. The
  interface \<open>service_manager\<close> is what the dispatcher relies on.
\<close>

section \<open>Types\<close>

datatype ServiceState = StateActive | StateInactive | StateFailed | StateUnknown

fun state_str :: "ServiceState \<Rightarrow> string" where
  "state_str StateActive = ''active''"
| "state_str StateInactive = ''inactive''"
| "state_str StateFailed = ''failed''"
| "state_str StateUnknown = ''unknown''"

record ServiceInfo =
  sv_Name :: string
  sv_Description :: string
  sv_State :: ServiceState
  sv_SubState :: string
  sv_Enabled :: bool
  sv_PID :: "32 word"
  sv_Since :: i64

datatype ServiceAction = ActionStart | ActionStop | ActionRestart | ActionEnable | ActionDisable | ActionReload

fun action_str :: "ServiceAction \<Rightarrow> string" where
  "action_str ActionStart = ''start''"
| "action_str ActionStop = ''stop''"
| "action_str ActionRestart = ''restart''"
| "action_str ActionEnable = ''enable''"
| "action_str ActionDisable = ''disable''"
| "action_str ActionReload = ''reload''"

record ActionResult =
  ar_Service :: string
  ar_Action :: ServiceAction
  ar_Success :: bool
  ar_Message :: string

definition ServiceInfo_json :: "ServiceInfo \<Rightarrow> json" where
  "ServiceInfo_json i = JObj ([(''name'', JStr (sv_Name i)), (''description'', JStr (sv_Description i)),
     (''state'', JStr (state_str (sv_State i))), (''sub_state'', JStr (sv_SubState i)),
     (''enabled'', JBool (sv_Enabled i))] @
     (if sv_PID i = 0 then [] else [(''pid'', JNum (nat_dec (unat (sv_PID i))))]) @
     omit_int ''since'' (sv_Since i))"

definition ActionResult_json :: "ActionResult \<Rightarrow> json" where
  "ActionResult_json r = JObj [(''service'', JStr (ar_Service r)), (''action'', JStr (action_str (ar_Action r))),
     (''success'', JBool (ar_Success r)), (''message'', JStr (ar_Message r))]"

text \<open>The interface \<open>Manager\<close>: the methods the dispatcher calls.\<close>

record 'x ServiceManager =
  mg_List :: "('x, ServiceInfo list res) op"
  mg_Get :: "string \<Rightarrow> ('x, ServiceInfo res) op"
  mg_Start :: "string \<Rightarrow> ('x, ActionResult res) op"
  mg_Stop :: "string \<Rightarrow> ('x, ActionResult res) op"
  mg_Restart :: "string \<Rightarrow> ('x, ActionResult res) op"
  mg_Reload :: "string \<Rightarrow> ('x, ActionResult res) op"
  mg_Enable :: "string \<Rightarrow> ('x, ActionResult res) op"
  mg_Disable :: "string \<Rightarrow> ('x, ActionResult res) op"

section \<open>Linux\<close>

record UnitStatus =
  un_Name :: string
  un_Description :: string
  un_ActiveState :: string
  un_SubState :: string

text \<open>
  The D-Bus calls. A job call either fails or, once its job is over, yields the job result
  (done, failed, timeout, ...) that arrives on the channel.
\<close>

record 'x dbus =
  db_ListUnits :: "'x world \<Rightarrow> UnitStatus list res \<times> 'x world"
  db_ListUnitsByNames :: "string list \<Rightarrow> 'x world \<Rightarrow> UnitStatus list res \<times> 'x world"
  db_StartUnit :: "string \<Rightarrow> string \<Rightarrow> 'x world \<Rightarrow> string res \<times> 'x world"
  db_StopUnit :: "string \<Rightarrow> string \<Rightarrow> 'x world \<Rightarrow> string res \<times> 'x world"
  db_RestartUnit :: "string \<Rightarrow> string \<Rightarrow> 'x world \<Rightarrow> string res \<times> 'x world"
  db_ReloadUnit :: "string \<Rightarrow> string \<Rightarrow> 'x world \<Rightarrow> string res \<times> 'x world"
  db_EnableUnitFiles :: "string list \<Rightarrow> 'x world \<Rightarrow> gerr option \<times> 'x world"
  db_DisableUnitFiles :: "string list \<Rightarrow> 'x world \<Rightarrow> gerr option \<times> 'x world"
  db_Reload :: "'x world \<Rightarrow> gerr option \<times> 'x world"

definition ensureServiceSuffix :: "string \<Rightarrow> string" where
  "ensureServiceSuffix name = (if \<not> str_Contains name ''.'' then name @ ''.service'' else name)"

definition no_bus :: gerr where
  "no_bus = errorf ''systemd D-Bus is not available''"

definition failResult :: "string \<Rightarrow> ServiceAction \<Rightarrow> gerr \<Rightarrow> ActionResult" where
  "failResult name action err =
     \<lparr>ar_Service = name, ar_Action = action, ar_Success = False, ar_Message = err_Error err\<rparr>"

definition unitToServiceInfo :: "UnitStatus \<Rightarrow> ServiceInfo" where
  "unitToServiceInfo u = \<lparr>sv_Name = un_Name u, sv_Description = un_Description u,
     sv_State = (if un_ActiveState u = ''active'' then StateActive
       else if un_ActiveState u = ''inactive'' then StateInactive
       else if un_ActiveState u = ''failed'' then StateFailed else StateUnknown),
     sv_SubState = un_SubState u, sv_Enabled = False, sv_PID = 0, sv_Since = 0\<rparr>"

definition List_linux :: "'x dbus option \<Rightarrow> ('x, ServiceInfo list res) op" where
  "List_linux bus = (case bus of
     None \<Rightarrow> ret (Inl no_bus)
   | Some db \<Rightarrow> do {
       r \<leftarrow> on_world (db_ListUnits db);
       ret (case r of
         Inl e \<Rightarrow> Inl (errorf_w ''listing systemd units: '' e [])
       | Inr units \<Rightarrow> Inr (map unitToServiceInfo (filter (\<lambda>u. str_HasSuffix (un_Name u) ''.service'') units)))
     })"

definition Get_linux :: "'x dbus option \<Rightarrow> string \<Rightarrow> ('x, ServiceInfo res) op" where
  "Get_linux bus name0 = (case bus of
     None \<Rightarrow> ret (Inl no_bus)
   | Some db \<Rightarrow> (let name = ensureServiceSuffix name0 in do {
       r \<leftarrow> on_world (db_ListUnitsByNames db [name]);
       ret (case r of
         Inl e \<Rightarrow> Inl (errorf_w (''querying unit '' @ name @ '': '') e [])
       | Inr [] \<Rightarrow> Inl (errorf (''unit not found: '' @ name))
       | Inr (u # _) \<Rightarrow> Inr (unitToServiceInfo u))
     }))"

text \<open>
  Start, Stop, Restart and Reload have the same body up to the D-Bus call and the words in the
  messages.
\<close>

definition unit_job ::
    "'x dbus option \<Rightarrow> ('x dbus \<Rightarrow> string \<Rightarrow> string \<Rightarrow> 'x world \<Rightarrow> string res \<times> 'x world) \<Rightarrow>
     ServiceAction \<Rightarrow> string \<Rightarrow> string \<Rightarrow> string \<Rightarrow> ('x, ActionResult res) op" where
  "unit_job bus call action ing past name0 = (case bus of
     None \<Rightarrow> ret (Inr (failResult name0 action no_bus))
   | Some db \<Rightarrow> (let name = ensureServiceSuffix name0 in do {
       logger InfoLevel (ing @ '' service'') [(''unit'', FString name)];
       r \<leftarrow> on_world (call db name ''replace'');
       ret (case r of
         Inl e \<Rightarrow> Inr (failResult name action (errorf_w (action_str action @ '' failed: '') e []))
       | Inr result \<Rightarrow>
         if result \<noteq> ''done'' then Inr (failResult name action (errorf (''job result: '' @ result)))
         else Inr \<lparr>ar_Service = name, ar_Action = action, ar_Success = True,
           ar_Message = ''Service '' @ name @ '' '' @ past @ '' successfully.''\<rparr>)
     }))"

definition Start_linux :: "'x dbus option \<Rightarrow> string \<Rightarrow> ('x, ActionResult res) op" where
  "Start_linux bus = unit_job bus db_StartUnit ActionStart ''starting'' ''started''"

definition Stop_linux :: "'x dbus option \<Rightarrow> string \<Rightarrow> ('x, ActionResult res) op" where
  "Stop_linux bus = unit_job bus db_StopUnit ActionStop ''stopping'' ''stopped''"

definition Restart_linux :: "'x dbus option \<Rightarrow> string \<Rightarrow> ('x, ActionResult res) op" where
  "Restart_linux bus = unit_job bus db_RestartUnit ActionRestart ''restarting'' ''restarted''"

definition Reload_linux :: "'x dbus option \<Rightarrow> string \<Rightarrow> ('x, ActionResult res) op" where
  "Reload_linux bus = unit_job bus db_ReloadUnit ActionReload ''reloading'' ''reloaded''"

text \<open>Enable and Disable: change the unit files, then reload the daemon (a failed reload only warns).\<close>

definition unit_files ::
    "'x dbus option \<Rightarrow> ('x dbus \<Rightarrow> string list \<Rightarrow> 'x world \<Rightarrow> gerr option \<times> 'x world) \<Rightarrow>
     ServiceAction \<Rightarrow> string \<Rightarrow> string \<Rightarrow> string \<Rightarrow> ('x, ActionResult res) op" where
  "unit_files bus call action ing past name0 = (case bus of
     None \<Rightarrow> ret (Inr (failResult name0 action no_bus))
   | Some db \<Rightarrow> (let name = ensureServiceSuffix name0 in do {
       logger InfoLevel (ing @ '' service'') [(''unit'', FString name)];
       r \<leftarrow> on_world (call db [name]);
       (case r of
         Some e \<Rightarrow> ret (Inr (failResult name action (errorf_w (action_str action @ '' failed: '') e [])))
       | None \<Rightarrow> do {
           d \<leftarrow> on_world (db_Reload db);
           (case d of Some e \<Rightarrow> logger WarnLevel (''daemon-reload after '' @ action_str action @ '' failed'')
               [(''error'', FError e)]
            | None \<Rightarrow> ret ());
           ret (Inr \<lparr>ar_Service = name, ar_Action = action, ar_Success = True,
             ar_Message = ''Service '' @ name @ '' '' @ past @ '' successfully.''\<rparr>)
         })
     }))"

definition Enable_linux :: "'x dbus option \<Rightarrow> string \<Rightarrow> ('x, ActionResult res) op" where
  "Enable_linux bus = unit_files bus db_EnableUnitFiles ActionEnable ''enabling'' ''enabled''"

definition Disable_linux :: "'x dbus option \<Rightarrow> string \<Rightarrow> ('x, ActionResult res) op" where
  "Disable_linux bus = unit_files bus db_DisableUnitFiles ActionDisable ''disabling'' ''disabled''"

definition linuxManager :: "'x dbus option \<Rightarrow> 'x ServiceManager" where
  "linuxManager bus = \<lparr>mg_List = List_linux bus, mg_Get = Get_linux bus, mg_Start = Start_linux bus,
     mg_Stop = Stop_linux bus, mg_Restart = Restart_linux bus, mg_Reload = Reload_linux bus,
     mg_Enable = Enable_linux bus, mg_Disable = Disable_linux bus\<rparr>"

section \<open>FreeBSD and Windows\<close>

definition stub_action :: "gerr \<Rightarrow> ServiceAction \<Rightarrow> string \<Rightarrow> ('x, ActionResult res) op" where
  "stub_action err action name =
     ret (Inr \<lparr>ar_Service = name, ar_Action = action, ar_Success = False, ar_Message = err_Error err\<rparr>)"

definition stub_manager :: "gerr \<Rightarrow> 'x ServiceManager" where
  "stub_manager err = \<lparr>mg_List = ret (Inl err), mg_Get = (\<lambda>_. ret (Inl err)),
     mg_Start = stub_action err ActionStart, mg_Stop = stub_action err ActionStop,
     mg_Restart = stub_action err ActionRestart, mg_Reload = stub_action err ActionReload,
     mg_Enable = stub_action err ActionEnable, mg_Disable = stub_action err ActionDisable\<rparr>"

definition freebsdManager :: "'x ServiceManager" where
  "freebsdManager = stub_manager (errorf ''service management is not yet supported on pfSense'')"

definition windowsManager :: "'x ServiceManager" where
  "windowsManager = stub_manager (errorf ''service management is not yet supported on Windows'')"

section \<open>The interface\<close>

fun mg_action :: "'x ServiceManager \<Rightarrow> ServiceAction \<Rightarrow> string \<Rightarrow> ('x, ActionResult res) op" where
  "mg_action m ActionStart = mg_Start m"
| "mg_action m ActionStop = mg_Stop m"
| "mg_action m ActionRestart = mg_Restart m"
| "mg_action m ActionEnable = mg_Enable m"
| "mg_action m ActionDisable = mg_Disable m"
| "mg_action m ActionReload = mg_Reload m"

text \<open>
  The contract: an action never fails as a call, its result names the action and is about the
  requested unit (with or without the suffix), and no method starts a process or publishes.
\<close>

locale service_manager =
  fixes mgr :: "'x ServiceManager"
  assumes action_result: "\<exists>r. fst (run_state (mg_action mgr a name) s) = Inr r \<and> ar_Action r = a \<and>
      ar_Service r \<in> {name, ensureServiceSuffix name}"
    and action_trace: "keeps (adds (\<lambda>_. True) (\<lambda>_. False) (\<lambda>_. False)) (mg_action mgr a name)"
    and list_trace: "keeps (adds (\<lambda>_. True) (\<lambda>_. False) (\<lambda>_. False)) (mg_List mgr)"
    and get_trace: "keeps (adds (\<lambda>_. True) (\<lambda>_. False) (\<lambda>_. False)) (mg_Get mgr name)"
begin

lemma action_never_errors: "fst (run_state (mg_action mgr a name) s) \<noteq> Inl e"
  using action_result [of a name s] by auto

lemma action_starts_nothing: "h_procs (snd (run_state (mg_action mgr a name) s)) = h_procs s"
  by (rule adds_no_procs [OF adds.keeps_run [OF action_trace]])

end

lemma unit_job_result:
  "fst (run_state (unit_job bus call a ing past name) s) =
    (case bus of None \<Rightarrow> Inr (failResult name a no_bus)
     | Some db \<Rightarrow> (let n = ensureServiceSuffix name in
         case fst (call db n ''replace'' (h_world s)) of
           Inl e \<Rightarrow> Inr (failResult n a (errorf_w (action_str a @ '' failed: '') e []))
         | Inr result \<Rightarrow>
           if result \<noteq> ''done'' then Inr (failResult n a (errorf (''job result: '' @ result)))
           else Inr \<lparr>ar_Service = n, ar_Action = a, ar_Success = True,
             ar_Message = ''Service '' @ n @ '' '' @ past @ '' successfully.''\<rparr>))"
  by (auto simp: unit_job_def run_on_world Let_def split: option.splits prod.splits)

lemma unit_files_result:
  "fst (run_state (unit_files bus call a ing past name) s) =
    (case bus of None \<Rightarrow> Inr (failResult name a no_bus)
     | Some db \<Rightarrow> (let n = ensureServiceSuffix name in
         case fst (call db [n] (h_world s)) of
           Some e \<Rightarrow> Inr (failResult n a (errorf_w (action_str a @ '' failed: '') e []))
         | None \<Rightarrow> Inr \<lparr>ar_Service = n, ar_Action = a, ar_Success = True,
             ar_Message = ''Service '' @ n @ '' '' @ past @ '' successfully.''\<rparr>))"
  by (auto simp: unit_files_def run_on_world Let_def split: option.splits prod.splits)

lemmas linux_defs = linuxManager_def Start_linux_def Stop_linux_def Restart_linux_def Reload_linux_def
  Enable_linux_def Disable_linux_def List_linux_def Get_linux_def

lemma adds_unit_job: "keeps (adds (\<lambda>_. True) P Q) (unit_job bus call a ing past name)"
  unfolding unit_job_def by (intro adds_rules adds_on_world TrueI)

lemma adds_unit_files: "keeps (adds (\<lambda>_. True) P Q) (unit_files bus call a ing past name)"
  unfolding unit_files_def by (intro adds_rules adds_on_world TrueI)

interpretation linux_services: service_manager "linuxManager bus" for bus :: "'x dbus option"
proof
  fix a name and s :: "'x host"
  show "\<exists>r. fst (run_state (mg_action (linuxManager bus) a name) s) = Inr r \<and> ar_Action r = a \<and>
      ar_Service r \<in> {name, ensureServiceSuffix name}"
    by (cases a) (auto simp: linux_defs unit_job_result unit_files_result failResult_def Let_def
        split: option.splits sum.splits)
  show "keeps (adds (\<lambda>_. True) (\<lambda>_. False) (\<lambda>_. False)) (mg_action (linuxManager bus) a name)"
    by (cases a) (simp_all add: linux_defs adds_unit_job adds_unit_files)
qed (auto simp: linux_defs intro!: adds_rules)

interpretation stub_services: service_manager "stub_manager err" for err :: gerr
proof
  fix a name and s :: "'x host"
  show "\<exists>r. fst (run_state (mg_action (stub_manager err) a name) s) = Inr r \<and> ar_Action r = a \<and>
      ar_Service r \<in> {name, ensureServiceSuffix name}"
    by (cases a) (simp_all add: stub_manager_def stub_action_def)
  show "keeps (adds (\<lambda>_. True) (\<lambda>_. False) (\<lambda>_. False)) (mg_action (stub_manager err :: 'x ServiceManager) a name)"
    by (cases a) (simp_all add: stub_manager_def stub_action_def adds.keeps_return)
qed (auto simp: stub_manager_def intro!: adds_rules)


section \<open>Properties\<close>

lemma unit_job_success:
  "\<exists>r. fst (run_state (unit_job bus call a ing past name) s) = Inr r \<and> ar_Action r = a \<and>
    (ar_Success r \<longleftrightarrow> (\<exists>db. bus = Some db \<and>
      fst (call db (ensureServiceSuffix name) ''replace'' (h_world s)) = Inr ''done''))"
  by (auto simp: unit_job_result failResult_def Let_def split: option.splits sum.splits)

lemma unit_files_success:
  "\<exists>r. fst (run_state (unit_files bus call a ing past name) s) = Inr r \<and> ar_Action r = a \<and>
    (ar_Success r \<longleftrightarrow> (\<exists>db. bus = Some db \<and> fst (call db [ensureServiceSuffix name] (h_world s)) = None))"
  by (auto simp: unit_files_result failResult_def Let_def split: option.splits)

text \<open>On Linux a service action reports success exactly when systemd did: start, stop, restart and
  reload succeed if and only if the bus is available, the call is accepted and the job ends with
  the result done; enable and disable if and only if the bus is available and changing the unit
  files worked. None of them returns an error to the dispatcher.\<close>

theorem service_success_iff_systemd:
  "(\<exists>r. fst (run_state (Start_linux bus name) s) = Inr r \<and> (ar_Success r \<longleftrightarrow> (\<exists>db. bus = Some db \<and>
      fst (db_StartUnit db (ensureServiceSuffix name) ''replace'' (h_world s)) = Inr ''done''))) \<and>
   (\<exists>r. fst (run_state (Stop_linux bus name) s) = Inr r \<and> (ar_Success r \<longleftrightarrow> (\<exists>db. bus = Some db \<and>
      fst (db_StopUnit db (ensureServiceSuffix name) ''replace'' (h_world s)) = Inr ''done''))) \<and>
   (\<exists>r. fst (run_state (Restart_linux bus name) s) = Inr r \<and> (ar_Success r \<longleftrightarrow> (\<exists>db. bus = Some db \<and>
      fst (db_RestartUnit db (ensureServiceSuffix name) ''replace'' (h_world s)) = Inr ''done''))) \<and>
   (\<exists>r. fst (run_state (Reload_linux bus name) s) = Inr r \<and> (ar_Success r \<longleftrightarrow> (\<exists>db. bus = Some db \<and>
      fst (db_ReloadUnit db (ensureServiceSuffix name) ''replace'' (h_world s)) = Inr ''done''))) \<and>
   (\<exists>r. fst (run_state (Enable_linux bus name) s) = Inr r \<and> (ar_Success r \<longleftrightarrow> (\<exists>db. bus = Some db \<and>
      fst (db_EnableUnitFiles db [ensureServiceSuffix name] (h_world s)) = None))) \<and>
   (\<exists>r. fst (run_state (Disable_linux bus name) s) = Inr r \<and> (ar_Success r \<longleftrightarrow> (\<exists>db. bus = Some db \<and>
      fst (db_DisableUnitFiles db [ensureServiceSuffix name] (h_world s)) = None)))"
  unfolding Start_linux_def Stop_linux_def Restart_linux_def Reload_linux_def Enable_linux_def Disable_linux_def
  using unit_job_success [of bus db_StartUnit ActionStart "''starting''" "''started''" name s]
    unit_job_success [of bus db_StopUnit ActionStop "''stopping''" "''stopped''" name s]
    unit_job_success [of bus db_RestartUnit ActionRestart "''restarting''" "''restarted''" name s]
    unit_job_success [of bus db_ReloadUnit ActionReload "''reloading''" "''reloaded''" name s]
    unit_files_success [of bus db_EnableUnitFiles ActionEnable "''enabling''" "''enabled''" name s]
    unit_files_success [of bus db_DisableUnitFiles ActionDisable "''disabling''" "''disabled''" name s]
  by blast

end
