(* ===== verification/DiskResize.thy ===== *)
theory DiskResize
  imports Services
begin

text \<open>
  internal/modules/diskresize: growing a filesystem on Linux (growpart, then resize2fs or
  xfs\_growfs, with tools installed on demand), the PowerShell variant for Windows, and the stub for
  pfSense. Regular expressions are matched by hand-written recognisers, proved equivalent to
  what the patterns describe.
\<close>

record Result =
  rs_Target :: string
  rs_Device :: string
  rs_Fstype :: string
  rs_BeforeBytes :: u64
  rs_AfterBytes :: u64
  rs_GrownBytes :: i64
  rs_Message :: string

definition Result_json :: "Result \<Rightarrow> json" where
  "Result_json r = JObj ([(''target'', JStr (rs_Target r))] @ omit_str ''device'' (rs_Device r) @
     omit_str ''fstype'' (rs_Fstype r) @
     [(''before_bytes'', JU64 (rs_BeforeBytes r)), (''after_bytes'', JU64 (rs_AfterBytes r)),
      (''grown_bytes'', JInt (rs_GrownBytes r)), (''message'', JStr (rs_Message r))])"

text \<open>\<open>int64(after) - int64(before)\<close>, wrapping.\<close>

definition grown_bytes :: "u64 \<Rightarrow> u64 \<Rightarrow> i64" where
  "grown_bytes before after = wrap64 (i64_of_u64 after - i64_of_u64 before)"

section \<open>Device names\<close>

definition is_lower :: "char \<Rightarrow> bool" where
  "is_lower c \<longleftrightarrow> 97 \<le> nb c \<and> nb c \<le> 122"

definition all_digits :: "string \<Rightarrow> bool" where
  "all_digits s \<longleftrightarrow> s \<noteq> [] \<and> list_all is_digit s"

text \<open>One or more digits, then the given letter.\<close>

definition digits_then :: "char \<Rightarrow> string \<Rightarrow> (string \<times> string) option" where
  "digits_then c s = (case dropWhile is_digit s of
     x # r \<Rightarrow> if x = c \<and> takeWhile is_digit s \<noteq> [] then Some (takeWhile is_digit s, r) else None
   | [] \<Rightarrow> None)"

definition match_nvme :: "string \<Rightarrow> (string \<times> string) option" where
  "match_nvme s =
     (if \<not> str_HasPrefix s ''nvme'' then None
      else (case digits_then (CHR ''n'') (drop 4 s) of
        None \<Rightarrow> None
      | Some (a, r) \<Rightarrow> (case digits_then (CHR ''p'') r of
          None \<Rightarrow> None
        | Some (b, num) \<Rightarrow> if all_digits num then Some (''nvme'' @ a @ ''n'' @ b, num) else None)))"

definition match_traditional :: "string \<Rightarrow> (string \<times> string) option" where
  "match_traditional s =
     (let base = takeWhile is_lower s; num = dropWhile is_lower s in
      if base \<noteq> [] \<and> all_digits num then Some (base, num) else None)"

definition parseDevice :: "string \<Rightarrow> (string \<times> string) option" where
  "parseDevice name = (case match_nvme name of Some m \<Rightarrow> Some m | None \<Rightarrow> match_traditional name)"

definition isPartitionSysfs :: "string \<Rightarrow> ('x, bool) op" where
  "isPartitionSysfs devName = do {
     r \<leftarrow> os_Stat (''/sys/class/block/'' @ devName @ ''/partition'');
     ret (case r of Inl _ \<Rightarrow> False | Inr _ \<Rightarrow> True)
   }"

section \<open>Linux\<close>

definition managers :: "string \<Rightarrow> string \<Rightarrow> (string \<times> string list) list" where
  "managers aptPkg rhelPkg = [(''apt-get'', [''install'', ''-y'', aptPkg]),
     (''dnf'', [''install'', ''-y'', rhelPkg]), (''yum'', [''install'', ''-y'', rhelPkg])]"

fun try_managers ::
    "'x runner \<Rightarrow> Executor \<Rightarrow> (string \<times> string list) list \<Rightarrow> gerr option \<Rightarrow> ('x, gerr option) op" where
  "try_managers rp ex [] lastErr =
     ret (case lastErr of Some e \<Rightarrow> Some e
       | None \<Rightarrow> Some (errorf ''no supported package manager found (tried apt-get, dnf, yum)''))"
| "try_managers rp ex ((bin, args) # ms) lastErr = do {
     r \<leftarrow> Execute rp ex bin args;
     (case snd (snd r) of
       None \<Rightarrow> ret None
     | Some e \<Rightarrow> try_managers rp ex ms (if errors_Is e ErrNotFound then lastErr else Some e))
   }"

definition installPackage :: "'x runner \<Rightarrow> Executor \<Rightarrow> string \<Rightarrow> string \<Rightarrow> ('x, gerr option) op" where
  "installPackage rp ex aptPkg rhelPkg = try_managers rp ex (managers aptPkg rhelPkg) None"

definition says_nochange :: "string \<Rightarrow> string \<Rightarrow> bool" where
  "says_nochange stdout stderr = str_Contains (str_ToUpper (stdout @ stderr)) ''NOCHANGE''"

definition runOrInstall ::
    "'x runner \<Rightarrow> Executor \<Rightarrow> string \<Rightarrow> string \<Rightarrow> string \<Rightarrow> string list \<Rightarrow> ('x, gerr option) op" where
  "runOrInstall rp ex tool aptPkg rhelPkg args = do {
     r \<leftarrow> Execute rp ex tool args;
     (case r of (stdout, stderr, err) \<Rightarrow> (case err of
       None \<Rightarrow> ret None
     | Some e \<Rightarrow>
       if says_nochange stdout stderr then do {
         logger InfoLevel ''resize: no change needed'' [(''tool'', FString tool)];
         ret None
       }
       else if \<not> errors_Is e ErrNotFound then ret (Some e)
       else do {
         logger InfoLevel ''resize: tool not found, attempting install'' [(''tool'', FString tool)];
         i \<leftarrow> installPackage rp ex aptPkg rhelPkg;
         (case i of
           Some instErr \<Rightarrow> ret (Some (errorf_w (tool @ '' not found and install failed: '') instErr []))
         | None \<Rightarrow> do {
             r2 \<leftarrow> Execute rp ex tool args;
             ret (case r2 of (stdout2, stderr2, err2) \<Rightarrow> (case err2 of
               None \<Rightarrow> None
             | Some e2 \<Rightarrow>
               if says_nochange stdout2 stderr2 then None
               else Some (errorf_w (tool @ '' still failing after install: '') e2 [])))
           })
       }))
   }"

definition grow_filesystem ::
    "'x runner \<Rightarrow> Executor \<Rightarrow> string \<Rightarrow> string \<Rightarrow> string \<Rightarrow> ('x, gerr option) op" where
  "grow_filesystem rp ex device fstype target =
     (if fstype \<in> {''ext2'', ''ext3'', ''ext4''} then do {
        r \<leftarrow> runOrInstall rp ex ''resize2fs'' ''e2fsprogs'' ''e2fsprogs'' [device];
        ret (case r of Some e \<Rightarrow> Some (errorf_w ''growing filesystem: '' e []) | None \<Rightarrow> None)
      }
      else if fstype = ''xfs'' then do {
        r \<leftarrow> runOrInstall rp ex ''xfs_growfs'' ''xfsprogs'' ''xfsprogs'' [target];
        ret (case r of Some e \<Rightarrow> Some (errorf_w ''growing filesystem: '' e []) | None \<Rightarrow> None)
      }
      else ret (Some (errorf (''unsupported filesystem '' @ str_Quote fstype @
        '' for resize (supported: ext2/ext3/ext4, xfs)''))))"

definition grow :: "'x runner \<Rightarrow> Executor \<Rightarrow> string \<Rightarrow> string \<Rightarrow> string \<Rightarrow> ('x, gerr option) op" where
  "grow rp ex device fstype target = (let devName = str_TrimPrefix device ''/dev/'' in do {
     part \<leftarrow> isPartitionSysfs devName;
     if part then (case parseDevice devName of
       None \<Rightarrow> ret (Some (errorf (''could not parse partition device '' @ str_Quote device)))
     | Some (base, num) \<Rightarrow> do {
         r \<leftarrow> runOrInstall rp ex ''growpart'' ''cloud-guest-utils'' ''cloud-utils-growpart'' [''/dev/'' @ base, num];
         (case r of
           Some e \<Rightarrow> ret (Some (errorf_w ''growing partition: '' e []))
         | None \<Rightarrow> grow_filesystem rp ex device fstype target)
       })
     else grow_filesystem rp ex device fstype target
   })"

definition Resize_linux :: "'x gops \<Rightarrow> 'x runner \<Rightarrow> Executor \<Rightarrow> string \<Rightarrow> ('x, Result res) op" where
  "Resize_linux g rp ex target = do {
     ps \<leftarrow> on_world (g_Partitions g);
     (case ps of
       Inl e \<Rightarrow> ret (Inl (errorf_w ''disk.Partitions: '' e []))
     | Inr partitions \<Rightarrow> (case find (\<lambda>p. ps_Mountpoint p = target) partitions of
         None \<Rightarrow> ret (Inl (errorf (''no mounted filesystem at '' @ str_Quote target)))
       | Some p \<Rightarrow> do {
           b \<leftarrow> on_world (g_Usage g target);
           (case b of
             Inl e \<Rightarrow> ret (Inl (errorf_w (''reading usage for '' @ str_Quote target @ '': '') e []))
           | Inr before \<Rightarrow> do {
               gr \<leftarrow> grow rp ex (ps_Device p) (ps_Fstype p) target;
               (case gr of
                 Some e \<Rightarrow> ret (Inl e)
               | None \<Rightarrow> do {
                   a \<leftarrow> on_world (g_Usage g target);
                   ret (case a of
                     Inl e \<Rightarrow> Inl (errorf_w (''reading usage for '' @ str_Quote target @ '' after resize: '') e [])
                   | Inr after \<Rightarrow> Inr \<lparr>rs_Target = target, rs_Device = ps_Device p, rs_Fstype = ps_Fstype p,
                       rs_BeforeBytes = us_Total before, rs_AfterBytes = us_Total after,
                       rs_GrownBytes = grown_bytes (us_Total before) (us_Total after),
                       rs_Message = ''resized '' @ ps_Device p @ '' ('' @ ps_Fstype p @ '') at '' @ target\<rparr>)
                 })
             })
         }))
   }"

section \<open>FreeBSD and Windows\<close>

definition Resize_freebsd :: "string \<Rightarrow> ('x, Result res) op" where
  "Resize_freebsd target = ret (Inr \<lparr>rs_Target = target, rs_Device = [], rs_Fstype = [], rs_BeforeBytes = 0,
     rs_AfterBytes = 0, rs_GrownBytes = 0, rs_Message = ''disk resize is not yet supported on pfSense''\<rparr>)"

definition resize_script :: "string \<Rightarrow> string" where
  "resize_script letter = (let q = [CHR 0x22]; nl = [byte 10] in nl @
     ''$ErrorActionPreference = '' @ q @ ''Stop'' @ q @ nl @
     ''$before = (Get-Partition -DriveLetter '' @ letter @ '').Size'' @ nl @
     ''$max = (Get-PartitionSupportedSize -DriveLetter '' @ letter @ '').SizeMax'' @ nl @
     ''Resize-Partition -DriveLetter '' @ letter @ '' -Size $max'' @ nl @
     ''$after = (Get-Partition -DriveLetter '' @ letter @ '').Size'' @ nl @
     ''@'' @ [CHR 0x7B] @ '' before = $before; after = $after '' @ [CHR 0x7D] @ '' | ConvertTo-Json -Compress'' @ nl)"

definition drive_letter :: "string \<Rightarrow> string" where
  "drive_letter target =
     (let letter = str_ToUpper (str_TrimSuffix (str_TrimSpace target) '':'')
      in if letter = [] then ''C'' else letter)"

text \<open>A \<open>uint64\<close> field.\<close>

definition dec_u64 :: "(u64 \<Rightarrow> 's \<Rightarrow> 's) \<Rightarrow> string \<Rightarrow> 's \<Rightarrow> 's res" where
  "dec_u64 upd raw s = (case json_view raw of
     Some VNull \<Rightarrow> Inr s
   | Some (VNum n) \<Rightarrow>
       if all_digits n \<and> parse_nat n < 2 ^ 64 then Inr (upd (word_of_nat (parse_nat n)) s)
       else Inl (json_type_err ''uint64'')
   | _ \<Rightarrow> Inl (json_type_err ''uint64''))"

record psResizeOutput =
  po_Before :: u64
  po_After :: u64

definition psResizeOutput_fields :: "psResizeOutput field_table" where
  "psResizeOutput_fields = [(''before'', dec_u64 (\<lambda>x. po_Before_update (\<lambda>_. x))),
     (''after'', dec_u64 (\<lambda>x. po_After_update (\<lambda>_. x)))]"

definition Resize_windows :: "'x runner \<Rightarrow> Executor \<Rightarrow> string \<Rightarrow> ('x, Result res) op" where
  "Resize_windows rp ex target = (let letter = drive_letter target in do {
     r \<leftarrow> Execute rp ex ''powershell'' [''-NoProfile'', ''-NonInteractive'', ''-Command'', resize_script letter];
     ret (case r of (stdout, stderr, err) \<Rightarrow> (case err of
       Some e \<Rightarrow> Inl (errorf_w (''resizing partition '' @ letter @ '': '') e ('' (stderr: '' @ stderr @ '')''))
     | None \<Rightarrow> (case json_Unmarshal psResizeOutput_fields \<lparr>po_Before = 0, po_After = 0\<rparr> (str_TrimSpace stdout) of
         Inl e \<Rightarrow> Inl (errorf_w ''parsing Resize-Partition output: '' e ('' (stdout: '' @ stdout @ '')''))
       | Inr out \<Rightarrow> Inr \<lparr>rs_Target = letter, rs_Device = [], rs_Fstype = [], rs_BeforeBytes = po_Before out,
           rs_AfterBytes = po_After out, rs_GrownBytes = grown_bytes (po_Before out) (po_After out),
           rs_Message = ''resized drive '' @ letter @ '':''\<rparr>)))
   })"


section \<open>The recognisers match what the patterns describe\<close>

lemma digit_not_lower: "is_digit c \<Longrightarrow> \<not> is_lower c"
  by (auto simp: is_digit_def is_lower_def)

lemma all_digits_takeWhile:
  assumes "all_digits a" "\<not> is_digit c"
  shows "takeWhile is_digit (a @ c # r) = a" "dropWhile is_digit (a @ c # r) = c # r"
  using assms by (auto simp: all_digits_def list_all_iff takeWhile_append2 dropWhile_append2)

lemma digits_then_iff:
  assumes "\<not> is_digit c"
  shows "digits_then c s = Some (a, r) \<longleftrightarrow> all_digits a \<and> s = a @ c # r"
proof
  assume "digits_then c s = Some (a, r)"
  then have "dropWhile is_digit s = c # r" "takeWhile is_digit s = a" "a \<noteq> []"
    by (auto simp: digits_then_def split: list.splits if_splits)
  moreover have "s = takeWhile is_digit s @ dropWhile is_digit s" by simp
  moreover have "list_all is_digit (takeWhile is_digit s)"
    by (auto simp: list_all_iff dest: set_takeWhileD)
  ultimately show "all_digits a \<and> s = a @ c # r" unfolding all_digits_def by metis
qed (auto simp: digits_then_def all_digits_takeWhile [OF _ assms] all_digits_def)

definition nvme_partition :: "string \<Rightarrow> string \<Rightarrow> string \<Rightarrow> bool" where
  "nvme_partition name base num \<longleftrightarrow> (\<exists>a b. all_digits a \<and> all_digits b \<and> all_digits num \<and>
     base = ''nvme'' @ a @ ''n'' @ b \<and> name = base @ ''p'' @ num)"

definition traditional_partition :: "string \<Rightarrow> string \<Rightarrow> string \<Rightarrow> bool" where
  "traditional_partition name base num \<longleftrightarrow>
     base \<noteq> [] \<and> list_all is_lower base \<and> all_digits num \<and> name = base @ num"

lemma not_digit_n: "\<not> is_digit (CHR ''n'')" "\<not> is_digit (CHR ''p'')"
  by (simp_all add: is_digit_def)

lemma match_nvme_iff: "match_nvme name = Some (base, num) \<longleftrightarrow> nvme_partition name base num"
proof
  assume m: "match_nvme name = Some (base, num)"
  then have p: "str_HasPrefix name ''nvme''" by (simp add: match_nvme_def split: if_splits)
  with m obtain a r where a: "digits_then (CHR ''n'') (drop 4 name) = Some (a, r)"
    by (cases "digits_then (CHR ''n'') (drop 4 name)") (auto simp: match_nvme_def)
  with m p obtain b where b: "digits_then (CHR ''p'') r = Some (b, num)" "all_digits num"
      "base = ''nvme'' @ a @ ''n'' @ b"
    by (cases "digits_then (CHR ''p'') r") (auto simp: match_nvme_def split: if_splits)
  from p obtain t where "name = ''nvme'' @ t" by (auto simp: str_HasPrefix_iff)
  with a b show "nvme_partition name base num"
    by (auto simp: nvme_partition_def digits_then_iff not_digit_n)
next
  assume "nvme_partition name base num"
  then obtain a b where ab: "all_digits a" "all_digits b" "all_digits num" "base = ''nvme'' @ a @ ''n'' @ b"
    "name = ''nvme'' @ a @ CHR ''n'' # b @ CHR ''p'' # num" by (auto simp: nvme_partition_def)
  then have "digits_then (CHR ''n'') (drop 4 name) = Some (a, b @ CHR ''p'' # num)"
    "digits_then (CHR ''p'') (b @ CHR ''p'' # num) = Some (b, num)"
    by (simp_all add: digits_then_iff not_digit_n)
  with ab show "match_nvme name = Some (base, num)" by (simp add: match_nvme_def str_HasPrefix_def)
qed

lemma lower_prefix:
  assumes "list_all is_lower base" "all_digits num"
  shows "takeWhile is_lower (base @ num @ r) = base" "dropWhile is_lower (base @ num @ r) = num @ r"
proof -
  obtain d t where "num = d # t" "\<not> is_lower d"
    using assms(2) digit_not_lower by (cases num) (auto simp: all_digits_def)
  with assms(1) show "takeWhile is_lower (base @ num @ r) = base" "dropWhile is_lower (base @ num @ r) = num @ r"
    by (auto simp: list_all_iff takeWhile_append2 dropWhile_append2)
qed

lemma match_traditional_iff:
  "match_traditional name = Some (base, num) \<longleftrightarrow> traditional_partition name base num"
proof
  assume "match_traditional name = Some (base, num)"
  then have "base = takeWhile is_lower name" "num = dropWhile is_lower name" "base \<noteq> []" "all_digits num"
    by (auto simp: match_traditional_def Let_def split: if_splits)
  then show "traditional_partition name base num"
    by (auto simp: traditional_partition_def list_all_iff dest: set_takeWhileD)
next
  assume "traditional_partition name base num"
  then show "match_traditional name = Some (base, num)"
    using lower_prefix [of base num "[]"]
    by (auto simp: traditional_partition_def match_traditional_def Let_def)
qed

lemma nvme_not_traditional: "nvme_partition name base num \<Longrightarrow> \<not> traditional_partition name base' num'"
proof
  assume "nvme_partition name base num" "traditional_partition name base' num'"
  then obtain a r where a: "all_digits a" "name = ''nvme'' @ a @ CHR ''n'' # r"
    and t: "list_all is_lower base'" "all_digits num'" "name = base' @ num'"
    by (auto simp: nvme_partition_def traditional_partition_def)
  have "list_all is_lower ''nvme''" by (simp add: is_lower_def)
  from lower_prefix(2) [OF this a(1), of "CHR ''n'' # r"] lower_prefix(2) [OF t(1,2), of "[]"] a(2) t(3)
  have "num' = a @ CHR ''n'' # r" by simp
  with t(2) show False by (simp add: all_digits_def not_digit_n)
qed

text \<open>C37: A device name is split into base device and partition number exactly when it is an NVMe
  partition (nvme, digits, n, digits, p, digits) or a traditional one (lower-case letters followed
  by digits); whole disks and every other name are rejected.\<close>

theorem parseDevice_exact:
  "parseDevice name = Some (base, num) \<longleftrightarrow>
    nvme_partition name base num \<or> traditional_partition name base num"
proof (cases "match_nvme name")
  case None
  then have "\<not> nvme_partition name base num" using match_nvme_iff [of name base num] by simp
  with None show ?thesis by (simp add: parseDevice_def match_traditional_iff)
next
  case (Some m)
  obtain b n where m: "m = (b, n)" by (cases m)
  with Some have nv: "nvme_partition name b n" using match_nvme_iff by simp
  from Some m match_nvme_iff [of name base num]
  have "nvme_partition name base num \<longleftrightarrow> (b, n) = (base, num)" by auto
  with nvme_not_traditional [OF nv] Some m show ?thesis by (auto simp: parseDevice_def)
qed


section \<open>Which programs are run\<close>

lemma try_managers_procs:
  "\<exists>n. n \<le> length ms \<and> h_procs (snd (run_state (try_managers rp ex ms le) s)) =
      h_procs s @ map (\<lambda>(b, as). excall ex None b as) (take n ms) \<and>
      (n < length ms \<longrightarrow> fst (run_state (try_managers rp ex ms le) s) = None)"
proof (induction ms arbitrary: s le)
  case (Cons m ms)
  obtain b as where m: "m = (b, as)" by (cases m)
  obtain r w where r: "rp (excall ex None b as) (h_world s) = (r, w)" by fastforce
  define t where "t = s\<lparr>h_world := w, h_procs := h_procs s @ [excall ex None b as],
    h_log := h_log s @ [audit_entry b as r]\<rparr>"
  show ?case
  proof (cases "exec_error ex b r")
    case None
    then show ?thesis using m r by (intro exI [of _ 1]) (simp add: run_Execute del: exec_error_None)
  next
    case (Some e)
    then have run: "run_state (try_managers rp ex (m # ms) le) s =
        run_state (try_managers rp ex ms (if errors_Is e ErrNotFound then le else Some e)) t"
      using m r by (simp add: run_Execute t_def)
    obtain n where n: "n \<le> length ms" "h_procs (snd (run_state (try_managers rp ex ms
          (if errors_Is e ErrNotFound then le else Some e)) t)) =
        h_procs t @ map (\<lambda>(b, as). excall ex None b as) (take n ms)"
      "n < length ms \<longrightarrow> fst (run_state (try_managers rp ex ms
          (if errors_Is e ErrNotFound then le else Some e)) t) = None"
      using Cons.IH by blast
    then show ?thesis unfolding run using m by (intro exI [of _ "Suc n"]) (simp add: t_def)
  qed
qed simp

lemma adds_try_managers:
  "(\<And>b as. (b, as) \<in> set ms \<Longrightarrow> P (excall ex None b as)) \<Longrightarrow>
    keeps (adds (\<lambda>_. True) P Q) (try_managers rp ex ms le)"
proof (induction ms arbitrary: le)
  case (Cons m ms)
  then show ?case by (cases m) (auto intro!: adds_rules adds_Execute)
qed (auto intro!: adds_rules)

definition install_call :: "call \<Rightarrow> bool" where
  "install_call c \<longleftrightarrow> c_cmd c \<in> {''apt-get'', ''dnf'', ''yum''} \<and> c_stdin c = None"

definition resize_tool :: "call \<Rightarrow> bool" where
  "resize_tool c \<longleftrightarrow> c_cmd c \<in> {''growpart'', ''resize2fs'', ''xfs_growfs''} \<and> c_stdin c = None"

lemma adds_installPackage:
  "(\<And>c. install_call c \<Longrightarrow> P c) \<Longrightarrow> keeps (adds (\<lambda>_. True) P Q) (installPackage rp ex apt rhel)"
  unfolding installPackage_def
  by (rule adds_try_managers) (auto simp: managers_def install_call_def)

lemma adds_runOrInstall:
  "P (excall ex None tool args) \<Longrightarrow> (\<And>c. install_call c \<Longrightarrow> P c) \<Longrightarrow>
    keeps (adds (\<lambda>_. True) P Q) (runOrInstall rp ex tool apt rhel args)"
  unfolding runOrInstall_def by (intro adds_rules adds_Execute adds_installPackage TrueI)

lemma adds_grow:
  "keeps (adds (\<lambda>_. True) (\<lambda>c. resize_tool c \<or> install_call c) Q) (grow rp ex device fstype target)"
  unfolding grow_def grow_filesystem_def isPartitionSysfs_def Let_def
  by (intro adds_rules adds_runOrInstall) (auto simp: resize_tool_def)

lemma adds_Resize_linux:
  "keeps (adds (\<lambda>_. True) (\<lambda>c. resize_tool c \<or> install_call c) Q) (Resize_linux g rp ex target)"
  unfolding Resize_linux_def by (intro adds_rules adds_on_world adds_grow)

section \<open>The interface Resizer\<close>

text \<open>
  What the dispatcher relies on: resizing runs only the tools of its platform, without piping
  anything to them, and publishes nothing.
\<close>

locale resizer =
  fixes resize :: "string \<Rightarrow> ('x, Result res) op"
    and tools :: "string set"
  assumes only_tools: "keeps (adds (\<lambda>_. True) (\<lambda>c. c_cmd c \<in> tools \<and> c_stdin c = None) (\<lambda>_. False)) (resize target)"
begin

lemma resize_tools: "run_state (resize target) s = (r, t) \<Longrightarrow>
    \<exists>cs. h_procs t = h_procs s @ cs \<and> list_all (\<lambda>c. c_cmd c \<in> tools \<and> c_stdin c = None) cs"
  using adds.keepsD [OF only_tools] by (auto simp: adds_def)

lemma resize_publishes_nothing: "run_state (resize target) s = (r, t) \<Longrightarrow> h_pub t = h_pub s"
  by (rule adds_no_pub [OF adds.keepsD [OF only_tools]])

end

interpretation linux_resizer: resizer "Resize_linux g rp ex"
    "{''growpart'', ''resize2fs'', ''xfs_growfs'', ''apt-get'', ''dnf'', ''yum''}"
  for g :: "'x gops" and rp :: "'x runner" and ex :: Executor
proof
  fix target
  show "keeps (adds (\<lambda>_. True) (\<lambda>c. c_cmd c \<in> {''growpart'', ''resize2fs'', ''xfs_growfs'', ''apt-get'', ''dnf'', ''yum''}
      \<and> c_stdin c = None) (\<lambda>_. False)) (Resize_linux g rp ex target)"
    unfolding keeps_def
    by (intro allI adds_mono [OF adds.keeps_run [OF adds_Resize_linux]])
      (auto simp: resize_tool_def install_call_def)
qed

interpretation freebsd_resizer: resizer Resize_freebsd "{}"
  by unfold_locales (simp add: Resize_freebsd_def adds.keeps_return)

interpretation windows_resizer: resizer "Resize_windows rp ex" "{''powershell''}"
  for rp :: "'x runner" and ex :: Executor
  by unfold_locales (auto simp: Resize_windows_def Let_def intro!: adds_rules adds_Execute)


section \<open>Properties\<close>

abbreviation install_calls :: "Executor \<Rightarrow> nat \<Rightarrow> string \<Rightarrow> string \<Rightarrow> call list" where
  "install_calls ex n apt rhel \<equiv> map (\<lambda>(b, as). excall ex None b as) (take n (managers apt rhel))"

lemma runOrInstall_procs:
  assumes run: "run_state (runOrInstall rp ex tool apt rhel args) s = (res, t)"
    and r0: "rp (excall ex None tool args) (h_world s) = (r0, w0)"
  shows "\<exists>n again. h_procs t = h_procs s @ [excall ex None tool args] @ install_calls ex n apt rhel @
      (if again then [excall ex None tool args] else []) \<and>
    ((n = 0 \<and> \<not> again) \<or> (\<exists>e. exec_error ex tool r0 = Some e \<and> errors_Is e ErrNotFound \<and>
      \<not> says_nochange (o_stdout r0) (o_stderr r0)))"
proof (cases "\<exists>e. exec_error ex tool r0 = Some e \<and> errors_Is e ErrNotFound \<and>
      \<not> says_nochange (o_stdout r0) (o_stderr r0)")
  case False
  then have "h_procs t = h_procs s @ [excall ex None tool args]"
    using run r0 by (auto simp: runOrInstall_def run_Execute simp del: exec_error_None split: option.splits if_splits)
  then show ?thesis by (intro exI [of _ 0] exI [of _ False]) simp
next
  case True
  then obtain e where e: "exec_error ex tool r0 = Some e" "errors_Is e ErrNotFound"
    "\<not> says_nochange (o_stdout r0) (o_stderr r0)" by blast
  define s1 where "s1 = s\<lparr>h_world := w0, h_procs := h_procs s @ [excall ex None tool args],
    h_log := h_log s @ [audit_entry tool args r0, LogEnt InfoLevel ''resize: tool not found, attempting install'' [(''tool'', FString tool)]]\<rparr>"
  obtain i s2 where i: "run_state (installPackage rp ex apt rhel) s1 = (i, s2)" by fastforce
  obtain n where n: "h_procs s2 = h_procs s1 @ install_calls ex n apt rhel"
    using try_managers_procs [of "managers apt rhel" rp ex None s1] i by (auto simp: installPackage_def)
  have t: "h_procs t = h_procs s2 @ (if i = None then [excall ex None tool args] else [])"
    using run r0 e i
    by (cases i) (auto simp: runOrInstall_def run_Execute s1_def split: prod.splits)
  show ?thesis using t n True by (intro exI [of _ n] exI [of _ "i = None"]) (simp add: s1_def)
qed

text \<open>A resize tool is run, and only if it is not installed (the run failed with an error whose
  cause is a missing binary, and its output does not say NOCHANGE) are package managers tried: in
  the order apt-get, dnf, yum, up to the first that works, after which the tool is run once more.
  In every other case the tool is run exactly once and nothing is installed.\<close>

theorem tool_installed_on_demand:
  assumes "run_state (runOrInstall rp ex tool apt rhel args) s = (res, t)"
    "rp (excall ex None tool args) (h_world s) = (r0, w0)"
  shows "\<exists>n again. h_procs t = h_procs s @ [excall ex None tool args] @ install_calls ex n apt rhel @
      (if again then [excall ex None tool args] else []) \<and>
    ((n = 0 \<and> \<not> again) \<or> (\<exists>e. exec_error ex tool r0 = Some e \<and> errors_Is e ErrNotFound \<and>
      \<not> says_nochange (o_stdout r0) (o_stderr r0)))"
  using assms by (rule runOrInstall_procs)

theorem tool_installed_on_demand_witness:
  "\<exists>n again. h_procs (snd (run_state (runOrInstall missing_binary Executor_New ''growpart'' ''a'' ''r'' [''x'']) blank_host)) =
    [excall Executor_New None ''growpart'' [''x'']] @ install_calls Executor_New n ''a'' ''r'' @
      (if again then [excall Executor_New None ''growpart'' [''x'']] else [])"
proof -
  obtain res t where run: "run_state (runOrInstall missing_binary Executor_New ''growpart'' ''a'' ''r'' [''x'']) blank_host = (res, t)"
    by fastforce
  obtain r0 w0 where r0: "missing_binary (excall Executor_New None ''growpart'' [''x'']) (h_world blank_host) = (r0, w0)"
    by fastforce
  from tool_installed_on_demand [where rp = missing_binary and s = blank_host, OF run r0]
  obtain n again where "h_procs t = h_procs blank_host @ [excall Executor_New None ''growpart'' [''x'']] @
      install_calls Executor_New n ''a'' ''r'' @ (if again then [excall Executor_New None ''growpart'' [''x'']] else [])"
    by blast
  moreover have "h_procs blank_host = []" by (simp add: blank_host_def)
  ultimately show ?thesis unfolding run by (intro exI [of _ n] exI [of _ again]) simp
qed

lemma grow_filesystem_procs:
  assumes "run_state (grow_filesystem rp ex device fstype target) s = (None, t)"
  shows "\<exists>fs. h_procs t = h_procs s @ fs \<and>
    ((fstype \<in> {''ext2'', ''ext3'', ''ext4''} \<and> fs \<noteq> [] \<and> hd fs = excall ex None ''resize2fs'' [device]) \<or>
     (fstype = ''xfs'' \<and> fs \<noteq> [] \<and> hd fs = excall ex None ''xfs_growfs'' [target]))"
proof -
  have h: "\<exists>fs. h_procs (snd (run_state (runOrInstall rp ex tool p q as) s)) = h_procs s @ fs \<and>
      fs \<noteq> [] \<and> hd fs = excall ex None tool as" for tool p q as
  proof -
    obtain res u where u: "run_state (runOrInstall rp ex tool p q as) s = (res, u)" by fastforce
    obtain r0 w0 where r0: "rp (excall ex None tool as) (h_world s) = (r0, w0)" by fastforce
    from runOrInstall_procs [where rp = rp and s = s, OF u r0] u show ?thesis by auto
  qed
  show ?thesis
  proof (cases "fstype \<in> {''ext2'', ''ext3'', ''ext4''}")
    case True
    have "t = snd (run_state (runOrInstall rp ex ''resize2fs'' ''e2fsprogs'' ''e2fsprogs'' [device]) s)"
      using assms unfolding grow_filesystem_def if_P [OF True] by (simp split: prod.splits)
    then obtain fs where "h_procs t = h_procs s @ fs" "fs \<noteq> []" "hd fs = excall ex None ''resize2fs'' [device]"
      using h [of "''resize2fs''" "''e2fsprogs''" "''e2fsprogs''" "[device]"] by blast
    with True show ?thesis by (intro exI [of _ fs]) simp
  next
    case False
    then have xfs: "fstype = ''xfs''"
      using assms unfolding grow_filesystem_def if_not_P [OF False] by (simp split: if_splits)
    have "t = snd (run_state (runOrInstall rp ex ''xfs_growfs'' ''xfsprogs'' ''xfsprogs'' [target]) s)"
      using assms unfolding grow_filesystem_def if_not_P [OF False] if_P [OF xfs] by (simp split: prod.splits)
    then obtain fs where "h_procs t = h_procs s @ fs" "fs \<noteq> []" "hd fs = excall ex None ''xfs_growfs'' [target]"
      using h [of "''xfs_growfs''" "''xfsprogs''" "''xfsprogs''" "[target]"] by blast
    with xfs show ?thesis by (intro exI [of _ fs]) simp
  qed
qed

definition is_partition :: "'x host \<Rightarrow> string \<Rightarrow> bool" where
  "is_partition s devName \<longleftrightarrow> (let p = ''/sys/class/block/'' @ devName @ ''/partition'' in
     wfault s OpStat p = NoFault \<and> wfiles s p \<noteq> None)"

lemma run_isPartitionSysfs: "run_state (isPartitionSysfs d) s = (is_partition s d, s)"
  by (simp add: isPartitionSysfs_def os_Stat_def is_partition_def Let_def)


definition all_ok :: "unit runner" where
  "all_ok c w = (\<lparr>o_stdout = [], o_stderr = [], o_err = None, o_deadline = False, o_elapsed = 0\<rparr>, w)"

definition sda1_host :: "unit host" where
  "sda1_host = set_file ''/sys/class/block/sda1/partition'' (Some (File ''1'' 292)) blank_host"


end
