(* ===== verification/PfsenseTypes.thy ===== *)
theory PfsenseTypes
  imports DiskResize
begin

text \<open>
  internal/modules/pfsense/pfsense.go and netmatch.go: the data of the pfSense operations with their
  JSON encodings, the shapes of the embedded scripts' outputs, and matching the NICs of the metadata
  to local interfaces by MAC address.
\<close>

section \<open>Types\<close>

record FirewallRule =
  fr_Tracker :: string
  fr_Interface :: string
  fr_Action :: string
  fr_Protocol :: string
  fr_Source :: string
  fr_SourcePort :: string
  fr_Destination :: string
  fr_DestPort :: string
  fr_Description :: string
  fr_Disabled :: bool

definition zero_FirewallRule :: FirewallRule where
  "zero_FirewallRule = \<lparr>fr_Tracker = [], fr_Interface = [], fr_Action = [], fr_Protocol = [], fr_Source = [],
     fr_SourcePort = [], fr_Destination = [], fr_DestPort = [], fr_Description = [],
     fr_Disabled = False\<rparr>"

definition FirewallRule_fields :: "FirewallRule field_table" where
  "FirewallRule_fields =
     [(''tracker'', dec_string (\<lambda>x. fr_Tracker_update (\<lambda>_. x))),
      (''interface'', dec_string (\<lambda>x. fr_Interface_update (\<lambda>_. x))),
      (''action'', dec_string (\<lambda>x. fr_Action_update (\<lambda>_. x))),
      (''protocol'', dec_string (\<lambda>x. fr_Protocol_update (\<lambda>_. x))),
      (''source'', dec_string (\<lambda>x. fr_Source_update (\<lambda>_. x))),
      (''source_port'', dec_string (\<lambda>x. fr_SourcePort_update (\<lambda>_. x))),
      (''destination'', dec_string (\<lambda>x. fr_Destination_update (\<lambda>_. x))),
      (''destination_port'', dec_string (\<lambda>x. fr_DestPort_update (\<lambda>_. x))),
      (''description'', dec_string (\<lambda>x. fr_Description_update (\<lambda>_. x))),
      (''disabled'', dec_bool (\<lambda>x. fr_Disabled_update (\<lambda>_. x)))]"

definition FirewallRule_json :: "FirewallRule \<Rightarrow> json" where
  "FirewallRule_json r = JObj ([(''tracker'', JStr (fr_Tracker r)), (''interface'', JStr (fr_Interface r)), (''action'', JStr (fr_Action r))] @
     omit_str ''protocol'' (fr_Protocol r) @
     [(''source'', JStr (fr_Source r))] @
     omit_str ''source_port'' (fr_SourcePort r) @
     [(''destination'', JStr (fr_Destination r))] @
     omit_str ''destination_port'' (fr_DestPort r) @
     omit_str ''description'' (fr_Description r) @
     omit_bool ''disabled'' (fr_Disabled r))"

record FirewallRuleInput =
  fi_Interface :: string
  fi_Action :: string
  fi_Protocol :: string
  fi_Source :: string
  fi_SourcePort :: string
  fi_Destination :: string
  fi_DestPort :: string
  fi_Description :: string

definition zero_FirewallRuleInput :: FirewallRuleInput where
  "zero_FirewallRuleInput = \<lparr>fi_Interface = [], fi_Action = [], fi_Protocol = [], fi_Source = [], fi_SourcePort = [],
     fi_Destination = [], fi_DestPort = [], fi_Description = []\<rparr>"

definition FirewallRuleInput_fields :: "FirewallRuleInput field_table" where
  "FirewallRuleInput_fields =
     [(''interface'', dec_string (\<lambda>x. fi_Interface_update (\<lambda>_. x))),
      (''action'', dec_string (\<lambda>x. fi_Action_update (\<lambda>_. x))),
      (''protocol'', dec_string (\<lambda>x. fi_Protocol_update (\<lambda>_. x))),
      (''source'', dec_string (\<lambda>x. fi_Source_update (\<lambda>_. x))),
      (''source_port'', dec_string (\<lambda>x. fi_SourcePort_update (\<lambda>_. x))),
      (''destination'', dec_string (\<lambda>x. fi_Destination_update (\<lambda>_. x))),
      (''destination_port'', dec_string (\<lambda>x. fi_DestPort_update (\<lambda>_. x))),
      (''description'', dec_string (\<lambda>x. fi_Description_update (\<lambda>_. x)))]"

definition FirewallRuleInput_json :: "FirewallRuleInput \<Rightarrow> json" where
  "FirewallRuleInput_json r = JObj ([(''interface'', JStr (fi_Interface r)), (''action'', JStr (fi_Action r))] @
     omit_str ''protocol'' (fi_Protocol r) @
     [(''source'', JStr (fi_Source r))] @
     omit_str ''source_port'' (fi_SourcePort r) @
     [(''destination'', JStr (fi_Destination r))] @
     omit_str ''destination_port'' (fi_DestPort r) @
     omit_str ''description'' (fi_Description r))"

record PortForward =
  pf_Tracker :: string
  pf_Interface :: string
  pf_Protocol :: string
  pf_Source :: string
  pf_SourcePort :: string
  pf_Destination :: string
  pf_DestPort :: string
  pf_TargetIP :: string
  pf_TargetPort :: string
  pf_Description :: string
  pf_Disabled :: bool

definition zero_PortForward :: PortForward where
  "zero_PortForward = \<lparr>pf_Tracker = [], pf_Interface = [], pf_Protocol = [], pf_Source = [], pf_SourcePort = [],
     pf_Destination = [], pf_DestPort = [], pf_TargetIP = [], pf_TargetPort = [],
     pf_Description = [], pf_Disabled = False\<rparr>"

definition PortForward_fields :: "PortForward field_table" where
  "PortForward_fields =
     [(''tracker'', dec_string (\<lambda>x. pf_Tracker_update (\<lambda>_. x))),
      (''interface'', dec_string (\<lambda>x. pf_Interface_update (\<lambda>_. x))),
      (''protocol'', dec_string (\<lambda>x. pf_Protocol_update (\<lambda>_. x))),
      (''source'', dec_string (\<lambda>x. pf_Source_update (\<lambda>_. x))),
      (''source_port'', dec_string (\<lambda>x. pf_SourcePort_update (\<lambda>_. x))),
      (''destination'', dec_string (\<lambda>x. pf_Destination_update (\<lambda>_. x))),
      (''destination_port'', dec_string (\<lambda>x. pf_DestPort_update (\<lambda>_. x))),
      (''target_ip'', dec_string (\<lambda>x. pf_TargetIP_update (\<lambda>_. x))),
      (''target_port'', dec_string (\<lambda>x. pf_TargetPort_update (\<lambda>_. x))),
      (''description'', dec_string (\<lambda>x. pf_Description_update (\<lambda>_. x))),
      (''disabled'', dec_bool (\<lambda>x. pf_Disabled_update (\<lambda>_. x)))]"

definition PortForward_json :: "PortForward \<Rightarrow> json" where
  "PortForward_json r = JObj ([(''tracker'', JStr (pf_Tracker r)), (''interface'', JStr (pf_Interface r)), (''protocol'', JStr (pf_Protocol r))] @
     omit_str ''source'' (pf_Source r) @
     omit_str ''source_port'' (pf_SourcePort r) @
     omit_str ''destination'' (pf_Destination r) @
     [(''destination_port'', JStr (pf_DestPort r)), (''target_ip'', JStr (pf_TargetIP r)), (''target_port'', JStr (pf_TargetPort r))] @
     omit_str ''description'' (pf_Description r) @
     omit_bool ''disabled'' (pf_Disabled r))"

record PortForwardInput =
  pi_Interface :: string
  pi_Protocol :: string
  pi_Source :: string
  pi_SourcePort :: string
  pi_Destination :: string
  pi_DestPort :: string
  pi_TargetIP :: string
  pi_TargetPort :: string
  pi_Description :: string

definition zero_PortForwardInput :: PortForwardInput where
  "zero_PortForwardInput = \<lparr>pi_Interface = [], pi_Protocol = [], pi_Source = [], pi_SourcePort = [], pi_Destination =
     [], pi_DestPort = [], pi_TargetIP = [], pi_TargetPort = [], pi_Description = []\<rparr>"

definition PortForwardInput_fields :: "PortForwardInput field_table" where
  "PortForwardInput_fields =
     [(''interface'', dec_string (\<lambda>x. pi_Interface_update (\<lambda>_. x))),
      (''protocol'', dec_string (\<lambda>x. pi_Protocol_update (\<lambda>_. x))),
      (''source'', dec_string (\<lambda>x. pi_Source_update (\<lambda>_. x))),
      (''source_port'', dec_string (\<lambda>x. pi_SourcePort_update (\<lambda>_. x))),
      (''destination'', dec_string (\<lambda>x. pi_Destination_update (\<lambda>_. x))),
      (''destination_port'', dec_string (\<lambda>x. pi_DestPort_update (\<lambda>_. x))),
      (''target_ip'', dec_string (\<lambda>x. pi_TargetIP_update (\<lambda>_. x))),
      (''target_port'', dec_string (\<lambda>x. pi_TargetPort_update (\<lambda>_. x))),
      (''description'', dec_string (\<lambda>x. pi_Description_update (\<lambda>_. x)))]"

definition PortForwardInput_json :: "PortForwardInput \<Rightarrow> json" where
  "PortForwardInput_json r = JObj ([(''interface'', JStr (pi_Interface r)), (''protocol'', JStr (pi_Protocol r))] @
     omit_str ''source'' (pi_Source r) @
     omit_str ''source_port'' (pi_SourcePort r) @
     omit_str ''destination'' (pi_Destination r) @
     [(''destination_port'', JStr (pi_DestPort r)), (''target_ip'', JStr (pi_TargetIP r)), (''target_port'', JStr (pi_TargetPort r))] @
     omit_str ''description'' (pi_Description r))"

record DHCPLease =
  dh_IP :: string
  dh_MAC :: string
  dh_Hostname :: string
  dh_Description :: string
  dh_Interface :: string
  dh_Type :: string
  dh_State :: string
  dh_Online :: string
  dh_Starts :: string
  dh_Ends :: string

definition zero_DHCPLease :: DHCPLease where
  "zero_DHCPLease = \<lparr>dh_IP = [], dh_MAC = [], dh_Hostname = [], dh_Description = [], dh_Interface = [], dh_Type
     = [], dh_State = [], dh_Online = [], dh_Starts = [], dh_Ends = []\<rparr>"

definition DHCPLease_fields :: "DHCPLease field_table" where
  "DHCPLease_fields =
     [(''ip'', dec_string (\<lambda>x. dh_IP_update (\<lambda>_. x))),
      (''mac'', dec_string (\<lambda>x. dh_MAC_update (\<lambda>_. x))),
      (''hostname'', dec_string (\<lambda>x. dh_Hostname_update (\<lambda>_. x))),
      (''description'', dec_string (\<lambda>x. dh_Description_update (\<lambda>_. x))),
      (''interface'', dec_string (\<lambda>x. dh_Interface_update (\<lambda>_. x))),
      (''type'', dec_string (\<lambda>x. dh_Type_update (\<lambda>_. x))),
      (''state'', dec_string (\<lambda>x. dh_State_update (\<lambda>_. x))),
      (''online'', dec_string (\<lambda>x. dh_Online_update (\<lambda>_. x))),
      (''starts'', dec_string (\<lambda>x. dh_Starts_update (\<lambda>_. x))),
      (''ends'', dec_string (\<lambda>x. dh_Ends_update (\<lambda>_. x)))]"

definition DHCPLease_json :: "DHCPLease \<Rightarrow> json" where
  "DHCPLease_json r = JObj ([(''ip'', JStr (dh_IP r))] @
     omit_str ''mac'' (dh_MAC r) @
     omit_str ''hostname'' (dh_Hostname r) @
     omit_str ''description'' (dh_Description r) @
     omit_str ''interface'' (dh_Interface r) @
     omit_str ''type'' (dh_Type r) @
     omit_str ''state'' (dh_State r) @
     omit_str ''online'' (dh_Online r) @
     omit_str ''starts'' (dh_Starts r) @
     omit_str ''ends'' (dh_Ends r))"

record SetPasswordResult =
  sp_Username :: string
  sp_Success :: bool
  sp_Message :: string

definition SetPasswordResult_json :: "SetPasswordResult \<Rightarrow> json" where
  "SetPasswordResult_json r = JObj ([(''username'', JStr (sp_Username r)), (''success'', JBool (sp_Success r))] @
     omit_str ''message'' (sp_Message r))"

record InterfaceApplyResult =
  ia_MACAddr :: string
  ia_IfName :: string
  ia_Logical :: string
  ia_Applied :: bool
  ia_Assigned :: bool
  ia_Message :: string

definition zero_InterfaceApplyResult :: InterfaceApplyResult where
  "zero_InterfaceApplyResult = \<lparr>ia_MACAddr = [], ia_IfName = [], ia_Logical = [], ia_Applied = False, ia_Assigned = False,
     ia_Message = []\<rparr>"

definition InterfaceApplyResult_json :: "InterfaceApplyResult \<Rightarrow> json" where
  "InterfaceApplyResult_json r = JObj ([(''mac_addr'', JStr (ia_MACAddr r))] @
     omit_str ''ifname'' (ia_IfName r) @
     omit_str ''logical'' (ia_Logical r) @
     [(''applied'', JBool (ia_Applied r))] @
     omit_bool ''assigned'' (ia_Assigned r) @
     omit_str ''message'' (ia_Message r))"

record interfacePlanEntry =
  pe_IfName :: string
  pe_IPAddr :: string
  pe_Subnet :: string
  pe_Gateway :: string
  pe_DNS :: "string list"
  pe_MTU :: i64

definition interfacePlanEntry_json :: "interfacePlanEntry \<Rightarrow> json" where
  "interfacePlanEntry_json r = JObj ([(''ifname'', JStr (pe_IfName r)), (''ipaddr'', JStr (pe_IPAddr r)), (''subnet'', JStr (pe_Subnet r))] @
     omit_str ''gateway'' (pe_Gateway r) @
     omit_list ''dns'' (map JStr (pe_DNS r)) @
     omit_int ''mtu'' (pe_MTU r))"

record applyScriptInterface =
  ai_IfName :: string
  ai_Logical :: string
  ai_Applied :: bool
  ai_Assigned :: bool
  ai_Message :: string

definition zero_applyScriptInterface :: applyScriptInterface where
  "zero_applyScriptInterface = \<lparr>ai_IfName = [], ai_Logical = [], ai_Applied = False, ai_Assigned = False, ai_Message = []\<rparr>"

definition applyScriptInterface_fields :: "applyScriptInterface field_table" where
  "applyScriptInterface_fields =
     [(''ifname'', dec_string (\<lambda>x. ai_IfName_update (\<lambda>_. x))),
      (''logical'', dec_string (\<lambda>x. ai_Logical_update (\<lambda>_. x))),
      (''applied'', dec_bool (\<lambda>x. ai_Applied_update (\<lambda>_. x))),
      (''assigned'', dec_bool (\<lambda>x. ai_Assigned_update (\<lambda>_. x))),
      (''message'', dec_string (\<lambda>x. ai_Message_update (\<lambda>_. x)))]"

record BootNetworkResult =
  bn_Snapshot :: string
  bn_Interfaces :: "InterfaceApplyResult list"

section \<open>Script outputs\<close>

record setPasswordScriptOutput =
  so_Status :: string
  so_Username :: string

definition setPasswordScriptOutput_fields :: "setPasswordScriptOutput field_table" where
  "setPasswordScriptOutput_fields = [(''status'', dec_string (\<lambda>x. so_Status_update (\<lambda>_. x))),
     (''username'', dec_string (\<lambda>x. so_Username_update (\<lambda>_. x)))]"

record applyScriptOutput =
  ao_Status :: string
  ao_Interfaces :: "applyScriptInterface list"

definition applyScriptOutput_fields :: "applyScriptOutput field_table" where
  "applyScriptOutput_fields = [(''status'', dec_string (\<lambda>x. ao_Status_update (\<lambda>_. x))),
     (''interfaces'', dec_list (json_Unmarshal applyScriptInterface_fields zero_applyScriptInterface)
        (\<lambda>x. ao_Interfaces_update (\<lambda>_. x)))]"

text \<open>
  The list scripts answer with a status and a list, the create scripts with a status and a tracker,
  the restore script with a status; a nil list (absent or null) is told apart from an empty one.
\<close>

record 'a listScriptOutput =
  lo_Status :: string
  lo_Items :: "'a list option"

definition listScriptOutput_fields ::
    "string \<Rightarrow> (string \<Rightarrow> 'a res) \<Rightarrow> 'a listScriptOutput field_table" where
  "listScriptOutput_fields key elem = [(''status'', dec_string (\<lambda>x. lo_Status_update (\<lambda>_. x))),
     (key, (\<lambda>raw s. case json_view raw of
        Some VNull \<Rightarrow> Inr (s\<lparr>lo_Items := None\<rparr>)
      | _ \<Rightarrow> dec_list elem (\<lambda>x. lo_Items_update (\<lambda>_. Some x)) raw s))]"

record createScriptOutput =
  ct_Status :: string
  ct_Tracker :: string

definition createScriptOutput_fields :: "createScriptOutput field_table" where
  "createScriptOutput_fields = [(''status'', dec_string (\<lambda>x. ct_Status_update (\<lambda>_. x))),
     (''tracker'', dec_string (\<lambda>x. ct_Tracker_update (\<lambda>_. x)))]"

section \<open>Matching NICs\<close>

text \<open>A \<open>net.Interface\<close>: its name and hardware address.\<close>

record Interface =
  if_Name :: string
  if_HardwareAddr :: "8 word list"

definition HardwareAddr_String :: "8 word list \<Rightarrow> string" where
  "HardwareAddr_String a = str_Join (map hex_byte a) '':''"

record matchedNIC =
  mn_Card :: VirtualNetworkCard
  mn_IfName :: string

definition normalizeMAC :: "string \<Rightarrow> string" where
  "normalizeMAC mac = str_ToLower (str_TrimSpace mac)"

definition byMAC :: "Interface list \<Rightarrow> string \<rightharpoonup> string" where
  "byMAC ifaces = foldl (\<lambda>m i. let mac = normalizeMAC (HardwareAddr_String (if_HardwareAddr i)) in
     if mac = [] then m else m(mac \<mapsto> if_Name i)) (\<lambda>_. None) ifaces"

definition matchNICsByMAC :: "VirtualNetworkCard list \<Rightarrow> Interface list \<Rightarrow> matchedNIC list" where
  "matchNICsByMAC cards ifaces =
     concat (map (\<lambda>card. case byMAC ifaces (normalizeMAC (nic_MACAddr card)) of
        None \<Rightarrow> [] | Some ifname \<Rightarrow> [\<lparr>mn_Card = card, mn_IfName = ifname\<rparr>]) cards)"

definition stripCIDRSuffix :: "string \<Rightarrow> string" where
  "stripCIDRSuffix s = (case str_Index s ''/'' of Some i \<Rightarrow> take i s | None \<Rightarrow> s)"

section \<open>Properties\<close>

lemma byMAC_spec:
  "byMAC ifaces mac = (if mac = [] then None
     else map_option if_Name (find (\<lambda>i. normalizeMAC (HardwareAddr_String (if_HardwareAddr i)) = mac) (rev ifaces)))"
proof (induction ifaces rule: rev_induct)
  case (snoc i js)
  then show ?case
    by (auto simp: byMAC_def Let_def)
qed (simp add: byMAC_def)

text \<open>C25: NIC matching is exactly by MAC address: the matched cards are, in the order of the metadata,
  those whose trimmed, lower-cased MAC is non-empty and equals that of some local interface, each
  paired with the last interface that has it; letter case and surrounding blanks do not matter.\<close>

theorem matchNICsByMAC_exact:
  "map mn_Card (matchNICsByMAC cards ifaces) =
      filter (\<lambda>c. normalizeMAC (nic_MACAddr c) \<noteq> [] \<and>
        list_ex (\<lambda>i. normalizeMAC (HardwareAddr_String (if_HardwareAddr i)) = normalizeMAC (nic_MACAddr c)) ifaces) cards \<and>
   list_all (\<lambda>mn. find (\<lambda>i. normalizeMAC (HardwareAddr_String (if_HardwareAddr i)) =
        normalizeMAC (nic_MACAddr (mn_Card mn))) (rev ifaces) \<noteq> None \<and>
      mn_IfName mn = if_Name (the (find (\<lambda>i. normalizeMAC (HardwareAddr_String (if_HardwareAddr i)) =
        normalizeMAC (nic_MACAddr (mn_Card mn))) (rev ifaces)))) (matchNICsByMAC cards ifaces)"
proof -
  have hit: "byMAC ifaces m = None \<longleftrightarrow> m = [] \<or> \<not> list_ex (\<lambda>i. normalizeMAC (HardwareAddr_String (if_HardwareAddr i)) = m) ifaces" for m
    by (auto simp: byMAC_spec find_None_iff list_ex_iff)
  have hit_Some: "byMAC ifaces m = Some n \<Longrightarrow> m \<noteq> [] \<and> list_ex (\<lambda>i. normalizeMAC (HardwareAddr_String (if_HardwareAddr i)) = m) ifaces" for m n
    using hit [of m] by auto
  show ?thesis
  proof
    show "map mn_Card (matchNICsByMAC cards ifaces) =
      filter (\<lambda>c. normalizeMAC (nic_MACAddr c) \<noteq> [] \<and>
        list_ex (\<lambda>i. normalizeMAC (HardwareAddr_String (if_HardwareAddr i)) = normalizeMAC (nic_MACAddr c)) ifaces) cards"
      unfolding matchNICsByMAC_def
    proof (induction cards)
      case (Cons c cards)
      show ?case
      proof (cases "byMAC ifaces (normalizeMAC (nic_MACAddr c))")
        case None
        with Cons hit [of "normalizeMAC (nic_MACAddr c)"] show ?thesis by auto
      next
        case (Some n)
        with Cons hit_Some [OF Some] show ?thesis by simp
      qed
    qed simp
  qed (auto simp: matchNICsByMAC_def list_all_iff byMAC_spec map_option_case split: option.splits if_splits)
qed

text \<open>Stripping a CIDR suffix keeps exactly the part before the first slash, and the whole address
  when there is none; the result never contains a slash.\<close>

theorem stripCIDRSuffix_exact: "stripCIDRSuffix s = takeWhile (\<lambda>c. c \<noteq> CHR ''/'') s"
proof (cases "CHR ''/'' \<in> set s")
  case True
  then obtain u v where s: "s = u @ CHR ''/'' # v" "CHR ''/'' \<notin> set u" by (meson split_list_first)
  have "takeWhile (\<lambda>c. c \<noteq> CHR ''/'') (u @ CHR ''/'' # v) = u" if "CHR ''/'' \<notin> set u" for u v
    using that by (induction u) auto
  with s have "takeWhile (\<lambda>c. c \<noteq> CHR ''/'') s = u" by blast
  with s show ?thesis by (simp add: stripCIDRSuffix_def str_Index_char)
next
  case False
  then have "\<forall>c\<in>set s. c \<noteq> CHR ''/''" by metis
  then have t: "takeWhile (\<lambda>c. c \<noteq> CHR ''/'') s = s" by (simp add: takeWhile_eq_all_conv)
  show ?thesis unfolding stripCIDRSuffix_def str_Index_None_char [OF False] t by simp
qed

end
