(* ===== verification/Pfsense.thy ===== *)
theory Pfsense
  imports PfsenseTypes
begin

text \<open>
  internal/modules/pfsense/pfsense_freebsd.go and pfsense_stub.go: the pfSense manager. The real one
  writes an embedded PHP script to a private temporary directory, runs it, and removes the directory
  again. The texts of the scripts are the record \<open>scripts\<close>, what they do when run is the process
  parameter \<open>rp\<close>, and \<open>net.Interfaces()\<close> is the parameter \<open>nif\<close>.
\<close>

record scripts =
  setPasswordScript :: string
  setDefaultPasswordScript :: string
  netconfigSnapshotScript :: string
  netconfigApplyScript :: string
  netconfigRestoreScript :: string
  firewallListScript :: string
  firewallCreateScript :: string
  firewallDeleteScript :: string
  natListScript :: string
  natCreateScript :: string
  natDeleteScript :: string
  dhcpLeasesListScript :: string

definition phpBinary :: string where
  "phpBinary = ''/usr/local/bin/php''"

section \<open>Running an embedded script\<close>

definition runEmbeddedPHP ::
    "'x runner \<Rightarrow> Executor \<Rightarrow> string \<Rightarrow> string \<Rightarrow> string option \<Rightarrow> string list \<Rightarrow>
     ('x, string \<times> string \<times> gerr option) op" where
  "runEmbeddedPHP rp ex script scriptName stdin args = do {
     d \<leftarrow> os_MkdirTemp ''plusclouds-pfsense-'';
     (case d of
       Inl e \<Rightarrow> ret ([], [], Some (errorf_w ''creating temp dir: '' e []))
     | Inr dir \<Rightarrow> (let scriptPath = filepath_Join dir scriptName in do {
         w \<leftarrow> os_WriteFile scriptPath script 384;
         r \<leftarrow> (case w of
            Inl e \<Rightarrow> ret ([], [], Some (errorf_w ''writing script: '' e []))
          | Inr _ \<Rightarrow> ExecuteWithStdin rp ex stdin phpBinary ([''-f'', scriptPath] @ args));
         os_RemoveAll dir;
         ret r
       }))
   }"

definition script_message :: "string \<Rightarrow> gerr \<Rightarrow> string" where
  "script_message stderr e = (if stderr = [] then err_Error e else stderr)"

section \<open>Passwords\<close>

definition empty_output :: setPasswordScriptOutput where
  "empty_output = \<lparr>so_Status = [], so_Username = []\<rparr>"

definition SetPassword_freebsd ::
    "scripts \<Rightarrow> 'x runner \<Rightarrow> Executor \<Rightarrow> string \<Rightarrow> string \<Rightarrow> ('x, SetPasswordResult res) op" where
  "SetPassword_freebsd sc rp ex username password =
     (if username = [] then ret (Inl (errorf ''username must not be empty''))
      else if password = [] then ret (Inl (errorf ''password must not be empty''))
      else do {
        r \<leftarrow> runEmbeddedPHP rp ex (setPasswordScript sc) ''set_password.php'' (Some password) [username];
        ret (case r of (stdout, stderr, err) \<Rightarrow> (case err of
          Some e \<Rightarrow> Inr \<lparr>sp_Username = username, sp_Success = False, sp_Message = script_message stderr e\<rparr>
        | None \<Rightarrow> (case json_Unmarshal setPasswordScriptOutput_fields empty_output stdout of
            Inl e \<Rightarrow> Inl (errorf_w (''parsing script output '' @ str_Quote stdout @ '': '') e [])
          | Inr out \<Rightarrow>
            if so_Status out \<noteq> ''ok'' then Inr \<lparr>sp_Username = username, sp_Success = False,
              sp_Message = ''unexpected script status: '' @ so_Status out\<rparr>
            else Inr \<lparr>sp_Username = username, sp_Success = True, sp_Message = ''password updated''\<rparr>)))
      })"

definition SetDefaultUserPassword_freebsd ::
    "scripts \<Rightarrow> 'x runner \<Rightarrow> Executor \<Rightarrow> string \<Rightarrow> ('x, SetPasswordResult res) op" where
  "SetDefaultUserPassword_freebsd sc rp ex password =
     (if password = [] then ret (Inl (errorf ''password must not be empty''))
      else do {
        r \<leftarrow> runEmbeddedPHP rp ex (setDefaultPasswordScript sc) ''set_default_password.php'' (Some password) [];
        ret (case r of (stdout, stderr, err) \<Rightarrow> (case err of
          Some e \<Rightarrow> Inr \<lparr>sp_Username = [], sp_Success = False, sp_Message = script_message stderr e\<rparr>
        | None \<Rightarrow> (case json_Unmarshal setPasswordScriptOutput_fields empty_output stdout of
            Inl e \<Rightarrow> Inl (errorf_w (''parsing script output '' @ str_Quote stdout @ '': '') e [])
          | Inr out \<Rightarrow>
            if so_Status out \<noteq> ''ok'' then Inr \<lparr>sp_Username = [], sp_Success = False,
              sp_Message = ''unexpected script status: '' @ so_Status out\<rparr>
            else Inr \<lparr>sp_Username = so_Username out, sp_Success = True, sp_Message = ''password updated''\<rparr>)))
      })"

section \<open>Boot network configuration\<close>

definition matchedByMAC :: "matchedNIC list \<Rightarrow> string \<rightharpoonup> matchedNIC" where
  "matchedByMAC matched =
     foldl (\<lambda>m mn. m(normalizeMAC (nic_MACAddr (mn_Card mn)) \<mapsto> mn)) (\<lambda>_. None) matched"

definition plan_entry :: "VirtualNetworkCard \<Rightarrow> string \<Rightarrow> interfacePlanEntry" where
  "plan_entry nic ifname = \<lparr>pe_IfName = ifname,
     pe_IPAddr = stripCIDRSuffix (ip_IPAddr (hd (dl_Data (nic_IPList nic)))),
     pe_Subnet = nw_Subnet (nic_Network nic),
     pe_Gateway = (case nw_Gateway (nic_Network nic) of Some g \<Rightarrow> stripCIDRSuffix g | None \<Rightarrow> []),
     pe_DNS = map stripCIDRSuffix (nw_DNSNameservers (nic_Network nic)),
     pe_MTU = nw_MTU (nic_Network nic)\<rparr>"

fun build_plan ::
    "(string \<rightharpoonup> matchedNIC) \<Rightarrow> VirtualNetworkCard list \<Rightarrow> InterfaceApplyResult list \<Rightarrow> interfacePlanEntry list \<Rightarrow>
     ('x, InterfaceApplyResult list \<times> interfacePlanEntry list) op" where
  "build_plan byM [] results entries = ret (results, entries)"
| "build_plan byM (nic # cards) results entries =
     (case byM (normalizeMAC (nic_MACAddr nic)) of
       None \<Rightarrow> do {
         logger WarnLevel ''boot network config: no local interface matches NIC MAC''
           [(''mac_addr'', FString (nic_MACAddr nic))];
         build_plan byM cards (results @ [zero_InterfaceApplyResult\<lparr>ia_MACAddr := nic_MACAddr nic,
           ia_Message := ''no local network interface with this MAC address''\<rparr>]) entries
       }
     | Some mn \<Rightarrow>
       if dl_Data (nic_IPList nic) = [] \<or> nw_Subnet (nic_Network nic) = [] then
         build_plan byM cards (results @ [zero_InterfaceApplyResult\<lparr>ia_MACAddr := nic_MACAddr nic,
           ia_IfName := mn_IfName mn, ia_Message := ''no static IP/subnet in metadata for this NIC''\<rparr>]) entries
       else build_plan byM cards results (entries @ [plan_entry nic (mn_IfName mn)]))"

definition applyPlan_json :: "interfacePlanEntry list \<Rightarrow> json" where
  "applyPlan_json entries = JObj [(''interfaces'', JArr (map interfacePlanEntry_json entries))]"

definition script_result :: "applyScriptInterface \<Rightarrow> InterfaceApplyResult" where
  "script_result r = \<lparr>ia_MACAddr = [], ia_IfName = ai_IfName r, ia_Logical = ai_Logical r, ia_Applied = ai_Applied r,
     ia_Assigned = ai_Assigned r, ia_Message = ai_Message r\<rparr>"

definition ApplyBootNetworkConfig_freebsd ::
    "('x world \<Rightarrow> Interface list res \<times> 'x world) \<Rightarrow> scripts \<Rightarrow> 'x runner \<Rightarrow> Executor \<Rightarrow>
     VirtualNetworkCard list \<Rightarrow> ('x, BootNetworkResult option res) op" where
  "ApplyBootNetworkConfig_freebsd nif sc rp ex cards = do {
     i \<leftarrow> on_world nif;
     (case i of
       Inl e \<Rightarrow> ret (Inl (errorf_w ''listing local network interfaces: '' e []))
     | Inr ifaces \<Rightarrow> do {
         p \<leftarrow> build_plan (matchedByMAC (matchNICsByMAC cards ifaces)) cards [] [];
         (case p of (results, entries) \<Rightarrow>
           if entries = [] then ret (Inr (Some \<lparr>bn_Snapshot = [], bn_Interfaces = results\<rparr>))
           else do {
             sn \<leftarrow> runEmbeddedPHP rp ex (netconfigSnapshotScript sc) ''snapshot.php'' None [];
             (case sn of (snapStdout, snapStderr, err) \<Rightarrow> (case err of
               Some e \<Rightarrow> ret (Inl (errorf_w ''taking network config snapshot: '' e ('' ('' @ snapStderr @ '')'')))
             | None \<Rightarrow> (case json_Marshal (applyPlan_json entries) of
                 Inl e \<Rightarrow> ret (Inl (errorf_w ''marshalling network plan: '' e []))
               | Inr planJSON \<Rightarrow> do {
                   ap \<leftarrow> runEmbeddedPHP rp ex (netconfigApplyScript sc) ''apply.php'' (Some planJSON) [];
                   (case ap of (applyStdout, applyStderr, aerr) \<Rightarrow> (case aerr of
                     Some e \<Rightarrow> ret (Inr (Some \<lparr>bn_Snapshot = snapStdout,
                       bn_Interfaces = results @ [zero_InterfaceApplyResult\<lparr>ia_Message :=
                         ''apply script failed: '' @ script_message applyStderr e\<rparr>]\<rparr>))
                   | None \<Rightarrow> (case json_Unmarshal applyScriptOutput_fields \<lparr>ao_Status = [], ao_Interfaces = []\<rparr> applyStdout of
                       Inl e \<Rightarrow> ret (Inl (errorf_w (''parsing apply script output '' @ str_Quote applyStdout @ '': '') e []))
                     | Inr out \<Rightarrow> do {
                         logger InfoLevel ''boot network config applied''
                           [(''interfaces_applied'', FInt (int (length (ao_Interfaces out))))];
                         ret (Inr (Some \<lparr>bn_Snapshot = snapStdout,
                           bn_Interfaces = results @ map script_result (ao_Interfaces out)\<rparr>))
                       })))
                 })))
           })
       })
   }"

text \<open>The restore script's reply has only a status.\<close>

record restoreScriptOutput =
  rt_Status :: string

definition restoreScriptOutput_fields :: "restoreScriptOutput field_table" where
  "restoreScriptOutput_fields = [(''status'', dec_string (\<lambda>x. rt_Status_update (\<lambda>_. x)))]"

definition Revert_freebsd :: "scripts \<Rightarrow> 'x runner \<Rightarrow> Executor \<Rightarrow> string \<Rightarrow> ('x, gerr option) op" where
  "Revert_freebsd sc rp ex snapshot =
     (if snapshot = [] then ret (Some (errorf ''empty snapshot''))
      else do {
        r \<leftarrow> runEmbeddedPHP rp ex (netconfigRestoreScript sc) ''restore.php'' (Some snapshot) [];
        ret (case r of (stdout, stderr, err) \<Rightarrow> (case err of
          Some e \<Rightarrow> Some (errorf_w ''restore script failed: '' e ('' ('' @ stderr @ '')''))
        | None \<Rightarrow> (case json_Unmarshal restoreScriptOutput_fields \<lparr>rt_Status = []\<rparr> stdout of
            Inl e \<Rightarrow> Some (errorf_w (''parsing restore script output '' @ str_Quote stdout @ '': '') e [])
          | Inr out \<Rightarrow> if rt_Status out \<noteq> ''ok'' then Some (errorf (''unexpected restore script status: '' @ rt_Status out))
              else None)))
      })"

section \<open>Firewall rules, port forwards and leases\<close>

definition ListFirewallRules_freebsd :: "scripts \<Rightarrow> 'x runner \<Rightarrow> Executor \<Rightarrow> ('x, FirewallRule list option res) op" where
  "ListFirewallRules_freebsd sc rp ex = do {
     r \<leftarrow> runEmbeddedPHP rp ex (firewallListScript sc) ''list.php'' None [];
     ret (case r of (stdout, stderr, err) \<Rightarrow> (case err of
       Some e \<Rightarrow> Inl (errorf_w ''listing firewall rules: '' e ('' ('' @ stderr @ '')''))
     | None \<Rightarrow> (case json_Unmarshal (listScriptOutput_fields ''rules'' (json_Unmarshal FirewallRule_fields zero_FirewallRule))
           \<lparr>lo_Status = [], lo_Items = None\<rparr> stdout of
         Inl e \<Rightarrow> Inl (errorf_w (''parsing firewall list script output '' @ str_Quote stdout @ '': '') e [])
       | Inr out \<Rightarrow> if lo_Status out \<noteq> ''ok'' then Inl (errorf (''unexpected firewall list script status: '' @ lo_Status out))
           else Inr (lo_Items out))))
   }"

definition CreateFirewallRule_freebsd ::
    "scripts \<Rightarrow> 'x runner \<Rightarrow> Executor \<Rightarrow> FirewallRuleInput \<Rightarrow> ('x, FirewallRule res) op" where
  "CreateFirewallRule_freebsd sc rp ex rule = (case json_Marshal (FirewallRuleInput_json rule) of
     Inl e \<Rightarrow> ret (Inl (errorf_w ''marshalling firewall rule: '' e []))
   | Inr input \<Rightarrow> do {
       r \<leftarrow> runEmbeddedPHP rp ex (firewallCreateScript sc) ''create.php'' (Some input) [];
       ret (case r of (stdout, stderr, err) \<Rightarrow> (case err of
         Some e \<Rightarrow> Inl (errorf (''creating firewall rule: '' @ script_message stderr e))
       | None \<Rightarrow> (case json_Unmarshal createScriptOutput_fields \<lparr>ct_Status = [], ct_Tracker = []\<rparr> stdout of
           Inl e \<Rightarrow> Inl (errorf_w (''parsing firewall create script output '' @ str_Quote stdout @ '': '') e [])
         | Inr out \<Rightarrow> if ct_Status out \<noteq> ''ok'' then Inl (errorf (''unexpected firewall create script status: '' @ ct_Status out))
             else Inr \<lparr>fr_Tracker = ct_Tracker out, fr_Interface = fi_Interface rule, fr_Action = fi_Action rule,
               fr_Protocol = fi_Protocol rule, fr_Source = fi_Source rule, fr_SourcePort = fi_SourcePort rule,
               fr_Destination = fi_Destination rule, fr_DestPort = fi_DestPort rule,
               fr_Description = fi_Description rule, fr_Disabled = False\<rparr>)))
     })"

definition DeleteFirewallRule_freebsd :: "scripts \<Rightarrow> 'x runner \<Rightarrow> Executor \<Rightarrow> string \<Rightarrow> ('x, gerr option) op" where
  "DeleteFirewallRule_freebsd sc rp ex tracker =
     (if tracker = [] then ret (Some (errorf ''tracker must not be empty''))
      else do {
        r \<leftarrow> runEmbeddedPHP rp ex (firewallDeleteScript sc) ''delete.php'' None [tracker];
        ret (case r of (_, stderr, err) \<Rightarrow> (case err of
          Some e \<Rightarrow> Some (errorf (''deleting firewall rule '' @ tracker @ '': '' @ script_message stderr e))
        | None \<Rightarrow> None))
      })"

definition ListPortForwards_freebsd :: "scripts \<Rightarrow> 'x runner \<Rightarrow> Executor \<Rightarrow> ('x, PortForward list option res) op" where
  "ListPortForwards_freebsd sc rp ex = do {
     r \<leftarrow> runEmbeddedPHP rp ex (natListScript sc) ''list.php'' None [];
     ret (case r of (stdout, stderr, err) \<Rightarrow> (case err of
       Some e \<Rightarrow> Inl (errorf_w ''listing port forwards: '' e ('' ('' @ stderr @ '')''))
     | None \<Rightarrow> (case json_Unmarshal (listScriptOutput_fields ''port_forwards'' (json_Unmarshal PortForward_fields zero_PortForward))
           \<lparr>lo_Status = [], lo_Items = None\<rparr> stdout of
         Inl e \<Rightarrow> Inl (errorf_w (''parsing nat list script output '' @ str_Quote stdout @ '': '') e [])
       | Inr out \<Rightarrow> if lo_Status out \<noteq> ''ok'' then Inl (errorf (''unexpected nat list script status: '' @ lo_Status out))
           else Inr (lo_Items out))))
   }"

definition CreatePortForward_freebsd ::
    "scripts \<Rightarrow> 'x runner \<Rightarrow> Executor \<Rightarrow> PortForwardInput \<Rightarrow> ('x, PortForward res) op" where
  "CreatePortForward_freebsd sc rp ex pf = (case json_Marshal (PortForwardInput_json pf) of
     Inl e \<Rightarrow> ret (Inl (errorf_w ''marshalling port forward: '' e []))
   | Inr input \<Rightarrow> do {
       r \<leftarrow> runEmbeddedPHP rp ex (natCreateScript sc) ''create.php'' (Some input) [];
       ret (case r of (stdout, stderr, err) \<Rightarrow> (case err of
         Some e \<Rightarrow> Inl (errorf (''creating port forward: '' @ script_message stderr e))
       | None \<Rightarrow> (case json_Unmarshal createScriptOutput_fields \<lparr>ct_Status = [], ct_Tracker = []\<rparr> stdout of
           Inl e \<Rightarrow> Inl (errorf_w (''parsing nat create script output '' @ str_Quote stdout @ '': '') e [])
         | Inr out \<Rightarrow> if ct_Status out \<noteq> ''ok'' then Inl (errorf (''unexpected nat create script status: '' @ ct_Status out))
             else Inr \<lparr>pf_Tracker = ct_Tracker out, pf_Interface = pi_Interface pf, pf_Protocol = pi_Protocol pf,
               pf_Source = pi_Source pf, pf_SourcePort = pi_SourcePort pf, pf_Destination = pi_Destination pf,
               pf_DestPort = pi_DestPort pf, pf_TargetIP = pi_TargetIP pf, pf_TargetPort = pi_TargetPort pf,
               pf_Description = pi_Description pf, pf_Disabled = False\<rparr>)))
     })"

definition DeletePortForward_freebsd :: "scripts \<Rightarrow> 'x runner \<Rightarrow> Executor \<Rightarrow> string \<Rightarrow> ('x, gerr option) op" where
  "DeletePortForward_freebsd sc rp ex tracker =
     (if tracker = [] then ret (Some (errorf ''tracker must not be empty''))
      else do {
        r \<leftarrow> runEmbeddedPHP rp ex (natDeleteScript sc) ''delete.php'' None [tracker];
        ret (case r of (_, stderr, err) \<Rightarrow> (case err of
          Some e \<Rightarrow> Some (errorf (''deleting port forward '' @ tracker @ '': '' @ script_message stderr e))
        | None \<Rightarrow> None))
      })"

definition ListDHCPLeases_freebsd :: "scripts \<Rightarrow> 'x runner \<Rightarrow> Executor \<Rightarrow> ('x, DHCPLease list option res) op" where
  "ListDHCPLeases_freebsd sc rp ex = do {
     r \<leftarrow> runEmbeddedPHP rp ex (dhcpLeasesListScript sc) ''list.php'' None [];
     ret (case r of (stdout, stderr, err) \<Rightarrow> (case err of
       Some e \<Rightarrow> Inl (errorf_w ''listing DHCP leases: '' e ('' ('' @ stderr @ '')''))
     | None \<Rightarrow> (case json_Unmarshal (listScriptOutput_fields ''leases'' (json_Unmarshal DHCPLease_fields zero_DHCPLease))
           \<lparr>lo_Status = [], lo_Items = None\<rparr> stdout of
         Inl e \<Rightarrow> Inl (errorf_w (''parsing dhcp leases list script output '' @ str_Quote stdout @ '': '') e [])
       | Inr out \<Rightarrow> if lo_Status out \<noteq> ''ok'' then Inl (errorf (''unexpected dhcp leases list script status: '' @ lo_Status out))
           else Inr (lo_Items out))))
   }"

section \<open>The Manager interface\<close>

record 'x PfManager =
  pm_SetPassword :: "string \<Rightarrow> string \<Rightarrow> ('x, SetPasswordResult res) op"
  pm_SetDefaultUserPassword :: "string \<Rightarrow> ('x, SetPasswordResult res) op"
  pm_ApplyBootNetworkConfig :: "VirtualNetworkCard list \<Rightarrow> ('x, BootNetworkResult option res) op"
  pm_Revert :: "string \<Rightarrow> ('x, gerr option) op"
  pm_ListFirewallRules :: "('x, FirewallRule list option res) op"
  pm_CreateFirewallRule :: "FirewallRuleInput \<Rightarrow> ('x, FirewallRule res) op"
  pm_DeleteFirewallRule :: "string \<Rightarrow> ('x, gerr option) op"
  pm_ListPortForwards :: "('x, PortForward list option res) op"
  pm_CreatePortForward :: "PortForwardInput \<Rightarrow> ('x, PortForward res) op"
  pm_DeletePortForward :: "string \<Rightarrow> ('x, gerr option) op"
  pm_ListDHCPLeases :: "('x, DHCPLease list option res) op"

definition freebsd_pfsense ::
    "('x world \<Rightarrow> Interface list res \<times> 'x world) \<Rightarrow> scripts \<Rightarrow> 'x runner \<Rightarrow> Executor \<Rightarrow> 'x PfManager" where
  "freebsd_pfsense nif sc rp ex = \<lparr>pm_SetPassword = SetPassword_freebsd sc rp ex,
     pm_SetDefaultUserPassword = SetDefaultUserPassword_freebsd sc rp ex,
     pm_ApplyBootNetworkConfig = ApplyBootNetworkConfig_freebsd nif sc rp ex,
     pm_Revert = Revert_freebsd sc rp ex,
     pm_ListFirewallRules = ListFirewallRules_freebsd sc rp ex,
     pm_CreateFirewallRule = CreateFirewallRule_freebsd sc rp ex,
     pm_DeleteFirewallRule = DeleteFirewallRule_freebsd sc rp ex,
     pm_ListPortForwards = ListPortForwards_freebsd sc rp ex,
     pm_CreatePortForward = CreatePortForward_freebsd sc rp ex,
     pm_DeletePortForward = DeletePortForward_freebsd sc rp ex,
     pm_ListDHCPLeases = ListDHCPLeases_freebsd sc rp ex\<rparr>"

definition errNotSupported :: gerr where
  "errNotSupported = errorf ''pfSense operations are only supported on pfSense/FreeBSD''"

definition stub_pfsense :: "'x PfManager" where
  "stub_pfsense = \<lparr>pm_SetPassword = (\<lambda>username _. ret (Inr \<lparr>sp_Username = username, sp_Success = False,
       sp_Message = err_Error errNotSupported\<rparr>)),
     pm_SetDefaultUserPassword = (\<lambda>_. ret (Inr \<lparr>sp_Username = [], sp_Success = False,
       sp_Message = err_Error errNotSupported\<rparr>)),
     pm_ApplyBootNetworkConfig = (\<lambda>_. ret (Inr None)),
     pm_Revert = (\<lambda>_. ret None),
     pm_ListFirewallRules = ret (Inl errNotSupported),
     pm_CreateFirewallRule = (\<lambda>_. ret (Inl errNotSupported)),
     pm_DeleteFirewallRule = (\<lambda>_. ret (Some errNotSupported)),
     pm_ListPortForwards = ret (Inl errNotSupported),
     pm_CreatePortForward = (\<lambda>_. ret (Inl errNotSupported)),
     pm_DeletePortForward = (\<lambda>_. ret (Some errNotSupported)),
     pm_ListDHCPLeases = ret (Inl errNotSupported)\<rparr>"

section \<open>What running a script does\<close>

lemma run_runEmbeddedPHP:
  "run_state (runEmbeddedPHP rp ex script name stdin args) s =
    (case run_state (os_MkdirTemp ''plusclouds-pfsense-'') s of
       (Inl e, s1) \<Rightarrow> (([], [], Some (errorf_w ''creating temp dir: '' e [])), s1)
     | (Inr dir, s1) \<Rightarrow> (case run_state (os_WriteFile (filepath_Join dir name) script 384) s1 of
         (Inl e, s2) \<Rightarrow> (([], [], Some (errorf_w ''writing script: '' e [])), snd (run_state (os_RemoveAll dir) s2))
       | (Inr _, s2) \<Rightarrow> (case run_state (ExecuteWithStdin rp ex stdin phpBinary
             ([''-f'', filepath_Join dir name] @ args)) s2 of
           (r, s3) \<Rightarrow> (r, snd (run_state (os_RemoveAll dir) s3)))))"
  by (auto simp: runEmbeddedPHP_def Let_def split: prod.splits sum.splits)

definition php_call :: "string \<Rightarrow> string option \<Rightarrow> string list \<Rightarrow> call \<Rightarrow> bool" where
  "php_call name stdin args c \<longleftrightarrow> c_cmd c = phpBinary \<and> c_stdin c = stdin \<and>
     (\<exists>dir. c_args c = [''-f'', filepath_Join dir name] @ args)"

text \<open>Log entries whose only arguments are those of the script.\<close>

definition php_entry :: "string list \<Rightarrow> logent \<Rightarrow> bool" where
  "php_entry args e \<longleftrightarrow> (\<exists>path r. e = audit_entry phpBinary ([''-f'', path] @ args) r)"

lemma adds_runEmbeddedPHP:
  assumes "\<And>c. php_call name stdin args c \<Longrightarrow> P c" "\<And>e. php_entry args e \<Longrightarrow> L e"
  shows "keeps (adds L P Q) (runEmbeddedPHP rp ex script name stdin args)"
proof -
  have "P (excall ex stdin phpBinary ([''-f'', filepath_Join dir name] @ args))" for dir
    by (rule assms(1)) (auto simp: php_call_def)
  moreover have "L (audit_entry phpBinary ([''-f'', path] @ args) r)" for path r
    using assms(2) by (auto simp: php_entry_def)
  ultimately show ?thesis
    unfolding runEmbeddedPHP_def by (intro adds_rules adds_ExecuteWithStdin)
qed

text \<open>A script runs at most once; when it reports no error it ran exactly once.\<close>

lemma remove_keeps_trace [simp]:
  "h_procs (snd (run_state (os_RemoveAll d) s)) = h_procs s"
  "h_log (snd (run_state (os_RemoveAll d) s)) = h_log s"
  by (simp_all add: os_RemoveAll_def)

lemma php_runs:
  assumes "run_state (runEmbeddedPHP rp ex script name stdin args) s = ((out, errt, err), t)"
  shows "h_procs t = h_procs s \<and> err \<noteq> None \<or>
    (\<exists>c w. h_procs t = h_procs s @ [c] \<and> php_call name stdin args c \<and> out = o_stdout (fst (rp c w)) \<and>
       err = exec_error ex phpBinary (fst (rp c w)))"
proof (cases "run_state (os_MkdirTemp ''plusclouds-pfsense-'') s")
  case (Pair d s1)
  have p1: "h_procs s1 = h_procs s"
    using adds_no_procs adds.keepsD [OF adds_os(7) Pair, of "\<lambda>_. True" "\<lambda>_. False" "\<lambda>_. True"] by blast
  show ?thesis
  proof (cases d)
    case (Inl e)
    with Pair p1 assms show ?thesis by (auto simp: run_runEmbeddedPHP)
  next
    case (Inr dir)
    obtain r2 s2 where s2: "run_state (os_WriteFile (filepath_Join dir name) script 384) s1 = (r2, s2)" by force
    have p2: "h_procs s2 = h_procs s1"
      using adds_no_procs adds.keepsD [OF adds_os(3) s2, of "\<lambda>_. True" "\<lambda>_. False" "\<lambda>_. True"] by blast
    let ?c = "excall ex stdin phpBinary ([''-f'', filepath_Join dir name] @ args)"
    show ?thesis
    proof (cases r2)
      case (Inl e)
      with Pair Inr s2 p1 p2 assms show ?thesis by (auto simp: run_runEmbeddedPHP)
    next
      case Inr2: (Inr u)
      obtain r3 w3 where "rp ?c (h_world s2) = (r3, w3)" by force
      with Pair Inr Inr2 s2 p1 p2 assms have "h_procs t = h_procs s @ [?c]"
        "out = o_stdout (fst (rp ?c (h_world s2)))" "err = exec_error ex phpBinary (fst (rp ?c (h_world s2)))"
        by (auto simp: run_runEmbeddedPHP run_ExecuteWithStdin)
      moreover have "php_call name stdin args ?c" by (auto simp: php_call_def)
      ultimately show ?thesis by blast
    qed
  qed
qed

lemma php_ran_once:
  assumes "run_state (runEmbeddedPHP rp ex script name stdin args) s = ((out, errt, None), t)"
  shows "\<exists>c. h_procs t = h_procs s @ [c] \<and> php_call name stdin args c"
  using php_runs [where rp = rp and s = s, OF assms] by auto

section \<open>The contract of a manager\<close>

text \<open>
  What the dispatcher and the boot sequence rely on: a manager publishes nothing and starts only the
  PHP interpreter; the password is passed on standard input and never as an argument; a reported
  password change means that one script ran with that password.
\<close>

locale pfsense_manager =
  fixes mgr :: "'x PfManager"
  assumes set_password_trace:
      "keeps (adds (\<lambda>_. True) (php_call ''set_password.php'' (Some p) [u]) (\<lambda>_. False)) (pm_SetPassword mgr u p)"
    and set_default_password_trace:
      "keeps (adds (\<lambda>_. True) (php_call ''set_default_password.php'' (Some p) []) (\<lambda>_. False)) (pm_SetDefaultUserPassword mgr p)"
    and set_password_ran:
      "run_state (pm_SetPassword mgr u p) s = (Inr r, t) \<Longrightarrow> sp_Success r \<Longrightarrow>
        \<exists>c. h_procs t = h_procs s @ [c] \<and> php_call ''set_password.php'' (Some p) [u] c"
    and network_trace:
      "keeps (adds (\<lambda>_. True) (\<lambda>c. c_cmd c = phpBinary) (\<lambda>_. False)) (pm_ApplyBootNetworkConfig mgr cards)"
      "keeps (adds (\<lambda>_. True) (\<lambda>c. c_cmd c = phpBinary) (\<lambda>_. False)) (pm_Revert mgr snap)"
    and rules_trace:
      "keeps (adds (\<lambda>_. True) (\<lambda>c. c_cmd c = phpBinary) (\<lambda>_. False)) (pm_ListFirewallRules mgr)"
      "keeps (adds (\<lambda>_. True) (\<lambda>c. c_cmd c = phpBinary) (\<lambda>_. False)) (pm_CreateFirewallRule mgr fi)"
      "keeps (adds (\<lambda>_. True) (\<lambda>c. c_cmd c = phpBinary) (\<lambda>_. False)) (pm_DeleteFirewallRule mgr tr)"
      "keeps (adds (\<lambda>_. True) (\<lambda>c. c_cmd c = phpBinary) (\<lambda>_. False)) (pm_ListPortForwards mgr)"
      "keeps (adds (\<lambda>_. True) (\<lambda>c. c_cmd c = phpBinary) (\<lambda>_. False)) (pm_CreatePortForward mgr pin)"
      "keeps (adds (\<lambda>_. True) (\<lambda>c. c_cmd c = phpBinary) (\<lambda>_. False)) (pm_DeletePortForward mgr tr)"
      "keeps (adds (\<lambda>_. True) (\<lambda>c. c_cmd c = phpBinary) (\<lambda>_. False)) (pm_ListDHCPLeases mgr)"
begin

lemma set_password_no_pub: "h_pub (snd (run_state (pm_SetPassword mgr u p) s)) = h_pub s"
  by (rule adds_no_pub [OF adds.keeps_run [OF set_password_trace]])

lemma set_password_args:
  assumes "c \<in> set (drop (length (h_procs s)) (h_procs (snd (run_state (pm_SetPassword mgr u p) s))))"
  shows "\<exists>path. c_args c = [''-f'', path, u]"
  using adds.keeps_run [OF set_password_trace [of p u], of s] assms
  by (auto simp: adds_def list_all_iff php_call_def)

end

lemma adds_build_plan:
  assumes "\<And>m. L (LogEnt WarnLevel ''boot network config: no local interface matches NIC MAC'' [(''mac_addr'', FString m)])"
  shows "keeps (adds L P Q) (build_plan byM cards rs es)"
  by (induction byM cards rs es rule: build_plan.induct)
    (auto intro!: adds_rules assms split: option.split)

lemma SetPassword_freebsd_ran:
  assumes "run_state (SetPassword_freebsd sc rp ex u p) s = (Inr r, t)" "sp_Success r"
  shows "\<exists>c. h_procs t = h_procs s @ [c] \<and> php_call ''set_password.php'' (Some p) [u] c"
proof -
  obtain out errt where "run_state (runEmbeddedPHP rp ex (setPasswordScript sc) ''set_password.php'' (Some p) [u]) s
      = ((out, errt, None), t)"
    using assms by (auto simp: SetPassword_freebsd_def split: prod.splits if_splits option.splits sum.splits)
  then show ?thesis by (rule php_ran_once)
qed

lemmas freebsd_pfsense_defs = freebsd_pfsense_def SetPassword_freebsd_def SetDefaultUserPassword_freebsd_def
  ApplyBootNetworkConfig_freebsd_def Revert_freebsd_def ListFirewallRules_freebsd_def
  CreateFirewallRule_freebsd_def DeleteFirewallRule_freebsd_def ListPortForwards_freebsd_def
  CreatePortForward_freebsd_def DeletePortForward_freebsd_def ListDHCPLeases_freebsd_def

lemma adds_php_any:
  "keeps (adds (\<lambda>_. True) (\<lambda>c. c_cmd c = phpBinary) (\<lambda>_. False)) (runEmbeddedPHP rp ex script name stdin args)"
  by (rule adds_runEmbeddedPHP) (auto simp: php_call_def)

lemma adds_php_call:
  "keeps (adds (\<lambda>_. True) (php_call name stdin args) (\<lambda>_. False)) (runEmbeddedPHP rp ex script name stdin args)"
  by (rule adds_runEmbeddedPHP) auto

interpretation real_pfsense: pfsense_manager "freebsd_pfsense nif sc rp ex"
  for nif :: "'x world \<Rightarrow> Interface list res \<times> 'x world" and sc :: scripts and rp :: "'x runner" and ex :: Executor
proof unfold_locales
  show "run_state (pm_SetPassword (freebsd_pfsense nif sc rp ex) u p) s = (Inr r, t) \<Longrightarrow> sp_Success r \<Longrightarrow>
      \<exists>c. h_procs t = h_procs s @ [c] \<and> php_call ''set_password.php'' (Some p) [u] c" for u p s r t
    by (rule SetPassword_freebsd_ran) (simp_all add: freebsd_pfsense_def)
qed (auto simp: freebsd_pfsense_defs Let_def
  intro!: adds_rules adds_on_world adds_build_plan adds_php_any adds_php_call split: prod.split)

interpretation no_pfsense: pfsense_manager "stub_pfsense :: 'x PfManager"
  by unfold_locales (auto simp: stub_pfsense_def intro!: adds_rules)

end
