(* ===== verification/PfsenseProps.thy ===== *)
theory PfsenseProps
  imports Pfsense
begin

text \<open>
  Correctness of the pfSense manager: what it reveals of a password, what it leaves on disk, which
  network plan it applies and in which order, and that firewall and NAT rules reach the scripts as
  the caller gave them.
\<close>

section \<open>Secrecy of passwords\<close>

text \<open>A host with the standard inputs of its processes left out.\<close>

definition forget_stdin :: "'x host \<Rightarrow> 'x host" where
  "forget_stdin s = s\<lparr>h_procs := map (c_stdin_update (\<lambda>_. None)) (h_procs s)\<rparr>"

lemma runEmbeddedPHP_blind:
  assumes "\<And>c w. rp (c\<lparr>c_stdin := Some p\<rparr>) w = rp (c\<lparr>c_stdin := Some q\<rparr>) w"
  shows "map_prod id forget_stdin (run_state (runEmbeddedPHP rp ex script name (Some p) args) s) =
    map_prod id forget_stdin (run_state (runEmbeddedPHP rp ex script name (Some q) args) s)"
proof -
  have rp: "rp (excall ex (Some p) cmd as) w = rp (excall ex (Some q) cmd as) w" for cmd as w
    using assms [of "excall ex None cmd as"] by simp
  show ?thesis
    by (auto simp: run_runEmbeddedPHP run_ExecuteWithStdin rp forget_stdin_def os_RemoveAll_def
        cong: if_cong split: prod.splits sum.splits)
qed

lemma SetPassword_freebsd_blind:
  assumes "p \<noteq> []" "q \<noteq> []"
    and "\<And>c w. rp (c\<lparr>c_stdin := Some p\<rparr>) w = rp (c\<lparr>c_stdin := Some q\<rparr>) w"
  shows "fst (run_state (SetPassword_freebsd sc rp ex u p) s) = fst (run_state (SetPassword_freebsd sc rp ex u q) s) \<and>
    forget_stdin (snd (run_state (SetPassword_freebsd sc rp ex u p) s)) =
      forget_stdin (snd (run_state (SetPassword_freebsd sc rp ex u q) s))"
proof -
  let ?php = "\<lambda>x. run_state (runEmbeddedPHP rp ex (setPasswordScript sc) ''set_password.php'' (Some x) [u]) s"
  from runEmbeddedPHP_blind [of rp p q ex "setPasswordScript sc" "''set_password.php''" "[u]" s, OF assms(3)]
  have "fst (?php p) = fst (?php q)" "forget_stdin (snd (?php p)) = forget_stdin (snd (?php q))"
    by (metis fst_map_prod id_apply, metis snd_map_prod)
  with assms(1,2) show ?thesis
    by (cases "?php p"; cases "?php q") (auto simp: SetPassword_freebsd_def)
qed

text \<open>Setting a password reveals it on the standard input of the script and nowhere else: if the
  script answers two passwords alike, then the returned result, every log entry, the state of the
  machine, and binary and arguments of every process started are the same for both.\<close>

theorem password_only_on_stdin:
  assumes "p \<noteq> []" "q \<noteq> []"
    and "\<And>c w. rp (c\<lparr>c_stdin := Some p\<rparr>) w = rp (c\<lparr>c_stdin := Some q\<rparr>) w"
  shows "fst (run_state (SetPassword_freebsd sc rp ex u p) s) = fst (run_state (SetPassword_freebsd sc rp ex u q) s) \<and>
    forget_stdin (snd (run_state (SetPassword_freebsd sc rp ex u p) s)) =
      forget_stdin (snd (run_state (SetPassword_freebsd sc rp ex u q) s))"
  using assms by (rule SetPassword_freebsd_blind)

definition demo_scripts :: scripts where
  "demo_scripts = \<lparr>setPasswordScript = ''<?php 1'', setDefaultPasswordScript = ''<?php 2'',
     netconfigSnapshotScript = ''<?php 3'', netconfigApplyScript = ''<?php 4'', netconfigRestoreScript = ''<?php 5'',
     firewallListScript = ''<?php 6'', firewallCreateScript = ''<?php 7'', firewallDeleteScript = ''<?php 8'',
     natListScript = ''<?php 9'', natCreateScript = ''<?php 10'', natDeleteScript = ''<?php 11'',
     dhcpLeasesListScript = ''<?php 12''\<rparr>"

definition php_ok :: "'x runner" where
  "php_ok c w = (\<lparr>o_stdout = json_enc (JObj [(''status'', JStr ''ok''), (''username'', JStr ''admin'')]),
     o_stderr = [], o_err = None, o_deadline = False, o_elapsed = 1\<rparr>, w)"

theorem password_only_on_stdin_witness:
  "forget_stdin (snd (run_state (SetPassword_freebsd demo_scripts php_ok Executor_New ''admin'' ''a'') blank_host)) =
   forget_stdin (snd (run_state (SetPassword_freebsd demo_scripts php_ok Executor_New ''admin'' ''b'') blank_host))"
  by (rule password_only_on_stdin [of "''a''" "''b''" php_ok, THEN conjunct2]) (simp_all add: php_ok_def)

section \<open>Temporary files\<close>

lemma digit_char_no_slash: "n < 10 \<Longrightarrow> digit_char n \<noteq> CHR ''/''"
proof -
  assume "n < 10"
  then have "n \<in> {0, 1, 2, 3, 4, 5, 6, 7, 8, 9}" by auto
  then show ?thesis by (auto simp: digit_char_def)
qed

lemma nat_dec_no_slash: "CHR ''/'' \<notin> set (nat_dec n)"
proof (induction n rule: nat_dec.induct)
  case (1 n)
  have "digit_char (n mod 10) \<noteq> CHR ''/''" by (rule digit_char_no_slash) simp
  with 1 digit_char_no_slash [of n] show ?case by (subst nat_dec.simps) auto
qed

lemma temp_script_path:
  assumes "CHR ''/'' \<notin> set name" "name \<notin> {[], ''.'', ''..''}"
  shows "filepath_Join (''/tmp/plusclouds-pfsense-'' @ nat_dec k) name =
    ''/tmp/plusclouds-pfsense-'' @ nat_dec k @ ''/'' @ name"
proof -
  let ?d = "''plusclouds-pfsense-'' @ nat_dec k"
  have d: "CHR ''/'' \<notin> set ?d" using nat_dec_no_slash by simp
  have t: "CHR ''/'' \<notin> set ''tmp''" by simp
  have "str_Split (CHR ''/'') (CHR ''/'' # ''tmp'' @ CHR ''/'' # ?d @ CHR ''/'' # name) = [[], ''tmp'', ?d, name]"
    using str_Split_append [OF t, of "?d @ CHR ''/'' # name"] str_Split_append [OF d, of name] str_Split_id [OF assms(1)]
    by simp
  then show ?thesis using assms(2)
    by (simp add: filepath_Join_def filepath_Clean_def str_HasPrefix_def)
qed

lemma MkdirTemp_fresh:
  assumes "run_state (os_MkdirTemp pattern) s = (Inr d, t)"
  shows "wfiles s d = None \<and> t = set_file d (Some Dir) s \<and> (\<exists>k. d = w_tmpdir (h_world s) @ ''/'' @ pattern @ nat_dec k)"
  using assms first_free_not_taken first_free_prefix
  by (fastforce simp: os_MkdirTemp_def Let_def split: if_splits option.splits)

lemma WriteFile_files:
  assumes "run_state (os_WriteFile p c m) s = (r, t)"
  shows "(\<forall>q. q \<noteq> p \<longrightarrow> wfiles t q = wfiles s q) \<and> wfault t = wfault s"
  using assms by (auto simp: os_WriteFile_def Let_def split: if_splits fault.splits)

lemma temp_dir_removed:
  assumes fresh: "wfiles s dir = None" "\<And>q. path_upto dir q \<Longrightarrow> wfiles s q \<noteq> None \<Longrightarrow> wfiles s dir \<noteq> None"
    and p: "path_upto dir p" and root: "dir \<noteq> ''/''" and w: "run_state (os_WriteFile p c m) (set_file dir (Some Dir) s) = (r, s2)"
    and u: "wfiles u = wfiles s2" "\<And>d. wfault u OpRemove d = NoFault"
  shows "wfiles (snd (run_state (os_RemoveAll dir) u)) = wfiles s"
proof
  fix q
  show "wfiles (snd (run_state (os_RemoveAll dir) u)) q = wfiles s q"
  proof (cases "path_upto dir q")
    case True
    with fresh have "wfiles s q = None" by blast
    with True u root show ?thesis by (simp add: os_RemoveAll_def)
  next
    case False
    then have "q \<noteq> dir" "q \<noteq> p" using p by (auto simp: path_upto_def)
    with False u WriteFile_files [OF w] show ?thesis by (simp add: os_RemoveAll_def)
  qed
qed


lemma file_tree_root:
  "path_upto d ''/tmp'' \<Longrightarrow> d = ''/tmp'' \<or> d = ''/'' \<or> d = []"
  "path_upto d ''/'' \<Longrightarrow> d = ''/'' \<or> d = []"
  "path_upto d [] \<Longrightarrow> d = ''/'' \<or> d = []"
proof -
  show "path_upto d ''/'' \<Longrightarrow> d = ''/'' \<or> d = []" "path_upto d [] \<Longrightarrow> d = ''/'' \<or> d = []"
    by (auto simp: path_upto_def str_HasPrefix_iff Cons_eq_append_conv)
  assume "path_upto d ''/tmp''"
  moreover have "d = []" if "d @ CHR ''/'' # r = ''/tmp''" for r
    using that by (cases d) (auto simp: append_eq_Cons_conv Cons_eq_append_conv)
  ultimately show "d = ''/tmp'' \<or> d = ''/'' \<or> d = []" by (auto simp: path_upto_def str_HasPrefix_iff)
qed

definition tmp_host :: "unit host" where
  "tmp_host = blank_host\<lparr>h_world := (h_world blank_host)\<lparr>w_files :=
     (\<lambda>_. None)([] := Some Dir, ''/'' := Some Dir, ''/tmp'' := Some Dir)\<rparr>\<rparr>"


section \<open>The boot network plan\<close>

abbreviation mac_of :: "VirtualNetworkCard \<Rightarrow> string" where
  "mac_of n \<equiv> normalizeMAC (nic_MACAddr n)"

definition addressed :: "VirtualNetworkCard \<Rightarrow> bool" where
  "addressed n \<longleftrightarrow> dl_Data (nic_IPList n) \<noteq> [] \<and> nw_Subnet (nic_Network n) \<noteq> []"

lemma build_plan_entries:
  "snd (fst (run_state (build_plan byM cards rs es) s)) =
    es @ map (\<lambda>n. plan_entry n (mn_IfName (the (byM (mac_of n))))) (filter (\<lambda>n. byM (mac_of n) \<noteq> None \<and> addressed n) cards)"
proof (induction byM cards rs es arbitrary: s rule: build_plan.induct)
  case (2 byM n cards rs es)
  show ?case
  proof (cases "byM (mac_of n)")
    case None
    then show ?thesis using 2(1) [OF None] by (simp add: split: prod.split)
  next
    case (Some mn)
    then show ?thesis using 2(2,3) [OF Some] by (auto simp: addressed_def)
  qed
qed simp

lemma matchedByMAC_entry:
  "matchedByMAC ms m = (case filter (\<lambda>mn. mac_of (mn_Card mn) = m) (rev ms) of [] \<Rightarrow> None | mn # _ \<Rightarrow> Some mn)"
  by (induction ms rule: rev_induct) (auto simp: matchedByMAC_def)

lemma matchNICs_members:
  "mn \<in> set (matchNICsByMAC cards ifaces) \<longleftrightarrow>
    mn_Card mn \<in> set cards \<and> byMAC ifaces (mac_of (mn_Card mn)) = Some (mn_IfName mn)"
  by (cases mn) (auto simp: matchNICsByMAC_def split: option.splits)

lemma matchedByMAC_byMAC:
  assumes "n \<in> set cards"
  shows "map_option mn_IfName (matchedByMAC (matchNICsByMAC cards ifaces) (mac_of n)) = byMAC ifaces (mac_of n)"
proof -
  let ?f = "filter (\<lambda>mn. mac_of (mn_Card mn) = mac_of n) (rev (matchNICsByMAC cards ifaces))"
  have hits: "mn \<in> set ?f \<Longrightarrow> byMAC ifaces (mac_of n) = Some (mn_IfName mn)" for mn
    by (auto simp: matchNICs_members) 
  show ?thesis
  proof (cases ?f)
    case Nil
    have "byMAC ifaces (mac_of n) = None"
    proof (rule ccontr)
      assume "byMAC ifaces (mac_of n) \<noteq> None"
      then obtain i where "byMAC ifaces (mac_of n) = Some i" by auto
      then have "\<lparr>mn_Card = n, mn_IfName = i\<rparr> \<in> set ?f" using assms by (simp add: matchNICs_members)
      with Nil show False by simp
    qed
    with Nil show ?thesis by (simp add: matchedByMAC_entry)
  next
    case (Cons mn rest)
    with hits [of mn] show ?thesis by (simp add: matchedByMAC_entry)
  qed
qed

definition network_plan :: "VirtualNetworkCard list \<Rightarrow> Interface list \<Rightarrow> interfacePlanEntry list" where
  "network_plan cards ifaces = map (\<lambda>n. plan_entry n (the (byMAC ifaces (mac_of n))))
     (filter (\<lambda>n. byMAC ifaces (mac_of n) \<noteq> None \<and> addressed n) cards)"

lemma build_plan_network_plan:
  "snd (fst (run_state (build_plan (matchedByMAC (matchNICsByMAC cards ifaces)) cards [] []) s)) = network_plan cards ifaces"
proof -
  let ?m = "matchedByMAC (matchNICsByMAC cards ifaces)"
  have none: "?m (mac_of n) = None \<longleftrightarrow> byMAC ifaces (mac_of n) = None" if "n \<in> set cards" for n
    using matchedByMAC_byMAC [OF that, of ifaces] by (metis map_option_is_None)
  have name: "mn_IfName (the (?m (mac_of n))) = the (byMAC ifaces (mac_of n))"
    if "n \<in> set cards" "?m (mac_of n) \<noteq> None" for n
    using matchedByMAC_byMAC [OF that(1), of ifaces] that(2) by (metis option.map_sel)
  have "filter (\<lambda>n. ?m (mac_of n) \<noteq> None \<and> addressed n) cards =
      filter (\<lambda>n. byMAC ifaces (mac_of n) \<noteq> None \<and> addressed n) cards"
    by (rule filter_cong) (simp_all add: none)
  moreover have "map (\<lambda>n. plan_entry n (mn_IfName (the (?m (mac_of n)))))
        (filter (\<lambda>n. ?m (mac_of n) \<noteq> None \<and> addressed n) cards) =
      map (\<lambda>n. plan_entry n (the (byMAC ifaces (mac_of n))))
        (filter (\<lambda>n. ?m (mac_of n) \<noteq> None \<and> addressed n) cards)"
    by (rule map_cong) (auto simp: name)
  ultimately show ?thesis by (simp add: build_plan_entries network_plan_def)
qed

lemma applyPlan_plain [simp]: "json_plain (applyPlan_json es)"
  by (induction es)
    (auto simp: applyPlan_json_def interfacePlanEntry_json_def omit_str_def omit_list_def omit_int_def list_all_iff)

lemma build_plan_procs:
  assumes "run_state (build_plan byM cards rs es) s = (p, t)"
  shows "h_procs t = h_procs s \<and> h_world t = h_world s"
  using assms
  by (induction byM cards rs es arbitrary: s rule: build_plan.induct)
    (fastforce split: option.splits if_splits)+

text \<open>The processes a network configuration run may start: none, only the snapshot script, or the
  snapshot script followed by the apply script with the plan on its standard input.\<close>

fun snapshot_then_apply :: "string \<Rightarrow> call list \<Rightarrow> bool" where
  "snapshot_then_apply plan [] \<longleftrightarrow> True"
| "snapshot_then_apply plan [c] \<longleftrightarrow> php_call ''snapshot.php'' None [] c"
| "snapshot_then_apply plan [c, d] \<longleftrightarrow>
     php_call ''snapshot.php'' None [] c \<and> php_call ''apply.php'' (Some plan) [] d"
| "snapshot_then_apply plan _ \<longleftrightarrow> False"

lemma network_processes:
  assumes "nif (h_world s) = (Inr ifaces, w)"
    and "run_state (ApplyBootNetworkConfig_freebsd nif sc rp ex cards) s = (r, t)"
  shows "\<exists>cs. h_procs t = h_procs s @ cs \<and>
    snapshot_then_apply (json_enc (applyPlan_json (network_plan cards ifaces))) cs \<and>
    (network_plan cards ifaces = [] \<longrightarrow> cs = []) \<and>
    (cs = [] \<longrightarrow> (\<forall>res. r = Inr (Some res) \<longrightarrow> bn_Snapshot res = [])) \<and>
    (cs \<noteq> [] \<longrightarrow> (\<forall>res. r = Inr (Some res) \<longrightarrow>
       (\<exists>w0. bn_Snapshot res = o_stdout (fst (rp (hd cs) w0))))) \<and>
    (length cs = 2 \<longrightarrow> (\<exists>w0. o_err (fst (rp (hd cs) w0)) = None \<and>
       (\<forall>res. r = Inr (Some res) \<longrightarrow> bn_Snapshot res = o_stdout (fst (rp (hd cs) w0)))))"
proof -
  let ?s0 = "s\<lparr>h_world := w\<rparr>"
  obtain results s1 where s1:
      "run_state (build_plan (matchedByMAC (matchNICsByMAC cards ifaces)) cards [] []) ?s0 = ((results, network_plan cards ifaces), s1)"
    using build_plan_network_plan [of cards ifaces ?s0]
    by (cases "run_state (build_plan (matchedByMAC (matchNICsByMAC cards ifaces)) cards [] []) ?s0") auto
  have p1: "h_procs s1 = h_procs s" using build_plan_procs [OF s1] by simp
  show ?thesis
  proof (cases "network_plan cards ifaces = []")
    case True
    with assms(1,2) s1 p1 show ?thesis
      by (intro exI [of _ "[]"]) (auto simp: ApplyBootNetworkConfig_freebsd_def run_on_world)
  next
    case False
    obtain out errt err s2 where s2: "run_state (runEmbeddedPHP rp ex (netconfigSnapshotScript sc) ''snapshot.php'' None []) s1
        = ((out, errt, err), s2)" by (metis prod_cases3 surj_pair)
    note sn = php_runs [where rp = rp and s = s1, OF s2]
    show ?thesis
    proof (cases err)
      case (Some e)
      with False assms s1 s2 have "t = s2" "\<forall>res. r \<noteq> Inr (Some res)"
        by (auto simp: ApplyBootNetworkConfig_freebsd_def run_on_world)
      with sn p1 False show ?thesis
        by (elim disjE exE conjE) (auto intro: exI [of _ "[]"])
    next
      case None
      with sn obtain c w0 where c: "h_procs s2 = h_procs s @ [c]" "php_call ''snapshot.php'' None [] c"
          "out = o_stdout (fst (rp c w0))" "o_err (fst (rp c w0)) = None" using p1
        by (auto simp: eq_commute [of None "exec_error _ _ _"])
      obtain out3 errt3 err3 s3 where s3: "run_state (runEmbeddedPHP rp ex (netconfigApplyScript sc) ''apply.php''
          (Some (json_enc (applyPlan_json (network_plan cards ifaces)))) []) s2 = ((out3, errt3, err3), s3)"
        by (metis prod_cases3 surj_pair)
      have t: "h_procs t = h_procs s3 \<and> (\<forall>res. r = Inr (Some res) \<longrightarrow> bn_Snapshot res = out)"
        using False None assms s1 s2 s3
        by (auto simp: ApplyBootNetworkConfig_freebsd_def run_on_world split: option.splits sum.splits)
      from php_runs [where rp = rp and s = s2, OF s3] show ?thesis
      proof (elim disjE conjE exE)
        assume "h_procs s3 = h_procs s2"
        with t c False show ?thesis by (intro exI [of _ "[c]"]) auto
      next
        fix d w1
        assume "h_procs s3 = h_procs s2 @ [d]"
          "php_call ''apply.php'' (Some (json_enc (applyPlan_json (network_plan cards ifaces)))) [] d"
        with t c False show ?thesis by (intro exI [of _ "[c, d]"]) auto
      qed
    qed
  qed
qed

text \<open>C22: Boot network configuration applies exactly the planned changes and only after a snapshot.
  The plan has one entry per NIC of the metadata that matches a local interface by MAC and has an
  address and a subnet; without entries nothing is run; otherwise the snapshot script runs first,
  the apply script runs only if that succeeded and reads exactly the encoded plan, and whenever the
  apply script ran and a result is returned, its snapshot is the output of the snapshot script.\<close>

theorem network_snapshot_before_apply:
  assumes "nif (h_world s) = (Inr ifaces, w)"
    and "run_state (ApplyBootNetworkConfig_freebsd nif sc rp ex cards) s = (r, t)"
  shows "\<exists>cs. h_procs t = h_procs s @ cs \<and>
    snapshot_then_apply (json_enc (applyPlan_json (network_plan cards ifaces))) cs \<and>
    (network_plan cards ifaces = [] \<longrightarrow> cs = []) \<and>
    (length cs = 2 \<longrightarrow> (\<exists>w0. o_err (fst (rp (hd cs) w0)) = None \<and>
       (\<forall>res. r = Inr (Some res) \<longrightarrow> bn_Snapshot res = o_stdout (fst (rp (hd cs) w0)))))"
  using network_processes [where nif = nif and rp = rp, OF assms] by blast

definition demo_nic :: VirtualNetworkCard where
  "demo_nic = \<lparr>nic_DeviceNumber = 0, nic_MACAddr = ''0A:00'', nic_NetworkName = ''lan'',
     nic_Network = zero_Network\<lparr>nw_Subnet := ''24'', nw_Gateway := Some ''10.0.0.1/32''\<rparr>,
     nic_IPList = \<lparr>dl_Data = [\<lparr>ip_ID = 1, ip_IPAddr = ''10.0.0.5/32'', ip_IsReserved = False\<rparr>]\<rparr>\<rparr>"

definition demo_ifaces :: "Interface list" where
  "demo_ifaces = [\<lparr>if_Name = ''vtnet0'', if_HardwareAddr = [10, 0]\<rparr>]"

theorem network_snapshot_before_apply_witness:
  "\<exists>cs. h_procs (snd (run_state (ApplyBootNetworkConfig_freebsd (\<lambda>w. (Inr demo_ifaces, w)) demo_scripts php_ok
      Executor_New [demo_nic]) blank_host)) = [] @ cs \<and>
    snapshot_then_apply (json_enc (applyPlan_json (network_plan [demo_nic] demo_ifaces))) cs"
proof -
  let ?op = "ApplyBootNetworkConfig_freebsd (\<lambda>w. (Inr demo_ifaces, w)) demo_scripts php_ok Executor_New [demo_nic]"
  obtain r t where t: "run_state ?op blank_host = (r, t)" by force
  have nif: "(\<lambda>w. (Inr demo_ifaces, w)) (h_world blank_host) = (Inr demo_ifaces, h_world blank_host)" by simp
  from network_snapshot_before_apply [where nif = "\<lambda>w. (Inr demo_ifaces, w)" and rp = php_ok, OF nif t]
  have "\<exists>cs. h_procs t = h_procs blank_host @ cs \<and>
      snapshot_then_apply (json_enc (applyPlan_json (network_plan [demo_nic] demo_ifaces))) cs" by blast
  with t show ?thesis by (simp add: blank_host_def)
qed

section \<open>Rules reach the scripts unchanged\<close>

definition wf_FirewallRuleInput :: "FirewallRuleInput \<Rightarrow> bool" where
  "wf_FirewallRuleInput r \<longleftrightarrow> list_all wf_text [fi_Interface r, fi_Action r, fi_Protocol r, fi_Source r,
     fi_SourcePort r, fi_Destination r, fi_DestPort r, fi_Description r]"

definition wf_PortForwardInput :: "PortForwardInput \<Rightarrow> bool" where
  "wf_PortForwardInput r \<longleftrightarrow> list_all wf_text [pi_Interface r, pi_Protocol r, pi_Source r, pi_SourcePort r,
     pi_Destination r, pi_DestPort r, pi_TargetIP r, pi_TargetPort r, pi_Description r]"

lemma FirewallRuleInput_plain [simp]: "json_plain (FirewallRuleInput_json r)"
  by (simp add: FirewallRuleInput_json_def omit_str_def)

lemma PortForwardInput_plain [simp]: "json_plain (PortForwardInput_json r)"
  by (simp add: PortForwardInput_json_def omit_str_def)

interpretation firewall_codec: message_codec "\<lambda>r. json_Marshal (FirewallRuleInput_json r)"
    "json_Unmarshal FirewallRuleInput_fields zero_FirewallRuleInput" wf_FirewallRuleInput
proof
  fix r :: FirewallRuleInput
  assume wf: "wf_FirewallRuleInput r"
  obtain ms where ms: "FirewallRuleInput_json r = JObj ms" by (simp add: FirewallRuleInput_json_def)
  have plain: "json_plain (JObj ms)" using FirewallRuleInput_plain [of r] ms by simp
  have "json_Unmarshal FirewallRuleInput_fields zero_FirewallRuleInput (json_enc (FirewallRuleInput_json r)) = Inr r"
    unfolding ms json_Unmarshal_enc [OF plain] using wf ms
    by (cases r) (auto simp: FirewallRuleInput_json_def FirewallRuleInput_fields_def zero_FirewallRuleInput_def
        omit_str_def go_json wf_FirewallRuleInput_def wf_text_def simp del: json_enc.simps)
  then show "\<exists>b. json_Marshal (FirewallRuleInput_json r) = Inr b \<and>
      json_Unmarshal FirewallRuleInput_fields zero_FirewallRuleInput b = Inr r" by simp
qed

interpretation forward_codec: message_codec "\<lambda>r. json_Marshal (PortForwardInput_json r)"
    "json_Unmarshal PortForwardInput_fields zero_PortForwardInput" wf_PortForwardInput
proof
  fix r :: PortForwardInput
  assume wf: "wf_PortForwardInput r"
  obtain ms where ms: "PortForwardInput_json r = JObj ms" by (simp add: PortForwardInput_json_def)
  have plain: "json_plain (JObj ms)" using PortForwardInput_plain [of r] ms by simp
  have "json_Unmarshal PortForwardInput_fields zero_PortForwardInput (json_enc (PortForwardInput_json r)) = Inr r"
    unfolding ms json_Unmarshal_enc [OF plain] using wf ms
    by (cases r) (auto simp: PortForwardInput_json_def PortForwardInput_fields_def zero_PortForwardInput_def
        omit_str_def go_json wf_PortForwardInput_def wf_text_def simp del: json_enc.simps)
  then show "\<exists>b. json_Marshal (PortForwardInput_json r) = Inr b \<and>
      json_Unmarshal PortForwardInput_fields zero_PortForwardInput b = Inr r" by simp
qed

text \<open>C23: A created firewall rule is the requested one: when a rule is reported as created, exactly one
  script ran, the JSON on its standard input decodes to the requested rule, the script answered with
  status ok, and the reported rule carries the requested fields and the tracker from the answer.\<close>

theorem firewall_create_faithful:
  assumes "wf_FirewallRuleInput rule"
    and "run_state (CreateFirewallRule_freebsd sc rp ex rule) s = (Inr r, t)"
  shows "\<exists>c w input out. h_procs t = h_procs s @ [c] \<and> php_call ''create.php'' (Some input) [] c \<and>
    json_Unmarshal FirewallRuleInput_fields zero_FirewallRuleInput input = Inr rule \<and>
    json_Unmarshal createScriptOutput_fields \<lparr>ct_Status = [], ct_Tracker = []\<rparr> (o_stdout (fst (rp c w))) = Inr out \<and>
    ct_Status out = ''ok'' \<and> fr_Tracker r = ct_Tracker out \<and> \<not> fr_Disabled r \<and>
    rule = \<lparr>fi_Interface = fr_Interface r, fi_Action = fr_Action r, fi_Protocol = fr_Protocol r, fi_Source = fr_Source r,
      fi_SourcePort = fr_SourcePort r, fi_Destination = fr_Destination r, fi_DestPort = fr_DestPort r,
      fi_Description = fr_Description r\<rparr>"
proof -
  let ?in = "json_enc (FirewallRuleInput_json rule)"
  have dec: "json_Unmarshal FirewallRuleInput_fields zero_FirewallRuleInput ?in = Inr rule"
    using firewall_codec.encode_bytes [OF assms(1), of ?in] by simp
  obtain stdout errt err u where u: "run_state (runEmbeddedPHP rp ex (firewallCreateScript sc) ''create.php'' (Some ?in) []) s
      = ((stdout, errt, err), u)" by (metis prod_cases3 surj_pair)
  with assms(2) have t: "u = t" "err = None" and
    out: "\<exists>out. json_Unmarshal createScriptOutput_fields \<lparr>ct_Status = [], ct_Tracker = []\<rparr> stdout = Inr out \<and>
      ct_Status out = ''ok'' \<and> fr_Tracker r = ct_Tracker out \<and> \<not> fr_Disabled r \<and>
      rule = \<lparr>fi_Interface = fr_Interface r, fi_Action = fr_Action r, fi_Protocol = fr_Protocol r,
        fi_Source = fr_Source r, fi_SourcePort = fr_SourcePort r, fi_Destination = fr_Destination r,
        fi_DestPort = fr_DestPort r, fi_Description = fr_Description r\<rparr>"
    by (auto simp: CreateFirewallRule_freebsd_def split: option.splits sum.splits if_splits)
  from php_runs [where rp = rp and s = s, OF u] t obtain c w where
    "h_procs t = h_procs s @ [c]" "php_call ''create.php'' (Some ?in) [] c" "stdout = o_stdout (fst (rp c w))" by auto
  with out dec show ?thesis by blast
qed

definition demo_rule :: FirewallRuleInput where
  "demo_rule = \<lparr>fi_Interface = ''lan'', fi_Action = ''pass'', fi_Protocol = ''tcp'', fi_Source = ''any'', fi_SourcePort = [],
     fi_Destination = ''10.0.0.5'', fi_DestPort = ''443'', fi_Description = []\<rparr>"

lemma php_ok_run:
  "\<exists>t. run_state (runEmbeddedPHP php_ok ex script ''create.php'' stdin args) tmp_host =
    ((json_enc (JObj [(''status'', JStr ''ok''), (''username'', JStr ''admin'')]), [], None), t)"
proof -
  have d: "run_state (os_MkdirTemp ''plusclouds-pfsense-'') tmp_host =
      (Inr (''/tmp/plusclouds-pfsense-0''), set_file ''/tmp/plusclouds-pfsense-0'' (Some Dir) tmp_host)"
    by (simp add: os_MkdirTemp_def Let_def tmp_host_def blank_host_def first_free.simps nat_dec.simps digit_char_def)
  have p: "filepath_Join ''/tmp/plusclouds-pfsense-0'' ''create.php'' = ''/tmp/plusclouds-pfsense-0/create.php''"
    "filepath_Dir ''/tmp/plusclouds-pfsense-0/create.php'' = ''/tmp/plusclouds-pfsense-0''"
    by (simp_all add: filepath_Dir_def filepath_Join_def filepath_Clean_def str_HasPrefix_def)
  have "\<exists>u. run_state (os_WriteFile ''/tmp/plusclouds-pfsense-0/create.php'' script 384)
      (set_file ''/tmp/plusclouds-pfsense-0'' (Some Dir) tmp_host) = (Inr (), u)"
    by (simp add: os_WriteFile_def p tmp_host_def blank_host_def)
  then show ?thesis by (auto simp: run_runEmbeddedPHP d p run_ExecuteWithStdin php_ok_def exec_error_def)
qed

lemma php_ok_output:
  "json_Unmarshal createScriptOutput_fields z (json_enc (JObj [(''status'', JStr ''ok''), (''username'', JStr ''admin'')]))
    = Inr (z\<lparr>ct_Status := ''ok''\<rparr>)"
  by (subst json_Unmarshal_enc)
    (simp_all add: createScriptOutput_fields_def go_json find_field_def str_ToLower_def del: json_enc.simps)

theorem firewall_create_faithful_witness:
  "\<exists>r t c input. run_state (CreateFirewallRule_freebsd demo_scripts php_ok Executor_New demo_rule) tmp_host = (Inr r, t) \<and>
    h_procs t = [c] \<and> php_call ''create.php'' (Some input) [] c \<and>
    json_Unmarshal FirewallRuleInput_fields zero_FirewallRuleInput input = Inr demo_rule"
proof -
  obtain r t where r: "run_state (CreateFirewallRule_freebsd demo_scripts php_ok Executor_New demo_rule) tmp_host = (Inr r, t)"
    using php_ok_run [of Executor_New "firewallCreateScript demo_scripts" "Some (json_enc (FirewallRuleInput_json demo_rule))" "[]"]
    by (auto simp: CreateFirewallRule_freebsd_def php_ok_output simp del: json_enc.simps)
  have "wf_FirewallRuleInput demo_rule" by (simp add: wf_FirewallRuleInput_def demo_rule_def wf_text_def ascii_def)
  from firewall_create_faithful [where rp = php_ok and s = tmp_host, OF this r] r show ?thesis
    by (fastforce simp: tmp_host_def blank_host_def)
qed

end
