(* ===== verification/Publisher.thy ===== *)
theory Publisher
  imports PfsenseProps
begin

text \<open>
  internal/publisher/publisher.go: the heartbeat, telemetry and capability messages. The channel that
  carries a new telemetry interval to the telemetry loop is the field \<open>pb_telemetryIntervalCh\<close>
  (capacity 1); the system module, which the dispatcher shares, is passed in and out. A run of a
  loop is described by the sequence of events its \<open>select\<close> takes.
\<close>

definition minTelemetryInterval :: int where
  "minTelemetryInterval = 1 * second"

record Publisher =
  pb_nats :: Client
  pb_agentUUID :: string
  pb_cfg :: AgentConfig
  pb_telemetryIntervalCh :: "int option"

definition Publisher_New :: "Client \<Rightarrow> string \<Rightarrow> AgentConfig \<Rightarrow> Publisher" where
  "Publisher_New c uuid cfg = \<lparr>pb_nats = c, pb_agentUUID = uuid, pb_cfg = cfg, pb_telemetryIntervalCh = None\<rparr>"

section \<open>Telemetry interval\<close>

definition clampInterval :: "int \<Rightarrow> int" where
  "clampInterval d = (if d < minTelemetryInterval then minTelemetryInterval else d)"

text \<open>Undisturbed by the telemetry loop; the interleavings are in the theory of the loops.\<close>

definition SetTelemetryInterval :: "Publisher \<Rightarrow> int \<Rightarrow> int \<times> Publisher" where
  "SetTelemetryInterval pb d = (let d' = clampInterval d in
     case pb_telemetryIntervalCh pb of
       None \<Rightarrow> (d', pb\<lparr>pb_telemetryIntervalCh := Some d'\<rparr>)
     | Some _ \<Rightarrow> (let drained = pb\<lparr>pb_telemetryIntervalCh := None\<rparr> in
         (d', drained\<lparr>pb_telemetryIntervalCh := Some d'\<rparr>)))"

section \<open>Heartbeat\<close>

definition sendHeartbeat :: "'x gops \<Rightarrow> 'x nats \<Rightarrow> Publisher \<Rightarrow> Module \<Rightarrow> ('x, unit) op" where
  "sendHeartbeat g nt pb m = do {
     i \<leftarrow> GetInfo g m;
     (case i of
       Inl e \<Rightarrow> logger WarnLevel ''heartbeat: could not get system info'' [(''error'', FError e)]
     | Inr info \<Rightarrow> do {
         r \<leftarrow> Envelope_New (pb_agentUUID pb) TypeHeartbeat (HeartbeatPayload_json
           \<lparr>hb_Version = ''0.2.0'', hb_UptimeS = si_Uptime info, hb_TasksQueued = 0\<rparr>);
         (case r of
           Inl e \<Rightarrow> logger WarnLevel ''heartbeat: could not build envelope'' [(''error'', FError e)]
         | Inr env \<Rightarrow> do {
             p \<leftarrow> Publish nt (pb_nats pb) env;
             (case p of
               Some e \<Rightarrow> logger WarnLevel ''heartbeat: publish failed'' [(''error'', FError e)]
             | None \<Rightarrow> logger DebugLevel ''heartbeat published'' [])
           })
       })
   }"

section \<open>Capabilities\<close>

definition schema :: "string \<Rightarrow> string \<Rightarrow> OperationParam list \<Rightarrow> string \<times> OperationSchema" where
  "schema name description ps = (name, \<lparr>os_Operation = name, os_Description = description, os_Params = ps\<rparr>)"

definition operationCatalog :: "(string \<times> OperationSchema) list" where
  "operationCatalog =
     [schema ''agent.allowed_operations''
         (''Return and re-publish the current capabilities list (allowed operations and parameters).'')
         [],
      schema ''agent.version''
         (''Return the running agent's build version.'')
         [],
      schema ''services.list''
         (''List all loaded systemd services on the machine.'')
         [],
      schema ''services.get''
         (''Get detailed status of a single systemd service.'')
         [\<lparr>op_Name = ''name'', op_Type = ''string'', op_Required = True,
           op_Description = ''Service name (e.g. nginx or nginx.service).'',
           op_MinValue = None, op_Sensitive = False\<rparr>],
      schema ''services.start''
         (''Start a stopped systemd service.'')
         [\<lparr>op_Name = ''name'', op_Type = ''string'', op_Required = True,
           op_Description = ''Service name to start.'',
           op_MinValue = None, op_Sensitive = False\<rparr>],
      schema ''services.stop''
         (''Stop a running systemd service.'')
         [\<lparr>op_Name = ''name'', op_Type = ''string'', op_Required = True,
           op_Description = ''Service name to stop.'',
           op_MinValue = None, op_Sensitive = False\<rparr>],
      schema ''services.restart''
         (''Restart a systemd service (stop then start).'')
         [\<lparr>op_Name = ''name'', op_Type = ''string'', op_Required = True,
           op_Description = ''Service name to restart.'',
           op_MinValue = None, op_Sensitive = False\<rparr>],
      schema ''services.reload''
         (''Send a reload signal to a running service without stopping it.'')
         [\<lparr>op_Name = ''name'', op_Type = ''string'', op_Required = True,
           op_Description = ''Service name to reload.'',
           op_MinValue = None, op_Sensitive = False\<rparr>],
      schema ''services.enable''
         (''Enable a service to start automatically on boot.'')
         [\<lparr>op_Name = ''name'', op_Type = ''string'', op_Required = True,
           op_Description = ''Service name to enable.'',
           op_MinValue = None, op_Sensitive = False\<rparr>],
      schema ''services.disable''
         (''Disable a service from starting automatically on boot.'')
         [\<lparr>op_Name = ''name'', op_Type = ''string'', op_Required = True,
           op_Description = ''Service name to disable.'',
           op_MinValue = None, op_Sensitive = False\<rparr>],
      schema ''system.info''
         (''Return static system information (hostname, OS, kernel, uptime).'')
         [],
      schema ''system.metrics''
         (''Return a full resource snapshot (CPU, memory, disk, network).'')
         [],
      schema ''system.cpu''
         (''Return CPU usage, core count, load averages, and per-core usage.'')
         [],
      schema ''system.memory''
         (''Return RAM utilisation (total, used, usage %).'')
         [],
      schema ''system.disk''
         (''Return disk usage and I/O stats for all real block-device partitions.'')
         [],
      schema ''system.network''
         (''Return network I/O counters for all physical interfaces.'')
         [],
      schema ''system.update''
         (''Run apt-get update && apt-get upgrade -y. Supported on Ubuntu/Debian only.'')
         [],
      schema ''disk.resize''
         (''Grow a filesystem to fill its underlying disk after a volume expand. Supports ext2/ext3/ext4 and XFS on Linux; NTFS on Windows.'')
         [\<lparr>op_Name = ''name'', op_Type = ''string'', op_Required = False,
           op_Description = ''Target mountpoint (Linux, e.g. '' @ [CHR 0x22] @ ''/'' @ [CHR 0x22] @ '') or drive letter (Windows, e.g. '' @ [CHR 0x22] @ ''C'' @ [CHR 0x22] @ ''). Defaults to the root/system volume if omitted.'',
           op_MinValue = None, op_Sensitive = False\<rparr>],
      schema ''telemetry.set_interval''
         (''Change the telemetry push interval at runtime. Minimum 5 seconds.'')
         [\<lparr>op_Name = ''interval_s'', op_Type = ''integer'', op_Required = True,
           op_Description = ''New telemetry interval in seconds.'',
           op_MinValue = Some 1, op_Sensitive = False\<rparr>],
      schema ''vm.reboot''
         (''Reboot the machine immediately.'')
         [],
      schema ''vm.shutdown''
         (''Shut down the machine immediately.'')
         [],
      schema ''pfsense.set_password''
         (''Change the password of an existing local pfSense user via pfSense's own config/auth subsystem. pfSense/FreeBSD only.'')
         [\<lparr>op_Name = ''username'', op_Type = ''string'', op_Required = True,
           op_Description = ''Existing pfSense local user (e.g. admin).'',
           op_MinValue = None, op_Sensitive = False\<rparr>,
          \<lparr>op_Name = ''password'', op_Type = ''string'', op_Required = True,
           op_Description = ''New password.'',
           op_MinValue = None, op_Sensitive = True\<rparr>],
      schema ''exec''
         (''Execute an allowed binary on the machine. The command must be listed in exec_commands.'')
         [\<lparr>op_Name = ''command'', op_Type = ''string'', op_Required = True,
           op_Description = ''Absolute path of the binary to run. Must be in the exec_commands allowlist.'',
           op_MinValue = None, op_Sensitive = False\<rparr>,
          \<lparr>op_Name = ''args'', op_Type = ''array'', op_Required = False,
           op_Description = ''List of arguments to pass to the binary.'',
           op_MinValue = None, op_Sensitive = False\<rparr>]]"

definition em_dash :: string where "em_dash = [CHR 0xE2, CHR 0x80, CHR 0x94]"

text \<open>\<open>order\<close> is the order in which the range over the catalog map visits its keys.\<close>

definition capability_source :: "string list \<Rightarrow> AgentConfig \<Rightarrow> string list" where
  "capability_source order cfg = (if ac_AllowedOperations cfg = [] then order else ac_AllowedOperations cfg)"

definition capabilities :: "string list \<Rightarrow> AgentConfig \<Rightarrow> CapabilitiesPayload" where
  "capabilities source cfg = \<lparr>cap_Operations = concat (map (\<lambda>op. case map_of operationCatalog op of
       Some sch \<Rightarrow> [sch] | None \<Rightarrow> []) source),
     cap_ExecCommands = (if ''exec'' \<in> set source then ac_AllowedCommands cfg else [])\<rparr>"

definition sendCapabilities :: "string list \<Rightarrow> 'x nats \<Rightarrow> Publisher \<Rightarrow> ('x, CapabilitiesPayload) op" where
  "sendCapabilities order nt pb = (let cfg = pb_cfg pb; source = capability_source order cfg;
       payload = capabilities source cfg in do {
     logger InfoLevel ''capabilities: building from config''
       [(''allowed_operations_in_config'', FInt (int (length (ac_AllowedOperations cfg)))),
        (''allowed_operations'', FStrings (ac_AllowedOperations cfg))];
     (if ac_AllowedOperations cfg = [] then
        logger WarnLevel (''capabilities: allowed_operations is empty '' @ em_dash @ '' publishing full catalog as fallback'') []
      else ret ());
     r \<leftarrow> Envelope_New (pb_agentUUID pb) TypeCapabilities (CapabilitiesPayload_json payload);
     (case r of
       Inl e \<Rightarrow> logger ErrorLevel ''capabilities: could not build envelope'' [(''error'', FError e)]
     | Inr env \<Rightarrow> do {
         p \<leftarrow> Publish nt (pb_nats pb) env;
         (case p of
           Some e \<Rightarrow> logger ErrorLevel ''capabilities: publish failed'' [(''error'', FError e)]
         | None \<Rightarrow> logger InfoLevel ''capabilities published''
             [(''operation_count'', FInt (int (length (cap_Operations payload)))),
              (''exec_allowed'', FBool (''exec'' \<in> set source))])
       });
     ret payload
   })"

definition SendCapabilities :: "string list \<Rightarrow> 'x nats \<Rightarrow> Publisher \<Rightarrow> ('x, CapabilitiesPayload res) op" where
  "SendCapabilities order nt pb = do { payload \<leftarrow> sendCapabilities order nt pb; ret (Inr payload) }"

section \<open>Telemetry\<close>

definition sendTelemetry ::
    "(rat \<Rightarrow> string) \<Rightarrow> 'x gops \<Rightarrow> 'x nats \<Rightarrow> Publisher \<Rightarrow> Module \<Rightarrow> ('x, Module) op" where
  "sendTelemetry ff g nt pb m = do {
     x \<leftarrow> GetMetrics g m;
     (case x of (mr, m') \<Rightarrow> (case mr of
       Inl e \<Rightarrow> do { logger WarnLevel ''telemetry: could not get metrics'' [(''error'', FError e)]; ret m' }
     | Inr metrics \<Rightarrow> do {
         r \<leftarrow> Envelope_New (pb_agentUUID pb) TypeTelemetry (SystemMetrics_json ff metrics);
         (case r of
           Inl e \<Rightarrow> do { logger WarnLevel ''telemetry: could not build envelope'' [(''error'', FError e)]; ret m' }
         | Inr env \<Rightarrow> do {
             p \<leftarrow> Publish nt (pb_nats pb) env;
             (case p of
               Some e \<Rightarrow> do { logger WarnLevel ''telemetry: publish to evt failed'' [(''error'', FError e)]; ret m' }
             | None \<Rightarrow> do {
                 q \<leftarrow> PublishToSubject nt (TelemetrySubject (pb_nats pb)) env;
                 (case q of
                   Some e \<Rightarrow> logger WarnLevel ''telemetry: publish to vm telemetry subject failed''
                     [(''subject'', FString (TelemetrySubject (pb_nats pb))), (''error'', FError e)]
                 | None \<Rightarrow> ret ());
                 logger DebugLevel ''telemetry published'' [];
                 ret m'
               })
           })
       }))
   }"

section \<open>The loops\<close>

text \<open>What one pass through the \<open>select\<close> of a loop takes.\<close>

datatype select = Done | Tick | NewInterval int

definition loop_interval :: "int \<Rightarrow> int" where
  "loop_interval d = (if d \<le> 0 then 30 * second else d)"

text \<open>The heartbeat loop selects only between the tick and the end: \<open>n\<close> ticks before the end.\<close>

fun heartbeat_ticks :: "'x gops \<Rightarrow> 'x nats \<Rightarrow> Publisher \<Rightarrow> Module \<Rightarrow> nat \<Rightarrow> ('x, unit) op" where
  "heartbeat_ticks g nt pb m 0 = ret ()"
| "heartbeat_ticks g nt pb m (Suc n) = do { sendHeartbeat g nt pb m; heartbeat_ticks g nt pb m n }"

definition heartbeatLoop :: "'x gops \<Rightarrow> 'x nats \<Rightarrow> Publisher \<Rightarrow> Module \<Rightarrow> nat \<Rightarrow> ('x, int) op" where
  "heartbeatLoop g nt pb m n = (let interval = loop_interval (ac_HeartbeatInterval (pb_cfg pb)) in do {
     sendHeartbeat g nt pb m;
     heartbeat_ticks g nt pb m n;
     ret interval
   })"

fun telemetry_events ::
    "(rat \<Rightarrow> string) \<Rightarrow> 'x gops \<Rightarrow> 'x nats \<Rightarrow> Publisher \<Rightarrow> int \<Rightarrow> Module \<Rightarrow> select list \<Rightarrow> ('x, int \<times> Module) op" where
  "telemetry_events ff g nt pb interval m [] = ret (interval, m)"
| "telemetry_events ff g nt pb interval m (Done # es) = ret (interval, m)"
| "telemetry_events ff g nt pb interval m (Tick # es) = do {
     m' \<leftarrow> sendTelemetry ff g nt pb m;
     telemetry_events ff g nt pb interval m' es
   }"
| "telemetry_events ff g nt pb interval m (NewInterval d # es) = do {
     logger InfoLevel ''telemetry interval updated'' [(''interval'', FDuration d)];
     m' \<leftarrow> sendTelemetry ff g nt pb m;
     telemetry_events ff g nt pb d m' es
   }"

definition telemetryLoop ::
    "(rat \<Rightarrow> string) \<Rightarrow> 'x gops \<Rightarrow> 'x nats \<Rightarrow> Publisher \<Rightarrow> Module \<Rightarrow> select list \<Rightarrow> ('x, int \<times> Module) op" where
  "telemetryLoop ff g nt pb m es = do {
     m' \<leftarrow> sendTelemetry ff g nt pb m;
     telemetry_events ff g nt pb (loop_interval (ac_TelemetryInterval (pb_cfg pb))) m' es
   }"

section \<open>What is published\<close>

lemma adds_sendHeartbeat:
  "(\<And>b. Q (EvtSubject (pb_nats pb), b)) \<Longrightarrow> keeps (adds (\<lambda>_. True) (\<lambda>_. False) Q) (sendHeartbeat g nt pb m)"
  unfolding sendHeartbeat_def by (intro adds_rules adds_GetInfo adds_Envelope_New adds_Publish TrueI)

lemma adds_sendCapabilities:
  assumes "\<And>b. Q (EvtSubject (pb_nats pb), b)"
  shows "keeps (adds (\<lambda>_. True) (\<lambda>_. False) Q) (sendCapabilities order nt pb)"
  unfolding sendCapabilities_def Let_def
  by (intro adds_rules adds_Envelope_New adds_Publish assms TrueI)

lemma adds_SendCapabilities:
  assumes "\<And>b. Q (EvtSubject (pb_nats pb), b)"
  shows "keeps (adds (\<lambda>_. True) (\<lambda>_. False) Q) (SendCapabilities order nt pb)"
  unfolding SendCapabilities_def by (intro adds_rules adds_sendCapabilities assms)

lemma adds_sendTelemetry:
  "(\<And>b. Q (EvtSubject (pb_nats pb), b)) \<Longrightarrow> (\<And>b. Q (TelemetrySubject (pb_nats pb), b)) \<Longrightarrow>
    keeps (adds (\<lambda>_. True) (\<lambda>_. False) Q) (sendTelemetry ff g nt pb m)"
  unfolding sendTelemetry_def
  by (intro adds_rules adds_GetMetrics adds_Envelope_New adds_Publish adds_PublishToSubject TrueI)

lemma fst_sendCapabilities:
  "fst (run_state (sendCapabilities order nt pb) s) = capabilities (capability_source order (pb_cfg pb)) (pb_cfg pb)"
  by (simp add: sendCapabilities_def Let_def split: prod.split)

lemma catalog_names: "list_all (\<lambda>(k, sch). os_Operation sch = k) operationCatalog"
  by (simp add: operationCatalog_def schema_def)

lemma catalog_name: "map_of operationCatalog op = Some sch \<Longrightarrow> os_Operation sch = op"
  using catalog_names map_of_SomeD [of operationCatalog op sch] by (fastforce simp: list_all_iff)

lemma capabilities_operations:
  "map os_Operation (cap_Operations (capabilities source cfg)) =
    filter (\<lambda>op. op \<in> set (map fst operationCatalog)) source"
proof (induction source)
  case (Cons op source)
  show ?case
  proof (cases "map_of operationCatalog op")
    case None
    then have "op \<notin> set (map fst operationCatalog)" by (simp add: map_of_eq_None_iff)
    with None Cons show ?thesis by (simp add: capabilities_def)
  next
    case (Some sch)
    then have "op \<in> set (map fst operationCatalog)" by (metis map_of_eq_None_iff option.distinct(1) set_map)
    with Some Cons catalog_name [OF Some] show ?thesis by (simp add: capabilities_def)
  qed
qed (simp add: capabilities_def)


definition demo_publisher :: Publisher where
  "demo_publisher = Publisher_New \<lparr>cl_agentUUID = ''a-1''\<rparr> ''a-1''
     \<lparr>ac_HeartbeatInterval = 30 * second, ac_TelemetryInterval = 0,
      ac_AllowedOperations = [''exec'', ''pfsense.dhcp.leases'', ''system.info''],
      ac_AllowedCommands = [''/bin/date'']\<rparr>"


text \<open>Setting the telemetry interval never applies less than one second, applies larger values
  unchanged, and leaves exactly the newest value in the channel whatever was queued before.\<close>

theorem SetTelemetryInterval_newest:
  "fst (SetTelemetryInterval pb d) = max minTelemetryInterval d \<and>
   snd (SetTelemetryInterval pb d) = pb\<lparr>pb_telemetryIntervalCh := Some (max minTelemetryInterval d)\<rparr>"
  by (simp add: SetTelemetryInterval_def clampInterval_def Let_def max_def split: option.split)

end
