(* ===== verification/PublisherLoop.thy ===== *)
theory PublisherLoop
  imports Publisher
begin

text \<open>
  The interleavings of SetTelemetryInterval, called from the one goroutine that delivers commands,
  with the telemetry loop, over the channel of capacity one they share: a step relation whose steps
  are the atomic channel operations.
\<close>

text \<open>
  Where the command goroutine is: outside the call; in the default branch of the \<open>select\<close>, before it
  receives the queued value; or after that, before it sends the new one.
\<close>

datatype setter_pc = SIdle | SFull int | SDrained int

datatype loop_pc = LReady | LSending | LStopped

record chan_sys =
  cs_ch :: "int option"
  cs_setter :: setter_pc
  cs_loop :: loop_pc
  cs_interval :: int

inductive chan_step :: "chan_sys \<Rightarrow> chan_sys \<Rightarrow> bool" where
  send: "cs_setter s = SIdle \<Longrightarrow> cs_ch s = None \<Longrightarrow> chan_step s (s\<lparr>cs_ch := Some (clampInterval d)\<rparr>)"
| full: "cs_setter s = SIdle \<Longrightarrow> cs_ch s = Some v \<Longrightarrow> chan_step s (s\<lparr>cs_setter := SFull (clampInterval d)\<rparr>)"
| drain: "cs_setter s = SFull d \<Longrightarrow> cs_ch s = Some v \<Longrightarrow> chan_step s (s\<lparr>cs_ch := None, cs_setter := SDrained d\<rparr>)"
| refill: "cs_setter s = SDrained d \<Longrightarrow> cs_ch s = None \<Longrightarrow> chan_step s (s\<lparr>cs_ch := Some d, cs_setter := SIdle\<rparr>)"
| receive: "cs_loop s = LReady \<Longrightarrow> cs_ch s = Some v \<Longrightarrow>
    chan_step s (s\<lparr>cs_ch := None, cs_loop := LSending, cs_interval := v\<rparr>)"
| tick: "cs_loop s = LReady \<Longrightarrow> chan_step s (s\<lparr>cs_loop := LSending\<rparr>)"
| sent: "cs_loop s = LSending \<Longrightarrow> chan_step s (s\<lparr>cs_loop := LReady\<rparr>)"
| stop: "cs_loop s = LReady \<Longrightarrow> chan_step s (s\<lparr>cs_loop := LStopped\<rparr>)"

definition chan_init :: "int \<Rightarrow> chan_sys" where
  "chan_init d0 = \<lparr>cs_ch = None, cs_setter = SIdle, cs_loop = LSending, cs_interval = loop_interval d0\<rparr>"

definition chan_reach :: "int \<Rightarrow> chan_sys \<Rightarrow> bool" where
  "chan_reach d0 s \<longleftrightarrow> chan_step\<^sup>*\<^sup>* (chan_init d0) s"

inductive_cases chan_stepE: "chan_step s t"

section \<open>The tickers never panic\<close>

fun setter_value :: "setter_pc \<Rightarrow> int option" where
  "setter_value SIdle = None"
| "setter_value (SFull d) = Some d"
| "setter_value (SDrained d) = Some d"

definition chan_inv :: "int \<Rightarrow> chan_sys \<Rightarrow> bool" where
  "chan_inv d0 s \<longleftrightarrow> (\<forall>v. cs_ch s = Some v \<or> setter_value (cs_setter s) = Some v \<longrightarrow> minTelemetryInterval \<le> v) \<and>
     (cs_interval s = loop_interval d0 \<or> minTelemetryInterval \<le> cs_interval s) \<and>
     (\<forall>d. cs_setter s = SDrained d \<longrightarrow> cs_ch s = None)"

lemma clampInterval_min: "minTelemetryInterval \<le> clampInterval d"
  by (simp add: clampInterval_def)

lemma chan_inv_step: "chan_step s t \<Longrightarrow> chan_inv d0 s \<Longrightarrow> chan_inv d0 t"
  by (induction rule: chan_step.induct) (auto simp: chan_inv_def clampInterval_min)

lemma chan_inv_init: "chan_inv d0 (chan_init d0)"
  by (simp add: chan_inv_def chan_init_def)

lemma chan_inv_reach: "chan_reach d0 s \<Longrightarrow> chan_inv d0 s"
  unfolding chan_reach_def
  by (induction rule: rtranclp_induct) (auto intro: chan_inv_init chan_inv_step)

lemma loop_interval_pos: "0 < loop_interval d"
  by (simp add: loop_interval_def second_def)

text \<open>C28: In every reachable state the interval of the telemetry ticker and the value waiting in the
  channel are positive, so neither creating nor resetting the ticker can panic, whatever intervals the
  configuration and the commands ask for.\<close>

theorem ticker_interval_positive:
  "chan_reach d0 s \<Longrightarrow> 0 < cs_interval s \<and> pred_option (\<lambda>v. minTelemetryInterval \<le> v \<and> 0 < v) (cs_ch s)"
  using chan_inv_reach [of d0 s] loop_interval_pos [of d0]
  by (auto simp: chan_inv_def minTelemetryInterval_def second_def pred_option_def)

theorem ticker_interval_positive_witness:
  "0 < cs_interval (chan_init (-5)) \<and> pred_option (\<lambda>v. minTelemetryInterval \<le> v \<and> 0 < v) (cs_ch (chan_init (-5)))"
  by (rule ticker_interval_positive [of "-5"]) (simp add: chan_reach_def)

section \<open>The call against its sequential meaning\<close>



section \<open>A call that never returns\<close>

lemma stuck_step:
  "chan_step s t \<Longrightarrow> cs_setter s = SFull d \<and> cs_ch s = None \<Longrightarrow> cs_setter t = SFull d \<and> cs_ch t = None"
  by (induction rule: chan_step.induct) auto

lemma stuck_steps:
  "chan_step\<^sup>*\<^sup>* s t \<Longrightarrow> cs_setter s = SFull d \<and> cs_ch s = None \<Longrightarrow> cs_setter t = SFull d \<and> cs_ch t = None"
  by (induction rule: rtranclp_induct) (auto dest: stuck_step)

text \<open>C26: SetTelemetryInterval can block for ever. There is a reachable state, from any configured
  interval, in which the command goroutine has found the channel full and the telemetry loop has taken
  the queued value before it; in every continuation the goroutine stays in that receive.\<close>

theorem set_interval_can_block:
  "\<exists>s d. chan_reach d0 s \<and> (\<forall>t. chan_step\<^sup>*\<^sup>* s t \<longrightarrow> cs_setter t = SFull d \<and> cs_ch t = None)"
proof -
  let ?d = "clampInterval 0"
  let ?s0 = "chan_init d0"
  let ?s1 = "?s0\<lparr>cs_loop := LReady\<rparr>"
  let ?s2 = "?s1\<lparr>cs_ch := Some ?d\<rparr>"
  let ?s3 = "?s2\<lparr>cs_setter := SFull ?d\<rparr>"
  let ?s4 = "?s3\<lparr>cs_ch := None, cs_loop := LSending, cs_interval := ?d\<rparr>"
  have "chan_step ?s0 ?s1" by (rule chan_step.sent) (simp add: chan_init_def)
  moreover have "chan_step ?s1 ?s2" by (rule chan_step.send) (simp_all add: chan_init_def)
  moreover have "chan_step ?s2 ?s3" by (rule chan_step.full [where v = "?d"]) (simp_all add: chan_init_def)
  moreover have "chan_step ?s3 ?s4" by (rule chan_step.receive) simp_all
  ultimately have "chan_step\<^sup>*\<^sup>* ?s0 ?s4" by (meson converse_rtranclp_into_rtranclp rtranclp.rtrancl_refl)
  then have "chan_reach d0 ?s4" by (simp add: chan_reach_def)
  moreover have "cs_setter ?s4 = SFull ?d \<and> cs_ch ?s4 = None" by simp
  ultimately show ?thesis using stuck_steps by metis
qed

theorem set_interval_can_block_witness:
  "\<exists>s d. chan_reach 0 s \<and> cs_setter s = SFull d \<and> cs_ch s = None"
  using set_interval_can_block [of 0] by blast

section \<open>When a call returns\<close>

text \<open>A step of the command goroutine inside the call.\<close>

definition setter_step :: "chan_sys \<Rightarrow> chan_sys \<Rightarrow> bool" where
  "setter_step s t \<longleftrightarrow> chan_step s t \<and> cs_setter s \<noteq> SIdle \<and> cs_setter t \<noteq> cs_setter s"

fun steps_left :: "setter_pc \<Rightarrow> nat" where
  "steps_left SIdle = 0"
| "steps_left (SDrained d) = 1"
| "steps_left (SFull d) = 2"

lemma setter_step_decreases: "setter_step s t \<Longrightarrow> steps_left (cs_setter t) < steps_left (cs_setter s)"
  unfolding setter_step_def by (auto elim: chan_step.cases)

lemma setter_steps_bound: "(setter_step ^^ n) s t \<Longrightarrow> n + steps_left (cs_setter t) \<le> steps_left (cs_setter s)"
proof (induction n arbitrary: t)
  case (Suc n)
  then obtain u where u: "(setter_step ^^ n) s u" "setter_step u t" by auto
  show ?case using Suc.IH [OF u(1)] setter_step_decreases [OF u(2)] by simp
qed simp

text \<open>C27: A call of SetTelemetryInterval takes at most two more steps of its own once it has found the channel
  full, and it can return from every reachable state but one: the telemetry loop has received the
  queued value after the call found the channel full and before it received that value itself. After
  its own receive the send is always possible, whatever the loop does.\<close>

theorem set_interval_returns_iff:
  assumes "chan_reach d0 s"
  shows "((\<exists>t. chan_step\<^sup>*\<^sup>* s t \<and> cs_setter t = SIdle) \<longleftrightarrow> \<not> (\<exists>d. cs_setter s = SFull d \<and> cs_ch s = None)) \<and>
    ((setter_step ^^ n) s t \<longrightarrow> n \<le> 2) \<and>
    (\<forall>d. cs_setter s = SDrained d \<longrightarrow> setter_step s (s\<lparr>cs_ch := Some d, cs_setter := SIdle\<rparr>))"
proof (intro conjI)
  show "(setter_step ^^ n) s t \<longrightarrow> n \<le> 2"
    using setter_steps_bound [of n s t] by (cases "cs_setter s") auto
  show refill: "\<forall>d. cs_setter s = SDrained d \<longrightarrow> setter_step s (s\<lparr>cs_ch := Some d, cs_setter := SIdle\<rparr>)"
    using chan_inv_reach [OF assms] by (auto simp: setter_step_def chan_inv_def intro: chan_step.refill)
  have "\<exists>t. chan_step\<^sup>*\<^sup>* s t \<and> cs_setter t = SIdle" if "\<not> (\<exists>d. cs_setter s = SFull d \<and> cs_ch s = None)"
  proof (cases "cs_setter s")
    case SIdle
    then show ?thesis by blast
  next
    case (SDrained d)
    with refill show ?thesis by (intro exI [of _ "s\<lparr>cs_ch := Some d, cs_setter := SIdle\<rparr>"]) (auto simp: setter_step_def)
  next
    case (SFull d)
    with that obtain v where v: "cs_ch s = Some v" by auto
    let ?a = "s\<lparr>cs_ch := None, cs_setter := SDrained d\<rparr>"
    have "chan_step s ?a" using SFull v by (rule chan_step.drain)
    moreover have "chan_step ?a (?a\<lparr>cs_ch := Some d, cs_setter := SIdle\<rparr>)" by (rule chan_step.refill) simp_all
    ultimately have "chan_step\<^sup>*\<^sup>* s (?a\<lparr>cs_ch := Some d, cs_setter := SIdle\<rparr>)"
      by (meson converse_rtranclp_into_rtranclp rtranclp.rtrancl_refl)
    then show ?thesis by (intro exI) auto
  qed
  moreover have "\<not> (\<exists>t. chan_step\<^sup>*\<^sup>* s t \<and> cs_setter t = SIdle)" if "\<exists>d. cs_setter s = SFull d \<and> cs_ch s = None"
    using that stuck_steps by fastforce
  ultimately show "(\<exists>t. chan_step\<^sup>*\<^sup>* s t \<and> cs_setter t = SIdle) \<longleftrightarrow> \<not> (\<exists>d. cs_setter s = SFull d \<and> cs_ch s = None)"
    by blast
qed

theorem set_interval_returns_iff_witness:
  "\<exists>t. chan_step\<^sup>*\<^sup>* (chan_init 0) t \<and> cs_setter t = SIdle"
proof -
  have "chan_reach 0 (chan_init 0)" by (simp add: chan_reach_def)
  from set_interval_returns_iff [OF this] show ?thesis by (simp add: chan_init_def)
qed

end
