(* ===== verification/Dispatcher.thy ===== *)
theory Dispatcher
  imports PublisherLoop
begin

text \<open>
  internal/dispatcher/dispatcher.go: a command envelope is decoded, checked against the allowed
  operations, routed to a module and answered with a result envelope. The modules the dispatcher
  holds are the record \<open>modules\<close>; the two parts of the dispatcher that change (the system module's
  I/O baseline and the publisher's interval channel) are in the record \<open>Dispatcher\<close>, which every
  operation returns updated.
\<close>

section \<open>The dispatcher and what it holds\<close>

record 'x modules =
  md_svc :: "'x ServiceManager"
  md_pfs :: "'x PfManager"
  md_execute :: "string \<Rightarrow> string list \<Rightarrow> ('x, string \<times> string \<times> gerr option) op"
  md_resize :: "string \<Rightarrow> ('x, Result res) op"
  md_gops :: "'x gops"
  md_nats :: "'x nats"
  md_float :: "rat \<Rightarrow> string"
  md_order :: "string list"
  md_goos :: string
  md_version :: string

record Dispatcher =
  dp_sys :: Module
  dp_pub :: Publisher
  dp_allowedOps :: "string list"
  dp_allowedCommands :: "string list"
  dp_agentUUID :: string

definition Dispatcher_New :: "Module \<Rightarrow> Publisher \<Rightarrow> string \<Rightarrow> string list \<Rightarrow> string list \<Rightarrow> Dispatcher" where
  "Dispatcher_New sys pub uuid ops cmds = \<lparr>dp_sys = sys, dp_pub = pub, dp_allowedOps = ops,
     dp_allowedCommands = cmds, dp_agentUUID = uuid\<rparr>"

definition sensitiveOperations :: "string list" where
  "sensitiveOperations = [''pfsense.set_password'']"

record params =
  pr_Name :: string
  pr_Command :: string
  pr_Args :: "string list"
  pr_IntervalS :: i64
  pr_Username :: string
  pr_Password :: string

definition zero_params :: params where
  "zero_params = \<lparr>pr_Name = [], pr_Command = [], pr_Args = [], pr_IntervalS = 0, pr_Username = [], pr_Password = []\<rparr>"

definition params_fields :: "params field_table" where
  "params_fields =
     [(''name'', dec_string (\<lambda>x. pr_Name_update (\<lambda>_. x))),
      (''command'', dec_string (\<lambda>x. pr_Command_update (\<lambda>_. x))),
      (''args'', dec_list dec_str_elem (\<lambda>x. pr_Args_update (\<lambda>_. x))),
      (''interval_s'', dec_int (\<lambda>x. pr_IntervalS_update (\<lambda>_. x))),
      (''username'', dec_string (\<lambda>x. pr_Username_update (\<lambda>_. x))),
      (''password'', dec_string (\<lambda>x. pr_Password_update (\<lambda>_. x)))]"

record trackerParams =
  tp_Tracker :: string

definition trackerParams_fields :: "trackerParams field_table" where
  "trackerParams_fields = [(''tracker'', dec_string (\<lambda>x. tp_Tracker_update (\<lambda>_. x)))]"

definition emptyParams :: "string \<Rightarrow> bool" where
  "emptyParams raw \<longleftrightarrow> str_TrimSpace raw \<in> {''null'', ''[]'', [CHR 0x7B, CHR 0x7D], []}"

section \<open>Detecting the distribution\<close>

definition os_release_line :: "string \<Rightarrow> string \<times> string \<Rightarrow> string \<times> string" where
  "os_release_line raw s = (case s of (ident, idLike) \<Rightarrow> (let line = str_TrimSpace raw;
     ident' = (if str_HasPrefix line ''ID='' then
       str_ToLower (str_Trim (str_TrimPrefix line ''ID='') (CHR 0x22)) else ident);
     idLike' = (if str_HasPrefix line ''ID_LIKE='' then
       str_ToLower (str_Trim (str_TrimPrefix line ''ID_LIKE='') (CHR 0x22)) else idLike)
     in (ident', idLike')))"

definition debian_distro :: "string \<Rightarrow> string" where
  "debian_distro data = (case fold os_release_line (str_Split (CHR 0x0A) data) ([], []) of (ident, idLike) \<Rightarrow>
     if ident = ''ubuntu'' \<or> ident = ''debian'' \<or> str_Contains idLike ''ubuntu'' \<or> str_Contains idLike ''debian'' then
       (if ident \<noteq> [] then ident else idLike)
     else [])"

definition detectDebianDistro :: "('x, string res) op" where
  "detectDebianDistro = do {
     r \<leftarrow> os_ReadFile ''/etc/os-release'';
     ret (case r of Inl e \<Rightarrow> Inl (errorf_w ''reading /etc/os-release: '' e []) | Inr data \<Rightarrow> Inr (debian_distro data))
   }"

section \<open>Running an operation\<close>

text \<open>
  \<open>int(d.Seconds())\<close> of a duration of at least one second: whole seconds, plus one when the sum of
  the seconds and the fraction rounds up to the next integer as a \<open>float64\<close>, which has 53 significant
  bits (\<open>pow2_below n\<close> is the largest power of two not above \<open>n\<close>; no tie is possible below 2 to the 63
  nanoseconds).
\<close>

fun pow2_below :: "nat \<Rightarrow> nat" where
  "pow2_below n = (if n < 2 then 1 else 2 * pow2_below (n div 2))"

declare pow2_below.simps [simp del]

definition Duration_int_Seconds :: "int \<Rightarrow> int" where
  "Duration_int_Seconds d = (let sec = d div second; nsec = d mod second in
     if (second - nsec) * 2 ^ 53 \<le> second * int (pow2_below (nat sec)) then sec + 1 else sec)"

text \<open>The answer of a module call as the result of the operation; the dispatcher is unchanged.\<close>

definition reply :: "('a \<Rightarrow> json) \<Rightarrow> Dispatcher \<Rightarrow> ('x, 'a res) op \<Rightarrow> ('x, json res \<times> Dispatcher) op" where
  "reply f d m = do { r \<leftarrow> m; ret (map_sum id f r, d) }"

definition streams_json :: "string \<Rightarrow> string \<Rightarrow> json" where
  "streams_json stdout stderr = JObj [(''stderr'', JStr stderr), (''stdout'', JStr stdout)]"

definition run_command :: "'x modules \<Rightarrow> string \<Rightarrow> string list \<Rightarrow> ('x, json res) op" where
  "run_command md cmd args = do {
     r \<leftarrow> md_execute md cmd args;
     ret (case r of (stdout, stderr, err) \<Rightarrow> (case err of Some e \<Rightarrow> Inl e | None \<Rightarrow> Inr (streams_json stdout stderr)))
   }"

definition apt_get :: "string \<Rightarrow> string list" where
  "apt_get verb = [''-y'', ''-o'', ''Dpkg::Options::=--force-confdef'', ''-o'', ''Dpkg::Options::=--force-confold'', verb]"

definition system_update :: "'x modules \<Rightarrow> ('x, json res) op" where
  "system_update md = do {
     dr \<leftarrow> detectDebianDistro;
     (case dr of
       Inl e \<Rightarrow> ret (Inl (errorf_w ''could not detect OS: '' e []))
     | Inr distro \<Rightarrow>
       if distro = [] then
         ret (Inl (errorf ''system.update is only supported on Ubuntu/Debian; detected OS is not apt-based''))
       else do {
         u \<leftarrow> md_execute md ''apt-get'' (apt_get ''update'');
         (case u of (updateOut, updateErr, uerr) \<Rightarrow> (case uerr of
           Some e \<Rightarrow> ret (Inl (errorf_w ''apt-get update failed: '' e []))
         | None \<Rightarrow> do {
             g \<leftarrow> md_execute md ''apt-get'' (apt_get ''upgrade'');
             ret (case g of (upgradeOut, upgradeErr, gerr) \<Rightarrow> (case gerr of
               Some e \<Rightarrow> Inl e
             | None \<Rightarrow> Inr (JObj [(''distro'', JStr distro), (''update_stderr'', JStr updateErr),
                 (''update_stdout'', JStr updateOut), (''upgrade_stderr'', JStr upgradeErr),
                 (''upgrade_stdout'', JStr upgradeOut)])))
           }))
       })
   }"

definition set_interval :: "Dispatcher \<Rightarrow> params \<Rightarrow> json res \<times> Dispatcher" where
  "set_interval d p =
     (if pr_IntervalS p \<le> 0 then (Inl (errorf ''interval_s must be a positive integer (seconds)''), d)
      else (let requested = wrap64 (pr_IntervalS p * second) in
        case SetTelemetryInterval (dp_pub d) requested of (applied, pub) \<Rightarrow>
          (Inr (JObj [(''applied_interval_s'', JInt (Duration_int_Seconds applied)),
             (''requested_interval_s'', JInt (pr_IntervalS p))]), d\<lparr>dp_pub := pub\<rparr>)))"

definition with_params :: "'r field_table \<Rightarrow> 'r \<Rightarrow> string \<Rightarrow> ('r \<Rightarrow> ('x, json res) op) \<Rightarrow> ('x, json res) op" where
  "with_params fs zero raw f = (case json_Unmarshal fs zero raw of
     Inl e \<Rightarrow> ret (Inl (errorf_w ''could not decode params: '' e [])) | Inr req \<Rightarrow> f req)"

definition delete_by_tracker :: "(string \<Rightarrow> ('x, gerr option) op) \<Rightarrow> trackerParams \<Rightarrow> ('x, json res) op" where
  "delete_by_tracker del req = do {
     r \<leftarrow> del (tp_Tracker req);
     ret (case r of Some e \<Rightarrow> Inl e | None \<Rightarrow> Inr (JObj [(''tracker'', JStr (tp_Tracker req))]))
   }"

definition json_op :: "('a \<Rightarrow> json) \<Rightarrow> ('x, 'a res) op \<Rightarrow> ('x, json res) op" where
  "json_op f m = do { r \<leftarrow> m; ret (map_sum id f r) }"

text \<open>The operations of the modules that leave the dispatcher unchanged.\<close>

definition run_system :: "'x modules \<Rightarrow> Dispatcher \<Rightarrow> string \<Rightarrow> ('x, json res \<times> Dispatcher) op option" where
  "run_system md d op = (let g = md_gops md; ff = md_float md in
     if op = ''system.info'' then Some (reply SystemInfo_json d (GetInfo g (dp_sys d)))
     else if op = ''system.metrics'' then Some (do {
       r \<leftarrow> GetMetrics g (dp_sys d);
       ret (case r of (x, m) \<Rightarrow> (map_sum id (SystemMetrics_json ff) x, d\<lparr>dp_sys := m\<rparr>)) })
     else if op = ''system.cpu'' then Some (reply (CPUStats_json ff) d (GetCPU g))
     else if op = ''system.memory'' then Some (reply (MemoryStats_json ff) d (GetMemory g))
     else if op = ''system.disk'' then Some (do {
       r \<leftarrow> GetDisk g (dp_sys d);
       ret (case r of (x, m) \<Rightarrow> (map_sum id (slice_json (DiskEntry_json ff)) x, d\<lparr>dp_sys := m\<rparr>)) })
     else if op = ''system.network'' then Some (reply (slice_json NetworkEntry_json) d (GetNetwork g))
     else None)"

definition run_services :: "'x modules \<Rightarrow> string \<Rightarrow> params \<Rightarrow> ('x, json res) op option" where
  "run_services md op p = (let svc = md_svc md in
     if op = ''services.list'' then Some (json_op (\<lambda>xs. JArr (map ServiceInfo_json xs)) (mg_List svc))
     else if op = ''services.get'' then Some (json_op ServiceInfo_json (mg_Get svc (pr_Name p)))
     else if op = ''services.start'' then Some (json_op ActionResult_json (mg_Start svc (pr_Name p)))
     else if op = ''services.stop'' then Some (json_op ActionResult_json (mg_Stop svc (pr_Name p)))
     else if op = ''services.restart'' then Some (json_op ActionResult_json (mg_Restart svc (pr_Name p)))
     else if op = ''services.reload'' then Some (json_op ActionResult_json (mg_Reload svc (pr_Name p)))
     else if op = ''services.enable'' then Some (json_op ActionResult_json (mg_Enable svc (pr_Name p)))
     else if op = ''services.disable'' then Some (json_op ActionResult_json (mg_Disable svc (pr_Name p)))
     else None)"

definition run_vm :: "'x modules \<Rightarrow> string \<Rightarrow> params \<Rightarrow> ('x, json res) op option" where
  "run_vm md op p =
     (if op = ''disk.resize'' then Some (json_op Result_json (md_resize md
        (if pr_Name p = [] then (if md_goos md = ''windows'' then ''C'' else ''/'') else pr_Name p)))
      else if op = ''vm.reboot'' then Some
        (if md_goos md = ''windows'' then run_command md ''shutdown'' [''/r'', ''/t'', ''0'']
         else run_command md ''systemctl'' [''reboot''])
      else if op = ''vm.shutdown'' then Some
        (if md_goos md = ''windows'' then run_command md ''shutdown'' [''/s'', ''/t'', ''0'']
         else run_command md ''systemctl'' [''poweroff''])
      else if op = ''system.update'' then Some (system_update md)
      else None)"

definition run_pfsense :: "'x modules \<Rightarrow> string \<Rightarrow> params \<Rightarrow> string \<Rightarrow> ('x, json res) op option" where
  "run_pfsense md op p raw = (let pfs = md_pfs md in
     if op = ''pfsense.set_password'' then
       Some (json_op SetPasswordResult_json (pm_SetPassword pfs (pr_Username p) (pr_Password p)))
     else if op = ''pfsense.firewall.list'' then Some (json_op (slice_json FirewallRule_json) (pm_ListFirewallRules pfs))
     else if op = ''pfsense.firewall.create'' then Some (with_params FirewallRuleInput_fields zero_FirewallRuleInput raw
       (\<lambda>req. json_op FirewallRule_json (pm_CreateFirewallRule pfs req)))
     else if op = ''pfsense.firewall.delete'' then Some (with_params trackerParams_fields \<lparr>tp_Tracker = []\<rparr> raw
       (delete_by_tracker (pm_DeleteFirewallRule pfs)))
     else if op = ''pfsense.nat.list'' then Some (json_op (slice_json PortForward_json) (pm_ListPortForwards pfs))
     else if op = ''pfsense.nat.create'' then Some (with_params PortForwardInput_fields zero_PortForwardInput raw
       (\<lambda>req. json_op PortForward_json (pm_CreatePortForward pfs req)))
     else if op = ''pfsense.nat.delete'' then Some (with_params trackerParams_fields \<lparr>tp_Tracker = []\<rparr> raw
       (delete_by_tracker (pm_DeletePortForward pfs)))
     else if op = ''pfsense.dhcp.leases'' then Some (json_op (slice_json DHCPLease_json) (pm_ListDHCPLeases pfs))
     else None)"

definition run_agent :: "'x modules \<Rightarrow> Dispatcher \<Rightarrow> string \<Rightarrow> params \<Rightarrow> ('x, json res \<times> Dispatcher) op" where
  "run_agent md d op p =
     (if op = ''agent.allowed_operations'' then do {
        r \<leftarrow> SendCapabilities (md_order md) (md_nats md) (dp_pub d);
        ret (case r of Inl e \<Rightarrow> Inl (errorf_w ''re-publishing capabilities: '' e [])
          | Inr payload \<Rightarrow> Inr (CapabilitiesPayload_json payload), d)
      }
      else if op = ''agent.version'' then ret (Inr (JObj [(''version'', JStr (md_version md))]), d)
      else if op = ''telemetry.set_interval'' then ret (set_interval d p)
      else if op = ''exec'' then
        (if pr_Command p \<notin> set (dp_allowedCommands d) then
           ret (Inl (errorf (''command '' @ str_Quote (pr_Command p) @ '' is not in allowed_commands'')), d)
         else reply id d (run_command md (pr_Command p) (pr_Args p)))
      else ret (Inl (errorf (''unknown operation '' @ str_Quote op)), d))"

text \<open>The whole switch: the groups of cases are disjoint, so their order does not matter.\<close>

definition run :: "'x modules \<Rightarrow> Dispatcher \<Rightarrow> string \<Rightarrow> params \<Rightarrow> string \<Rightarrow> ('x, json res \<times> Dispatcher) op" where
  "run md d op p raw = (case run_system md d op of
     Some m \<Rightarrow> m
   | None \<Rightarrow> (case run_services md op p of
       Some m \<Rightarrow> reply id d m
     | None \<Rightarrow> (case run_vm md op p of
         Some m \<Rightarrow> reply id d m
       | None \<Rightarrow> (case run_pfsense md op p raw of
           Some m \<Rightarrow> reply id d m
         | None \<Rightarrow> run_agent md d op p))))"

section \<open>Results\<close>

definition result :: "Dispatcher \<Rightarrow> Envelope \<Rightarrow> string \<Rightarrow> string \<Rightarrow> json option \<Rightarrow> ('x, Envelope) op" where
  "result d src status msg output = do {
     r \<leftarrow> ResultFor src (dp_agentUUID d) status msg output;
     (case r of
       Inl e \<Rightarrow> do { logger ErrorLevel ''failed to build result envelope'' [(''error'', FError e)]; ret zero_Envelope }
     | Inr env \<Rightarrow> ret env)
   }"

definition ok :: "Dispatcher \<Rightarrow> Envelope \<Rightarrow> json \<Rightarrow> ('x, Envelope) op" where
  "ok d src output = result d src StatusCompleted [] (Some output)"

definition fail :: "Dispatcher \<Rightarrow> Envelope \<Rightarrow> string \<Rightarrow> ('x, Envelope) op" where
  "fail d src msg = result d src StatusFailed msg None"

definition reject :: "Dispatcher \<Rightarrow> Envelope \<Rightarrow> string \<Rightarrow> ('x, Envelope) op" where
  "reject d src msg = result d src StatusRejected msg None"

definition arrow_in :: string where "arrow_in = [CHR 0xE2, CHR 0x86, CHR 0x92]"
definition arrow_out :: string where "arrow_out = [CHR 0xE2, CHR 0x86, CHR 0x90]"

definition logResult :: "string \<Rightarrow> string \<Rightarrow> string \<Rightarrow> string \<Rightarrow> int \<Rightarrow> ('x, unit) op" where
  "logResult commandID op status msg elapsed =
     (let fields = [(''command_id'', FString commandID), (''operation'', FString op), (''status'', FString status),
        (''elapsed'', FDuration elapsed)] @ (if msg \<noteq> [] then [(''message'', FString msg)] else []) in
      if status = StatusCompleted then logger InfoLevel (arrow_out @ '' result: completed'') fields
      else if status = StatusFailed then logger ErrorLevel (arrow_out @ '' result: failed'') fields
      else if status = StatusRejected then logger WarnLevel (arrow_out @ '' result: rejected'') fields
      else ret ())"

text \<open>\<open>time.Since(start)\<close>\<close>

definition since :: "int \<Rightarrow> ('x, int) op" where
  "since start = do { now \<leftarrow> time_Now; ret (now - start) }"

definition decode_params :: "string \<Rightarrow> params res" where
  "decode_params raw = (if raw \<noteq> [] \<and> \<not> emptyParams raw then json_Unmarshal params_fields zero_params raw
     else Inr zero_params)"

definition log_params :: "Envelope \<Rightarrow> CommandPayload \<Rightarrow> ('x, unit) op" where
  "log_params env cmd = logger DebugLevel (arrow_in @ '' command params'')
     [(''command_id'', FString (env_ID env)), (''operation'', FString (cmd_Operation cmd)),
      (''params'', if cmd_Operation cmd \<in> set sensitiveOperations then FString ''[REDACTED]'' else FBytes (cmd_Params cmd))]"

definition Dispatch :: "'x modules \<Rightarrow> Dispatcher \<Rightarrow> Envelope \<Rightarrow> ('x, Envelope \<times> Dispatcher) op" where
  "Dispatch md d env = do {
     start \<leftarrow> time_Now;
     (case DecodePayload env of
       Inl e \<Rightarrow> do {
         logger ErrorLevel (arrow_in @ '' command received: could not decode payload'')
           [(''command_id'', FString (env_ID env)), (''error'', FError e)];
         r \<leftarrow> reject d env (''could not decode command payload: '' @ err_Error e);
         ret (r, d)
       }
     | Inr cmd \<Rightarrow> (let op = cmd_Operation cmd in do {
         logger InfoLevel (arrow_in @ '' command received'')
           [(''command_id'', FString (env_ID env)), (''operation'', FString op)];
         log_params env cmd;
         (if op \<notin> set (dp_allowedOps d) then do {
            r \<leftarrow> reject d env (''operation '' @ str_Quote op @ '' is not permitted on this agent'');
            el \<leftarrow> since start;
            logResult (env_ID env) op StatusRejected ''operation not in allowed_operations'' el;
            ret (r, d)
          }
          else (case decode_params (cmd_Params cmd) of
            Inl e \<Rightarrow> do {
              r \<leftarrow> reject d env (''could not decode params: '' @ err_Error e);
              el \<leftarrow> since start;
              logResult (env_ID env) op StatusRejected (''could not decode params: '' @ err_Error e) el;
              ret (r, d)
            }
          | Inr p \<Rightarrow> do {
              x \<leftarrow> run md d op p (cmd_Params cmd);
              (case x of (output, d') \<Rightarrow> (case output of
                Inl e \<Rightarrow> do {
                  r \<leftarrow> fail d' env (err_Error e);
                  el \<leftarrow> since start;
                  logResult (env_ID env) op StatusFailed (err_Error e) el;
                  ret (r, d')
                }
              | Inr out \<Rightarrow> do {
                  logger DebugLevel (arrow_out @ '' command output'')
                    [(''command_id'', FString (env_ID env)), (''operation'', FString op), (''output'', FAny out)];
                  r \<leftarrow> ok d' env out;
                  el \<leftarrow> since start;
                  logResult (env_ID env) op StatusCompleted [] el;
                  ret (r, d')
                }))
            }))
       }))
   }"

end
