(* ===== verification/DispatchSafety.thy ===== *)
theory DispatchSafety
  imports Dispatcher
begin

text \<open>
  What the dispatcher lets happen: the locale \<open>dispatch_modules\<close> collects the contracts of the modules
  it holds, its lemmas bound the processes and messages of every operation, and the interpretation at
  the end of the first part is on the modules of the Linux, FreeBSD and Windows builds.
\<close>

section \<open>The modules of the three builds\<close>

datatype goos = Linux | FreeBSD | Windows

fun goos_str :: "goos \<Rightarrow> string" where
  "goos_str Linux = ''linux''"
| "goos_str FreeBSD = ''freebsd''"
| "goos_str Windows = ''windows''"

text \<open>What is outside the agent: processes, gopsutil, NATS, network interfaces, the embedded scripts,
  float formatting, the map order and the build version.\<close>

record 'x externals =
  xt_run :: "'x runner"
  xt_gops :: "'x gops"
  xt_nats :: "'x nats"
  xt_nif :: "'x world \<Rightarrow> Interface list res \<times> 'x world"
  xt_scripts :: scripts
  xt_float :: "rat \<Rightarrow> string"
  xt_order :: "string list"
  xt_version :: string

fun service_manager_of :: "goos \<Rightarrow> 'x dbus option \<Rightarrow> 'x ServiceManager" where
  "service_manager_of Linux bus = linuxManager bus"
| "service_manager_of FreeBSD bus = freebsdManager"
| "service_manager_of Windows bus = windowsManager"

fun pfsense_of :: "goos \<Rightarrow> 'x externals \<Rightarrow> Executor \<Rightarrow> 'x PfManager" where
  "pfsense_of FreeBSD x ex = freebsd_pfsense (xt_nif x) (xt_scripts x) (xt_run x) ex"
| "pfsense_of _ x ex = stub_pfsense"

fun resizer_of :: "goos \<Rightarrow> 'x externals \<Rightarrow> Executor \<Rightarrow> string \<Rightarrow> ('x, Result res) op" where
  "resizer_of Linux x ex = Resize_linux (xt_gops x) (xt_run x) ex"
| "resizer_of FreeBSD x ex = Resize_freebsd"
| "resizer_of Windows x ex = Resize_windows (xt_run x) ex"

definition platform_modules :: "goos \<Rightarrow> 'x dbus option \<Rightarrow> 'x externals \<Rightarrow> Executor \<Rightarrow> 'x modules" where
  "platform_modules os bus x ex = \<lparr>md_svc = service_manager_of os bus, md_pfs = pfsense_of os x ex,
     md_execute = Execute (xt_run x) ex, md_resize = resizer_of os x ex, md_gops = xt_gops x, md_nats = xt_nats x,
     md_float = xt_float x, md_order = xt_order x, md_goos = goos_str os, md_version = xt_version x\<rparr>"

fun resize_tools_of :: "goos \<Rightarrow> string set" where
  "resize_tools_of Linux = {''growpart'', ''resize2fs'', ''xfs_growfs'', ''apt-get'', ''dnf'', ''yum''}"
| "resize_tools_of FreeBSD = {}"
| "resize_tools_of Windows = {''powershell''}"

section \<open>Authority\<close>

text \<open>The processes an operation may start.\<close>

definition authorised :: "string set \<Rightarrow> string list \<Rightarrow> string \<Rightarrow> call \<Rightarrow> bool" where
  "authorised tools cmds op c \<longleftrightarrow>
     (if op = ''exec'' then c_cmd c \<in> set cmds \<and> c_stdin c = None
      else if op = ''vm.reboot'' \<or> op = ''vm.shutdown'' then
        (c_cmd c, c_args c) \<in> {(''systemctl'', [''reboot'']), (''systemctl'', [''poweroff'']),
          (''shutdown'', [''/r'', ''/t'', ''0'']), (''shutdown'', [''/s'', ''/t'', ''0''])}
      else if op = ''system.update'' then c_cmd c = ''apt-get'' \<and> c_args c \<in> {apt_get ''update'', apt_get ''upgrade''}
      else if op = ''disk.resize'' then c_cmd c \<in> tools \<and> c_stdin c = None
      else str_HasPrefix op ''pfsense.'' \<and> c_cmd c = phpBinary)"

locale dispatch_modules =
  svc: service_manager "md_svc md" +
  pfs: pfsense_manager "md_pfs md" +
  rsz: resizer "md_resize md" tools +
  exe: command_runner "md_execute md" limit
  for md :: "'x modules" and tools :: "string set" and limit :: int
begin

lemma adds_sub:
  assumes "keeps (adds L P Q) m" "\<And>c. P c \<Longrightarrow> P' c" "\<And>x. Q x \<Longrightarrow> Q' x"
  shows "keeps (adds (\<lambda>_. True) P' Q') m"
  unfolding keeps_def
  by (rule allI, rule adds_mono [OF adds.keeps_run [OF assms(1)]]) (rule TrueI, erule assms(2), erule assms(3))

lemma adds_json_op: "keeps (adds L P Q) m \<Longrightarrow> keeps (adds L P Q) (json_op f m)"
  unfolding json_op_def by (intro adds_rules)

lemma adds_reply: "keeps (adds L P Q) m \<Longrightarrow> keeps (adds L P Q) (reply f d m)"
  unfolding reply_def by (intro adds_rules)

lemma adds_run_command:
  "P \<lparr>c_cmd = cmd, c_args = args, c_stdin = None, c_timeout = limit\<rparr> \<Longrightarrow>
    keeps (adds (\<lambda>_. True) P Q) (run_command md cmd args)"
  unfolding run_command_def by (intro adds_rules exe.keeps_execute)

lemma adds_system_update:
  assumes "\<And>v. v \<in> {''update'', ''upgrade''} \<Longrightarrow>
    P \<lparr>c_cmd = ''apt-get'', c_args = apt_get v, c_stdin = None, c_timeout = limit\<rparr>"
  shows "keeps (adds (\<lambda>_. True) P Q) (system_update md)"
  unfolding system_update_def detectDebianDistro_def
  by (intro adds_rules exe.keeps_execute assms) simp_all

lemma run_system_adds: "run_system md d op = Some m \<Longrightarrow> keeps (adds L P Q) m"
  unfolding run_system_def Let_def
  by (auto split: if_splits intro!: adds_reply adds_rules adds_GetInfo adds_GetMetrics adds_GetCPU adds_GetMemory
      adds_GetDisk adds_GetNetwork)

lemma service_action_adds:
  "keeps (adds (\<lambda>_. True) P Q) (mg_Start (md_svc md) n)" "keeps (adds (\<lambda>_. True) P Q) (mg_Stop (md_svc md) n)"
  "keeps (adds (\<lambda>_. True) P Q) (mg_Restart (md_svc md) n)" "keeps (adds (\<lambda>_. True) P Q) (mg_Reload (md_svc md) n)"
  "keeps (adds (\<lambda>_. True) P Q) (mg_Enable (md_svc md) n)" "keeps (adds (\<lambda>_. True) P Q) (mg_Disable (md_svc md) n)"
  using svc.action_trace [of ActionStart n] svc.action_trace [of ActionStop n] svc.action_trace [of ActionRestart n]
    svc.action_trace [of ActionReload n] svc.action_trace [of ActionEnable n] svc.action_trace [of ActionDisable n]
  by (auto elim!: adds_sub)

lemma run_services_adds: "run_services md op p = Some m \<Longrightarrow> keeps (adds (\<lambda>_. True) P Q) m"
  unfolding run_services_def Let_def
  by (auto split: if_splits intro!: adds_json_op service_action_adds
      adds_sub [OF svc.list_trace] adds_sub [OF svc.get_trace])

lemma run_vm_adds:
  "run_vm md op p = Some m \<Longrightarrow> keeps (adds (\<lambda>_. True) (authorised tools cmds op) Q) m"
  unfolding run_vm_def
  by (auto split: if_splits intro!: adds_json_op adds_run_command adds_system_update adds_sub [OF rsz.only_tools]
      simp: authorised_def)

lemma adds_with_params:
  "(\<And>req. keeps (adds L P Q) (f req)) \<Longrightarrow> keeps (adds L P Q) (with_params fs z raw f)"
  unfolding with_params_def by (intro adds_rules)

lemma adds_delete: "(\<And>t. keeps (adds L P Q) (del t)) \<Longrightarrow> keeps (adds L P Q) (delete_by_tracker del req)"
  unfolding delete_by_tracker_def by (intro adds_rules)

lemma run_pfsense_adds:
  assumes "run_pfsense md op p raw = Some m"
  shows "keeps (adds (\<lambda>_. True) (authorised tools cmds op) Q) m"
proof -
  have php: "keeps (adds (\<lambda>_. True) (\<lambda>c. c_cmd c = phpBinary) (\<lambda>_. False)) m"
    using assms unfolding run_pfsense_def Let_def
    by (auto split: if_splits intro!: adds_json_op adds_with_params adds_delete pfs.rules_trace
        adds_sub [OF pfs.set_password_trace] simp: php_call_def)
  have "authorised tools cmds op c" if "c_cmd c = phpBinary" for c
    using assms that unfolding run_pfsense_def Let_def
    by (auto split: if_splits simp: authorised_def str_HasPrefix_def)
  then show ?thesis by (rule adds_sub [OF php]) simp_all
qed

lemma run_agent_adds:
  assumes "\<And>b. op = ''agent.allowed_operations'' \<Longrightarrow> Q (EvtSubject (pb_nats (dp_pub d)), b)"
  shows "keeps (adds (\<lambda>_. True) (authorised tools (dp_allowedCommands d) op) Q) (run_agent md d op p)"
proof (cases "op = ''agent.allowed_operations''")
  case True
  then have Q: "Q (EvtSubject (pb_nats (dp_pub d)), b)" for b by (rule assms)
  have "keeps (adds (\<lambda>_. True) (authorised tools (dp_allowedCommands d) op) Q)
      (SendCapabilities (md_order md) (md_nats md) (dp_pub d))"
    by (rule adds_sub [OF adds_SendCapabilities [where Q = Q, OF Q]]) simp_all
  with True show ?thesis unfolding run_agent_def by (simp add: adds.keeps_bind adds.keeps_return)
next
  case False
  then show ?thesis unfolding run_agent_def
    by (auto intro!: adds.keeps_if adds.keeps_return adds_reply adds_run_command simp: authorised_def)
qed

lemma run_adds:
  assumes "\<And>b. op = ''agent.allowed_operations'' \<Longrightarrow> Q (EvtSubject (pb_nats (dp_pub d)), b)"
  shows "keeps (adds (\<lambda>_. True) (authorised tools (dp_allowedCommands d) op) Q) (run md d op p raw)"
  unfolding run_def
  by (intro adds.keeps_option adds_reply run_agent_adds [where Q = Q])
    (erule run_system_adds run_services_adds run_vm_adds run_pfsense_adds assms)+

lemma adds_result: "keeps (adds (\<lambda>_. True) P Q) (result d src st msg out)"
  unfolding result_def by (intro adds_rules adds_ResultFor TrueI)

lemma adds_log:
  "keeps (adds (\<lambda>_. True) P Q) (log_params env cmd)" "keeps (adds (\<lambda>_. True) P Q) (logResult cid op st msg el)"
  "keeps (adds (\<lambda>_. True) P Q) (since start)"
  unfolding log_params_def logResult_def since_def Let_def by (intro adds_rules TrueI)+

lemma Dispatch_adds:
  assumes P: "\<And>cmd c. DecodePayload env = Inr cmd \<Longrightarrow> cmd_Operation cmd \<in> set (dp_allowedOps d) \<Longrightarrow>
      authorised tools (dp_allowedCommands d) (cmd_Operation cmd) c \<Longrightarrow> P c"
    and Q: "\<And>cmd b. DecodePayload env = Inr cmd \<Longrightarrow> cmd_Operation cmd \<in> set (dp_allowedOps d) \<Longrightarrow>
      cmd_Operation cmd = ''agent.allowed_operations'' \<Longrightarrow> Q (EvtSubject (pb_nats (dp_pub d)), b)"
  shows "keeps (adds (\<lambda>_. True) P Q) (Dispatch md d env)"
proof -
  have run: "keeps (adds (\<lambda>_. True) P Q) (run md d (cmd_Operation cmd) p raw)"
    if "DecodePayload env = Inr cmd" "\<not> cmd_Operation cmd \<notin> set (dp_allowedOps d)" for cmd p raw
    by (rule adds_sub [OF run_adds [where Q = Q]]) (use that P Q in auto)
  show ?thesis
    unfolding Dispatch_def Let_def ok_def fail_def reject_def
    by (intro adds_rules adds_result adds_log run TrueI) 
qed

end

interpretation platform: dispatch_modules "platform_modules os bus x ex" "resize_tools_of os" "ex_timeout ex"
  for os :: goos and bus :: "'x dbus option" and x :: "'x externals" and ex :: Executor
proof -
  have "service_manager (service_manager_of os bus)"
    by (cases os) (simp_all add: linux_services.service_manager_axioms stub_services.service_manager_axioms
      freebsdManager_def windowsManager_def)
  moreover have "pfsense_manager (pfsense_of os x ex)"
    by (cases os) (simp_all add: real_pfsense.pfsense_manager_axioms no_pfsense.pfsense_manager_axioms)
  moreover have "resizer (resizer_of os x ex) (resize_tools_of os)"
    by (cases os) (simp_all add: linux_resizer.resizer_axioms freebsd_resizer.resizer_axioms windows_resizer.resizer_axioms)
  ultimately show "dispatch_modules (platform_modules os bus x ex) (resize_tools_of os) (ex_timeout ex)"
    by (simp add: dispatch_modules_def platform_modules_def execute_runner.command_runner_axioms)
qed

end
