(* ===== verification/DispatchProps.thy ===== *)
theory DispatchProps
  imports DispatchSafety
begin

text \<open>
  The properties of the dispatcher: every command is answered, nothing happens for commands that are
  not permitted, permitted ones start only the processes their operation stands for, and the policy never
  changes.
\<close>

section \<open>Results\<close>

text \<open>The envelope answers the command: a result of this agent with the command's id, the status, the
  message and the output.\<close>

definition answers :: "Dispatcher \<Rightarrow> Envelope \<Rightarrow> string \<Rightarrow> string \<Rightarrow> json option \<Rightarrow> Envelope \<Rightarrow> bool" where
  "answers d src status msg out r \<longleftrightarrow> env_V r = 1 \<and> env_Type r = TypeResult \<and> env_AgentUUID r = dp_agentUUID d \<and>
     uuid_shape (env_ID r) \<and> env_ReplyTo r = [] \<and>
     env_Payload r = json_enc (ResultPayload_json \<lparr>res_CommandID = env_ID src, res_Status = status,
       res_Message = msg, res_Output = out\<rparr>)"

lemma ResultPayload_encodable [simp]:
  "json_encodable (ResultPayload_json \<lparr>res_CommandID = i, res_Status = st, res_Message = m, res_Output = out\<rparr>) =
    pred_option json_encodable out"
  by (auto simp: ResultPayload_json_def omit_str_def split: option.split)

lemma run_result_ok:
  assumes "pred_option json_encodable out"
  shows "\<exists>r. run_state (result d src st msg out) s = (r, s\<lparr>h_rpos := h_rpos s + 16\<rparr>) \<and> answers d src st msg out r"
proof -
  let ?p = "ResultPayload_json \<lparr>res_CommandID = env_ID src, res_Status = st, res_Message = msg, res_Output = out\<rparr>"
  have "json_encodable ?p" using assms by simp
  from run_Envelope_New_ok [OF this, of "dp_agentUUID d" TypeResult s] newUUID_shape [of s] show ?thesis
    by (simp add: result_def ResultFor_def answers_def)
qed

lemma run_result_err:
  assumes "\<not> pred_option json_encodable out"
  shows "\<exists>e. run_state (result d src st msg out) s =
    (zero_Envelope, s\<lparr>h_log := h_log s @ [LogEnt ErrorLevel ''failed to build result envelope'' [(''error'', FError e)]]\<rparr>)"
proof -
  let ?p = "ResultPayload_json \<lparr>res_CommandID = env_ID src, res_Status = st, res_Message = msg, res_Output = out\<rparr>"
  have "\<not> json_encodable ?p" using assms by simp
  from run_Envelope_New_err [OF this, of "dp_agentUUID d" TypeResult s]
  have "run_state (result d src st msg out) s = (zero_Envelope, s\<lparr>h_log := h_log s @ [LogEnt ErrorLevel
      ''failed to build result envelope'' [(''error'', FError (errorf_w ''marshalling payload: ''
        (errorf ''json: unsupported value'') []))]]\<rparr>)"
    by (simp add: result_def ResultFor_def)
  then show ?thesis by blast
qed

lemma run_logResult: "\<exists>es. run_state (logResult cid op st msg el) s = ((), s\<lparr>h_log := h_log s @ es\<rparr>)"
  by (auto simp: logResult_def Let_def intro: exI [of _ "[]"])

lemma run_since [simp]: "run_state (since start) s = (w_now (h_world s) - start, s)"
  by (simp add: since_def)

text \<open>A result that is sent and logged: the tail of every branch of Dispatch.\<close>

lemma run_finish:
  assumes "pred_option json_encodable out"
  shows "\<exists>r es. run_state (do { r \<leftarrow> result d src st msg out; el \<leftarrow> since start; logResult cid op st' msg' el; ret (r, d') }) s
      = ((r, d'), s\<lparr>h_rpos := h_rpos s + 16, h_log := h_log s @ es\<rparr>) \<and> answers d src st msg out r"
proof -
  obtain r where r: "run_state (result d src st msg out) s = (r, s\<lparr>h_rpos := h_rpos s + 16\<rparr>)" "answers d src st msg out r"
    using run_result_ok [OF assms] by blast
  obtain es where "run_state (logResult cid op st' msg' (w_now (h_world s) - start)) (s\<lparr>h_rpos := h_rpos s + 16\<rparr>)
      = ((), (s\<lparr>h_rpos := h_rpos s + 16\<rparr>)\<lparr>h_log := h_log s @ es\<rparr>)"
    using run_logResult [of cid op st' msg' _ "s\<lparr>h_rpos := h_rpos s + 16\<rparr>"] by auto
  with r show ?thesis by auto
qed

section \<open>Commands that are not carried out\<close>

text \<open>Why a command is turned away before any module is called.\<close>

definition turned_away :: "Dispatcher \<Rightarrow> Envelope \<Rightarrow> string option" where
  "turned_away d env = (case DecodePayload env of
     Inl e \<Rightarrow> Some (''could not decode command payload: '' @ err_Error e)
   | Inr cmd \<Rightarrow>
     if cmd_Operation cmd \<notin> set (dp_allowedOps d) then
       Some (''operation '' @ str_Quote (cmd_Operation cmd) @ '' is not permitted on this agent'')
     else (case decode_params (cmd_Params cmd) of
       Inl e \<Rightarrow> Some (''could not decode params: '' @ err_Error e) | Inr p \<Rightarrow> None))"

lemma Dispatch_turned_away:
  assumes "turned_away d env = Some msg"
  shows "\<exists>r es. run_state (Dispatch md d env) s = ((r, d), s\<lparr>h_rpos := h_rpos s + 16, h_log := h_log s @ es\<rparr>) \<and>
    answers d env StatusRejected msg None r"
proof (cases "DecodePayload env")
  case (Inl e)
  let ?L = "[LogEnt ErrorLevel (arrow_in @ '' command received: could not decode payload'')
           [(''command_id'', FString (env_ID env)), (''error'', FError e)]]"
  let ?s = "s\<lparr>h_log := h_log s @ ?L\<rparr>"
  from Inl assms have msg: "msg = ''could not decode command payload: '' @ err_Error e" by (simp add: turned_away_def)
  obtain r where r: "run_state (result d env StatusRejected msg None) ?s = (r, ?s\<lparr>h_rpos := h_rpos ?s + 16\<rparr>)"
    "answers d env StatusRejected msg None r" using run_result_ok [of None d env StatusRejected msg ?s] by auto
  with Inl msg have "run_state (Dispatch md d env) s = ((r, d), s\<lparr>h_rpos := h_rpos s + 16, h_log := h_log s @ ?L\<rparr>)"
    by (simp add: Dispatch_def reject_def)
  with r(2) show ?thesis by blast
next
  case (Inr cmd)
  let ?op = "cmd_Operation cmd"
  obtain es where logs: "run_state (do { logger InfoLevel (arrow_in @ '' command received'')
        [(''command_id'', FString (env_ID env)), (''operation'', FString ?op)]; log_params env cmd }) s
      = ((), s\<lparr>h_log := h_log s @ es\<rparr>)" by (simp add: log_params_def)
  let ?s = "s\<lparr>h_log := h_log s @ es\<rparr>"
  show ?thesis
  proof (cases "?op \<notin> set (dp_allowedOps d)")
    case True
    with Inr assms have msg: "msg = ''operation '' @ str_Quote ?op @ '' is not permitted on this agent''"
      by (simp add: turned_away_def)
    from run_finish [of None d env StatusRejected msg "w_now (h_world s)" "env_ID env" ?op StatusRejected
        "''operation not in allowed_operations''" d ?s]
    show ?thesis using Inr True logs msg by (auto simp: Dispatch_def Let_def reject_def log_params_def)
  next
    case False
    with Inr assms obtain e where e: "decode_params (cmd_Params cmd) = Inl e" "msg = ''could not decode params: '' @ err_Error e"
      by (auto simp: turned_away_def split: sum.splits)
    from run_finish [of None d env StatusRejected msg "w_now (h_world s)" "env_ID env" ?op StatusRejected msg d ?s]
    show ?thesis using Inr False logs e by (auto simp: Dispatch_def Let_def reject_def log_params_def)
  qed
qed

text \<open>C4: A command whose payload does not decode, whose operation is not in the allowed operations, or
  whose parameters do not decode is rejected and inert: the sender gets a rejected result that names
  the command and the reason, nothing is started, published or written, the dispatcher is unchanged,
  and besides the log only 16 random bytes for the id of the result are consumed.\<close>

theorem unpermitted_commands_are_inert:
  assumes "turned_away d env = Some msg"
  shows "\<exists>r es. run_state (Dispatch md d env) s = ((r, d), s\<lparr>h_rpos := h_rpos s + 16, h_log := h_log s @ es\<rparr>) \<and>
    answers d env StatusRejected msg None r"
  using assms by (rule Dispatch_turned_away)

definition demo_dispatcher :: Dispatcher where
  "demo_dispatcher = Dispatcher_New (Module_New None) demo_publisher ''a-1'' [''exec'', ''telemetry.set_interval''] [''/bin/date'']"

definition demo_command :: "string \<Rightarrow> (string \<times> json) list \<Rightarrow> Envelope" where
  "demo_command op ps = demo_envelope\<lparr>env_Payload := json_enc (CommandPayload_json
     \<lparr>cmd_Operation = op, cmd_Params = json_enc (JObj ps), cmd_TimeoutS = 0\<rparr>)\<rparr>"

lemma DecodePayload_demo:
  assumes "wf_text op" "json_plain (JObj ps)"
  shows "DecodePayload (demo_command op ps) = Inr \<lparr>cmd_Operation = op, cmd_Params = json_enc (JObj ps), cmd_TimeoutS = 0\<rparr>"
proof -
  have ne: "json_enc (JObj ps) \<noteq> []" using json_enc_pos [OF assms(2)] by auto
  have enc: "json_enc (CommandPayload_json \<lparr>cmd_Operation = op, cmd_Params = json_enc (JObj ps), cmd_TimeoutS = 0\<rparr>) =
      json_enc (JObj [(''operation'', JStr op), (''params'', JObj ps)])"
    using ne json_enc_raw [OF assms(2)] by (simp add: CommandPayload_json_def omit_int_def)
  have plain: "json_plain (JObj [(''operation'', JStr op), (''params'', JObj ps)])" using assms(2) by simp
  show ?thesis
    unfolding DecodePayload_def demo_command_def using assms(1) ne
    by (simp add: enc json_Unmarshal_enc [OF plain] CommandPayload_fields_def zero_CommandPayload_def go_json wf_text_def
        del: json_enc.simps)
qed

definition demo_externals :: "unit externals" where
  "demo_externals = \<lparr>xt_run = all_ok, xt_gops = demo_gops, xt_nats = demo_nats, xt_nif = (\<lambda>w. (Inr demo_ifaces, w)),
     xt_scripts = demo_scripts, xt_float = (\<lambda>_. ''0.5''), xt_order = map fst operationCatalog, xt_version = ''1.0.0''\<rparr>"

theorem unpermitted_commands_are_inert_witness:
  "\<exists>r es. run_state (Dispatch (platform_modules Linux None demo_externals Executor_New) demo_dispatcher (demo_command ''vm.shutdown'' [])) blank_host =
      ((r, demo_dispatcher), blank_host\<lparr>h_rpos := 16, h_log := es\<rparr>) \<and>
    answers demo_dispatcher (demo_command ''vm.shutdown'' []) StatusRejected
      (''operation '' @ str_Quote ''vm.shutdown'' @ '' is not permitted on this agent'') None r"
proof -
  have "DecodePayload (demo_command ''vm.shutdown'' []) =
      Inr \<lparr>cmd_Operation = ''vm.shutdown'', cmd_Params = json_enc (JObj []), cmd_TimeoutS = 0\<rparr>"
    by (rule DecodePayload_demo) (simp_all add: ascii_def)
  then have "turned_away demo_dispatcher (demo_command ''vm.shutdown'' []) =
      Some (''operation '' @ str_Quote ''vm.shutdown'' @ '' is not permitted on this agent'')"
    by (simp add: turned_away_def demo_dispatcher_def Dispatcher_New_def)
  from unpermitted_commands_are_inert [OF this, of "platform_modules Linux None demo_externals Executor_New" blank_host] show ?thesis by (simp add: blank_host_def)
qed

section \<open>The policy never changes\<close>

definition same_policy :: "Dispatcher \<Rightarrow> Dispatcher \<Rightarrow> bool" where
  "same_policy d d' \<longleftrightarrow> dp_allowedOps d' = dp_allowedOps d \<and> dp_allowedCommands d' = dp_allowedCommands d \<and>
     dp_agentUUID d' = dp_agentUUID d \<and> pb_cfg (dp_pub d') = pb_cfg (dp_pub d) \<and> pb_nats (dp_pub d') = pb_nats (dp_pub d)"

lemma same_policy_refl [simp]: "same_policy d d"
  by (simp add: same_policy_def)

lemma reply_same: "run_state (reply f d m) s = ((x, d'), t) \<Longrightarrow> d' = d"
  by (auto simp: reply_def split: prod.splits)

lemma set_interval_policy: "same_policy d (snd (set_interval d p))"
  by (auto simp: set_interval_def SetTelemetryInterval_def Let_def same_policy_def split: option.splits)

lemma run_system_policy: "run_system md d op = Some m \<Longrightarrow> run_state m s = ((x, d'), t) \<Longrightarrow> same_policy d d'"
  unfolding run_system_def Let_def
  by (auto split: if_splits prod.splits dest!: reply_same simp: same_policy_def)

lemma run_agent_policy: "run_state (run_agent md d op p) s = ((x, d'), t) \<Longrightarrow> same_policy d d'"
  unfolding run_agent_def using set_interval_policy [of d p]
  by (auto split: if_splits prod.splits dest!: reply_same)

lemma run_policy: "run_state (run md d op p raw) s = ((x, d'), t) \<Longrightarrow> same_policy d d'"
  unfolding run_def
  by (auto split: option.splits dest!: reply_same intro: run_system_policy run_agent_policy)

lemma Dispatch_policy: "run_state (Dispatch md d env) s = ((r, d'), t) \<Longrightarrow> same_policy d d'"
  unfolding Dispatch_def Let_def
  by (auto split: sum.splits prod.splits if_splits dest: run_policy)

section \<open>Commands that are carried out\<close>

text \<open>What is logged before the operation runs.\<close>

definition received :: "Envelope \<Rightarrow> CommandPayload \<Rightarrow> logent list" where
  "received env cmd =
     [LogEnt InfoLevel (arrow_in @ '' command received'')
        [(''command_id'', FString (env_ID env)), (''operation'', FString (cmd_Operation cmd))],
      LogEnt DebugLevel (arrow_in @ '' command params'')
        [(''command_id'', FString (env_ID env)), (''operation'', FString (cmd_Operation cmd)),
         (''params'', if cmd_Operation cmd \<in> set sensitiveOperations then FString ''[REDACTED]'' else FBytes (cmd_Params cmd))]]"

lemma run_received:
  "run_state (do { logger InfoLevel (arrow_in @ '' command received'')
      [(''command_id'', FString (env_ID env)), (''operation'', FString (cmd_Operation cmd))]; log_params env cmd }) s
    = ((), s\<lparr>h_log := h_log s @ received env cmd\<rparr>)"
  by (simp add: log_params_def received_def)

definition answered :: "Dispatcher \<Rightarrow> Envelope \<Rightarrow> json res \<Rightarrow> Envelope \<Rightarrow> bool" where
  "answered d env x r = (case x of Inl e \<Rightarrow> answers d env StatusFailed (err_Error e) None r
     | Inr out \<Rightarrow> if json_encodable out then answers d env StatusCompleted [] (Some out) r else r = zero_Envelope)"

lemma answers_policy: "same_policy d d' \<Longrightarrow> answers d' env st msg out r = answers d env st msg out r"
  by (simp add: same_policy_def answers_def)

lemma run_finish_err:
  assumes "\<not> pred_option json_encodable out"
  shows "\<exists>es. run_state (do { r \<leftarrow> result d src st msg out; el \<leftarrow> since start; logResult cid op st' msg' el; ret (r, d') }) s
      = ((zero_Envelope, d'), s\<lparr>h_log := h_log s @ es\<rparr>)"
proof -
  obtain e where r: "run_state (result d src st msg out) s = (zero_Envelope, s\<lparr>h_log := h_log s @
      [LogEnt ErrorLevel ''failed to build result envelope'' [(''error'', FError e)]]\<rparr>)"
    using run_result_err [OF assms] by blast
  let ?L = "[LogEnt ErrorLevel ''failed to build result envelope'' [(''error'', FError e)]]"
  let ?s = "s\<lparr>h_log := h_log s @ ?L\<rparr>"
  obtain es where "run_state (logResult cid op st' msg' (w_now (h_world s) - start)) ?s = ((), ?s\<lparr>h_log := h_log ?s @ es\<rparr>)"
    using run_logResult by blast
  with r have "run_state (do { r \<leftarrow> result d src st msg out; el \<leftarrow> since start; logResult cid op st' msg' el; ret (r, d') }) s
      = ((zero_Envelope, d'), s\<lparr>h_log := h_log s @ (?L @ es)\<rparr>)" by simp
  then show ?thesis by blast
qed

lemma Dispatch_permitted:
  assumes "DecodePayload env = Inr cmd" "cmd_Operation cmd \<in> set (dp_allowedOps d)"
    and "decode_params (cmd_Params cmd) = Inr p"
    and x: "run_state (run md d (cmd_Operation cmd) p (cmd_Params cmd)) (s\<lparr>h_log := h_log s @ received env cmd\<rparr>) = ((x, d'), u)"
  shows "\<exists>r n es. run_state (Dispatch md d env) s = ((r, d'), u\<lparr>h_rpos := h_rpos u + n, h_log := h_log u @ es\<rparr>) \<and>
    answered d env x r"
proof -
  let ?op = "cmd_Operation cmd"
  have pol: "same_policy d d'" using run_policy [OF x] .
  have pre: "run_state (Dispatch md d env) s = run_state (case x of
      Inl e \<Rightarrow> do { r \<leftarrow> fail d' env (err_Error e); el \<leftarrow> since (w_now (h_world s));
        logResult (env_ID env) ?op StatusFailed (err_Error e) el; ret (r, d') }
    | Inr out \<Rightarrow> do { logger DebugLevel (arrow_out @ '' command output'')
          [(''command_id'', FString (env_ID env)), (''operation'', FString ?op), (''output'', FAny out)];
        r \<leftarrow> ok d' env out; el \<leftarrow> since (w_now (h_world s));
        logResult (env_ID env) ?op StatusCompleted [] el; ret (r, d') }) u"
    using assms by (simp add: Dispatch_def Let_def log_params_def received_def)
  show ?thesis
  proof (cases x)
    case (Inl e)
    from run_finish [of None d' env StatusFailed "err_Error e" "w_now (h_world s)" "env_ID env" ?op StatusFailed "err_Error e" d' u]
    obtain r es where "run_state (Dispatch md d env) s = ((r, d'), u\<lparr>h_rpos := h_rpos u + 16, h_log := h_log u @ es\<rparr>)"
      "answers d' env StatusFailed (err_Error e) None r" using pre Inl by (auto simp: fail_def)
    with Inl pol show ?thesis by (auto simp: answered_def answers_policy)
  next
    case (Inr out)
    let ?L = "[LogEnt DebugLevel (arrow_out @ '' command output'')
          [(''command_id'', FString (env_ID env)), (''operation'', FString ?op), (''output'', FAny out)]]"
    let ?u = "u\<lparr>h_log := h_log u @ ?L\<rparr>"
    let ?fin = "do { r \<leftarrow> result d' env StatusCompleted [] (Some out); el \<leftarrow> since (w_now (h_world s));
        logResult (env_ID env) ?op StatusCompleted [] el; ret (r, d') }"
    have fin: "run_state (Dispatch md d env) s = run_state ?fin ?u" using pre Inr by (simp add: ok_def)
    show ?thesis
    proof (cases "json_encodable out")
      case True
      with run_finish [of "Some out" d' env StatusCompleted "[]" "w_now (h_world s)" "env_ID env" ?op StatusCompleted "[]" d' ?u]
      obtain r es where "run_state ?fin ?u = ((r, d'), ?u\<lparr>h_rpos := h_rpos ?u + 16, h_log := h_log ?u @ es\<rparr>)"
        "answers d' env StatusCompleted [] (Some out) r" by auto
      then have "run_state (Dispatch md d env) s = ((r, d'), u\<lparr>h_rpos := h_rpos u + 16, h_log := h_log u @ (?L @ es)\<rparr>)"
        "answered d env x r" using fin Inr True pol by (simp_all add: answered_def answers_policy)
      then show ?thesis by blast
    next
      case False
      with run_finish_err [of "Some out" d' env StatusCompleted "[]" "w_now (h_world s)" "env_ID env" ?op StatusCompleted "[]" d' ?u]
      obtain es where "run_state ?fin ?u = ((zero_Envelope, d'), ?u\<lparr>h_log := h_log ?u @ es\<rparr>)" by auto
      then have "run_state (Dispatch md d env) s = ((zero_Envelope, d'), u\<lparr>h_rpos := h_rpos u + 0, h_log := h_log u @ (?L @ es)\<rparr>)"
        "answered d env x zero_Envelope" using fin Inr False by (simp_all add: answered_def)
      then show ?thesis by blast
    qed
  qed
qed

text \<open>C10: An allowed command with decodable parameters is carried out exactly once and answered: the
  operation runs in the state in which the command was received, and the sender gets a completed
  result with the operation's output, or a failed one with its error. After the operation only log
  entries and the random bytes of the result's id are added. The one exception to a valid result is an
  output JSON cannot encode, for which the zero envelope is returned.\<close>

theorem permitted_commands_are_answered:
  assumes "DecodePayload env = Inr cmd" "cmd_Operation cmd \<in> set (dp_allowedOps d)"
    and "decode_params (cmd_Params cmd) = Inr p"
    and "run_state (run md d (cmd_Operation cmd) p (cmd_Params cmd)) (s\<lparr>h_log := h_log s @ received env cmd\<rparr>) = ((x, d'), u)"
  shows "\<exists>r n es. run_state (Dispatch md d env) s = ((r, d'), u\<lparr>h_rpos := h_rpos u + n, h_log := h_log u @ es\<rparr>) \<and>
    answered d env x r"
  using assms by (rule Dispatch_permitted)

section \<open>Authority\<close>

text \<open>C3: On every platform a command starts only the processes its operation stands for and only when
  that operation is allowed: for exec the allow-listed binary without input, for vm.reboot and
  vm.shutdown the system's shutdown commands, for system.update apt-get, for disk.resize the resize
  tools of the platform, for pfsense operations the PHP interpreter, and nothing for any other
  operation; a message is published only by agent.allowed_operations, on the event subject. The allow-lists
  and the agent's identity stay what they were.\<close>

theorem dispatch_least_authority:
  assumes "run_state (Dispatch (platform_modules os bus x ex) d env) s = ((r, d'), t)"
  shows "\<exists>cs ms. h_procs t = h_procs s @ cs \<and> h_pub t = h_pub s @ ms \<and> same_policy d d' \<and>
    list_all (\<lambda>c. \<exists>cmd. DecodePayload env = Inr cmd \<and> cmd_Operation cmd \<in> set (dp_allowedOps d) \<and>
      authorised (resize_tools_of os) (dp_allowedCommands d) (cmd_Operation cmd) c) cs \<and>
    list_all (\<lambda>m. \<exists>cmd. DecodePayload env = Inr cmd \<and> cmd_Operation cmd = ''agent.allowed_operations'' \<and>
      ''agent.allowed_operations'' \<in> set (dp_allowedOps d) \<and> fst m = EvtSubject (pb_nats (dp_pub d))) ms"
proof -
  let ?P = "\<lambda>c. \<exists>cmd. DecodePayload env = Inr cmd \<and> cmd_Operation cmd \<in> set (dp_allowedOps d) \<and>
      authorised (resize_tools_of os) (dp_allowedCommands d) (cmd_Operation cmd) c"
  let ?Q = "\<lambda>m :: string \<times> string. \<exists>cmd. DecodePayload env = Inr cmd \<and> cmd_Operation cmd = ''agent.allowed_operations'' \<and>
      ''agent.allowed_operations'' \<in> set (dp_allowedOps d) \<and> fst m = EvtSubject (pb_nats (dp_pub d))"
  have "keeps (adds (\<lambda>_. True) ?P ?Q) (Dispatch (platform_modules os bus x ex) d env)"
    by (rule platform.Dispatch_adds) auto
  from adds.keepsD [OF this assms] Dispatch_policy [OF assms] show ?thesis
    unfolding adds_def by blast
qed

lemma emptyParams_object: "\<not> emptyParams (json_enc (JObj ((k, j) # ms)))"
proof -
  have "str_TrimSpace (json_enc (JObj ((k, j) # ms))) = json_enc (JObj ((k, j) # ms))"
    by (rule str_TrimSpace_visible) (simp_all add: visible_def)
  moreover have "json_enc_mems ((k, j) # ms) \<noteq> []"
    by (cases ms) (auto simp: json_quote_def)
  ultimately show ?thesis by (simp add: emptyParams_def)
qed

lemma exec_params:
  "decode_params (json_enc (JObj [(''command'', JStr ''/bin/date'')])) = Inr (zero_params\<lparr>pr_Command := ''/bin/date''\<rparr>)"
proof -
  let ?raw = "json_enc (JObj [(''command'', JStr ''/bin/date'')])"
  have "\<not> emptyParams ?raw" by (rule emptyParams_object)
  moreover have "?raw \<noteq> []" by simp
  moreover have "json_Unmarshal params_fields zero_params ?raw = Inr (zero_params\<lparr>pr_Command := ''/bin/date''\<rparr>)"
    by (subst json_Unmarshal_enc)
      (simp_all add: params_fields_def zero_params_def go_json ascii_def del: json_enc.simps)
  ultimately show ?thesis unfolding decode_params_def by (simp del: json_enc.simps)
qed

abbreviation demo_exec :: Envelope where
  "demo_exec \<equiv> demo_command ''exec'' [(''command'', JStr ''/bin/date'')]"

abbreviation demo_exec_cmd :: CommandPayload where
  "demo_exec_cmd \<equiv> \<lparr>cmd_Operation = ''exec'', cmd_Params = json_enc (JObj [(''command'', JStr ''/bin/date'')]), cmd_TimeoutS = 0\<rparr>"

lemma exec_demo_decodes:
  "DecodePayload demo_exec = Inr demo_exec_cmd" "cmd_Operation demo_exec_cmd \<in> set (dp_allowedOps demo_dispatcher)"
  "decode_params (cmd_Params demo_exec_cmd) = Inr (zero_params\<lparr>pr_Command := ''/bin/date''\<rparr>)"
proof -
  show "DecodePayload demo_exec = Inr demo_exec_cmd" by (rule DecodePayload_demo) (simp_all add: ascii_def)
  show "decode_params (cmd_Params demo_exec_cmd) = Inr (zero_params\<lparr>pr_Command := ''/bin/date''\<rparr>)"
    using exec_params by simp
qed (simp add: demo_dispatcher_def Dispatcher_New_def)

lemma exec_demo_runs:
  "\<exists>out u. run_state (run (platform_modules os bus demo_externals Executor_New) demo_dispatcher (cmd_Operation demo_exec_cmd)
      (zero_params\<lparr>pr_Command := ''/bin/date''\<rparr>) (cmd_Params demo_exec_cmd))
      (blank_host\<lparr>h_log := h_log blank_host @ received demo_exec demo_exec_cmd\<rparr>) = ((Inr out, demo_dispatcher), u) \<and>
    length (h_procs u) = 1"
proof -
  let ?md = "platform_modules os bus demo_externals Executor_New"
  let ?raw = "json_enc (JObj [(''command'', JStr ''/bin/date'')])"
  have "run ?md demo_dispatcher ''exec'' (zero_params\<lparr>pr_Command := ''/bin/date''\<rparr>) ?raw =
      reply id demo_dispatcher (run_command ?md ''/bin/date'' [])"
    by (simp add: run_def run_system_def run_services_def run_vm_def run_pfsense_def run_agent_def
        demo_dispatcher_def Dispatcher_New_def zero_params_def Let_def del: json_enc.simps)
  moreover have "\<exists>out u. run_state (reply id demo_dispatcher (run_command ?md ''/bin/date'' []))
      (blank_host\<lparr>h_log := h_log blank_host @ received demo_exec demo_exec_cmd\<rparr>) = ((Inr out, demo_dispatcher), u) \<and>
      length (h_procs u) = 1"
    by (simp add: reply_def run_command_def platform_modules_def demo_externals_def run_Execute all_ok_def exec_error_def
        blank_host_def del: json_enc.simps)
  ultimately show ?thesis by simp
qed

theorem permitted_commands_are_answered_witness:
  "\<exists>r t out. run_state (Dispatch (platform_modules FreeBSD None demo_externals Executor_New) demo_dispatcher demo_exec) blank_host
      = ((r, demo_dispatcher), t) \<and> length (h_procs t) = 1 \<and> answered demo_dispatcher demo_exec (Inr out) r"
proof -
  obtain out u where u: "run_state (run (platform_modules FreeBSD None demo_externals Executor_New) demo_dispatcher
      (cmd_Operation demo_exec_cmd) (zero_params\<lparr>pr_Command := ''/bin/date''\<rparr>) (cmd_Params demo_exec_cmd))
      (blank_host\<lparr>h_log := h_log blank_host @ received demo_exec demo_exec_cmd\<rparr>) = ((Inr out, demo_dispatcher), u)"
    "length (h_procs u) = 1" using exec_demo_runs by blast
  from permitted_commands_are_answered [OF exec_demo_decodes u(1)] u(2) show ?thesis by auto
qed

lemma exec_demo_one:
  assumes "run_state (Dispatch (platform_modules os bus demo_externals Executor_New) demo_dispatcher demo_exec) blank_host = ((r, d'), t)"
  shows "length (h_procs t) = 1"
proof -
  obtain out u where u: "run_state (run (platform_modules os bus demo_externals Executor_New) demo_dispatcher
      (cmd_Operation demo_exec_cmd) (zero_params\<lparr>pr_Command := ''/bin/date''\<rparr>) (cmd_Params demo_exec_cmd))
      (blank_host\<lparr>h_log := h_log blank_host @ received demo_exec demo_exec_cmd\<rparr>) = ((Inr out, demo_dispatcher), u)"
    "length (h_procs u) = 1" using exec_demo_runs by blast
  from Dispatch_permitted [OF exec_demo_decodes u(1)] u(2) assms show ?thesis by auto
qed

theorem dispatch_least_authority_witness:
  "\<exists>r d' t c. run_state (Dispatch (platform_modules Linux None demo_externals Executor_New) demo_dispatcher
      (demo_command ''exec'' [(''command'', JStr ''/bin/date'')])) blank_host = ((r, d'), t) \<and>
    h_procs t = [c] \<and> c_cmd c = ''/bin/date'' \<and> authorised (resize_tools_of Linux) [''/bin/date''] ''exec'' c"
proof -
  let ?env = "demo_command ''exec'' [(''command'', JStr ''/bin/date'')]"
  have dec: "DecodePayload ?env = Inr \<lparr>cmd_Operation = ''exec'',
      cmd_Params = json_enc (JObj [(''command'', JStr ''/bin/date'')]), cmd_TimeoutS = 0\<rparr>"
    by (rule DecodePayload_demo) (simp_all add: ascii_def)
  obtain r d' t where t: "run_state (Dispatch (platform_modules Linux None demo_externals Executor_New)
      demo_dispatcher ?env) blank_host = ((r, d'), t)" by (metis surj_pair)
  have one: "length (h_procs t) = 1"
    by (rule exec_demo_one [OF t])
  from dispatch_least_authority [OF t] dec obtain cs where "h_procs t = h_procs blank_host @ cs"
    "list_all (\<lambda>c. authorised (resize_tools_of Linux) (dp_allowedCommands demo_dispatcher) ''exec'' c) cs"
    by (auto simp: list_all_iff)
  with one have "\<exists>c. h_procs t = [c] \<and> authorised (resize_tools_of Linux) [''/bin/date''] ''exec'' c"
    by (cases cs) (auto simp: blank_host_def demo_dispatcher_def Dispatcher_New_def)
  with t show ?thesis by (auto simp: authorised_def)
qed

end
