(* ===== verification/DispatchSecrets.thy ===== *)
theory DispatchSecrets
  imports DispatchProps
begin

text \<open>
  Confidentiality of passwords in the dispatcher, the same bytes in the NATS client's debug log, and the
  arithmetic of telemetry.set_interval.
\<close>

section \<open>Operations that do not look at the inputs of processes\<close>

definition commutes :: "('x, 'a) op \<Rightarrow> bool" where
  "commutes m \<longleftrightarrow> (\<forall>s. run_state m (forget_stdin s) = map_prod id forget_stdin (run_state m s))"

lemma commutes_return: "commutes (ret a)"
  by (simp add: commutes_def)

lemma commutes_bind: "commutes m \<Longrightarrow> (\<And>a. commutes (f a)) \<Longrightarrow> commutes (State_Monad.bind m f)"
  unfolding commutes_def by (auto split: prod.splits) 

lemma commutes_logger: "commutes (logger l m fs)"
  by (simp add: commutes_def forget_stdin_def)

lemma commutes_since: "commutes (since start)"
  by (simp add: commutes_def forget_stdin_def)

lemma commutes_newUUID: "commutes newUUID"
  by (simp add: commutes_def newUUID_def rand_Read_def forget_stdin_def)

lemma commutes_time: "commutes time_Now"
  by (simp add: commutes_def forget_stdin_def)

lemma commutes_res:
  "(\<And>e. commutes (f e)) \<Longrightarrow> (\<And>a. commutes (g a)) \<Longrightarrow> commutes (case r of Inl e \<Rightarrow> f e | Inr a \<Rightarrow> g a)"
  by (cases r) auto

lemma commutes_if: "commutes m \<Longrightarrow> commutes n \<Longrightarrow> commutes (if b then m else n)"
  by simp

lemmas commutes_rules = commutes_return commutes_bind commutes_logger commutes_since commutes_newUUID
  commutes_time commutes_res commutes_if

lemma commutes_result: "commutes (result d src st msg out)"
  unfolding result_def ResultFor_def Envelope_New_def by (intro commutes_rules)

lemma commutes_logResult: "commutes (logResult cid op st msg el)"
  unfolding logResult_def Let_def by (intro commutes_rules)

lemma commutes_same:
  assumes "commutes m" "forget_stdin s = forget_stdin t"
  shows "map_prod id forget_stdin (run_state m s) = map_prod id forget_stdin (run_state m t)"
  using assms unfolding commutes_def by metis

section \<open>The tail of Dispatch\<close>

definition conclude :: "int \<Rightarrow> Envelope \<Rightarrow> string \<Rightarrow> json res \<times> Dispatcher \<Rightarrow> ('x, Envelope \<times> Dispatcher) op" where
  "conclude start env op x = (case x of (output, d') \<Rightarrow> (case output of
     Inl e \<Rightarrow> do { r \<leftarrow> fail d' env (err_Error e); el \<leftarrow> since start;
       logResult (env_ID env) op StatusFailed (err_Error e) el; ret (r, d') }
   | Inr out \<Rightarrow> do { logger DebugLevel (arrow_out @ '' command output'')
         [(''command_id'', FString (env_ID env)), (''operation'', FString op), (''output'', FAny out)];
       r \<leftarrow> ok d' env out; el \<leftarrow> since start;
       logResult (env_ID env) op StatusCompleted [] el; ret (r, d') }))"

lemma commutes_conclude: "commutes (conclude start env op x)"
  unfolding conclude_def fail_def ok_def
  by (cases x) (auto intro!: commutes_rules commutes_result commutes_logResult)

lemma conclude_ID: "env_ID e = env_ID e' \<Longrightarrow> conclude start e op x = conclude start e' op x"
  by (simp add: conclude_def fail_def ok_def result_def ResultFor_def cong: sum.case_cong)

lemma Dispatch_eq:
  assumes "DecodePayload env = Inr cmd" "cmd_Operation cmd \<in> set (dp_allowedOps d)"
    and "decode_params (cmd_Params cmd) = Inr p"
  shows "run_state (Dispatch md d env) s =
    run_state (do { x \<leftarrow> run md d (cmd_Operation cmd) p (cmd_Params cmd);
      conclude (w_now (h_world s)) env (cmd_Operation cmd) x }) (s\<lparr>h_log := h_log s @ received env cmd\<rparr>)"
  using assms by (simp add: Dispatch_def Let_def log_params_def received_def conclude_def)

lemma run_set_password:
  "run md d ''pfsense.set_password'' p raw =
    reply id d (json_op SetPasswordResult_json (pm_SetPassword (md_pfs md) (pr_Username p) (pr_Password p)))"
  by (simp add: run_def run_system_def run_services_def run_vm_def run_pfsense_def Let_def)

lemma Dispatch_set_password:
  assumes "DecodePayload env = Inr cmd" "cmd_Operation cmd = ''pfsense.set_password''"
    and "''pfsense.set_password'' \<in> set (dp_allowedOps d)" "decode_params (cmd_Params cmd) = Inr p"
  shows "run_state (Dispatch (platform_modules FreeBSD bus x ex) d env) s = run_state (do {
      r \<leftarrow> SetPassword_freebsd (xt_scripts x) (xt_run x) ex (pr_Username p) (pr_Password p);
      conclude (w_now (h_world s)) env ''pfsense.set_password'' (map_sum id SetPasswordResult_json r, d)
    }) (s\<lparr>h_log := h_log s @ received env cmd\<rparr>)"
  using Dispatch_eq [of env cmd d p "platform_modules FreeBSD bus x ex" s] assms
  by (simp add: run_set_password reply_def json_op_def platform_modules_def freebsd_pfsense_def sum.map_comp sum.map_id
      split: prod.split)

lemma received_alike:
  assumes "cmd_Operation cmd = ''pfsense.set_password''" "cmd_Operation cmd' = ''pfsense.set_password''" "env_ID env = env_ID env'"
  shows "received env cmd = received env' cmd'"
  using assms by (simp add: received_def sensitiveOperations_def)

section \<open>Passwords\<close>

lemma Dispatch_passwords_alike:
  assumes dec: "DecodePayload env = Inr cmd" "DecodePayload env' = Inr cmd'"
    and op: "cmd_Operation cmd = ''pfsense.set_password''" "cmd_Operation cmd' = ''pfsense.set_password''"
    and ID: "env_ID env = env_ID env'"
    and allowed: "''pfsense.set_password'' \<in> set (dp_allowedOps d)"
    and p: "decode_params (cmd_Params cmd) = Inr p" "decode_params (cmd_Params cmd') = Inr p'"
    and user: "pr_Username p = pr_Username p'" and pw: "pr_Password p \<noteq> []" "pr_Password p' \<noteq> []"
    and blind: "\<And>c w. xt_run x (c\<lparr>c_stdin := Some (pr_Password p)\<rparr>) w = xt_run x (c\<lparr>c_stdin := Some (pr_Password p')\<rparr>) w"
  shows "map_prod id forget_stdin (run_state (Dispatch (platform_modules FreeBSD bus x ex) d env) s) =
    map_prod id forget_stdin (run_state (Dispatch (platform_modules FreeBSD bus x ex) d env') s)"
proof -
  let ?s = "s\<lparr>h_log := h_log s @ received env cmd\<rparr>"
  let ?md = "platform_modules FreeBSD bus x ex"
  let ?set = "\<lambda>pw. run_state (SetPassword_freebsd (xt_scripts x) (xt_run x) ex (pr_Username p) pw) ?s"
  let ?con = "conclude (w_now (h_world s)) env ''pfsense.set_password''"
  have run: "run_state (Dispatch ?md d e) s = run_state (do {
        r \<leftarrow> SetPassword_freebsd (xt_scripts x) (xt_run x) ex (pr_Username p) (pr_Password q);
        ?con (map_sum id SetPasswordResult_json r, d) }) ?s"
    if "DecodePayload e = Inr c" "cmd_Operation c = ''pfsense.set_password''" "env_ID e = env_ID env"
      "decode_params (cmd_Params c) = Inr q" "pr_Username q = pr_Username p" for e c q
    using Dispatch_set_password [OF that(1,2) allowed that(4), of bus x ex s] that received_alike [OF that(2) op(1) that(3)]
    by (simp add: conclude_ID [OF that(3)])
  have "fst (?set (pr_Password p)) = fst (?set (pr_Password p'))"
    "forget_stdin (snd (?set (pr_Password p))) = forget_stdin (snd (?set (pr_Password p')))"
    using SetPassword_freebsd_blind [of "pr_Password p" "pr_Password p'" "xt_run x" "xt_scripts x" ex "pr_Username p" ?s] pw blind
    by auto
  then show ?thesis
    using run [OF dec(1) op(1) refl p(1) refl] run [OF dec(2) op(2) ID [symmetric] p(2) user [symmetric]]
      commutes_same [OF commutes_conclude]
    by (cases "?set (pr_Password p)"; cases "?set (pr_Password p')") simp
qed

text \<open>C8: The dispatcher keeps the password of pfsense.set_password to itself: for two such commands
  with the same id and user whose passwords the script answers alike, the result sent back, every log
  entry (parameters, output, audit trail and summary) and the state of the machine are the same; the
  passwords differ only on the standard input of the script.\<close>

theorem dispatch_hides_password:
  assumes dec: "DecodePayload env = Inr cmd" "DecodePayload env' = Inr cmd'"
    and op: "cmd_Operation cmd = ''pfsense.set_password''" "cmd_Operation cmd' = ''pfsense.set_password''"
    and ID: "env_ID env = env_ID env'"
    and allowed: "''pfsense.set_password'' \<in> set (dp_allowedOps d)"
    and p: "decode_params (cmd_Params cmd) = Inr p" "decode_params (cmd_Params cmd') = Inr p'"
    and user: "pr_Username p = pr_Username p'" and pw: "pr_Password p \<noteq> []" "pr_Password p' \<noteq> []"
    and blind: "\<And>c w. xt_run x (c\<lparr>c_stdin := Some (pr_Password p)\<rparr>) w = xt_run x (c\<lparr>c_stdin := Some (pr_Password p')\<rparr>) w"
  shows "map_prod id forget_stdin (run_state (Dispatch (platform_modules FreeBSD bus x ex) d env) s) =
    map_prod id forget_stdin (run_state (Dispatch (platform_modules FreeBSD bus x ex) d env') s)"
  by (rule Dispatch_passwords_alike [OF assms])

definition pfsense_dispatcher :: Dispatcher where
  "pfsense_dispatcher = Dispatcher_New (Module_New None) demo_publisher ''a-1'' [''pfsense.set_password''] []"

abbreviation pw_members :: "string \<Rightarrow> (string \<times> json) list" where
  "pw_members pw \<equiv> [(''username'', JStr ''admin''), (''password'', JStr pw)]"

lemma password_params:
  assumes "ascii pw"
  shows "decode_params (json_enc (JObj (pw_members pw))) =
    Inr (zero_params\<lparr>pr_Username := ''admin'', pr_Password := pw\<rparr>)"
proof -
  have "json_Unmarshal params_fields zero_params (json_enc (JObj (pw_members pw))) =
      Inr (zero_params\<lparr>pr_Username := ''admin'', pr_Password := pw\<rparr>)"
    using assms by (subst json_Unmarshal_enc)
      (simp_all add: params_fields_def zero_params_def go_json ascii_def del: json_enc.simps)
  moreover have "json_enc (JObj (pw_members pw)) \<noteq> []" by simp
  ultimately show ?thesis using emptyParams_object unfolding decode_params_def by (simp del: json_enc.simps)
qed

theorem dispatch_hides_password_witness:
  "map_prod id forget_stdin (run_state (Dispatch (platform_modules FreeBSD None (demo_externals\<lparr>xt_run := php_ok\<rparr>) Executor_New)
     pfsense_dispatcher (demo_command ''pfsense.set_password'' (pw_members ''a''))) blank_host) =
   map_prod id forget_stdin (run_state (Dispatch (platform_modules FreeBSD None (demo_externals\<lparr>xt_run := php_ok\<rparr>) Executor_New)
     pfsense_dispatcher (demo_command ''pfsense.set_password'' (pw_members ''b''))) blank_host)"
proof -
  have dec: "DecodePayload (demo_command ''pfsense.set_password'' (pw_members pw)) = Inr
      \<lparr>cmd_Operation = ''pfsense.set_password'', cmd_Params = json_enc (JObj (pw_members pw)), cmd_TimeoutS = 0\<rparr>" for pw
    by (rule DecodePayload_demo) (simp_all add: ascii_def)
  have ab: "decode_params (json_enc (JObj (pw_members ''a''))) = Inr (zero_params\<lparr>pr_Username := ''admin'', pr_Password := ''a''\<rparr>)"
    "decode_params (json_enc (JObj (pw_members ''b''))) = Inr (zero_params\<lparr>pr_Username := ''admin'', pr_Password := ''b''\<rparr>)"
    by (rule password_params, simp add: ascii_def)+
  show ?thesis
    by (rule dispatch_hides_password [OF dec dec, where p = "zero_params\<lparr>pr_Username := ''admin'', pr_Password := ''a''\<rparr>"
          and p' = "zero_params\<lparr>pr_Username := ''admin'', pr_Password := ''b''\<rparr>"])
      (use ab in \<open>simp_all add: demo_command_def pfsense_dispatcher_def Dispatcher_New_def php_ok_def del: json_enc.simps\<close>)
qed

text \<open>The NATS client logs every message as it came, before the dispatcher sees it.\<close>

theorem raw_message_in_debug_log:
  "\<exists>es. h_log (snd (run_state (on_message (\<lambda>env. ret ()) subject data) s)) =
    h_log s @ LogEnt DebugLevel ''raw message received'' [(''subject'', FString subject),
      (''bytes'', FInt (int (length data))), (''data'', FBytes data)] # es"
  by (auto simp: on_message_def split: sum.split)

section \<open>Telemetry interval\<close>

lemma pow2_below_le: "1 \<le> n \<Longrightarrow> pow2_below n \<le> n"
proof (induction n rule: pow2_below.induct)
  case (1 n)
  show ?case
  proof (cases "n < 2")
    case False
    then have "1 \<le> n div 2" by linarith
    with 1(1) False have "pow2_below (n div 2) \<le> n div 2" by blast
    with False show ?thesis by (simp add: pow2_below.simps [of n])
  qed (use 1(2) in \<open>simp add: pow2_below.simps [of n]\<close>)
qed

lemma Duration_int_Seconds_whole:
  assumes "1 \<le> n" "n < 2 ^ 53"
  shows "Duration_int_Seconds (n * second) = n"
proof -
  have "int (pow2_below (nat n)) \<le> n" using pow2_below_le [of "nat n"] assms(1) by linarith
  with assms(2) have "\<not> second * 2 ^ 53 \<le> second * int (pow2_below (nat n))" by (simp add: second_def)
  then show ?thesis by (simp add: Duration_int_Seconds_def second_def Let_def)
qed

definition interval_reply :: "int \<Rightarrow> int \<Rightarrow> json" where
  "interval_reply applied requested =
     JObj [(''applied_interval_s'', JInt applied), (''requested_interval_s'', JInt requested)]"

lemma set_interval_in_range:
  assumes r: "0 < pr_IntervalS p" "pr_IntervalS p \<le> 9223372036"
  shows "set_interval d p = (Inr (interval_reply (pr_IntervalS p) (pr_IntervalS p)),
      d\<lparr>dp_pub := dp_pub d\<lparr>pb_telemetryIntervalCh := Some (pr_IntervalS p * second)\<rparr>\<rparr>)"
proof -
  have "wrap64 (pr_IntervalS p * second) = pr_IntervalS p * second"
    using r by (intro wrap64_id) (simp add: in_i64_def second_def)
  moreover have "clampInterval (pr_IntervalS p * second) = pr_IntervalS p * second"
    using r by (simp add: clampInterval_def minTelemetryInterval_def second_def)
  moreover have "Duration_int_Seconds (pr_IntervalS p * second) = pr_IntervalS p"
    using r by (intro Duration_int_Seconds_whole) simp_all
  ultimately show ?thesis
    using r by (simp add: set_interval_def SetTelemetryInterval_def interval_reply_def Let_def split: option.split)
qed



end
