(* ===== verification/Boot.thy ===== *)
theory Boot
  imports DispatchSecrets
begin

text \<open>
  cmd/agent/main.go and its platform files: the agent's start (bootstrap configuration, config-drive,
  real configuration, identity, service manager, one-shot provisioning on pfSense, NATS connection,
  subscription, capability announcement), the handler of an inbound command, and the shutdown. The
  loops that run afterwards are in the publisher's theories.
\<close>

section \<open>What the program is given\<close>

record ('x, 'v) environment =
  en_os :: goos
  en_ext :: "'x externals"
  en_viper :: "'v viper"
  en_dbus :: "'x world \<Rightarrow> 'x dbus res \<times> 'x world"
  en_level :: "string \<Rightarrow> level option"

section \<open>The logger\<close>

text \<open>\<open>os.OpenFile\<close> with create and append.\<close>

definition os_OpenAppend :: "string \<Rightarrow> nat \<Rightarrow> ('x, unit res) op" where
  "os_OpenAppend p mode = State (\<lambda>s.
     if wfiles s p = Some Dir then (Inl (path_err ''open'' p ''is a directory''), s)
     else if wfiles s (filepath_Dir p) \<noteq> Some Dir then (Inl (path_err ''open'' p ''no such file or directory''), s)
     else if wfault s OpWrite p \<noteq> NoFault then (Inl (path_err ''open'' p ''permission denied''), s)
     else (Inr (), if wfiles s p = None then set_file p (Some (File [] mode)) s else s))"

record logger_config =
  lg_level :: level
  lg_console :: bool
  lg_file :: "string option"

definition buildLogger :: "(string \<Rightarrow> level option) \<Rightarrow> Config \<Rightarrow> ('x, logger_config res) op" where
  "buildLogger parse cfg = (let lc = cfg_Log cfg;
       level = (case parse (lc_Level lc) of None \<Rightarrow> InfoLevel | Some l \<Rightarrow> l);
       console = (lc_Format lc = ''console'') in
     if lc_File lc \<noteq> [] then do {
       m \<leftarrow> os_MkdirAll (filepath_Dir (lc_File lc)) 493;
       (case m of
         Inl e \<Rightarrow> ret (Inl (errorf_w ''creating log directory: '' e []))
       | Inr _ \<Rightarrow> do {
           f \<leftarrow> os_OpenAppend (lc_File lc) 420;
           ret (case f of
             Inl e \<Rightarrow> Inl (errorf_w (''opening log file '' @ lc_File lc @ '': '') e [])
           | Inr _ \<Rightarrow> Inr \<lparr>lg_level = level, lg_console = console, lg_file = Some (lc_File lc)\<rparr>)
         })
     }
     else ret (Inr \<lparr>lg_level = level, lg_console = console, lg_file = None\<rparr>))"

section \<open>Identity and modules\<close>

definition resolve_identity :: "Config \<Rightarrow> ISOMetadata \<Rightarrow> string \<times> string" where
  "resolve_identity cfg meta =
     (if VMID meta \<noteq> [] then VMID meta else nc_AgentUUID (cfg_NATS cfg),
      if AgentAPIKey meta \<noteq> [] then AgentAPIKey meta else nc_APIKey (cfg_NATS cfg))"

definition log_identity :: "string \<times> string \<Rightarrow> ('x, unit) op" where
  "log_identity i = (case i of (agentUUID, agentAPIKey) \<Rightarrow> do {
     (if agentUUID = [] then logger WarnLevel (''agent_uuid is not set '' @ em_dash @
        '' NATS auth will fail; check the config-drive metadata'') [] else ret ());
     (if agentAPIKey = [] then logger WarnLevel (''api_key is not set '' @ em_dash @
        '' NATS auth will fail; check the config-drive metadata'') [] else ret ());
     logger InfoLevel ''agent identity resolved'' [(''agent_uuid'', FString agentUUID)]
   })"

text \<open>The D-Bus connection of the service manager; only the Linux build makes one.\<close>

definition newServiceManager :: "goos \<Rightarrow> ('x world \<Rightarrow> 'x dbus res \<times> 'x world) \<Rightarrow> ('x, 'x dbus option) op" where
  "newServiceManager os connect =
     (if os = Linux then do {
        r \<leftarrow> on_world connect;
        (case r of
          Inl e \<Rightarrow> do {
            logger WarnLevel ''could not connect to systemd D-Bus; service management unavailable'' [(''error'', FError e)];
            ret None
          }
        | Inr bus \<Rightarrow> do { logger InfoLevel ''connected to systemd D-Bus'' []; ret (Some bus) })
      }
      else ret None)"

section \<open>One-shot provisioning on pfSense\<close>

definition netconfigMarkerPath :: string where
  "netconfigMarkerPath = ''/var/db/plusclouds-agent/netconfig.applied''"

definition bootProbeTimeout :: int where
  "bootProbeTimeout = 15 * second"

definition writeMarker :: "string \<Rightarrow> ('x, gerr option) op" where
  "writeMarker path = do {
     m \<leftarrow> os_MkdirAll (filepath_Dir path) 448;
     (case m of
       Inl e \<Rightarrow> ret (Some e)
     | Inr _ \<Rightarrow> do {
         w \<leftarrow> os_WriteFile path [] 384;
         ret (case w of Inl e \<Rightarrow> Some e | Inr _ \<Rightarrow> None)
       })
   }"

fun log_interfaces :: "InterfaceApplyResult list \<Rightarrow> ('x, unit) op" where
  "log_interfaces [] = ret ()"
| "log_interfaces (r # rs) = do {
     logger InfoLevel ''boot network config: interface result''
       [(''mac_addr'', FString (ia_MACAddr r)), (''ifname'', FString (ia_IfName r)), (''logical'', FString (ia_Logical r)),
        (''applied'', FBool (ia_Applied r)), (''assigned'', FBool (ia_Assigned r)), (''message'', FString (ia_Message r))];
     log_interfaces rs
   }"

text \<open>The probe: a connection without reconnects, drained when it succeeds.\<close>

definition probe :: "'x nats \<Rightarrow> Config \<Rightarrow> string \<Rightarrow> string \<Rightarrow> ('x, gerr option) op" where
  "probe nt cfg agentUUID agentAPIKey = do {
     c \<leftarrow> Connect nt ((cfg_NATS cfg)\<lparr>nc_MaxReconnects := 0\<rparr>) agentUUID agentAPIKey (Some bootProbeTimeout);
     (case c of Inl e \<Rightarrow> ret (Some e) | Inr _ \<Rightarrow> do { Drain nt; ret None })
   }"

definition unreachable :: "gerr option \<Rightarrow> bool" where
  "unreachable probeErr = (case probeErr of None \<Rightarrow> False | Some e \<Rightarrow> \<not> errors_Is e ErrAuthorization)"

text \<open>What follows the probe.\<close>

definition mark_done :: "('x, unit) op" where
  "mark_done = do {
     mk \<leftarrow> writeMarker netconfigMarkerPath;
     (case mk of
       Some e \<Rightarrow> logger ErrorLevel ''boot network config: could not write marker file'' [(''error'', FError e)]
     | None \<Rightarrow> logger InfoLevel ''boot network config: applied and verified'' [])
   }"

definition settle :: "'x PfManager \<Rightarrow> BootNetworkResult \<Rightarrow> gerr option \<Rightarrow> ('x, unit) op" where
  "settle pfs outc probeErr =
     (case probeErr of
       Some e \<Rightarrow>
         if \<not> errors_Is e ErrAuthorization then do {
           logger WarnLevel (''boot network config: platform unreachable after apply '' @ em_dash @ '' reverting'')
             [(''error'', FError e)];
           (if bn_Snapshot outc = [] then
              logger ErrorLevel ''boot network config: no snapshot to revert to'' []
            else do {
              rv \<leftarrow> pm_Revert pfs (bn_Snapshot outc);
              (case rv of
                Some e' \<Rightarrow> logger ErrorLevel ''boot network config: revert failed'' [(''error'', FError e')]
              | None \<Rightarrow> logger WarnLevel ''boot network config: reverted to pre-boot config, will retry next boot'' [])
            })
         }
         else do {
           logger WarnLevel (''boot network config: applied and network verified, but NATS rejected credentials ''
             @ em_dash @ '' not reverting'') [(''error'', FError e)];
           mark_done
         }
     | None \<Rightarrow> mark_done)"

definition applyBootNetworkConfig ::
    "'x nats \<Rightarrow> 'x PfManager \<Rightarrow> Config \<Rightarrow> ISOMetadata \<Rightarrow> string \<Rightarrow> string \<Rightarrow> ('x, unit) op" where
  "applyBootNetworkConfig nt pfs cfg meta agentUUID agentAPIKey = do {
     st \<leftarrow> os_Stat netconfigMarkerPath;
     (case st of
       Inr _ \<Rightarrow> ret ()
     | Inl _ \<Rightarrow> (let cards = NetworkCards meta in
         if cards = [] then ret ()
         else do {
           a \<leftarrow> pm_ApplyBootNetworkConfig pfs cards;
           (case a of
             Inl e \<Rightarrow> logger ErrorLevel ''boot network config: apply failed'' [(''error'', FError e)]
           | Inr None \<Rightarrow> ret ()
           | Inr (Some outc) \<Rightarrow> do {
               log_interfaces (bn_Interfaces outc);
               probeErr \<leftarrow> probe nt cfg agentUUID agentAPIKey;
               settle pfs outc probeErr
             })
         }))
   }"

definition applyBootPassword :: "'x PfManager \<Rightarrow> ISOMetadata \<Rightarrow> ('x, unit) op" where
  "applyBootPassword pfs meta =
     (if Password meta = [] then ret ()
      else do {
        r \<leftarrow> pm_SetDefaultUserPassword pfs (Password meta);
        (case r of
          Inl e \<Rightarrow> logger ErrorLevel ''boot password provisioning: failed'' [(''error'', FError e)]
        | Inr res \<Rightarrow>
          if \<not> sp_Success res then
            logger WarnLevel ''boot password provisioning: not applied, will retry next start''
              [(''message'', FString (sp_Message res))]
          else logger InfoLevel ''boot password provisioning: applied'' [(''username'', FString (sp_Username res))])
      })"

definition runBootProvisioning ::
    "'x nats \<Rightarrow> 'x PfManager \<Rightarrow> Config \<Rightarrow> ISOMetadata \<Rightarrow> string \<Rightarrow> string \<Rightarrow> ('x, unit) op" where
  "runBootProvisioning nt pfs cfg meta agentUUID agentAPIKey = do {
     applyBootNetworkConfig nt pfs cfg meta agentUUID agentAPIKey;
     applyBootPassword pfs meta
   }"

section \<open>Commands\<close>

record 'x agent =
  ag_client :: Client
  ag_modules :: "'x modules"
  ag_dispatcher :: Dispatcher

text \<open>The handler given to \<open>Subscribe\<close>: dispatch, then reply to the sender's inbox or on the event subject.\<close>

definition send_result :: "'x nats \<Rightarrow> Client \<Rightarrow> Envelope \<Rightarrow> Envelope \<Rightarrow> ('x, unit) op" where
  "send_result nt nc env answer =
     (if env_ReplyTo env \<noteq> [] then do {
        p \<leftarrow> PublishToSubject nt (env_ReplyTo env) answer;
        (case p of
          Some e \<Rightarrow> logger ErrorLevel ''could not publish sync result''
            [(''command_id'', FString (env_ID env)), (''reply_to'', FString (env_ReplyTo env)), (''error'', FError e)]
        | None \<Rightarrow> ret ())
      }
      else do {
        p \<leftarrow> Publish nt nc answer;
        (case p of
          Some e \<Rightarrow> logger ErrorLevel ''could not publish result to evt subject''
            [(''command_id'', FString (env_ID env)), (''error'', FError e)]
        | None \<Rightarrow> ret ())
      })"

definition handle_command :: "'x agent \<Rightarrow> Envelope \<Rightarrow> ('x, 'x agent) op" where
  "handle_command ag env = do {
     x \<leftarrow> Dispatch (ag_modules ag) (ag_dispatcher ag) env;
     (case x of (answer, d') \<Rightarrow> do {
       send_result (md_nats (ag_modules ag)) (ag_client ag) env answer;
       ret (ag\<lparr>ag_dispatcher := d'\<rparr>)
     })
   }"

text \<open>A message on the command subject.\<close>

definition receive_message :: "'x agent \<Rightarrow> string \<Rightarrow> ('x, 'x agent) op" where
  "receive_message ag data = do {
     r \<leftarrow> on_message (handle_command ag) (CmdSubject (ag_client ag)) data;
     ret (case r of None \<Rightarrow> ag | Some ag' \<Rightarrow> ag')
   }"

section \<open>Start and shutdown\<close>

fun locate_of :: "goos \<Rightarrow> 'x runner \<Rightarrow> Executor \<Rightarrow> string \<Rightarrow> string \<Rightarrow> ('x, location) op" where
  "locate_of Linux rp ex = Locate_linux rp ex"
| "locate_of FreeBSD rp ex = Locate_freebsd rp ex"
| "locate_of Windows rp ex = Locate_windows rp ex"

text \<open>Steps 1 and 2: the configuration from the built-in defaults and the config-drive.\<close>

definition boot_config :: "('x, 'v) environment \<Rightarrow> ('x, (Config \<times> ISOMetadata) res) op" where
  "boot_config en = (let rp = xt_run (en_ext en) in case Config_Load (en_viper en) [] of
     Inl e \<Rightarrow> ret (Inl (errorf_w ''loading bootstrap config: '' e []))
   | Inr bootCfg \<Rightarrow> do {
       bl \<leftarrow> buildLogger (en_level en) bootCfg;
       (case bl of
         Inl e \<Rightarrow> ret (Inl (errorf_w ''building bootstrap logger: '' e []))
       | Inr _ \<Rightarrow> do {
           l \<leftarrow> Load rp Executor_New (locate_of (en_os en) rp Executor_New) (ic_MountPath (cfg_ISO bootCfg))
             (ic_CachePath (cfg_ISO bootCfg)) (ic_Label (cfg_ISO bootCfg));
           meta \<leftarrow> (case l of
             Inl e \<Rightarrow> do {
               logger WarnLevel ''could not resolve config-drive metadata, running on built-in defaults'' [(''error'', FError e)];
               ret None
             }
           | Inr m \<Rightarrow> ret m);
           (case Config_Load (en_viper en) (AgentSettings meta) of
             Inl e \<Rightarrow> ret (Inl (errorf_w ''building config from config-drive metadata: '' e []))
           | Inr cfg \<Rightarrow> do {
               rl \<leftarrow> buildLogger (en_level en) cfg;
               ret (case rl of Inl e \<Rightarrow> Inl (errorf_w ''building logger: '' e []) | Inr _ \<Rightarrow> Inr (cfg, meta))
             })
         })
     })"

text \<open>Steps 7 to 10: connect, subscribe, announce.\<close>

definition go_online ::
    "'x modules \<Rightarrow> Config \<Rightarrow> ISOMetadata \<Rightarrow> string \<Rightarrow> string \<Rightarrow> ('x, 'x agent res) op" where
  "go_online md cfg meta agentUUID agentAPIKey = (let nt = md_nats md in do {
     c \<leftarrow> Connect nt (cfg_NATS cfg) agentUUID agentAPIKey None;
     (case c of
       Inl e \<Rightarrow> ret (Inl (errorf_w ''NATS connection failed: '' e []))
     | Inr nc \<Rightarrow> (let pub = Publisher_New nc agentUUID (cfg_Agent cfg);
           disp = Dispatcher_New (Module_New (Some meta)) pub agentUUID (ac_AllowedOperations (cfg_Agent cfg))
             (ac_AllowedCommands (cfg_Agent cfg)) in do {
         sb \<leftarrow> Subscribe nt nc;
         (case sb of
           Some e \<Rightarrow> do { Drain nt; ret (Inl (errorf_w ''subscribing to NATS cmd subject: '' e [])) }
         | None \<Rightarrow> do {
             _ \<leftarrow> sendCapabilities (md_order md) nt pub;
             logger InfoLevel ''agent started'' [(''nats_url'', FString (ActiveURL (cfg_NATS cfg))),
               (''cmd_subject'', FString (CmdSubject nc)), (''evt_subject'', FString (EvtSubject nc))];
             ret (Inr \<lparr>ag_client = nc, ag_modules = md, ag_dispatcher = disp\<rparr>)
           })
       }))
   })"

definition agent_start :: "('x, 'v) environment \<Rightarrow> ('x, 'x agent res) op" where
  "agent_start en = do {
     b \<leftarrow> boot_config en;
     (case b of
       Inl e \<Rightarrow> ret (Inl e)
     | Inr (cfg, meta) \<Rightarrow> (case resolve_identity cfg meta of (agentUUID, agentAPIKey) \<Rightarrow> do {
         logger InfoLevel ''PlusClouds agent starting'' [(''version'', FString (xt_version (en_ext en)))];
         log_identity (agentUUID, agentAPIKey);
         bus \<leftarrow> newServiceManager (en_os en) (en_dbus en);
         logger InfoLevel ''modules initialised''
           [(''allowed_operations'', FInt (int (length (ac_AllowedOperations (cfg_Agent cfg))))),
            (''allowed_commands'', FInt (int (length (ac_AllowedCommands (cfg_Agent cfg))))),
            (''telemetry_interval'', FDuration (ac_TelemetryInterval (cfg_Agent cfg))),
            (''heartbeat_interval'', FDuration (ac_HeartbeatInterval (cfg_Agent cfg)))];
         (if en_os en = FreeBSD then
            runBootProvisioning (xt_nats (en_ext en)) (pfsense_of (en_os en) (en_ext en) Executor_New) cfg meta agentUUID agentAPIKey
          else ret ());
         go_online (platform_modules (en_os en) bus (en_ext en) Executor_New) cfg meta agentUUID agentAPIKey
       }))
   }"

definition agent_stop :: "'x agent \<Rightarrow> string \<Rightarrow> ('x, unit) op" where
  "agent_stop ag sig = do {
     logger InfoLevel ''received shutdown signal'' [(''signal'', FString sig)];
     logger InfoLevel ''initiating graceful shutdown'' [];
     logger InfoLevel ''agent stopped cleanly'' [];
     Drain (md_nats (ag_modules ag))
   }"

end
