(* ===== verification/BootProps.thy ===== *)
theory BootProps
  imports Boot
begin

text \<open>
  Correctness of boot provisioning: when the marker is written, what a failed probe reverts to, and what
  the password step may start.
\<close>

lemma run_unit: "\<exists>t. run_state (m :: ('x, unit) op) s = ((), t)"
  by (metis old.unit.exhaust surj_pair)

section \<open>Operations that leave a file alone\<close>

interpretation same_file: trace_relation "\<lambda>s t. wfiles t p = wfiles s p" for p :: string
  by unfold_locales simp_all

abbreviation leaves :: "string \<Rightarrow> ('x, 'a) op \<Rightarrow> bool" where
  "leaves p m \<equiv> keeps (\<lambda>s t. wfiles t p = wfiles s p) m"

lemma leaves_logger: "leaves p (logger l m fs)"
  by (simp add: keeps_def)

lemma leaves_on_world: "(\<And>w. w_files (snd (f w)) p = w_files w p) \<Longrightarrow> leaves p (on_world f)"
  by (simp add: keeps_def run_on_world split: prod.split) (metis snd_conv)

lemma leaves_log_interfaces: "leaves p (log_interfaces rs)"
  by (induction rs) (auto intro!: same_file.keeps_rules leaves_logger)

text \<open>A NATS library whose connection attempts and drains do not touch the file.\<close>

definition nats_leaves :: "string \<Rightarrow> 'x nats \<Rightarrow> bool" where
  "nats_leaves p nt \<longleftrightarrow> (\<forall>co url w. w_files (snd (nt_connect nt co url w)) p = w_files w p) \<and>
     (\<forall>w. w_files (snd (nt_drain nt w)) p = w_files w p)"

lemma leaves_probe: "nats_leaves p nt \<Longrightarrow> leaves p (probe nt cfg u k)"
  unfolding probe_def Connect_def Drain_def
  by (intro same_file.keeps_rules leaves_logger leaves_on_world) (simp_all add: nats_leaves_def)

section \<open>The marker\<close>

lemma settle_unreachable_leaves:
  assumes "unreachable pe" "\<And>sn. leaves p (pm_Revert pfs sn)"
  shows "leaves p (settle pfs outc pe)"
proof -
  obtain e where "pe = Some e" "\<not> errors_Is e ErrAuthorization"
    using assms(1) by (cases pe) (auto simp: unreachable_def)
  then show ?thesis using assms(2)
    by (auto simp: settle_def intro!: same_file.keeps_rules leaves_logger)
qed


definition applied_manager :: "unit PfManager" where
  "applied_manager = stub_pfsense\<lparr>pm_ApplyBootNetworkConfig :=
     (\<lambda>_. ret (Inr (Some \<lparr>bn_Snapshot = ''{}'', bn_Interfaces = []\<rparr>)))\<rparr>"

definition demo_meta :: ISOMetadata where
  "demo_meta = Some (zero_VirtualMachineMetadata\<lparr>vm_VirtualNetworkCards := [demo_nic]\<rparr>)"

definition blank_config :: Config where
  "blank_config = \<lparr>cfg_NATS = \<lparr>nc_ConnectionType = ''nats'', nc_URL = ''nats://n:4222'', nc_WebSocketURL = [],
       nc_AgentUUID = ''a-1'', nc_APIKey = ''k'', nc_MaxReconnects = -1, nc_ReconnectWait = 5 * second\<rparr>,
     cfg_Agent = \<lparr>ac_HeartbeatInterval = 30 * second, ac_TelemetryInterval = 30 * second,
       ac_AllowedOperations = [''exec''], ac_AllowedCommands = [''/bin/date'']\<rparr>,
     cfg_ISO = \<lparr>ic_MountPath = ''/mnt'', ic_FallbackEnv = False, ic_Label = ''cd'', ic_CachePath = ''/var/c''\<rparr>,
     cfg_Log = \<lparr>lc_Level = ''info'', lc_Format = ''json'', lc_File = []\<rparr>,
     cfg_Autoheal = \<lparr>hc_Enabled = False, hc_RestartDelay = 0\<rparr>\<rparr>"

lemma marker_path:
  "filepath_Dir netconfigMarkerPath = ''/var/db/plusclouds-agent''"
  "''/var/db/plusclouds-agent'' \<in> set (path_parents ''/var/db/plusclouds-agent'')"
  "netconfigMarkerPath \<notin> set (path_parents ''/var/db/plusclouds-agent'')"
proof -
  show "filepath_Dir netconfigMarkerPath = ''/var/db/plusclouds-agent''"
    by (simp add: netconfigMarkerPath_def filepath_Dir_def filepath_Clean_def str_HasPrefix_def)
  show "''/var/db/plusclouds-agent'' \<in> set (path_parents ''/var/db/plusclouds-agent'')"
    by (auto simp: path_parents_def path_upto_def intro!: image_eqI [of _ _ 24])
  show "netconfigMarkerPath \<notin> set (path_parents ''/var/db/plusclouds-agent'')"
    using path_parents_length [of netconfigMarkerPath "''/var/db/plusclouds-agent''"]
    by (auto simp: netconfigMarkerPath_def)
qed

lemma marker_written:
  assumes "\<And>q. wfiles s q = None" "\<And>f q. wfault s f q = NoFault"
  shows "wfiles (snd (run_state (writeMarker netconfigMarkerPath) s)) netconfigMarkerPath \<noteq> None"
proof -
  let ?s = "fold (\<lambda>q. set_file q (Some Dir)) (path_parents ''/var/db/plusclouds-agent'') s"
  have "run_state (os_MkdirAll ''/var/db/plusclouds-agent'' 448) s = (Inr (), ?s)"
    using assms by (simp add: os_MkdirAll_def Let_def list_ex_iff)
  moreover have "wfiles ?s ''/var/db/plusclouds-agent'' = Some Dir" "wfiles ?s netconfigMarkerPath = None"
    using assms(1) marker_path by (simp_all add: fold_set_file_files)
  ultimately show ?thesis
    using assms by (simp add: writeMarker_def marker_path(1) os_WriteFile_def Let_def)
qed


section \<open>Script names\<close>

text \<open>A joined path ends in its last element, so calls of different scripts are different calls.\<close>

definition plain_name :: "string \<Rightarrow> bool" where
  "plain_name n \<longleftrightarrow> n \<notin> {[], ''.'', ''..''} \<and> CHR ''/'' \<notin> set n"

lemma split_last: "CHR ''/'' \<notin> set b \<Longrightarrow> str_Split (CHR ''/'') (a @ ''/'' @ b) = str_Split (CHR ''/'') a @ [b]"
  by (induction a) (auto simp: str_Split_id split: list.split)

lemma clean_last: "plain_name e \<Longrightarrow> clean_elems r st (es @ [e]) = clean_elems r st es @ [e]"
  by (induction r st es rule: clean_elems.induct) (auto simp: plain_name_def split: list.split)

lemma join_last: "\<exists>pre. str_Join (xs @ [e]) ''/'' = pre @ e \<and> (pre = [] \<or> last pre = CHR ''/'')"
proof (induction xs)
  case (Cons x xs)
  then obtain pre where pre: "str_Join (xs @ [e]) ''/'' = pre @ e" "pre = [] \<or> last pre = CHR ''/''" by blast
  then have "str_Join ((x # xs) @ [e]) ''/'' = (x @ ''/'' @ pre) @ e" by (cases "xs @ [e]") auto
  with pre(2) show ?case by (intro exI [of _ "x @ ''/'' @ pre"]) auto
qed (intro exI [of _ "[]"], simp)

lemma base_of_Join:
  assumes n: "plain_name n"
  shows "takeWhile (\<lambda>c. c \<noteq> CHR ''/'') (rev (filepath_Join d n)) = rev n"
proof -
  have base: "takeWhile (\<lambda>c. c \<noteq> CHR ''/'') (rev (q @ pre @ n)) = rev n"
    if "pre = [] \<and> (q = [] \<or> q = ''/'') \<or> pre \<noteq> [] \<and> last pre = CHR ''/''" for q pre
  proof -
    have all: "takeWhile (\<lambda>c. c \<noteq> CHR ''/'') (rev n @ r) = rev n @ takeWhile (\<lambda>c. c \<noteq> CHR ''/'') r" for r
      using n by (auto simp: plain_name_def intro: takeWhile_append2)
    from that show ?thesis by (cases pre rule: rev_cases) (auto simp: all)
  qed
  let ?p = "if d = [] then n else d @ ''/'' @ n"
  obtain es where es: "str_Split (CHR ''/'') ?p = es @ [n]"
    using n by (cases "d = []") (auto simp: plain_name_def str_Split_id split_last [simplified])
  obtain pre where pre: "str_Join (clean_elems (str_HasPrefix ?p ''/'') [] (str_Split (CHR ''/'') ?p)) ''/'' = pre @ n"
    "pre = [] \<or> last pre = CHR ''/''"
    using join_last [of "clean_elems (str_HasPrefix ?p ''/'') [] es" n] by (auto simp: es clean_last [OF n])
  have "n \<noteq> []" using n by (simp add: plain_name_def)
  then have "filepath_Join d n = filepath_Clean ?p" by (simp add: filepath_Join_def)
  also have "\<dots> = (if str_HasPrefix ?p ''/'' then ''/'' else []) @ pre @ n"
    unfolding filepath_Clean_def Let_def pre(1) using \<open>n \<noteq> []\<close> by (simp only: append_is_Nil_conv if_False split: if_split) simp
  finally have path: "filepath_Join d n = (if str_HasPrefix ?p ''/'' then ''/'' else []) @ pre @ n" .
  show ?thesis unfolding path by (rule base) (use pre(2) in auto)
qed

lemma php_call_name:
  "php_call n i a c \<Longrightarrow> php_call n' i' a' c \<Longrightarrow> plain_name n \<Longrightarrow> plain_name n' \<Longrightarrow> n = n'"
  unfolding php_call_def by (metis append_Cons base_of_Join list.inject rev_rev_ident)

lemma script_names: "plain_name ''snapshot.php''" "plain_name ''apply.php''" "plain_name ''restore.php''"
  by (simp_all add: plain_name_def)

lemma no_restore_before:
  "snapshot_then_apply plan cs \<Longrightarrow> \<not> list_ex (\<lambda>c. \<exists>i. php_call ''restore.php'' i [] c) cs"
  by (induction plan cs rule: snapshot_then_apply.induct)
    (auto dest: php_call_name [OF _ _ script_names(1) script_names(3)] php_call_name [OF _ _ script_names(2) script_names(3)])

section \<open>Rollback\<close>

text \<open>What a network provisioning run may start: the snapshot and apply scripts, and after them at most one
  restore script that reads the output of that very snapshot.\<close>

definition provisioning_calls :: "'x runner \<Rightarrow> string \<Rightarrow> call list \<Rightarrow> bool" where
  "provisioning_calls rp plan cs \<longleftrightarrow> (\<exists>as rs. cs = as @ rs \<and> snapshot_then_apply plan as \<and>
     (rs = [] \<or> as \<noteq> [] \<and> (\<exists>c w. rs = [c] \<and> php_call ''restore.php'' (Some (o_stdout (fst (rp (hd as) w)))) [] c)))"

lemma log_interfaces_trace:
  "run_state (log_interfaces rs) s = (r, t) \<Longrightarrow> h_procs t = h_procs s"
  by (induction rs arbitrary: s) auto

lemma adds_Connect [intro!]: "keeps (adds (\<lambda>_. True) P Q) (Connect nt cfg u k o')"
  unfolding Connect_def by (intro adds_rules adds_on_world TrueI)

lemma adds_Drain [intro!]: "keeps (adds (\<lambda>_. True) P Q) (Drain nt)"
  unfolding Drain_def by (intro adds_rules adds_on_world TrueI)

lemma adds_probe: "keeps (adds (\<lambda>_. True) P Q) (probe nt cfg u k)"
  unfolding probe_def by (intro adds_rules adds_Connect adds_Drain)

lemma adds_mark_done: "keeps (adds (\<lambda>_. True) P Q) mark_done"
  unfolding mark_done_def writeMarker_def by (intro adds_rules TrueI)

lemma adds_settle:
  "(bn_Snapshot outc \<noteq> [] \<Longrightarrow> keeps (adds (\<lambda>_. True) P Q) (pm_Revert pfs (bn_Snapshot outc))) \<Longrightarrow>
    keeps (adds (\<lambda>_. True) P Q) (settle pfs outc pe)"
  unfolding settle_def by (intro adds_rules adds_mark_done TrueI)

lemma Revert_processes:
  assumes "run_state (Revert_freebsd sc rp ex snap) s = (r, t)"
  shows "\<exists>rs. h_procs t = h_procs s @ rs \<and> (rs = [] \<or> (\<exists>c. rs = [c] \<and> php_call ''restore.php'' (Some snap) [] c))"
proof (cases "snap = []")
  case False
  obtain out errt err u where u: "run_state (runEmbeddedPHP rp ex (netconfigRestoreScript sc) ''restore.php'' (Some snap) []) s
      = ((out, errt, err), u)" by (metis prod_cases3 surj_pair)
  with False assms have "t = u" by (simp add: Revert_freebsd_def)
  with php_runs [where rp = rp and s = s, OF u] show ?thesis by auto
qed (use assms in \<open>simp add: Revert_freebsd_def\<close>)

lemma settle_processes:
  assumes "run_state (settle (freebsd_pfsense nif sc rp ex) outc pe) s = ((), t)"
  shows "\<exists>rs. h_procs t = h_procs s @ rs \<and> (rs = [] \<or> unreachable pe \<and> bn_Snapshot outc \<noteq> [] \<and>
    (\<exists>c. rs = [c] \<and> php_call ''restore.php'' (Some (bn_Snapshot outc)) [] c))"
proof (cases "unreachable pe \<and> bn_Snapshot outc \<noteq> []")
  case True
  then obtain e where e: "pe = Some e" "\<not> errors_Is e ErrAuthorization"
    by (cases pe) (auto simp: unreachable_def)
  let ?L = "[LogEnt WarnLevel (''boot network config: platform unreachable after apply '' @ em_dash @ '' reverting'') [(''error'', FError e)]]"
  obtain r u where u: "run_state (Revert_freebsd sc rp ex (bn_Snapshot outc)) (s\<lparr>h_log := h_log s @ ?L\<rparr>) = (r, u)" by force
  have "h_procs t = h_procs u"
    using assms e True u by (auto simp: settle_def freebsd_pfsense_def split: option.splits)
  with Revert_processes [where rp = rp, OF u] True show ?thesis by auto
next
  case False
  have "keeps (adds (\<lambda>_. True) (\<lambda>_. False) (\<lambda>_. True)) (settle (freebsd_pfsense nif sc rp ex) outc pe)"
  proof (cases pe)
    case None
    then show ?thesis by (simp add: settle_def adds_mark_done)
  next
    case (Some e)
    with False show ?thesis
      by (auto simp: settle_def unreachable_def intro!: adds_rules adds_mark_done)
  qed
  from adds_no_procs [OF adds.keepsD [OF this assms]] show ?thesis by simp
qed

lemma applied_processes:
  assumes stat: "run_state (os_Stat netconfigMarkerPath) s = (Inl e, s)" and cards: "NetworkCards meta \<noteq> []"
    and a: "run_state (ApplyBootNetworkConfig_freebsd nif sc rp ex (NetworkCards meta)) s = (Inr (Some outc), u)"
    and run: "run_state (applyBootNetworkConfig nt (freebsd_pfsense nif sc rp ex) cfg meta uuid key) s = ((), t)"
  shows "\<exists>rs x pe v. h_procs t = h_procs u @ rs \<and> run_state (probe nt cfg uuid key) x = (pe, v) \<and>
    (rs = [] \<or> unreachable pe \<and> bn_Snapshot outc \<noteq> [] \<and>
      (\<exists>c. rs = [c] \<and> php_call ''restore.php'' (Some (bn_Snapshot outc)) [] c))"
proof -
  obtain x where x: "run_state (log_interfaces (bn_Interfaces outc)) u = ((), x)" using run_unit by blast
  obtain pe v where v: "run_state (probe nt cfg uuid key) x = (pe, v)" by force
  have "h_procs v = h_procs u"
    using log_interfaces_trace [OF x] adds_no_procs adds.keepsD [OF adds_probe v, of "\<lambda>_. False" "\<lambda>_. True"] by metis
  moreover have "run_state (settle (freebsd_pfsense nif sc rp ex) outc pe) v = ((), t)"
    using run stat cards a x v by (simp add: applyBootNetworkConfig_def freebsd_pfsense_def Let_def)
  note settle_processes [where rp = rp, OF this]
  ultimately show ?thesis using v by auto
qed

lemma provisioning_calls_append:
  assumes "snapshot_then_apply plan as" "as = [] \<longrightarrow> bn_Snapshot outc = []"
    and "as \<noteq> [] \<longrightarrow> (\<exists>w0. bn_Snapshot outc = o_stdout (fst (rp (hd as) w0)))"
    and "rs = [] \<or> unreachable pe \<and> bn_Snapshot outc \<noteq> [] \<and>
      (\<exists>c. rs = [c] \<and> php_call ''restore.php'' (Some (bn_Snapshot outc)) [] c)"
  shows "provisioning_calls rp plan (as @ rs)" "as = [] \<longrightarrow> as @ rs = []"
    "list_ex (\<lambda>c. \<exists>i. php_call ''restore.php'' i [] c) (as @ rs) \<longrightarrow> unreachable pe"
proof -
  show "provisioning_calls rp plan (as @ rs)"
    using assms unfolding provisioning_calls_def by (metis (no_types, lifting))
  show "as = [] \<longrightarrow> as @ rs = []" using assms by auto
  show "list_ex (\<lambda>c. \<exists>i. php_call ''restore.php'' i [] c) (as @ rs) \<longrightarrow> unreachable pe"
    using no_restore_before [OF assms(1)] assms(4) by auto
qed



section \<open>Restarts\<close>

lemma boot_password_processes:
  assumes "run_state (applyBootPassword (freebsd_pfsense nif sc rp ex) meta) s = ((), t)"
  shows "\<exists>cs. h_procs t = h_procs s @ cs \<and> (cs = [] \<or> Password meta \<noteq> [] \<and>
    (\<exists>c. cs = [c] \<and> php_call ''set_default_password.php'' (Some (Password meta)) [] c))"
proof (cases "Password meta = []")
  case False
  obtain out errt err u where u: "run_state (runEmbeddedPHP rp ex (setDefaultPasswordScript sc) ''set_default_password.php''
      (Some (Password meta)) []) s = ((out, errt, err), u)" by (metis prod_cases3 surj_pair)
  obtain r where r: "run_state (pm_SetDefaultUserPassword (freebsd_pfsense nif sc rp ex) (Password meta)) s = (r, u)"
    using False u by (simp add: freebsd_pfsense_def SetDefaultUserPassword_freebsd_def)
  have "h_procs t = h_procs u"
  proof (cases r)
    case (Inr res)
    then show ?thesis using assms False r by (cases "sp_Success res") (auto simp: applyBootPassword_def)
  qed (use assms False r in \<open>auto simp: applyBootPassword_def\<close>)
  with php_runs [where rp = rp and s = s, OF u] False show ?thesis by auto
qed (use assms in \<open>simp add: applyBootPassword_def\<close>)

text \<open>C11: Network provisioning is one-shot and the password is provisioned at every start: once the marker
  exists, a restart leaves the network alone, starting at most the password script, with the password on
  its standard input and nothing else, and no process at all when the metadata carries no password.\<close>

theorem restart_only_sets_password:
  assumes "wfiles s netconfigMarkerPath \<noteq> None" "wfault s OpStat netconfigMarkerPath = NoFault"
    and "run_state (runBootProvisioning nt (freebsd_pfsense nif sc rp ex) cfg meta uuid key) s = ((), t)"
  shows "\<exists>cs. h_procs t = h_procs s @ cs \<and> (Password meta = [] \<longrightarrow> t = s) \<and> (cs = [] \<or>
    (\<exists>c. cs = [c] \<and> php_call ''set_default_password.php'' (Some (Password meta)) [] c))"
proof -
  have "run_state (applyBootNetworkConfig nt (freebsd_pfsense nif sc rp ex) cfg meta uuid key) s = ((), s)"
    using assms(1,2) by (auto simp: applyBootNetworkConfig_def os_Stat_def)
  then have pw: "run_state (applyBootPassword (freebsd_pfsense nif sc rp ex) meta) s = ((), t)"
    using assms(3) by (simp add: runBootProvisioning_def)
  moreover have "Password meta = [] \<longrightarrow> t = s" using pw by (auto simp: applyBootPassword_def)
  ultimately show ?thesis using boot_password_processes [where rp = rp, OF pw] by blast
qed

definition marked_host :: "unit host" where
  "marked_host = set_file netconfigMarkerPath (Some (File [] 384)) blank_host"

theorem restart_only_sets_password_witness:
  "\<exists>t cs. run_state (runBootProvisioning demo_nats (freebsd_pfsense (\<lambda>w. (Inr demo_ifaces, w)) demo_scripts php_ok Executor_New)
      blank_config (Some (zero_VirtualMachineMetadata\<lparr>vm_Password := ''s3cret''\<rparr>)) ''a-1'' ''k'') marked_host = ((), t) \<and>
    h_procs t = cs \<and> (cs = [] \<or> (\<exists>c. cs = [c] \<and> php_call ''set_default_password.php'' (Some ''s3cret'') [] c))"
proof -
  let ?m = "Some (zero_VirtualMachineMetadata\<lparr>vm_Password := ''s3cret''\<rparr>)"
  let ?nif = "\<lambda>w. (Inr demo_ifaces, w) :: _ res \<times> unit world"
  obtain t where t: "run_state (runBootProvisioning demo_nats (freebsd_pfsense ?nif demo_scripts php_ok Executor_New)
      blank_config ?m ''a-1'' ''k'') marked_host = ((), t)" using run_unit by blast
  have m: "wfiles marked_host netconfigMarkerPath \<noteq> None" "wfault marked_host OpStat netconfigMarkerPath = NoFault"
    by (simp_all add: marked_host_def blank_host_def)
  have pw: "Password ?m = ''s3cret''" by (simp add: Password_def)
  have none: "h_procs marked_host = []" by (simp add: marked_host_def blank_host_def set_file_def)
  from restart_only_sets_password [where rp = php_ok and nif = ?nif, OF m t] t none show ?thesis
    unfolding pw by auto
qed

end
