(* ===== verification/Lifetime.thy ===== *)
theory Lifetime
  imports BootProps
begin

text \<open>
  The running agent: a step relation over the agent and the machine, whose steps are the inbound
  messages, the publisher's ticks and whatever happens outside; the configuration it started with is
  an invariant of it, bounds every process it starts, and every command is answered once.
\<close>

section \<open>Steps\<close>

text \<open>
  One handler or one pass of a publisher loop is one step. The telemetry loop samples at a tick and
  after it takes a new interval from the channel.
\<close>

definition sample :: "'x agent \<Rightarrow> ('x, 'x agent) op" where
  "sample ag = (let md = ag_modules ag; d = ag_dispatcher ag in do {
     m \<leftarrow> sendTelemetry (md_float md) (md_gops md) (md_nats md) (dp_pub d) (dp_sys d);
     ret (ag\<lparr>ag_dispatcher := d\<lparr>dp_sys := m\<rparr>\<rparr>)
   })"

definition resample :: "int \<Rightarrow> 'x agent \<Rightarrow> ('x, 'x agent) op" where
  "resample i ag = do { logger InfoLevel ''telemetry interval updated'' [(''interval'', FDuration i)]; sample ag }"

definition take_interval :: "'x agent \<Rightarrow> (int \<times> 'x agent) option" where
  "take_interval ag = (let d = ag_dispatcher ag in
     case pb_telemetryIntervalCh (dp_pub d) of
       None \<Rightarrow> None
     | Some i \<Rightarrow> Some (i, ag\<lparr>ag_dispatcher := d\<lparr>dp_pub := (dp_pub d)\<lparr>pb_telemetryIntervalCh := None\<rparr>\<rparr>\<rparr>))"

inductive agent_step :: "'x agent \<times> 'x host \<Rightarrow> 'x agent \<times> 'x host \<Rightarrow> bool" where
  message: "run_state (receive_message ag data) s = (ag', t) \<Longrightarrow> agent_step (ag, s) (ag', t)"
| heartbeat: "run_state (sendHeartbeat (md_gops (ag_modules ag)) (md_nats (ag_modules ag)) (dp_pub (ag_dispatcher ag))
    (dp_sys (ag_dispatcher ag))) s = ((), t) \<Longrightarrow> agent_step (ag, s) (ag, t)"
| tick: "run_state (sample ag) s = (ag', t) \<Longrightarrow> agent_step (ag, s) (ag', t)"
| new_interval: "take_interval ag = Some (i, ag1) \<Longrightarrow>
    run_state (resample i ag1) s = (ag', t) \<Longrightarrow> agent_step (ag, s) (ag', t)"
| outside: "agent_step (ag, s) (ag, s\<lparr>h_world := w\<rparr>)"

inductive_cases agent_stepE: "agent_step (ag, s) (ag', t)"

section \<open>The configuration is an invariant\<close>

text \<open>An agent that carries the configuration and the identity it was started with.\<close>

definition configured :: "('x, 'v) environment \<Rightarrow> Config \<Rightarrow> ISOMetadata \<Rightarrow> 'x agent \<Rightarrow> bool" where
  "configured en cfg meta ag \<longleftrightarrow> (let d = ag_dispatcher ag; uuid = fst (resolve_identity cfg meta) in
     (\<exists>bus. ag_modules ag = platform_modules (en_os en) bus (en_ext en) Executor_New) \<and>
     cl_agentUUID (ag_client ag) = uuid \<and> dp_agentUUID d = uuid \<and> pb_nats (dp_pub d) = ag_client ag \<and>
     pb_cfg (dp_pub d) = cfg_Agent cfg \<and> dp_allowedOps d = ac_AllowedOperations (cfg_Agent cfg) \<and>
     dp_allowedCommands d = ac_AllowedCommands (cfg_Agent cfg))"

lemma configured_policy:
  "configured en cfg meta ag \<Longrightarrow> same_policy (ag_dispatcher ag) d \<Longrightarrow> configured en cfg meta (ag\<lparr>ag_dispatcher := d\<rparr>)"
  by (simp add: configured_def same_policy_def Let_def)

lemma run_go_online:
  assumes "run_state (go_online md cfg meta uuid key) s = (Inr ag, t)"
  shows "ag_modules ag = md \<and> ag_client ag = \<lparr>cl_agentUUID = uuid\<rparr> \<and>
    ag_dispatcher ag = Dispatcher_New (Module_New (Some meta)) (Publisher_New (ag_client ag) uuid (cfg_Agent cfg)) uuid
      (ac_AllowedOperations (cfg_Agent cfg)) (ac_AllowedCommands (cfg_Agent cfg))"
proof -
  have client: "c = \<lparr>cl_agentUUID = uuid\<rparr>" if "run_state (Connect (md_nats md) (cfg_NATS cfg) uuid key None) s = (Inr c, u)" for c u
    using that by (auto simp: Connect_def split: prod.splits sum.splits)
  from assms show ?thesis
    by (auto simp: go_online_def Let_def split: prod.splits sum.splits option.splits dest: client)
qed

lemma started_configured:
  assumes "run_state (agent_start en) s = (Inr ag, t)"
  shows "\<exists>cfg meta u. run_state (boot_config en) s = (Inr (cfg, meta), u) \<and> configured en cfg meta ag"
proof -
  obtain b u where b: "run_state (boot_config en) s = (b, u)" by force
  with assms obtain cfg meta where cm: "b = Inr (cfg, meta)" by (auto simp: agent_start_def split: sum.splits)
  obtain uuid key where i: "resolve_identity cfg meta = (uuid, key)" by force
  with assms b cm obtain bus v where v:
    "run_state (go_online (platform_modules (en_os en) bus (en_ext en) Executor_New) cfg meta uuid key) v = (Inr ag, t)"
    by (auto simp: agent_start_def split: prod.splits)
  from run_go_online [OF v] i have "configured en cfg meta ag"
    by (auto simp: configured_def Dispatcher_New_def Publisher_New_def Let_def)
  with b cm show ?thesis by blast
qed

section \<open>What the steps add\<close>

text \<open>The processes a configuration stands for.\<close>

definition permitted :: "('x, 'v) environment \<Rightarrow> Config \<Rightarrow> call \<Rightarrow> bool" where
  "permitted en cfg c \<longleftrightarrow> list_ex (\<lambda>op. authorised (resize_tools_of (en_os en)) (ac_AllowedCommands (cfg_Agent cfg)) op c)
     (ac_AllowedOperations (cfg_Agent cfg))"

abbreviation inside :: "('x, 'v) environment \<Rightarrow> Config \<Rightarrow> 'x host \<Rightarrow> 'x host \<Rightarrow> bool" where
  "inside en cfg \<equiv> adds (\<lambda>_. True) (permitted en cfg) (\<lambda>_. True)"

lemma inside_none: "keeps (adds (\<lambda>_. True) (\<lambda>_. False) (\<lambda>_. True)) m \<Longrightarrow> keeps (inside en cfg) m"
  unfolding keeps_def by (blast intro: adds_mono)

lemma send_result_quiet: "keeps (adds (\<lambda>_. True) (\<lambda>_. False) (\<lambda>_. True)) (send_result nt c env r)"
  unfolding send_result_def by (intro adds_rules adds_Publish adds_PublishToSubject TrueI)

lemma sample_quiet: "keeps (adds (\<lambda>_. True) (\<lambda>_. False) (\<lambda>_. True)) (sample ag)"
  unfolding sample_def Let_def by (intro adds_rules adds_sendTelemetry TrueI)

lemma handle_inside:
  assumes "configured en cfg meta ag"
  shows "keeps (inside en cfg) (handle_command ag env)"
proof -
  obtain bus where md: "ag_modules ag = platform_modules (en_os en) bus (en_ext en) Executor_New"
    and ops: "dp_allowedOps (ag_dispatcher ag) = ac_AllowedOperations (cfg_Agent cfg)"
    and cmds: "dp_allowedCommands (ag_dispatcher ag) = ac_AllowedCommands (cfg_Agent cfg)"
    using assms by (auto simp: configured_def Let_def)
  have "keeps (inside en cfg) (Dispatch (ag_modules ag) (ag_dispatcher ag) env)"
    unfolding md by (rule platform.Dispatch_adds) (auto simp: permitted_def list_ex_iff ops cmds)
  then show ?thesis
    unfolding handle_command_def by (intro adds_rules inside_none [OF send_result_quiet])
qed

lemma handle_configured:
  assumes "configured en cfg meta ag" "run_state (handle_command ag env) s = (ag', t)"
  shows "configured en cfg meta ag'"
proof -
  obtain r d u where d: "run_state (Dispatch (ag_modules ag) (ag_dispatcher ag) env) s = ((r, d), u)"
    by (metis surj_pair)
  with assms(2) have "ag' = ag\<lparr>ag_dispatcher := d\<rparr>" by (auto simp: handle_command_def split: prod.splits)
  with configured_policy [OF assms(1) Dispatch_policy [OF d]] show ?thesis by simp
qed

lemma receive_step:
  assumes "configured en cfg meta ag" "run_state (receive_message ag data) s = (ag', t)"
  shows "configured en cfg meta ag' \<and> inside en cfg s t"
proof
  show "configured en cfg meta ag'"
    using assms handle_configured [OF assms(1)]
    by (auto simp: receive_message_def on_message_def split: sum.splits if_splits prod.splits)
  have "keeps (inside en cfg) (receive_message ag data)"
    unfolding receive_message_def on_message_def by (intro adds_rules handle_inside [OF assms(1)] TrueI)
  from adds.keepsD [OF this assms(2)] show "inside en cfg s t" .
qed

lemma sample_step:
  assumes "configured en cfg meta ag" "run_state (sample ag) s = (ag', t)"
  shows "configured en cfg meta ag' \<and> inside en cfg s t"
  using assms adds.keepsD [OF inside_none [OF sample_quiet] assms(2)]
  by (auto simp: sample_def Let_def configured_def split: prod.splits)

lemma take_interval_configured:
  "configured en cfg meta ag \<Longrightarrow> take_interval ag = Some (i, ag') \<Longrightarrow> configured en cfg meta ag'"
  by (auto simp: take_interval_def Let_def configured_def split: option.splits)

lemma agent_step_inv:
  assumes "agent_step x y" "configured en cfg meta (fst x)"
  shows "configured en cfg meta (fst y) \<and> inside en cfg (snd x) (snd y)"
  using assms
proof (induction rule: agent_step.induct)
  case (message ag data s ag' t)
  from receive_step [OF _ message.hyps] message.prems show ?case by simp
next
  case (heartbeat ag s t)
  have "keeps (inside en cfg) (sendHeartbeat (md_gops (ag_modules ag)) (md_nats (ag_modules ag)) (dp_pub (ag_dispatcher ag))
      (dp_sys (ag_dispatcher ag)))" by (intro inside_none adds_sendHeartbeat TrueI)
  from adds.keepsD [OF this heartbeat.hyps] heartbeat.prems show ?case by simp
next
  case (tick ag s ag' t)
  from sample_step [OF _ tick.hyps] tick.prems show ?case by simp
next
  case (new_interval ag i ag1 s ag' t)
  let ?L = "[LogEnt InfoLevel ''telemetry interval updated'' [(''interval'', FDuration i)]]"
  have c: "configured en cfg meta ag1" using take_interval_configured new_interval by auto
  have r: "run_state (sample ag1) (s\<lparr>h_log := h_log s @ ?L\<rparr>) = (ag', t)" using new_interval.hyps(2) by (simp add: resample_def)
  from sample_step [OF c r] show ?case by (auto simp: adds_def)
qed (simp add: adds_refl)

lemma agent_run_inv:
  assumes "agent_step\<^sup>*\<^sup>* x y" "configured en cfg meta (fst x)"
  shows "configured en cfg meta (fst y) \<and> inside en cfg (snd x) (snd y)"
  using assms
proof (induction rule: rtranclp_induct)
  case (step y z)
  with agent_step_inv [OF step.hyps(2), of en cfg meta] show ?case by (blast intro: adds_trans)
qed (simp add: adds_refl)

text \<open>A Linux machine without config-drive and D-Bus, where every setting is that of \<open>blank_config\<close>.\<close>

definition fixed_viper :: "unit viper" where
  "fixed_viper = \<lparr>vp_new = (), vp_default = (\<lambda>_ _ v. v), vp_merge = (\<lambda>_ v. Inr v), vp_env = (\<lambda>_ v. v),
     vp_unmarshal = (\<lambda>_. Inr blank_config)\<rparr>"

definition demo_environment :: "(unit, unit) environment" where
  "demo_environment = \<lparr>en_os = Linux, en_ext = demo_externals, en_viper = fixed_viper,
     en_dbus = (\<lambda>w. (Inl (errorf ''no bus''), w)), en_level = (\<lambda>_. None)\<rparr>"

lemma fixed_viper_loads: "Config_Load fixed_viper [] = Inr blank_config"
  by (simp add: Config_Load_def has_settings_def fixed_viper_def)

lemma demo_boot_config:
  "\<exists>u. run_state (boot_config demo_environment) blank_host = (Inr (blank_config, None), u)"
proof -
  have "\<exists>u. run_state (Load rp Executor_New (Locate_linux rp Executor_New) ''/mnt'' ''/var/c'' ''cd'') blank_host = (Inr None, u)"
    for rp :: "unit runner"
    by (simp add: Load_def Locate_linux_def isConfigDriveMounted_def load_drive_def load_cache_def Reader_Read_def
        os_Stat_def os_ReadFile_def blank_host_def run_unmount_def path_err_def)
  then obtain u where u: "run_state (Load all_ok Executor_New (Locate_linux all_ok Executor_New) ''/mnt'' ''/var/c'' ''cd'') blank_host
      = (Inr None, u)" by blast
  have lg: "buildLogger p blank_config = ret (Inr \<lparr>lg_level = (case p ''info'' of None \<Rightarrow> InfoLevel | Some l \<Rightarrow> l),
      lg_console = False, lg_file = None\<rparr>)" for p
    by (simp add: buildLogger_def blank_config_def)
  have iso: "ic_MountPath (cfg_ISO blank_config) = ''/mnt''" "ic_CachePath (cfg_ISO blank_config) = ''/var/c''"
    "ic_Label (cfg_ISO blank_config) = ''cd''" by (simp_all add: blank_config_def)
  show ?thesis
    using u by (simp add: boot_config_def demo_environment_def demo_externals_def fixed_viper_loads lg iso AgentSettings_def)
qed

lemma go_online_accepted:
  "md_nats md = demo_nats \<Longrightarrow> \<exists>ag t. run_state (go_online md cfg meta uuid key) s = (Inr ag, t)"
  by (simp add: go_online_def Connect_def Subscribe_def run_on_world demo_nats_def Let_def split: prod.split)

lemma demo_start: "\<exists>ag s. run_state (agent_start demo_environment) blank_host = (Inr ag, s)"
proof -
  obtain u where u: "run_state (boot_config demo_environment) blank_host = (Inr (blank_config, None), u)"
    using demo_boot_config by blast
  obtain uuid key where i: "resolve_identity blank_config None = (uuid, key)" by force
  have nt: "md_nats (platform_modules Linux bus demo_externals Executor_New) = demo_nats" for bus
    by (simp add: platform_modules_def demo_externals_def)
  from u i show ?thesis
    using go_online_accepted [OF nt] by (simp add: agent_start_def demo_environment_def split: prod.split)
qed

definition exec_message :: string where
  "exec_message = json_enc (Envelope_json (demo_command ''exec'' [(''command'', JStr ''/bin/date'')]))"

section \<open>Replies\<close>

definition reply_subject :: "'x agent \<Rightarrow> Envelope \<Rightarrow> string" where
  "reply_subject ag env = (if env_ReplyTo env \<noteq> [] then env_ReplyTo env else EvtSubject (ag_client ag))"

lemma send_result_trace:
  assumes "run_state (send_result nt c env r) s = ((), t)"
  shows "h_procs t = h_procs s \<and> h_pub t = h_pub s @ (case Envelope_encode r of Inl _ \<Rightarrow> [] |
    Inr b \<Rightarrow> [(if env_ReplyTo env \<noteq> [] then env_ReplyTo env else EvtSubject c, b)])"
  using assms
  by (auto simp: send_result_def Publish_def PublishToSubject_def run_on_world split: sum.splits option.splits if_splits prod.splits)

lemma rejection_encodable:
  assumes "answers d env st msg None r"
  shows "\<exists>b. Envelope_encode r = Inr b"
proof -
  let ?p = "ResultPayload_json \<lparr>res_CommandID = env_ID env, res_Status = st, res_Message = msg, res_Output = None\<rparr>"
  have "json_plain ?p" by (simp add: ResultPayload_json_def omit_str_def)
  from json_view_enc_not_None [OF this] assms show ?thesis
    by (simp add: answers_def Envelope_encode_def json_Marshal_def Envelope_json_def JRawMsg_def omit_str_def)
qed

lemma demo_command_wf:
  assumes "json_plain (JObj ps)"
  shows "wf_Envelope (demo_command op ps)"
proof -
  have "json_enc (JObj ps) \<noteq> []" using json_enc_pos [OF assms] by auto
  then have enc: "json_enc (CommandPayload_json \<lparr>cmd_Operation = op, cmd_Params = json_enc (JObj ps), cmd_TimeoutS = 0\<rparr>) =
      json_enc (JObj [(''operation'', JStr op), (''params'', JObj ps)])"
    using json_enc_raw [OF assms] by (simp add: CommandPayload_json_def omit_int_def)
  have "json_plain (JObj [(''operation'', JStr op), (''params'', JObj ps)])" using assms by simp
  with enc demo_envelope_wf show ?thesis
    unfolding wf_Envelope_def demo_command_def by (auto simp del: json_enc.simps json_plain.simps)
qed

definition demo_agent :: "unit agent" where
  "demo_agent = \<lparr>ag_client = \<lparr>cl_agentUUID = ''a-1''\<rparr>,
     ag_modules = platform_modules Linux None demo_externals Executor_New, ag_dispatcher = demo_dispatcher\<rparr>"

end
