(* ===== verification/Contract.thy ===== *)
theory Contract
  imports Lifetime
begin

text \<open>
  What the agent promises whoever watches it from outside, as an abstract machine over the processes it
  has started and the messages it has sent, and the proof that the running agent implements it.
\<close>

section \<open>The abstract machine\<close>

text \<open>The part of the configuration that matters, and what can be seen.\<close>

record policy =
  po_uuid :: string
  po_ops :: "string list"
  po_cmds :: "string list"
  po_tools :: "string set"

type_synonym visible = "call list \<times> (string \<times> string) list"

datatype action = Ignore | Reject Envelope | Serve Envelope CommandPayload | Report

definition po_client :: "policy \<Rightarrow> Client" where
  "po_client po = \<lparr>cl_agentUUID = po_uuid po\<rparr>"

definition admits :: "policy \<Rightarrow> Envelope \<Rightarrow> CommandPayload option" where
  "admits po env = (case DecodePayload env of
     Inl _ \<Rightarrow> None
   | Inr cmd \<Rightarrow> if cmd_Operation cmd \<in> set (po_ops po) \<and> (\<exists>p. decode_params (cmd_Params cmd) = Inr p) then Some cmd else None)"

definition inbox :: "policy \<Rightarrow> Envelope \<Rightarrow> string" where
  "inbox po env = (if env_ReplyTo env \<noteq> [] then env_ReplyTo env else EvtSubject (po_client po))"

definition own :: "policy \<Rightarrow> string \<times> string \<Rightarrow> bool" where
  "own po m \<longleftrightarrow> fst m \<in> {EvtSubject (po_client po), TelemetrySubject (po_client po)}"

text \<open>A result for a command with one of the given outcomes.\<close>

definition result_of :: "policy \<Rightarrow> Envelope \<Rightarrow> string set \<Rightarrow> Envelope \<Rightarrow> bool" where
  "result_of po env sts r \<longleftrightarrow> env_V r = 1 \<and> env_Type r = TypeResult \<and> env_AgentUUID r = po_uuid po \<and>
     (\<exists>st \<in> sts. \<exists>msg out. env_Payload r = json_enc (ResultPayload_json
       \<lparr>res_CommandID = env_ID env, res_Status = st, res_Message = msg, res_Output = out\<rparr>))"

text \<open>The zero envelope stands for a result whose output JSON cannot encode.\<close>

definition completion :: "policy \<Rightarrow> Envelope \<Rightarrow> (string \<times> string) list \<Rightarrow> bool" where
  "completion po env rs \<longleftrightarrow> (\<exists>r. (result_of po env {StatusCompleted, StatusFailed} r \<or> r = zero_Envelope) \<and>
     rs = (case Envelope_encode r of Inl _ \<Rightarrow> [] | Inr b \<Rightarrow> [(inbox po env, b)]))"

inductive contract_step :: "policy \<Rightarrow> action \<Rightarrow> visible \<Rightarrow> visible \<Rightarrow> bool" for po where
  ignore: "contract_step po Ignore v v"
| reject: "env_V env = 1 \<Longrightarrow> admits po env = None \<Longrightarrow> result_of po env {StatusRejected} r \<Longrightarrow> Envelope_encode r = Inr b \<Longrightarrow>
    contract_step po (Reject env) (ps, ms) (ps, ms @ [(inbox po env, b)])"
| serve: "env_V env = 1 \<Longrightarrow> admits po env = Some cmd \<Longrightarrow>
    list_all (authorised (po_tools po) (po_cmds po) (cmd_Operation cmd)) cs \<Longrightarrow>
    list_all (own po) news \<Longrightarrow> news = [] \<or> cmd_Operation cmd = ''agent.allowed_operations'' \<Longrightarrow> completion po env rs \<Longrightarrow>
    contract_step po (Serve env cmd) (ps, ms) (ps @ cs, ms @ news @ rs)"
| report: "list_all (own po) news \<Longrightarrow> contract_step po Report (ps, ms) (ps, ms @ news)"

inductive contract_run :: "policy \<Rightarrow> action list \<Rightarrow> visible \<Rightarrow> visible \<Rightarrow> bool" for po where
  nothing: "contract_run po [] v v"
| further: "contract_run po as u v \<Longrightarrow> contract_step po a v w \<Longrightarrow> contract_run po (as @ [a]) u w"

inductive_cases contract_stepE: "contract_step po a v w"

section \<open>What the contract accounts for\<close>

fun caused :: "policy \<Rightarrow> action \<Rightarrow> call list \<Rightarrow> bool" where
  "caused po (Serve env cmd) cs \<longleftrightarrow> admits po env = Some cmd \<and>
     list_all (authorised (po_tools po) (po_cmds po) (cmd_Operation cmd)) cs"
| "caused po _ cs \<longleftrightarrow> cs = []"

fun addressed :: "policy \<Rightarrow> action \<Rightarrow> (string \<times> string) list \<Rightarrow> bool" where
  "addressed po (Reject env) ms \<longleftrightarrow> map fst ms = [inbox po env]"
| "addressed po (Serve env cmd) ms \<longleftrightarrow> (\<exists>news rs. ms = news @ rs \<and> list_all (own po) news \<and> length rs \<le> 1 \<and>
     set (map fst rs) \<subseteq> {inbox po env})"
| "addressed po Ignore ms \<longleftrightarrow> ms = []"
| "addressed po Report ms \<longleftrightarrow> list_all (own po) ms"

lemma completion_addressed: "completion po env rs \<Longrightarrow> length rs \<le> 1 \<and> set (map fst rs) \<subseteq> {inbox po env}"
proof -
  assume "completion po env rs"
  then obtain r where "rs = (case Envelope_encode r of Inl _ \<Rightarrow> [] | Inr b \<Rightarrow> [(inbox po env, b)])"
    by (auto simp: completion_def)
  then show ?thesis by (cases "Envelope_encode r") simp_all
qed

lemma contract_step_accounts:
  assumes "contract_step po a v w"
  shows "\<exists>cs ms. w = (fst v @ cs, snd v @ ms) \<and> caused po a cs \<and> addressed po a ms"
  using assms
proof cases
  case (serve env cmd cs news rs ps ms)
  with completion_addressed [of po env rs] show ?thesis
    by (intro exI [of _ cs] exI [of _ "news @ rs"]) auto
qed auto

lemma contract_accounts:
  assumes "contract_run po as v w"
  shows "\<exists>css mss. w = (fst v @ concat css, snd v @ concat mss) \<and> list_all2 (caused po) as css \<and> list_all2 (addressed po) as mss"
  using assms
proof induction
  case (further as u v a w)
  then obtain css mss where IH: "v = (fst u @ concat css, snd u @ concat mss)" "list_all2 (caused po) as css"
    "list_all2 (addressed po) as mss" by blast
  obtain cs ms where w: "w = (fst v @ cs, snd v @ ms)" "caused po a cs" "addressed po a ms"
    using contract_step_accounts [OF further.hyps(2)] by blast
  show ?case
    by (rule exI [of _ "css @ [cs]"], rule exI [of _ "mss @ [ms]"]) (use IH w in \<open>auto intro: list_all2_appendI\<close>)
qed auto

section \<open>The agent implements it\<close>

definition policy_of :: "('x, 'v) environment \<Rightarrow> Config \<Rightarrow> ISOMetadata \<Rightarrow> policy" where
  "policy_of en cfg meta = \<lparr>po_uuid = fst (resolve_identity cfg meta), po_ops = ac_AllowedOperations (cfg_Agent cfg),
     po_cmds = ac_AllowedCommands (cfg_Agent cfg), po_tools = resize_tools_of (en_os en)\<rparr>"

definition visible :: "'x host \<Rightarrow> visible" where
  "visible s = (h_procs s, h_pub s)"

text \<open>What an agent with this configuration has in common with its policy.\<close>

lemma configured_facts:
  assumes "configured en cfg meta ag"
  defines "po \<equiv> policy_of en cfg meta"
  shows "ag_client ag = po_client po" "dp_agentUUID (ag_dispatcher ag) = po_uuid po"
    "dp_allowedOps (ag_dispatcher ag) = po_ops po" "dp_allowedCommands (ag_dispatcher ag) = po_cmds po"
    "pb_nats (dp_pub (ag_dispatcher ag)) = po_client po" "resize_tools_of (en_os en) = po_tools po"
    "\<exists>bus. ag_modules ag = platform_modules (en_os en) bus (en_ext en) Executor_New"
  using assms by (simp_all add: configured_def policy_of_def po_client_def Let_def)

lemma admits_turned_away:
  "dp_allowedOps d = po_ops po \<Longrightarrow> admits po env = None \<longleftrightarrow> turned_away d env \<noteq> None"
  by (auto simp: admits_def turned_away_def split: sum.splits)

lemma answers_result_of:
  "answers d env st msg out r \<Longrightarrow> dp_agentUUID d = po_uuid po \<Longrightarrow> st \<in> sts \<Longrightarrow> result_of po env sts r"
  by (auto simp: answers_def result_of_def)

lemma answered_completion:
  assumes "answered d env x r" "dp_agentUUID d = po_uuid po"
  shows "completion po env (case Envelope_encode r of Inl _ \<Rightarrow> [] | Inr b \<Rightarrow> [(inbox po env, b)])"
proof -
  have "result_of po env {StatusCompleted, StatusFailed} r \<or> r = zero_Envelope"
    using assms by (auto simp: answered_def split: sum.splits if_splits elim!: answers_result_of)
  then show ?thesis unfolding completion_def by blast
qed

lemma visible_log [simp]: "visible (s\<lparr>h_log := l\<rparr>) = visible s" "visible (s\<lparr>h_world := w\<rparr>) = visible s"
  by (simp_all add: visible_def)

text \<open>A version 1 message is rejected or served.\<close>

lemma command_refines:
  assumes conf: "configured en cfg meta ag" and env: "env_V env = 1" and run: "run_state (handle_command ag env) s = (ag', t)"
  defines "po \<equiv> policy_of en cfg meta"
  shows "\<exists>a. contract_step po a (visible s) (visible t)"
proof -
  note facts = configured_facts [OF conf, folded po_def]
  obtain bus where md: "ag_modules ag = platform_modules (en_os en) bus (en_ext en) Executor_New" using facts(7) by blast
  let ?d = "ag_dispatcher ag"
  obtain r d u where d: "run_state (Dispatch (ag_modules ag) ?d env) s = ((r, d), u)" by (metis surj_pair)
  obtain v where v: "run_state (send_result (md_nats (ag_modules ag)) (ag_client ag) env r) u = ((), v)"
    using run_unit by blast
  have t: "t = v" using run d v by (auto simp: handle_command_def)
  let ?rs = "case Envelope_encode r of Inl _ \<Rightarrow> [] | Inr b \<Rightarrow> [(inbox po env, b)]"
  have sent: "h_procs t = h_procs u" "h_pub t = h_pub u @ ?rs"
    using send_result_trace [OF v] facts(1) t by (auto simp: inbox_def split: sum.split)
  show ?thesis
  proof (cases "admits po env")
    case None
    then obtain msg where msg: "turned_away ?d env = Some msg" using admits_turned_away [OF facts(3)] by auto
    from Dispatch_turned_away [OF msg, of "ag_modules ag" s] d obtain b where
      a: "answers ?d env StatusRejected msg None r" "Envelope_encode r = Inr b" "h_pub u = h_pub s" "h_procs u = h_procs s"
      by (auto dest: rejection_encodable)
    with sent facts(2) None env show ?thesis
      by (auto simp: visible_def intro!: exI [of _ "Reject env"] contract_step.reject elim!: answers_result_of)
  next
    case (Some cmd)
    then have cmd: "DecodePayload env = Inr cmd" "cmd_Operation cmd \<in> set (dp_allowedOps ?d)"
      and "\<exists>p. decode_params (cmd_Params cmd) = Inr p"
      using facts(3) by (auto simp: admits_def split: sum.splits if_splits)
    then obtain p where p: "decode_params (cmd_Params cmd) = Inr p" by blast
    let ?s = "s\<lparr>h_log := h_log s @ received env cmd\<rparr>"
    obtain x d' w where x: "run_state (run (ag_modules ag) ?d (cmd_Operation cmd) p (cmd_Params cmd)) ?s = ((x, d'), w)"
      by (metis surj_pair)
    from Dispatch_permitted [OF cmd p x] d have "answered ?d env x r" by auto
    then have "completion po env ?rs" using facts(2) by (rule answered_completion)
    moreover have "keeps (adds (\<lambda>_. True) (authorised (po_tools po) (po_cmds po) (cmd_Operation cmd))
        (\<lambda>m. own po m \<and> cmd_Operation cmd = ''agent.allowed_operations'')) (Dispatch (ag_modules ag) ?d env)"
      unfolding md facts(6) [symmetric]
      by (rule platform.Dispatch_adds) (use cmd facts in \<open>auto simp: own_def\<close>)
    from adds.keepsD [OF this d] obtain cs news where "h_procs u = h_procs s @ cs" "h_pub u = h_pub s @ news"
      "list_all (authorised (po_tools po) (po_cmds po) (cmd_Operation cmd)) cs"
      "list_all (\<lambda>m. own po m \<and> cmd_Operation cmd = ''agent.allowed_operations'') news"
      by (auto simp: adds_def)
    moreover then have "list_all (own po) news" "news = [] \<or> cmd_Operation cmd = ''agent.allowed_operations''"
      by (auto simp: list_all_iff) (cases news, auto)
    ultimately show ?thesis using sent Some env
      by (auto simp: visible_def intro!: exI [of _ "Serve env cmd"] contract_step.serve)
  qed
qed

lemma message_refines:
  assumes conf: "configured en cfg meta ag" and run: "run_state (receive_message ag data) s = (ag', t)"
  shows "\<exists>a. contract_step (policy_of en cfg meta) a (visible s) (visible t)"
proof (cases "\<exists>env. Envelope_decode data = Inr env \<and> env_V env = 1")
  case True
  then obtain env where env: "Envelope_decode data = Inr env" "env_V env = 1" by blast
  then obtain l ag2 where "run_state (handle_command ag env) (s\<lparr>h_log := l\<rparr>) = (ag2, t)"
    using run by (auto simp: receive_message_def on_message_def split: prod.splits)
  from command_refines [OF conf env(2) this] show ?thesis by simp
next
  case False
  then have "visible t = visible s" using run
    by (auto simp: receive_message_def on_message_def visible_def split: sum.splits if_splits)
  then show ?thesis by (auto intro!: exI [of _ Ignore] contract_step.ignore)
qed

text \<open>An operation of the publisher only reports.\<close>

lemma reports_refine:
  assumes "keeps (adds (\<lambda>_. True) (\<lambda>_. False) (own po)) m" "run_state m s = (x, t)"
  shows "\<exists>a. contract_step po a (visible s) (visible t)"
proof -
  obtain news where "h_procs t = h_procs s" "h_pub t = h_pub s @ news" "list_all (own po) news"
    using adds.keepsD [OF assms] by (auto simp: adds_def list_all_iff)
  then show ?thesis by (auto simp: visible_def intro!: exI [of _ Report] contract_step.report)
qed

lemma sample_reports:
  assumes "configured en cfg meta ag"
  shows "keeps (adds (\<lambda>_. True) (\<lambda>_. False) (own (policy_of en cfg meta))) (sample ag)"
  unfolding sample_def Let_def using configured_facts(5) [OF assms]
  by (intro adds_rules adds_sendTelemetry TrueI) (simp_all add: own_def)

lemma agent_step_refines:
  assumes "agent_step x y" "configured en cfg meta (fst x)"
  shows "\<exists>a. contract_step (policy_of en cfg meta) a (visible (snd x)) (visible (snd y))"
  using assms
proof (induction rule: agent_step.induct)
  case (message ag data s ag' t)
  from message_refines [OF _ message.hyps] message.prems show ?case by simp
next
  case (heartbeat ag s t)
  have "keeps (adds (\<lambda>_. True) (\<lambda>_. False) (own (policy_of en cfg meta))) (sendHeartbeat (md_gops (ag_modules ag))
      (md_nats (ag_modules ag)) (dp_pub (ag_dispatcher ag)) (dp_sys (ag_dispatcher ag)))"
    using configured_facts(5) [of en cfg meta ag] heartbeat.prems by (intro adds_sendHeartbeat) (simp add: own_def)
  from reports_refine [OF this heartbeat.hyps] show ?case by simp
next
  case (tick ag s ag' t)
  from reports_refine [OF sample_reports tick.hyps] tick.prems show ?case by simp
next
  case (new_interval ag i ag1 s ag' t)
  have "configured en cfg meta ag1" using take_interval_configured new_interval by auto
  moreover obtain l where "run_state (sample ag1) (s\<lparr>h_log := l\<rparr>) = (ag', t)"
    using new_interval.hyps(2) by (auto simp: resample_def)
  ultimately show ?case using reports_refine [OF sample_reports] by fastforce
qed (auto intro!: exI [of _ Ignore] contract_step.ignore)

lemma agent_run_refines:
  assumes "agent_step\<^sup>*\<^sup>* x y" "configured en cfg meta (fst x)"
  shows "\<exists>as. contract_run (policy_of en cfg meta) as (visible (snd x)) (visible (snd y))"
  using assms
proof (induction rule: rtranclp_induct)
  case (step y z)
  then obtain as where as: "contract_run (policy_of en cfg meta) as (visible (snd x)) (visible (snd y))" by blast
  have "configured en cfg meta (fst y)" using agent_run_inv [OF step.hyps(1) step.prems] by blast
  from agent_step_refines [OF step.hyps(2) this] as show ?case by (blast intro: contract_run.further)
qed (blast intro: contract_run.nothing)



end
