(* ===== verification/Reboot.thy ===== *)
theory Reboot
  imports Lifetime
begin

text \<open>
  Two starts of the agent: the configuration and the identity that the config-drive gave a first boot
  are those of a later boot without it. Joins the configuration, the metadata cache and the start.
\<close>

section \<open>The first steps of a start\<close>

text \<open>A regular file stays while the logger is set up.\<close>

lemma MkdirAll_keeps_file:
  "wfiles s p = Some (File x m) \<Longrightarrow> wfiles (snd (run_state (os_MkdirAll d k) s)) p = Some (File x m)"
  by (auto simp: os_MkdirAll_def Let_def fold_set_file_files list_ex_iff)

lemma OpenAppend_keeps_file:
  "wfiles s p = Some (File x m) \<Longrightarrow> wfiles (snd (run_state (os_OpenAppend q k) s)) p = Some (File x m)"
  by (auto simp: os_OpenAppend_def set_file_def)

lemma buildLogger_keeps_file:
  assumes "wfiles s p = Some (File x m)"
  shows "wfiles (snd (run_state (buildLogger lv cfg) s)) p = Some (File x m)"
proof (cases "lc_File (cfg_Log cfg) = []")
  case False
  obtain r u where u: "run_state (os_MkdirAll (filepath_Dir (lc_File (cfg_Log cfg))) 493) s = (r, u)" by fastforce
  have "wfiles u p = Some (File x m)" using MkdirAll_keeps_file [OF assms] u by (metis snd_conv)
  from OpenAppend_keeps_file [OF this, of "lc_File (cfg_Log cfg)" 420] this False u show ?thesis
    by (cases "run_state (os_OpenAppend (lc_File (cfg_Log cfg)) 420) u")
      (auto simp: buildLogger_def Let_def split: sum.split)
qed (use assms in \<open>simp add: buildLogger_def Let_def\<close>)

lemma buildLogger_errors:
  "fst (run_state (buildLogger lv cfg) s) = Inl e \<Longrightarrow> lc_File (cfg_Log cfg) \<noteq> []"
  by (auto simp: buildLogger_def Let_def)

text \<open>The built-in configuration logs to standard output: nothing happens before Load.\<close>

lemma boot_config_loaded:
  assumes "Config_Load (en_viper en) [] = Inr b" "lc_File (cfg_Log b) = []"
    and "run_state (Load (xt_run (en_ext en)) Executor_New (locate_of (en_os en) (xt_run (en_ext en)) Executor_New)
      (ic_MountPath (cfg_ISO b)) (ic_CachePath (cfg_ISO b)) (ic_Label (cfg_ISO b))) s = (Inr meta, s1)"
  shows "run_state (boot_config en) s = (case Config_Load (en_viper en) (AgentSettings meta) of
      Inl e \<Rightarrow> (Inl (errorf_w ''building config from config-drive metadata: '' e []), s1)
    | Inr cfg \<Rightarrow> (case run_state (buildLogger (en_level en) cfg) s1 of (l, t) \<Rightarrow>
        (case l of Inl e \<Rightarrow> Inl (errorf_w ''building logger: '' e []) | Inr _ \<Rightarrow> Inr (cfg, meta), t)))"
proof -
  obtain lg where lg: "run_state (buildLogger (en_level en) b) s = (Inr lg, s)" using assms(2) by (simp add: buildLogger_def Let_def)
  show ?thesis
  proof (cases "Config_Load (en_viper en) (AgentSettings meta)")
    case (Inr cfg)
    obtain l t where "run_state (buildLogger (en_level en) cfg) s1 = (l, t)" by fastforce
    with Inr lg assms(1,3) show ?thesis by (cases l) (simp_all add: boot_config_def Let_def)
  qed (use lg assms(1,3) in \<open>simp add: boot_config_def Let_def\<close>)
qed

section \<open>Reboots\<close>

text \<open>A drive that is found, read and copied to the cache.\<close>

definition drive_cached :: "'x runner \<Rightarrow> ISOConfig \<Rightarrow> 'x host \<Rightarrow> string \<Rightarrow> bool" where
  "drive_cached rp ic s data \<longleftrightarrow> (\<exists>dir u s1 m s2.
     run_state (Locate_linux rp Executor_New (ic_MountPath ic) (ic_Label ic)) s = ((dir, u, None), s1) \<and> dir \<noteq> [] \<and>
     wfault s1 OpRead (filepath_Join dir metadata_file) = NoFault \<and>
     wfiles s1 (filepath_Join dir metadata_file) = Some (File data m) \<and>
     run_state (cacheCopy dir (ic_CachePath ic)) s1 = (None, s2))"

definition drive_gone :: "ISOConfig \<Rightarrow> 'x host \<Rightarrow> bool" where
  "drive_gone ic s \<longleftrightarrow> wfiles s (''/dev/disk/by-label/'' @ ic_Label ic) = None \<and> wfault s OpRead (ic_CachePath ic) = NoFault"

text \<open>A cache path the loader reads back: another file name is never looked at.\<close>

definition cache_path_ok :: "'x runner \<Rightarrow> string \<Rightarrow> bool" where
  "cache_path_ok rp c \<longleftrightarrow> length (filepath_Dir c) < length c \<and> filepath_Join (filepath_Dir c) metadata_file = c \<and> leaves_alone rp c"

lemma first_boot:
  assumes b: "en_os en = Linux" "Config_Load (en_viper en) [] = Inr b" "lc_File (cfg_Log b) = []"
    and c: "cache_path_ok (xt_run (en_ext en)) (ic_CachePath (cfg_ISO b))"
    and drive: "drive_cached (xt_run (en_ext en)) (cfg_ISO b) s data" "parse_metadata data = Inr vm"
    and boot: "run_state (boot_config en) s = (Inr (cfg, meta), t)"
  shows "meta = Some vm \<and> Config_Load (en_viper en) (AgentSettings (Some vm)) = Inr cfg \<and>
    (\<exists>k. wfiles t (ic_CachePath (cfg_ISO b)) = Some (File data k))"
proof -
  let ?ic = "cfg_ISO b" and ?rp = "xt_run (en_ext en)"
  let ?load = "Load ?rp Executor_New (Locate_linux ?rp Executor_New) (ic_MountPath ?ic) (ic_CachePath ?ic) (ic_Label ?ic)"
  obtain dir u s0 m s2 where d: "run_state (Locate_linux ?rp Executor_New (ic_MountPath ?ic) (ic_Label ?ic)) s = ((dir, u, None), s0)"
    "dir \<noteq> []" "wfault s0 OpRead (filepath_Join dir metadata_file) = NoFault"
    "wfiles s0 (filepath_Join dir metadata_file) = Some (File data m)" "run_state (cacheCopy dir (ic_CachePath ?ic)) s0 = (None, s2)"
    using drive(1) unfolding drive_cached_def by blast
  note fill = Load_fills_cache [where loc = "Locate_linux ?rp Executor_New" and rp = ?rp and ex = Executor_New, OF d(1-4) drive(2) d(5)]
  obtain s1 where s1: "run_state ?load s = (Inr (Some vm), s1)"
    using fill(1) c unfolding cache_path_ok_def by (metis prod.collapse)
  obtain k where k: "wfiles s1 (ic_CachePath ?ic) = Some (File data k)"
    using fill(2) c s1 unfolding cache_path_ok_def by fastforce
  from boot_config_loaded [OF b(2,3), of s "Some vm" s1] s1 b(1) boot
  obtain l where "Config_Load (en_viper en) (AgentSettings (Some vm)) = Inr cfg" "meta = Some vm"
    "run_state (buildLogger (en_level en) cfg) s1 = (l, t)"
    by (auto split: sum.splits prod.splits)
  with buildLogger_keeps_file [OF k] show ?thesis by (metis snd_conv)
qed

lemma later_boot:
  assumes b: "en_os en = Linux" "Config_Load (en_viper en) [] = Inr b" "lc_File (cfg_Log b) = []"
    and c: "cache_path_ok (xt_run (en_ext en)) (ic_CachePath (cfg_ISO b))"
    and cache: "drive_gone (cfg_ISO b) s" "wfiles s (ic_CachePath (cfg_ISO b)) = Some (File data k)" "parse_metadata data = Inr vm"
    and cfg: "Config_Load (en_viper en) (AgentSettings (Some vm)) = Inr cfg"
  shows "\<exists>r t. run_state (boot_config en) s = (r, t) \<and>
    (r = Inr (cfg, Some vm) \<or> lc_File (cfg_Log cfg) \<noteq> [] \<and> (\<exists>e. r = Inl (errorf_w ''building logger: '' e [])))"
proof -
  let ?ic = "cfg_ISO b" and ?rp = "xt_run (en_ext en)"
  have loc: "run_state (Locate_linux ?rp Executor_New (ic_MountPath ?ic) (ic_Label ?ic)) s = (([], Noop, None), s)"
    using cache(1) by (simp add: drive_gone_def Locate_linux_def os_Stat_def)
  have "fst (run_state (Load ?rp Executor_New (Locate_linux ?rp Executor_New) (ic_MountPath ?ic) (ic_CachePath ?ic) (ic_Label ?ic)) s)
      = Inr (Some vm)"
    by (rule Load_from_cache [where loc = "Locate_linux ?rp Executor_New", OF loc]) (use c cache in \<open>simp_all add: cache_path_ok_def drive_gone_def\<close>)
  then obtain s1 where "run_state (Load ?rp Executor_New (Locate_linux ?rp Executor_New) (ic_MountPath ?ic) (ic_CachePath ?ic)
      (ic_Label ?ic)) s = (Inr (Some vm), s1)" by (metis prod.collapse)
  with boot_config_loaded [OF b(2,3), of s "Some vm" s1] b(1) cfg buildLogger_errors [of "en_level en" cfg s1] show ?thesis
    by (auto split: sum.split prod.split)
qed

text \<open>C12: An agent keeps its identity when its config-drive is detached: if a first boot reads valid metadata
  from the drive, caches it and loads its configuration, then a later boot without the drive, on a
  machine where the cache file is as the first boot left it, comes to the same configuration, the
  same metadata and the same identity and credentials, unless a log file of that configuration can no
  longer be opened. The built-in settings must log to standard output and name the cache file
  pc-meta-data.json, as the defaults do, and the mount programs must not write to it.\<close>

theorem identity_survives_reboot:
  assumes b: "en_os en = Linux" "Config_Load (en_viper en) [] = Inr b" "lc_File (cfg_Log b) = []"
      "cache_path_ok (xt_run (en_ext en)) (ic_CachePath (cfg_ISO b))"
    and first: "drive_cached (xt_run (en_ext en)) (cfg_ISO b) s data" "parse_metadata data = Inr vm"
      "run_state (boot_config en) s = (Inr (cfg, meta), t)"
    and later: "drive_gone (cfg_ISO b) s'" "wfiles s' (ic_CachePath (cfg_ISO b)) = wfiles t (ic_CachePath (cfg_ISO b))"
      "run_state (boot_config en) s' = (r, t')"
  shows "meta = Some vm \<and> (case r of
      Inr (cfg', meta') \<Rightarrow> cfg' = cfg \<and> meta' = meta \<and> resolve_identity cfg' meta' = resolve_identity cfg meta
    | Inl e \<Rightarrow> lc_File (cfg_Log cfg) \<noteq> [] \<and> (\<exists>e'. e = errorf_w ''building logger: '' e' []))"
proof -
  obtain k where k: "meta = Some vm" "Config_Load (en_viper en) (AgentSettings (Some vm)) = Inr cfg"
    "wfiles t (ic_CachePath (cfg_ISO b)) = Some (File data k)"
    using first_boot [OF b first] by blast
  then have "wfiles s' (ic_CachePath (cfg_ISO b)) = Some (File data k)" using later(2) by simp
  from later_boot [OF b later(1) this first(2) k(2)] k(1) later(3) show ?thesis by auto
qed

section \<open>A machine with a drive\<close>

definition drive_config :: Config where
  "drive_config = blank_config\<lparr>cfg_ISO := \<lparr>ic_MountPath = ''/m'', ic_FallbackEnv = False, ic_Label = ''cidata'',
     ic_CachePath = ''/c/pc-meta-data.json''\<rparr>\<rparr>"

definition drive_environment :: "(unit, unit) environment" where
  "drive_environment = demo_environment\<lparr>en_ext := demo_externals\<lparr>xt_run := demo_runner\<rparr>,
     en_viper := \<lparr>vp_new = (), vp_default = (\<lambda>_ _ v. v), vp_merge = (\<lambda>_ v. Inr v), vp_env = (\<lambda>_ v. v),
       vp_unmarshal = (\<lambda>_. Inr drive_config)\<rparr>\<rparr>"

lemma drive_environment_facts:
  "en_os drive_environment = Linux" "Config_Load (en_viper drive_environment) [] = Inr drive_config"
  "lc_File (cfg_Log drive_config) = []" "xt_run (en_ext drive_environment) = demo_runner"
  "cfg_ISO drive_config = \<lparr>ic_MountPath = ''/m'', ic_FallbackEnv = False, ic_Label = ''cidata'',
     ic_CachePath = ''/c/pc-meta-data.json''\<rparr>"
  "AgentSettings (Some zero_VirtualMachineMetadata) = []"
  by (simp_all add: drive_environment_def drive_config_def demo_environment_def blank_config_def Config_Load_def has_settings_def
      AgentSettings_def zero_VirtualMachineMetadata_def)

lemma demo_drive_cached: "drive_cached demo_runner (cfg_ISO drive_config) demo_host [CHR 0x7B, CHR 0x7D]"
proof -
  have "''/m'' \<noteq> []" by simp
  with demo_boot show ?thesis unfolding drive_cached_def drive_environment_facts(5) ISOConfig.select_convs by blast
qed

lemma demo_first_boot:
  "\<exists>t. run_state (boot_config drive_environment) demo_host = (Inr (drive_config, Some zero_VirtualMachineMetadata), t)"
proof -
  obtain dir u s0 m s2 where d: "run_state (Locate_linux demo_runner Executor_New ''/m'' ''cidata'') demo_host = ((dir, u, None), s0)"
    "dir \<noteq> []" "wfault s0 OpRead (filepath_Join dir metadata_file) = NoFault"
    "wfiles s0 (filepath_Join dir metadata_file) = Some (File [CHR 0x7B, CHR 0x7D] m)"
    "run_state (cacheCopy dir ''/c/pc-meta-data.json'') s0 = (None, s2)"
    using demo_drive_cached unfolding drive_cached_def drive_environment_facts(5) ISOConfig.select_convs by blast
  from Load_fills_cache(1) [where loc = "Locate_linux demo_runner Executor_New" and rp = demo_runner and ex = Executor_New,
      OF d(1-4) demo_parse d(5) demo_cache_path(1) demo_leaves_alone]
  obtain s1 where s1: "run_state (Load demo_runner Executor_New (Locate_linux demo_runner Executor_New) ''/m'' ''/c/pc-meta-data.json'' ''cidata'') demo_host
      = (Inr (Some zero_VirtualMachineMetadata), s1)" by (metis prod.collapse)
  have "\<exists>lg. run_state (buildLogger (en_level drive_environment) drive_config) s1 = (Inr lg, s1)"
    by (simp add: buildLogger_def Let_def drive_environment_facts)
  with boot_config_loaded [of drive_environment drive_config demo_host "Some zero_VirtualMachineMetadata" s1] s1 show ?thesis
    by (auto simp: drive_environment_facts)
qed

theorem identity_survives_reboot_witness:
  "\<exists>t t'. run_state (boot_config drive_environment) demo_host = (Inr (drive_config, Some zero_VirtualMachineMetadata), t) \<and>
    run_state (boot_config drive_environment) (demo_host\<lparr>h_world := (h_world demo_host)\<lparr>w_files :=
        (wfiles t)(''/dev/disk/by-label/cidata'' := None)\<rparr>\<rparr>)
      = (Inr (drive_config, Some zero_VirtualMachineMetadata), t')"
proof -
  obtain t where t: "run_state (boot_config drive_environment) demo_host = (Inr (drive_config, Some zero_VirtualMachineMetadata), t)"
    using demo_first_boot by blast
  let ?s = "demo_host\<lparr>h_world := (h_world demo_host)\<lparr>w_files := (wfiles t)(''/dev/disk/by-label/cidata'' := None)\<rparr>\<rparr>"
  obtain r t' where r: "run_state (boot_config drive_environment) ?s = (r, t')" by fastforce
  have ok: "cache_path_ok (xt_run (en_ext drive_environment)) (ic_CachePath (cfg_ISO drive_config))"
    using demo_cache_path demo_leaves_alone by (simp add: cache_path_ok_def drive_environment_facts)
  have drive: "drive_cached (xt_run (en_ext drive_environment)) (cfg_ISO drive_config) demo_host [CHR 0x7B, CHR 0x7D]"
    using demo_drive_cached by (simp only: drive_environment_facts(4))
  have gone: "drive_gone (cfg_ISO drive_config) ?s" by (simp add: drive_gone_def drive_environment_facts(5) demo_host_def)
  have same: "wfiles ?s (ic_CachePath (cfg_ISO drive_config)) = wfiles t (ic_CachePath (cfg_ISO drive_config))"
    by (simp add: drive_environment_facts(5))
  from identity_survives_reboot [OF drive_environment_facts(1,2,3) ok drive demo_parse t gone same r] t r
  show ?thesis by (auto simp: drive_environment_facts(3) split: sum.splits)
qed

end
