(* ===== verification/WrittenLog.thy ===== *)
theory WrittenLog
  imports Lifetime
begin

text \<open>
  What reaches the log files: the level filter of the logger, and the proof that at level info and above
  the whole path of a command (NATS client, dispatcher, module, reply) writes nothing about a password.
\<close>

section \<open>Levels\<close>

fun severity :: "level \<Rightarrow> nat" where
  "severity DebugLevel = 0"
| "severity InfoLevel = 1"
| "severity WarnLevel = 2"
| "severity ErrorLevel = 3"

instantiation level :: linorder
begin

definition less_eq_level :: "level \<Rightarrow> level \<Rightarrow> bool" where
  "less_eq_level a b \<longleftrightarrow> severity a \<le> severity b"

definition less_level :: "level \<Rightarrow> level \<Rightarrow> bool" where
  "less_level a b \<longleftrightarrow> severity a < severity b"

instance
proof
  fix a b c :: level
  show "a \<le> b \<Longrightarrow> b \<le> a \<Longrightarrow> a = b" by (cases a; cases b) (simp_all add: less_eq_level_def)
qed (auto simp: less_eq_level_def less_level_def)

end

text \<open>What the cores of the logger write of the entries they are given.\<close>

definition written :: "logger_config \<Rightarrow> logent list \<Rightarrow> logent list" where
  "written lg = filter (\<lambda>e. lg_level lg \<le> le_level e)"

lemma InfoLevel_above: "InfoLevel \<le> l \<longleftrightarrow> \<not> l \<le> DebugLevel"
  by (cases l) (simp_all add: less_eq_level_def)

section \<open>Operations that do not look at the log\<close>

definition relog :: "logent list \<Rightarrow> 'x host \<Rightarrow> 'x host" where
  "relog L s = s\<lparr>h_log := L @ h_log s\<rparr>"

definition prepends :: "logent list \<Rightarrow> ('x, 'a) op \<Rightarrow> bool" where
  "prepends L m \<longleftrightarrow> (\<forall>s. run_state m (relog L s) = map_prod id (relog L) (run_state m s))"

lemma prepends_return: "prepends L (ret a)"
  by (simp add: prepends_def)

lemma prepends_bind: "prepends L m \<Longrightarrow> (\<And>a. prepends L (f a)) \<Longrightarrow> prepends L (State_Monad.bind m f)"
  unfolding prepends_def by (auto split: prod.splits)

lemma prepends_logger: "prepends L (logger l m fs)"
  by (simp add: prepends_def relog_def)

lemma prepends_time: "prepends L time_Now"
  by (simp add: prepends_def relog_def)

lemma prepends_since: "prepends L (since start)"
  unfolding since_def by (intro prepends_bind prepends_time prepends_return)

lemma prepends_newUUID: "prepends L newUUID"
  by (simp add: prepends_def newUUID_def rand_Read_def relog_def)

lemma prepends_sum:
  "(\<And>e. prepends L (f e)) \<Longrightarrow> (\<And>a. prepends L (g a)) \<Longrightarrow> prepends L (case r of Inl e \<Rightarrow> f e | Inr a \<Rightarrow> g a)"
  by (cases r) auto

lemma prepends_option:
  "prepends L f \<Longrightarrow> (\<And>a. prepends L (g a)) \<Longrightarrow> prepends L (case r of None \<Rightarrow> f | Some a \<Rightarrow> g a)"
  by (cases r) auto

lemma prepends_if: "prepends L m \<Longrightarrow> prepends L n \<Longrightarrow> prepends L (if b then m else n)"
  by simp

lemma prepends_prod: "(\<And>a b. prepends L (f a b)) \<Longrightarrow> prepends L (case p of (a, b) \<Rightarrow> f a b)"
  by (cases p) auto

lemma prepends_on_world: "prepends L (on_world f)"
  by (auto simp: prepends_def run_on_world relog_def split: prod.split)

lemma prepends_os:
  "prepends L (os_MkdirTemp p)" "prepends L (os_WriteFile p c m)" "prepends L (os_RemoveAll p)"
  by (auto simp: prepends_def relog_def os_MkdirTemp_def os_WriteFile_def os_RemoveAll_def set_file_def Let_def
      cong: if_cong split: option.split fault.split)

lemma prepends_sent: "prepends L (modify (h_pub_update f))"
  by (simp add: prepends_def relog_def)

lemmas prepends_rules = prepends_return prepends_bind prepends_logger prepends_time prepends_since prepends_newUUID
  prepends_sum prepends_option prepends_if prepends_prod prepends_on_world prepends_os prepends_sent

lemma prepends_ExecuteWithStdin: "prepends L (ExecuteWithStdin rp ex stdin command args)"
  by (auto simp: prepends_def relog_def run_ExecuteWithStdin Let_def split: prod.split)

lemma prepends_SetPassword: "prepends L (SetPassword_freebsd sc rp ex u pw)"
  unfolding SetPassword_freebsd_def runEmbeddedPHP_def Let_def
  by (intro prepends_rules prepends_ExecuteWithStdin)

lemma prepends_result: "prepends L (result d src st msg out)"
  unfolding result_def ResultFor_def Envelope_New_def by (intro prepends_rules)

lemma prepends_conclude: "prepends L (conclude start env op x)"
  unfolding conclude_def fail_def ok_def logResult_def Let_def by (intro prepends_rules prepends_result)

lemma prepends_send_result: "prepends L (send_result nt c env r)"
  unfolding send_result_def Publish_def PublishToSubject_def by (intro prepends_rules)

section \<open>Operations that do not look at the inputs of processes\<close>

lemma commutes_option:
  "commutes f \<Longrightarrow> (\<And>a. commutes (g a)) \<Longrightarrow> commutes (case r of None \<Rightarrow> f | Some a \<Rightarrow> g a)"
  by (cases r) auto

lemma commutes_on_world: "commutes (on_world f)"
  by (auto simp: commutes_def run_on_world forget_stdin_def split: prod.split)

lemma commutes_sent: "commutes (modify (h_pub_update f))"
  by (simp add: commutes_def forget_stdin_def)

lemma commutes_send_result: "commutes (send_result nt c env r)"
  unfolding send_result_def Publish_def PublishToSubject_def
  by (intro commutes_rules commutes_option commutes_on_world commutes_sent)

section \<open>A password on its way through the agent\<close>

text \<open>Two messages that are the same but for the password, on an agent that may set it.\<close>

record 'x pw_case =
  pc_agent :: "'x agent"
  pc_ext :: "'x externals"
  pc_env :: Envelope
  pc_cmd :: CommandPayload
  pc_params :: params

definition set_password_case :: "'x dbus option \<Rightarrow> Executor \<Rightarrow> 'x pw_case \<Rightarrow> bool" where
  "set_password_case bus ex k \<longleftrightarrow> ag_modules (pc_agent k) = platform_modules FreeBSD bus (pc_ext k) ex \<and>
     DecodePayload (pc_env k) = Inr (pc_cmd k) \<and> cmd_Operation (pc_cmd k) = ''pfsense.set_password'' \<and>
     ''pfsense.set_password'' \<in> set (dp_allowedOps (ag_dispatcher (pc_agent k))) \<and>
     decode_params (cmd_Params (pc_cmd k)) = Inr (pc_params k) \<and> pr_Password (pc_params k) \<noteq> []"

definition alike :: "'x pw_case \<Rightarrow> 'x pw_case \<Rightarrow> bool" where
  "alike k k' \<longleftrightarrow> pc_agent k = pc_agent k' \<and> pc_ext k = pc_ext k' \<and> env_ID (pc_env k) = env_ID (pc_env k') \<and>
     env_ReplyTo (pc_env k) = env_ReplyTo (pc_env k') \<and> pr_Username (pc_params k) = pr_Username (pc_params k') \<and>
     (\<forall>c w. xt_run (pc_ext k) (c\<lparr>c_stdin := Some (pr_Password (pc_params k))\<rparr>) w =
       xt_run (pc_ext k) (c\<lparr>c_stdin := Some (pr_Password (pc_params k'))\<rparr>) w)"

lemma handle_set_password:
  assumes "set_password_case bus ex k"
  defines "ag \<equiv> pc_agent k" and "x \<equiv> pc_ext k" and "p \<equiv> pc_params k"
  shows "run_state (handle_command ag (pc_env k)) s = run_state (do {
      r \<leftarrow> SetPassword_freebsd (xt_scripts x) (xt_run x) ex (pr_Username p) (pr_Password p);
      y \<leftarrow> conclude (w_now (h_world s)) (pc_env k) ''pfsense.set_password'' (map_sum id SetPasswordResult_json r, ag_dispatcher ag);
      (case y of (answer, d') \<Rightarrow> do {
        send_result (md_nats (ag_modules ag)) (ag_client ag) (pc_env k) answer;
        ret (ag\<lparr>ag_dispatcher := d'\<rparr>)
      })
    }) (s\<lparr>h_log := h_log s @ received (pc_env k) (pc_cmd k)\<rparr>)"
  using assms Dispatch_set_password [of "pc_env k" "pc_cmd k" "ag_dispatcher ag" p bus x ex s]
  by (simp add: set_password_case_def handle_command_def split: prod.split)

lemma handle_relog:
  assumes "set_password_case bus ex k"
  shows "run_state (handle_command (pc_agent k) (pc_env k)) (relog L s) =
    map_prod id (relog L) (run_state (handle_command (pc_agent k) (pc_env k)) s)"
proof -
  let ?m = "\<lambda>start. do {
      r \<leftarrow> SetPassword_freebsd (xt_scripts (pc_ext k)) (xt_run (pc_ext k)) ex (pr_Username (pc_params k)) (pr_Password (pc_params k));
      y \<leftarrow> conclude start (pc_env k) ''pfsense.set_password'' (map_sum id SetPasswordResult_json r, ag_dispatcher (pc_agent k));
      (case y of (answer, d') \<Rightarrow> do {
        send_result (md_nats (ag_modules (pc_agent k))) (ag_client (pc_agent k)) (pc_env k) answer;
        ret (pc_agent k\<lparr>ag_dispatcher := d'\<rparr>)
      }) }"
  have m: "prepends L (?m start)" for start
    by (intro prepends_rules prepends_SetPassword prepends_conclude prepends_send_result)
  have "(relog L s)\<lparr>h_log := h_log (relog L s) @ received (pc_env k) (pc_cmd k)\<rparr> =
      relog L (s\<lparr>h_log := h_log s @ received (pc_env k) (pc_cmd k)\<rparr>)" "w_now (h_world (relog L s)) = w_now (h_world s)"
    by (simp_all add: relog_def)
  then show ?thesis using m unfolding prepends_def handle_set_password [OF assms] by simp
qed

lemma handle_alike:
  assumes k: "set_password_case bus ex k" "set_password_case bus ex k'" "alike k k'"
  shows "map_prod id forget_stdin (run_state (handle_command (pc_agent k) (pc_env k)) s) =
    map_prod id forget_stdin (run_state (handle_command (pc_agent k') (pc_env k')) s)"
proof -
  let ?ag = "pc_agent k" and ?md = "platform_modules FreeBSD bus (pc_ext k) ex"
  let ?d = "\<lambda>e. run_state (Dispatch ?md (ag_dispatcher ?ag) e) s"
  have same: "pc_agent k' = ?ag" "pc_ext k' = pc_ext k" using k(3) by (simp_all add: alike_def)
  have send: "send_result nt c (pc_env k') = send_result nt c (pc_env k)" for nt c
  proof
    have "env_ID (pc_env k') = env_ID (pc_env k)" "env_ReplyTo (pc_env k') = env_ReplyTo (pc_env k)"
      using k(3) by (simp_all add: alike_def)
    then show "send_result nt c (pc_env k') r = send_result nt c (pc_env k) r" for r by (simp only: send_result_def)
  qed
  have "map_prod id forget_stdin (?d (pc_env k)) = map_prod id forget_stdin (?d (pc_env k'))"
    by (rule Dispatch_passwords_alike [where cmd = "pc_cmd k" and cmd' = "pc_cmd k'" and p = "pc_params k" and p' = "pc_params k'"])
      (use k(1) k(2) [unfolded set_password_case_def same] k(3) [unfolded alike_def same] in
        \<open>simp_all add: set_password_case_def\<close>)
  then obtain y b b' where d: "?d (pc_env k) = (y, b)" "?d (pc_env k') = (y, b')" "forget_stdin b = forget_stdin b'"
    by (cases "?d (pc_env k)"; cases "?d (pc_env k')") simp
  let ?tail = "case y of (answer, d') \<Rightarrow> do {
    send_result (md_nats ?md) (ag_client ?ag) (pc_env k) answer; ret (?ag\<lparr>ag_dispatcher := d'\<rparr>) }"
  have "commutes ?tail" by (cases y) (auto intro!: commutes_rules commutes_send_result)
  from commutes_same [OF this d(3)] d(1,2) k(1) show ?thesis
    by (simp add: handle_command_def same send set_password_case_def)
qed

lemma forget_stdin_parts:
  "forget_stdin u = forget_stdin u' \<Longrightarrow> h_log u = h_log u' \<and> h_pub u = h_pub u' \<and> h_world u = h_world u' \<and>
    map (c_stdin_update (\<lambda>_. None)) (h_procs u) = map (c_stdin_update (\<lambda>_. None)) (h_procs u')"
  by (cases u; cases u') (simp add: forget_stdin_def)

definition raw_entry :: "'x agent \<Rightarrow> string \<Rightarrow> logent" where
  "raw_entry ag data = LogEnt DebugLevel ''raw message received''
     [(''subject'', FString (CmdSubject (ag_client ag))), (''bytes'', FInt (int (length data))), (''data'', FBytes data)]"

lemma receive_relog:
  assumes "set_password_case bus ex k" "Envelope_decode data = Inr (pc_env k)" "env_V (pc_env k) = 1"
  shows "run_state (receive_message (pc_agent k) data) s =
    map_prod id (relog (h_log s @ [raw_entry (pc_agent k) data])) (run_state (handle_command (pc_agent k) (pc_env k)) (s\<lparr>h_log := []\<rparr>))"
proof -
  let ?L = "h_log s @ [raw_entry (pc_agent k) data]"
  have "s\<lparr>h_log := ?L\<rparr> = relog ?L (s\<lparr>h_log := []\<rparr>)" by (simp add: relog_def)
  with handle_relog [OF assms(1), of ?L "s\<lparr>h_log := []\<rparr>"] assms(2,3) show ?thesis
    by (cases "run_state (handle_command (pc_agent k) (pc_env k)) (s\<lparr>h_log := []\<rparr>)")
      (simp add: receive_message_def on_message_def raw_entry_def)
qed

text \<open>C9: For two pfsense.set_password messages that differ only in the password, with a script that answers
  both alike, the whole agent behaves alike: the same reply is published, the same processes are started
  with the same arguments, the machine and the agent end in the same state. The logs that are written
  are the same exactly when the configured level is info or higher; at level debug the raw message
  gives the password away.\<close>

theorem password_written_at_debug_only:
  assumes k: "set_password_case bus ex k" "set_password_case bus ex k'" "alike k k'"
    and data: "Envelope_decode data = Inr (pc_env k)" "Envelope_decode data' = Inr (pc_env k')"
      "env_V (pc_env k) = 1" "env_V (pc_env k') = 1" "data \<noteq> data'"
    and runs: "run_state (receive_message (pc_agent k) data) s = (ag, t)" "run_state (receive_message (pc_agent k') data') s = (ag', t')"
  shows "ag = ag' \<and> h_pub t = h_pub t' \<and> h_world t = h_world t' \<and>
    map (c_stdin_update (\<lambda>_. None)) (h_procs t) = map (c_stdin_update (\<lambda>_. None)) (h_procs t') \<and>
    (written lg (h_log t) = written lg (h_log t') \<longleftrightarrow> InfoLevel \<le> lg_level lg)"
proof -
  let ?s = "s\<lparr>h_log := []\<rparr>"
  obtain u where u: "run_state (handle_command (pc_agent k) (pc_env k)) ?s = (ag, u)"
    "t = relog (h_log s @ [raw_entry (pc_agent k) data]) u"
    using receive_relog [OF k(1) data(1,3), of s] runs(1) by (cases "run_state (handle_command (pc_agent k) (pc_env k)) ?s") simp
  obtain u' where u': "run_state (handle_command (pc_agent k') (pc_env k')) ?s = (ag', u')"
    "t' = relog (h_log s @ [raw_entry (pc_agent k') data']) u'"
    using receive_relog [OF k(2) data(2,4), of s] runs(2) by (cases "run_state (handle_command (pc_agent k') (pc_env k')) ?s") simp
  have same: "ag = ag'" "forget_stdin u = forget_stdin u'" using handle_alike [OF k, of ?s] u(1) u'(1) by simp_all
  then have parts: "h_log u = h_log u'" "h_pub u = h_pub u'" "h_world u = h_world u'"
    "map (c_stdin_update (\<lambda>_. None)) (h_procs u) = map (c_stdin_update (\<lambda>_. None)) (h_procs u')"
    using forget_stdin_parts by blast+
  have "raw_entry (pc_agent k) data \<noteq> raw_entry (pc_agent k') data'" using data(5) by (simp add: raw_entry_def)
  with parts same(1) u(2) u'(2) show ?thesis
    by (simp add: relog_def written_def InfoLevel_above raw_entry_def)
qed

section \<open>A case\<close>

definition demo_case :: "string \<Rightarrow> unit pw_case" where
  "demo_case pw = \<lparr>
     pc_agent = \<lparr>ag_client = \<lparr>cl_agentUUID = ''a-1''\<rparr>,
       ag_modules = platform_modules FreeBSD None (demo_externals\<lparr>xt_run := php_ok\<rparr>) Executor_New,
       ag_dispatcher = pfsense_dispatcher\<rparr>,
     pc_ext = demo_externals\<lparr>xt_run := php_ok\<rparr>,
     pc_env = demo_command ''pfsense.set_password'' (pw_members pw),
     pc_cmd = \<lparr>cmd_Operation = ''pfsense.set_password'', cmd_Params = json_enc (JObj (pw_members pw)), cmd_TimeoutS = 0\<rparr>,
     pc_params = zero_params\<lparr>pr_Username := ''admin'', pr_Password := pw\<rparr>\<rparr>"

lemma demo_case_ok:
  assumes "ascii pw" "pw \<noteq> []"
  shows "set_password_case None Executor_New (demo_case pw)"
proof -
  have "DecodePayload (demo_command ''pfsense.set_password'' (pw_members pw)) = Inr
      \<lparr>cmd_Operation = ''pfsense.set_password'', cmd_Params = json_enc (JObj (pw_members pw)), cmd_TimeoutS = 0\<rparr>"
    by (rule DecodePayload_demo) (simp_all add: ascii_def)
  with password_params [OF assms(1)] assms(2) show ?thesis
    by (simp add: set_password_case_def demo_case_def pfsense_dispatcher_def Dispatcher_New_def del: json_enc.simps)
qed

lemma demo_case_alike: "alike (demo_case pw) (demo_case pw')"
  by (simp add: alike_def demo_case_def demo_command_def php_ok_def)

lemma demo_case_message:
  "\<exists>data. Envelope_decode data = Inr (pc_env (demo_case pw)) \<and> env_V (pc_env (demo_case pw)) = 1"
proof -
  have "wf_Envelope (pc_env (demo_case pw))" by (simp add: demo_case_def demo_command_wf)
  then show ?thesis using envelope_codec.decode_encode by (fastforce simp: demo_case_def demo_command_def demo_envelope_def)
qed

theorem password_written_at_debug_only_witness:
  "\<exists>data data' ag t ag' t'. run_state (receive_message (pc_agent (demo_case ''a'')) data) blank_host = (ag, t) \<and>
    run_state (receive_message (pc_agent (demo_case ''b'')) data') blank_host = (ag', t') \<and> data \<noteq> data' \<and> h_pub t = h_pub t' \<and>
    written \<lparr>lg_level = InfoLevel, lg_console = False, lg_file = None\<rparr> (h_log t) =
      written \<lparr>lg_level = InfoLevel, lg_console = False, lg_file = None\<rparr> (h_log t')"
proof -
  have ok: "set_password_case None Executor_New (demo_case ''a'')" "set_password_case None Executor_New (demo_case ''b'')"
    by (rule demo_case_ok, simp_all add: ascii_def)+
  obtain data data' where data: "Envelope_decode data = Inr (pc_env (demo_case ''a''))" "env_V (pc_env (demo_case ''a'')) = 1"
    "Envelope_decode data' = Inr (pc_env (demo_case ''b''))" "env_V (pc_env (demo_case ''b'')) = 1"
    using demo_case_message [of "''a''"] demo_case_message [of "''b''"] by blast
  have "data \<noteq> data'"
  proof
    assume "data = data'"
    then have "pc_env (demo_case ''a'') = pc_env (demo_case ''b'')" using data by simp
    with ok have "pc_params (demo_case ''a'') = pc_params (demo_case ''b'')" by (simp add: set_password_case_def)
    from arg_cong [OF this, of pr_Password] show False by (simp add: demo_case_def)
  qed
  obtain ag t ag' t' where r: "run_state (receive_message (pc_agent (demo_case ''a'')) data) blank_host = (ag, t)"
    "run_state (receive_message (pc_agent (demo_case ''b'')) data') blank_host = (ag', t')" by (metis surj_pair)
  from password_written_at_debug_only [OF ok demo_case_alike data(1,3,2,4) \<open>data \<noteq> data'\<close> r,
      of "\<lparr>lg_level = InfoLevel, lg_console = False, lg_file = None\<rparr>"]
  have "h_pub t = h_pub t'" "written \<lparr>lg_level = InfoLevel, lg_console = False, lg_file = None\<rparr> (h_log t) =
      written \<lparr>lg_level = InfoLevel, lg_console = False, lg_file = None\<rparr> (h_log t')" by (simp_all add: less_eq_level_def)
  with r \<open>data \<noteq> data'\<close> show ?thesis by (intro exI conjI) assumption+
qed

end
