(* ===== verification/IntervalChange.thy ===== *)
theory IntervalChange
  imports Lifetime
begin

text \<open>
  A change of the telemetry interval on its way from the inbound message through the dispatcher and the
  publisher's channel to the telemetry loop.
\<close>

lemma run_set_interval: "run md d ''telemetry.set_interval'' p raw = ret (set_interval d p)"
  by (simp add: run_def run_system_def run_services_def run_vm_def run_pfsense_def run_agent_def Let_def)

lemma completion_encodable:
  assumes "answers d env st msg (Some out) r" "json_plain out"
  shows "\<exists>b. Envelope_encode r = Inr b"
proof -
  let ?p = "ResultPayload_json \<lparr>res_CommandID = env_ID env, res_Status = st, res_Message = msg, res_Output = Some out\<rparr>"
  have "json_plain ?p" using assms(2) by (simp add: ResultPayload_json_def omit_str_def)
  from json_view_enc_not_None [OF this] assms(1) show ?thesis
    by (simp add: answers_def Envelope_encode_def json_Marshal_def Envelope_json_def JRawMsg_def omit_str_def)
qed



end
