(* ===== verification/DiskShared.thy ===== *)
theory DiskShared
  imports SystemMetrics "HOL-Library.Multiset"
begin

text \<open>
  internal/modules/system/system.go, the state that calls of GetDisk share. The telemetry loop and the
  goroutine that delivers commands both call GetDisk; the clock and the counters are read before the
  mutex is taken, and only the exchange of the baseline is inside it. The calls are a step relation:
  each step is one read of the clock, one read of the counters, one critical section, or the end of
  a call, which uses nothing shared.
\<close>

section \<open>Steps\<close>

datatype caller = TelemetryLoop | CommandHandler

type_synonym counters = "(string \<times> IOStat) list option"

text \<open>Where a call is, with its local variables: \<open>now\<close>, \<open>ioCounters\<close>, \<open>prev\<close> and \<open>prevAt\<close>.\<close>

datatype disk_pc =
    DIdle
  | DClock int
  | DRead int counters
  | DSwapped int counters counters "int option"

text \<open>A finished call: what its I/O figures are computed from.\<close>

record disk_call =
  dc_now :: int
  dc_cur :: counters
  dc_prev :: counters
  dc_prevAt :: "int option"

definition call_io :: "disk_call \<Rightarrow> string \<Rightarrow> DiskIO option" where
  "call_io c = entry_io (elapsed_s (dc_prevAt c) (dc_now c)) (dc_prev c) (dc_cur c)"

record disk_sys =
  ds_clock :: int
  ds_counters :: "(string \<times> IOStat) list"
  ds_mod :: Module
  ds_pc :: "caller \<Rightarrow> disk_pc"
  ds_swaps :: "disk_call list"
  ds_done :: "disk_call list"

text \<open>The kernel's counters never go back: every device stays and each of its counters grows.\<close>

definition grows :: "IOStat \<Rightarrow> IOStat \<Rightarrow> bool" where
  "grows a b \<longleftrightarrow> is_ReadCount a \<le> is_ReadCount b \<and> is_WriteCount a \<le> is_WriteCount b \<and>
     is_ReadBytes a \<le> is_ReadBytes b \<and> is_WriteBytes a \<le> is_WriteBytes b \<and> is_IoTime a \<le> is_IoTime b"

definition monotone :: "(string \<times> IOStat) list \<Rightarrow> (string \<times> IOStat) list \<Rightarrow> bool" where
  "monotone xs ys \<longleftrightarrow> list_all (\<lambda>d. case (map_of xs d, map_of ys d) of
     (Some x, Some y) \<Rightarrow> grows x y | (None, _) \<Rightarrow> True | _ \<Rightarrow> False) (map fst xs)"

lemma monotone_iff: "monotone xs ys \<longleftrightarrow> (\<forall>d x. map_of xs d = Some x \<longrightarrow> (\<exists>y. map_of ys d = Some y \<and> grows x y))"
proof
  assume m: "monotone xs ys"
  show "\<forall>d x. map_of xs d = Some x \<longrightarrow> (\<exists>y. map_of ys d = Some y \<and> grows x y)"
  proof (intro allI impI)
    fix d x assume x: "map_of xs d = Some x"
    then have "d \<in> fst ` set xs" by (metis domI dom_map_of_conv_image_fst)
    with m have "case (map_of xs d, map_of ys d) of
       (Some x, Some y) \<Rightarrow> grows x y | (None, _) \<Rightarrow> True | _ \<Rightarrow> False"
      unfolding monotone_def list_all_iff set_map by (rule bspec)
    with x show "\<exists>y. map_of ys d = Some y \<and> grows x y" by (simp split: option.splits)
  qed
next
  assume "\<forall>d x. map_of xs d = Some x \<longrightarrow> (\<exists>y. map_of ys d = Some y \<and> grows x y)"
  then show "monotone xs ys" by (auto simp: monotone_def list_all_iff split: option.split; fastforce)
qed

lemma monotone_refl: "monotone xs xs"
  by (simp add: monotone_iff grows_def)

lemma monotone_trans: "monotone xs ys \<Longrightarrow> monotone ys zs \<Longrightarrow> monotone xs zs"
  unfolding monotone_iff grows_def by (meson order_trans)

inductive disk_step :: "disk_sys \<Rightarrow> disk_sys \<Rightarrow> bool" where
  time_passes: "ds_clock s < t \<Longrightarrow> monotone (ds_counters s) c \<Longrightarrow>
    disk_step s (s\<lparr>ds_clock := t, ds_counters := c\<rparr>)"
| read_clock: "ds_pc s k = DIdle \<Longrightarrow> disk_step s (s\<lparr>ds_pc := (ds_pc s)(k := DClock (ds_clock s))\<rparr>)"
| read_counters: "ds_pc s k = DClock n \<Longrightarrow> c \<in> {None, Some (ds_counters s)} \<Longrightarrow>
    disk_step s (s\<lparr>ds_pc := (ds_pc s)(k := DRead n c)\<rparr>)"
| exchange: "ds_pc s k = DRead n c \<Longrightarrow> ds_mod s = m \<Longrightarrow>
    disk_step s (s\<lparr>ds_mod := m\<lparr>md_prevIO := c, md_prevIOAt := Some n\<rparr>,
      ds_pc := (ds_pc s)(k := DSwapped n c (md_prevIO m) (md_prevIOAt m)),
      ds_swaps := ds_swaps s @ [\<lparr>dc_now = n, dc_cur = c, dc_prev = md_prevIO m, dc_prevAt = md_prevIOAt m\<rparr>]\<rparr>)"
| finish: "ds_pc s k = DSwapped n c p a \<Longrightarrow>
    disk_step s (s\<lparr>ds_pc := (ds_pc s)(k := DIdle),
      ds_done := ds_done s @ [\<lparr>dc_now = n, dc_cur = c, dc_prev = p, dc_prevAt = a\<rparr>]\<rparr>)"

inductive_cases disk_stepE: "disk_step s t"

definition disk_init :: "int \<Rightarrow> (string \<times> IOStat) list \<Rightarrow> disk_sys" where
  "disk_init t c = \<lparr>ds_clock = t, ds_counters = c, ds_mod = Module_New None, ds_pc = (\<lambda>_. DIdle), ds_swaps = [], ds_done = []\<rparr>"

abbreviation disk_reach :: "int \<Rightarrow> (string \<times> IOStat) list \<Rightarrow> disk_sys \<Rightarrow> bool" where
  "disk_reach t c \<equiv> disk_step\<^sup>*\<^sup>* (disk_init t c)"

section \<open>Baselines form a chain\<close>

text \<open>Each exchange hands out what the one before it stored.\<close>

fun chain :: "counters \<times> int option \<Rightarrow> disk_call list \<Rightarrow> (counters \<times> int option) option" where
  "chain b [] = Some b"
| "chain b (c # cs) = (if (dc_prev c, dc_prevAt c) = b then chain (dc_cur c, Some (dc_now c)) cs else None)"

lemma chain_append: "chain b (cs @ [c]) = (case chain b cs of None \<Rightarrow> None
    | Some b' \<Rightarrow> if (dc_prev c, dc_prevAt c) = b' then Some (dc_cur c, Some (dc_now c)) else None)"
  by (induction b cs rule: chain.induct) auto

text \<open>Every exchange belongs to one call: a finished one, or one that is past its exchange.\<close>

fun in_flight :: "disk_pc \<Rightarrow> disk_call multiset" where
  "in_flight (DSwapped n c p a) = {#\<lparr>dc_now = n, dc_cur = c, dc_prev = p, dc_prevAt = a\<rparr>#}"
| "in_flight _ = {#}"

definition disk_inv :: "disk_sys \<Rightarrow> bool" where
  "disk_inv s \<longleftrightarrow> chain (None, None) (ds_swaps s) = Some (md_prevIO (ds_mod s), md_prevIOAt (ds_mod s)) \<and>
     mset (ds_swaps s) = mset (ds_done s) + in_flight (ds_pc s TelemetryLoop) + in_flight (ds_pc s CommandHandler)"

lemma disk_inv_step: "disk_step s t \<Longrightarrow> disk_inv s \<Longrightarrow> disk_inv t"
proof (induction rule: disk_step.induct)
  case (read_clock s k)
  then show ?case by (cases k) (auto simp: disk_inv_def)
next
  case (read_counters s k n c)
  then show ?case by (cases k) (auto simp: disk_inv_def)
next
  case (exchange s k n c m)
  then show ?case by (cases k) (auto simp: disk_inv_def chain_append)
next
  case (finish s k n c p a)
  then show ?case by (cases k) (auto simp: disk_inv_def)
qed (simp add: disk_inv_def)

lemma disk_inv_reach: "disk_reach t0 c0 s \<Longrightarrow> disk_inv s"
proof (induction rule: rtranclp_induct)
  case base
  show ?case by (simp add: disk_init_def disk_inv_def Module_New_def)
qed (rule disk_inv_step)

text \<open>C34: However the calls of GetDisk interleave, the baselines form one chain: the first exchange in the
  critical section found no baseline, each later one found exactly the snapshot and time the one before
  it had stored, and the module holds the last one. Every exchange belongs to one call, finished or
  under way, so no snapshot is the baseline of two calls and none is lost.\<close>

theorem disk_baselines_chain:
  assumes "disk_reach t0 c0 s"
  shows "chain (None, None) (ds_swaps s) = Some (md_prevIO (ds_mod s), md_prevIOAt (ds_mod s)) \<and>
    mset (ds_swaps s) = mset (ds_done s) + in_flight (ds_pc s TelemetryLoop) + in_flight (ds_pc s CommandHandler)"
  using disk_inv_reach [OF assms] by (simp add: disk_inv_def)

section \<open>Rates of calls that do not overlap\<close>

text \<open>The figures are the true increase of each counter over the elapsed time.\<close>

definition exact_rate :: "flt \<Rightarrow> u64 \<Rightarrow> u64 \<Rightarrow> rat \<Rightarrow> bool" where
  "exact_rate r old cur el \<longleftrightarrow> old \<le> cur \<and> r = Fin ((of_nat (unat cur) - of_nat (unat old)) / el)"

definition exact_figures :: "DiskIO \<Rightarrow> IOStat \<Rightarrow> IOStat \<Rightarrow> rat \<Rightarrow> bool" where
  "exact_figures io old cur el \<longleftrightarrow>
     exact_rate (io_ReadBytesPerS io) (is_ReadBytes old) (is_ReadBytes cur) el \<and>
     exact_rate (io_WriteBytesPerS io) (is_WriteBytes old) (is_WriteBytes cur) el \<and>
     exact_rate (io_ReadIOPS io) (is_ReadCount old) (is_ReadCount cur) el \<and>
     exact_rate (io_WriteIOPS io) (is_WriteCount old) (is_WriteCount cur) el"

definition counters_of :: "counters \<Rightarrow> string \<Rightarrow> IOStat option" where
  "counters_of c device = (case c of None \<Rightarrow> None | Some xs \<Rightarrow> map_of xs (str_TrimPrefix device ''/dev/''))"

definition exact_io :: "disk_call \<Rightarrow> bool" where
  "exact_io c \<longleftrightarrow> (\<forall>d io. call_io c d = Some io \<longrightarrow>
     (\<exists>old cur. counters_of (dc_prev c) d = Some old \<and> counters_of (dc_cur c) d = Some cur \<and>
       0 < elapsed_s (dc_prevAt c) (dc_now c) \<and> exact_figures io old cur (elapsed_s (dc_prevAt c) (dc_now c))))"

lemma rate_exact: "old \<le> cur \<Longrightarrow> exact_rate (rate cur old el) old cur el"
  by (simp add: exact_rate_def rate_def unat_sub of_nat_diff word_le_nat_alt)

lemma monotone_exact:
  assumes "\<And>p c'. dc_prev c = Some p \<Longrightarrow> dc_cur c = Some c' \<Longrightarrow> monotone p c'"
  shows "exact_io c"
  unfolding exact_io_def
proof (intro allI impI)
  fix d io assume "call_io c d = Some io"
  then obtain p c' old cur where pc: "dc_prev c = Some p" "dc_cur c = Some c'" "0 < elapsed_s (dc_prevAt c) (dc_now c)"
    and old: "map_of p (str_TrimPrefix d ''/dev/'') = Some old" "map_of c' (str_TrimPrefix d ''/dev/'') = Some cur"
    and io: "io = disk_io cur old (elapsed_s (dc_prevAt c) (dc_now c))"
    by (auto simp: call_io_def entry_io_def Let_def split: option.splits if_splits)
  from assms [OF pc(1,2)] old have "grows old cur" unfolding monotone_iff by fastforce
  then show "\<exists>old cur. counters_of (dc_prev c) d = Some old \<and> counters_of (dc_cur c) d = Some cur \<and>
       0 < elapsed_s (dc_prevAt c) (dc_now c) \<and> exact_figures io old cur (elapsed_s (dc_prevAt c) (dc_now c))"
    using pc old io by (simp add: counters_of_def grows_def disk_io_def rate_exact exact_figures_def)
qed

text \<open>Steps while only one caller is inside GetDisk.\<close>

definition solo_step :: "caller \<Rightarrow> disk_sys \<Rightarrow> disk_sys \<Rightarrow> bool" where
  "solo_step k s t \<longleftrightarrow> disk_step s t \<and> (\<forall>j. j \<noteq> k \<longrightarrow> ds_pc t j = DIdle)"

definition below :: "counters \<Rightarrow> (string \<times> IOStat) list \<Rightarrow> bool" where
  "below a c \<longleftrightarrow> (case a of None \<Rightarrow> True | Some p \<Rightarrow> monotone p c)"

definition ordered :: "counters \<Rightarrow> counters \<Rightarrow> bool" where
  "ordered a c \<longleftrightarrow> (case c of None \<Rightarrow> True | Some c' \<Rightarrow> below a c')"

definition solo_inv :: "caller \<Rightarrow> disk_sys \<Rightarrow> bool" where
  "solo_inv k s \<longleftrightarrow> (\<forall>j. j \<noteq> k \<longrightarrow> ds_pc s j = DIdle) \<and> below (md_prevIO (ds_mod s)) (ds_counters s) \<and>
     (case ds_pc s k of DRead n c \<Rightarrow> below c (ds_counters s) \<and> ordered (md_prevIO (ds_mod s)) c
      | DSwapped n c p a \<Rightarrow> ordered p c | _ \<Rightarrow> True) \<and> (\<forall>c \<in> set (ds_done s). exact_io c)"

lemma below_monotone: "below a c \<Longrightarrow> monotone c c' \<Longrightarrow> below a c'"
  by (auto simp: below_def intro: monotone_trans split: option.splits)

lemma ordered_exact: "ordered (dc_prev c) (dc_cur c) \<Longrightarrow> exact_io c"
  by (rule monotone_exact) (simp add: ordered_def below_def)

lemma solo_inv_step: "disk_step s t \<Longrightarrow> \<forall>j. j \<noteq> k \<longrightarrow> ds_pc t j = DIdle \<Longrightarrow> solo_inv k s \<Longrightarrow> solo_inv k t"
proof (induction rule: disk_step.induct)
  case (time_passes s t c)
  then show ?case by (auto simp: solo_inv_def intro: below_monotone split: disk_pc.splits)
next
  case (read_clock s j)
  then have "j = k" by (auto split: if_splits)
  then show ?case using read_clock by (auto simp: solo_inv_def)
next
  case (read_counters s j n c)
  then have "j = k" by (auto simp: solo_inv_def)
  then show ?case using read_counters by (auto simp: solo_inv_def ordered_def below_def monotone_refl)
next
  case (exchange s j n c m)
  then have "j = k" by (auto simp: solo_inv_def)
  then show ?case using exchange by (auto simp: solo_inv_def)
next
  case (finish s j n c p a)
  then have "j = k" by (auto simp: solo_inv_def)
  then show ?case using finish by (auto simp: solo_inv_def intro!: ordered_exact)
qed

lemma solo_inv_reach: "(solo_step k)\<^sup>*\<^sup>* (disk_init t0 c0) s \<Longrightarrow> solo_inv k s"
proof (induction rule: rtranclp_induct)
  case base
  show ?case by (simp add: disk_init_def solo_inv_def Module_New_def below_def)
next
  case (step s t)
  then show ?case using solo_inv_step unfolding solo_step_def by blast
qed


section \<open>Schedules\<close>

text \<open>A schedule names the steps in order; running one gives a reachable state.\<close>

datatype disk_event = Tick int "(string \<times> IOStat) list" | Clock caller | Counters caller bool | Exchange caller | Finish caller

fun disk_event_step :: "disk_event \<Rightarrow> disk_sys \<Rightarrow> disk_sys option" where
  "disk_event_step (Tick t c) s = (if ds_clock s < t \<and> monotone (ds_counters s) c
     then Some (s\<lparr>ds_clock := t, ds_counters := c\<rparr>) else None)"
| "disk_event_step (Clock k) s = (case ds_pc s k of
     DIdle \<Rightarrow> Some (s\<lparr>ds_pc := (ds_pc s)(k := DClock (ds_clock s))\<rparr>) | _ \<Rightarrow> None)"
| "disk_event_step (Counters k readable) s = (case ds_pc s k of
     DClock n \<Rightarrow> Some (s\<lparr>ds_pc := (ds_pc s)(k := DRead n (if readable then Some (ds_counters s) else None))\<rparr>)
   | _ \<Rightarrow> None)"
| "disk_event_step (Exchange k) s = (case ds_pc s k of
     DRead n c \<Rightarrow> (let m = ds_mod s in Some (s\<lparr>ds_mod := m\<lparr>md_prevIO := c, md_prevIOAt := Some n\<rparr>,
       ds_pc := (ds_pc s)(k := DSwapped n c (md_prevIO m) (md_prevIOAt m)),
       ds_swaps := ds_swaps s @ [\<lparr>dc_now = n, dc_cur = c, dc_prev = md_prevIO m, dc_prevAt = md_prevIOAt m\<rparr>]\<rparr>))
   | _ \<Rightarrow> None)"
| "disk_event_step (Finish k) s = (case ds_pc s k of
     DSwapped n c p a \<Rightarrow> Some (s\<lparr>ds_pc := (ds_pc s)(k := DIdle),
       ds_done := ds_done s @ [\<lparr>dc_now = n, dc_cur = c, dc_prev = p, dc_prevAt = a\<rparr>]\<rparr>)
   | _ \<Rightarrow> None)"

fun disk_schedule :: "disk_event list \<Rightarrow> disk_sys \<Rightarrow> disk_sys option" where
  "disk_schedule [] s = Some s"
| "disk_schedule (e # es) s = (case disk_event_step e s of None \<Rightarrow> None | Some t \<Rightarrow> disk_schedule es t)"

lemma disk_event_step_sound: "disk_event_step e s = Some t \<Longrightarrow> disk_step s t"
  by (cases e) (auto simp: Let_def intro!: disk_step.intros split: if_splits disk_pc.splits)

lemma disk_schedule_sound: "disk_schedule es s = Some t \<Longrightarrow> disk_step\<^sup>*\<^sup>* s t"
  by (induction es s rule: disk_schedule.induct)
    (auto split: option.splits dest: disk_event_step_sound intro: converse_rtranclp_into_rtranclp)

text \<open>C36: An undisturbed run of GetDisk is one call of the step relation: from the module it starts with, the
  steps of one caller (read the clock, read the counters, exchange, finish) lead to the module it
  returns, and the I/O figures of every entry of its report are those of the finished call.\<close>

theorem GetDisk_refines_steps:
  assumes run: "run_state (GetDisk g m) s = ((Inr es, m'), t)" and ps: "g_Partitions g (h_world s) = (Inr ps, w)"
    and d: "ds_mod d = m" "ds_pc d k = DIdle" "ds_clock d = w_now w"
      "fst (g_IOCounters g w) \<in> {None, Some (ds_counters d)}"
  shows "\<exists>d' c. disk_step\<^sup>*\<^sup>* d d' \<and> ds_mod d' = m' \<and> ds_pc d' = ds_pc d \<and> ds_done d' = ds_done d @ [c] \<and>
      (\<forall>e \<in> set (case es of None \<Rightarrow> [] | Some xs \<Rightarrow> xs). de_IO e = call_io c (de_Device e))"
proof -
  define cur where "cur = fst (g_IOCounters g w)"
  obtain s2 where es: "es = grown (fst (run_state (disk_entries g (elapsed_s (md_prevIOAt m) (w_now w)) (md_prevIO m) cur ps) s2))"
    and m': "m' = m\<lparr>md_prevIO := cur, md_prevIOAt := Some (w_now w)\<rparr>"
    using run_GetDisk [OF run] ps unfolding cur_def by auto
  define c where "c = \<lparr>dc_now = w_now w, dc_cur = cur, dc_prev = md_prevIO m, dc_prevAt = md_prevIOAt m\<rparr>"
  have "\<forall>e \<in> set (case es of None \<Rightarrow> [] | Some xs \<Rightarrow> xs). de_IO e = call_io c (de_Device e)"
    using es disk_entries_from by (fastforce simp: grown_def call_io_def c_def split: if_splits)
  moreover have "\<exists>d'. disk_schedule [Clock k, Counters k (cur \<noteq> None), Exchange k, Finish k] d = Some d' \<and>
      ds_mod d' = m' \<and> ds_pc d' = ds_pc d \<and> ds_done d' = ds_done d @ [c]"
    using d by (auto simp: m' c_def cur_def Let_def fun_upd_idem)
  ultimately show ?thesis using disk_schedule_sound by blast
qed

definition sda :: "u64 \<Rightarrow> (string \<times> IOStat) list" where
  "sda n = [(''sda'', \<lparr>is_ReadCount = 0, is_WriteCount = 0, is_ReadBytes = n, is_WriteBytes = 0, is_IoTime = 0\<rparr>)]"

lemma monotone_sda: "monotone (sda a) (sda b) \<longleftrightarrow> a \<le> b"
  by (simp add: monotone_def sda_def grows_def)

text \<open>One caller, two calls: ten bytes read in the second between them.\<close>

definition solo_schedule :: "disk_event list" where
  "solo_schedule = [Clock TelemetryLoop, Counters TelemetryLoop True, Exchange TelemetryLoop, Finish TelemetryLoop,
     Tick (2 * second) (sda 20), Clock TelemetryLoop, Counters TelemetryLoop True, Exchange TelemetryLoop, Finish TelemetryLoop]"

text \<open>Two callers, overlapping.\<close>

definition race_schedule :: "disk_event list" where
  "race_schedule = [Clock TelemetryLoop, Tick (2 * second) (sda 10), Clock CommandHandler, Counters CommandHandler True,
     Tick (3 * second) (sda 11), Counters TelemetryLoop True, Exchange TelemetryLoop, Exchange CommandHandler, Finish CommandHandler]"

text \<open>Two overlapping calls can report a wrapped rate although no counter ever goes back: the telemetry
  loop reads the clock, then a command reads the clock and the counters, then the telemetry loop reads
  the counters and stores its newer snapshot under its older time; the command then subtracts the
  newer snapshot from its own older one, and one byte of reads is reported as about 2 to the 64th
  bytes per second.\<close>

theorem disk_race_wraps:
  "\<exists>s c io. disk_reach second (sda 10) s \<and> c \<in> set (ds_done s) \<and> call_io c ''/dev/sda'' = Some io \<and>
    io_ReadBytesPerS io = Fin (2 ^ 64 - 1) \<and> \<not> exact_io c"
proof -
  define c where "c = \<lparr>dc_now = 2 * second, dc_cur = Some (sda 10), dc_prev = Some (sda 11), dc_prevAt = Some second\<rparr>"
  obtain s where s: "disk_schedule race_schedule (disk_init second (sda 10)) = Some s" "ds_done s = [c]"
    by (simp add: race_schedule_def disk_init_def Module_New_def monotone_sda Let_def c_def second_def)
  have io: "call_io c ''/dev/sda'' = Some (disk_io (snd (hd (sda 10))) (snd (hd (sda 11))) 1)"
    by (simp add: call_io_def entry_io_def c_def elapsed_s_def second_def sda_def str_TrimPrefix_def str_HasPrefix_def Let_def)
  have rate: "io_ReadBytesPerS (disk_io (snd (hd (sda 10))) (snd (hd (sda 11))) 1) = Fin (2 ^ 64 - 1)"
    by (simp add: disk_io_def sda_def rate_def unsigned_minus_1_eq_mask mask_eq_exp_minus_1)
  have "counters_of (dc_prev c) ''/dev/sda'' = Some (snd (hd (sda 11)))" "counters_of (dc_cur c) ''/dev/sda'' = Some (snd (hd (sda 10)))"
    by (simp_all add: counters_of_def c_def sda_def str_TrimPrefix_def str_HasPrefix_def)
  then have "\<not> exact_io c" unfolding exact_io_def using io
    by (auto simp: exact_figures_def exact_rate_def sda_def intro!: exI [of _ "''/dev/sda''"])
  then show ?thesis using disk_schedule_sound [OF s(1)] s(2) io rate by auto
qed

theorem disk_baselines_chain_witness:
  "\<exists>s. disk_reach second (sda 10) s \<and> length (ds_done s) = 2 \<and>
    chain (None, None) (ds_swaps s) = Some (Some (sda 20), Some (2 * second))"
proof -
  obtain s where s: "disk_schedule solo_schedule (disk_init second (sda 10)) = Some s" "length (ds_done s) = 2"
      "ds_mod s = \<lparr>md_iso = None, md_prevIO = Some (sda 20), md_prevIOAt = Some (2 * second)\<rparr>"
    by (simp add: solo_schedule_def disk_init_def Module_New_def monotone_sda Let_def second_def)
  from disk_baselines_chain [OF disk_schedule_sound [OF s(1)]] s disk_schedule_sound [OF s(1)]
  show ?thesis by auto
qed

text \<open>A run of one caller alone.\<close>

fun event_of :: "disk_event \<Rightarrow> caller option" where
  "event_of (Tick _ _) = None"
| "event_of (Clock k) = Some k"
| "event_of (Counters k _) = Some k"
| "event_of (Exchange k) = Some k"
| "event_of (Finish k) = Some k"

lemma disk_event_others: "disk_event_step e s = Some t \<Longrightarrow> event_of e \<noteq> Some j \<Longrightarrow> ds_pc t j = ds_pc s j"
  by (cases e) (auto simp: Let_def split: if_splits disk_pc.splits)

lemma solo_schedule_sound:
  "disk_schedule es s = Some t \<Longrightarrow> \<forall>e \<in> set es. event_of e \<in> {None, Some k} \<Longrightarrow>
    \<forall>j. j \<noteq> k \<longrightarrow> ds_pc s j = DIdle \<Longrightarrow> (solo_step k)\<^sup>*\<^sup>* s t"
proof (induction es s rule: disk_schedule.induct)
  case (2 e es s)
  then obtain u where u: "disk_event_step e s = Some u" "disk_schedule es u = Some t" by (auto split: option.splits)
  have idle: "\<forall>j. j \<noteq> k \<longrightarrow> ds_pc u j = DIdle" using disk_event_others [OF u(1)] 2(3,4) by fastforce
  then have "solo_step k s u" using disk_event_step_sound [OF u(1)] by (simp add: solo_step_def)
  with 2 u idle show ?case by (auto intro: converse_rtranclp_into_rtranclp)
qed simp


text \<open>GetDisk on a machine with one partition, in the middle of the steps of nobody else.\<close>

theorem GetDisk_refines_steps_witness:
  "\<exists>es m' t d'. run_state (GetDisk demo_gops (Module_New None)) blank_host = ((Inr es, m'), t) \<and>
    disk_step\<^sup>*\<^sup>* (disk_init (w_now (h_world blank_host)) (the (fst (g_IOCounters demo_gops (h_world blank_host))))) d' \<and>
    ds_mod d' = m' \<and> length (ds_done d') = 1"
proof -
  obtain es m' t where run: "run_state (GetDisk demo_gops (Module_New None)) blank_host = ((Inr es, m'), t)"
    by (simp add: GetDisk_def demo_gops_def run_on_world pseudoFS_def grown_def)
  obtain ps where ps: "g_Partitions demo_gops (h_world blank_host) = (Inr ps, h_world blank_host)"
    by (simp add: demo_gops_def)
  have "fst (g_IOCounters demo_gops (h_world blank_host)) =
      Some (the (fst (g_IOCounters demo_gops (h_world blank_host))))" by (simp add: demo_gops_def)
  then show ?thesis
    using GetDisk_refines_steps [OF run ps, where d = "disk_init (w_now (h_world blank_host))
      (the (fst (g_IOCounters demo_gops (h_world blank_host))))" and k = TelemetryLoop] run
    by (auto simp: disk_init_def)
qed

end
