(* ===== verification/CtlFormat.thy ===== *)
theory CtlFormat
  imports DispatchSecrets
begin

text \<open>
  The formatting helpers of the command line client: formatBytes and formatSeconds of cmd/ctl/main.go
  and the table, message and JSON printers of pkg/cmdutil/output.go, with the parts of fmt, time,
  text/tabwriter and encoding/json they use. A panic is the value None.
\<close>

section \<open>Numbers\<close>

text \<open>A quotient rounded to the nearest integer, ties to even.\<close>

definition round_even :: "nat \<Rightarrow> nat \<Rightarrow> nat" where
  "round_even n d = (let q = n div d; r = n mod d in if d < 2 * r \<or> 2 * r = d \<and> odd q then q + 1 else q)"

text \<open>\<open>float64(n)\<close> of an unsigned integer: 53 significant bits.\<close>

definition float64_of :: "nat \<Rightarrow> nat" where
  "float64_of n = (if n < 2 ^ 53 then n
     else let ulp = pow2_below n div 2 ^ 52 in round_even n ulp * ulp)"

text \<open>\<open>%.1f\<close> and \<open>%.2f\<close> of a quotient, by correct rounding of its exact value.\<close>

definition fixed1 :: "nat \<Rightarrow> nat \<Rightarrow> string" where
  "fixed1 n d = (let t = round_even (10 * n) d in nat_dec (t div 10) @ ''.'' @ nat_dec (t mod 10))"

definition fixed2 :: "nat \<Rightarrow> nat \<Rightarrow> string" where
  "fixed2 n d = (let t = round_even (100 * n) d in
     nat_dec (t div 100) @ ''.'' @ nat_dec (t div 10 mod 10) @ nat_dec (t mod 10))"

text \<open>Of a decoded float, which is finite.\<close>

definition flt_fixed :: "(nat \<Rightarrow> nat \<Rightarrow> string) \<Rightarrow> flt \<Rightarrow> string" where
  "flt_fixed f x = (case x of NonFin \<Rightarrow> ''NaN''
     | Fin q \<Rightarrow> (case quotient_of q of (n, d) \<Rightarrow>
         if n < 0 then ''-'' @ f (nat (- n)) (nat d) else f (nat n) (nat d)))"

text \<open>\<open>for n := b / unit; n >= unit; n /= unit\<close>\<close>

function scale_loop :: "u64 \<Rightarrow> u64 \<Rightarrow> nat \<Rightarrow> u64 \<times> nat" where
  "scale_loop n d e = (if 1024 \<le> n then scale_loop (n div 1024) (d * 1024) (e + 1) else (d, e))"
  by pat_completeness auto
termination
proof (relation "measure (\<lambda>(n, _, _). unat n)")
  fix n :: u64 and d :: u64 and e :: nat
  assume "1024 \<le> n"
  then have "1024 \<le> unat n" by (simp add: word_le_nat_alt)
  then show "((n div 1024, d * 1024, e + 1), n, d, e) \<in> measure (\<lambda>(n, _, _). unat n)"
    by (simp add: unat_div)
qed simp

declare scale_loop.simps [simp del]

definition formatBytes :: "u64 \<Rightarrow> string option" where
  "formatBytes b =
     (if b < 1024 then Some (nat_dec (unat b) @ '' B'')
      else (case scale_loop (b div 1024) 1024 0 of (d, e) \<Rightarrow>
        if e < length ''KMGTPE'' then Some (fixed1 (float64_of (unat b)) (unat d) @ '' '' @ [''KMGTPE'' ! e] @ ''B'')
        else None))"

text \<open>
  \<open>int(d.Hours())\<close> and \<open>int(d.Minutes())\<close>: whole units towards zero, plus one when the sum of the units
  and the fraction rounds up to the next integer as a \<open>float64\<close>.
\<close>

definition Duration_int :: "int \<Rightarrow> int \<Rightarrow> int" where
  "Duration_int unt d = sgn d * (let q = \<bar>d\<bar> div unt; n = \<bar>d\<bar> mod unt in
     if 1 \<le> q \<and> (unt - n) * 2 ^ 53 \<le> unt * int (pow2_below (nat q)) then q + 1 else q)"

text \<open>Go's quotient and remainder, towards zero.\<close>

definition quot :: "int \<Rightarrow> int \<Rightarrow> int" where
  "quot a b = sgn a * sgn b * (\<bar>a\<bar> div \<bar>b\<bar>)"

definition remd :: "int \<Rightarrow> int \<Rightarrow> int" where
  "remd a b = a - b * quot a b"

definition formatSeconds :: "int \<Rightarrow> string" where
  "formatSeconds s = (let d = wrap64 (s * second);
       days = quot (Duration_int (3600 * second) d) 24;
       hours = remd (Duration_int (3600 * second) d) 24;
       minutes = remd (Duration_int (60 * second) d) 60 in
     if 0 < days then int_dec days @ ''d '' @ int_dec hours @ ''h '' @ int_dec minutes @ ''m''
     else int_dec hours @ ''h '' @ int_dec minutes @ ''m'')"

section \<open>Printers\<close>

text \<open>
  The tabwriter (minimal width 0, padding 2, spaces): a cell followed by a tab belongs to a column,
  the cell that ends a line does not; a column is as wide as its widest cell in the run of
  consecutive lines that have it, plus the padding. Widths count runes. Cells hold no line or page
  breaks and no tabs.
\<close>

text \<open>\<open>utf8.RuneCountInString\<close>: every byte of an invalid sequence counts.\<close>

function rune_count :: "string \<Rightarrow> nat" where
  "rune_count [] = 0"
| "rune_count (c # s) = Suc (rune_count (drop (max 1 (utf8_size (c # s))) (c # s)))"
  by pat_completeness auto
termination
  by (relation "measure length") auto

definition column_width :: "string list list \<Rightarrow> nat \<Rightarrow> nat \<Rightarrow> nat" where
  "column_width ls i c = (let has = (\<lambda>l. c + 1 < length l) in
     Max (set (map (\<lambda>l. rune_count (l ! c) + 2) (takeWhile has (rev (take i ls)) @ takeWhile has (drop i ls)))))"

definition pad_cell :: "nat \<Rightarrow> string \<Rightarrow> string" where
  "pad_cell w s = s @ replicate (w - rune_count s) (CHR '' '')"

definition tab_line :: "string list list \<Rightarrow> nat \<Rightarrow> string" where
  "tab_line ls i = (let l = ls ! i in
     concat (map (\<lambda>c. if c + 1 < length l then pad_cell (column_width ls i c) (l ! c) else l ! c) [0 ..< length l]) @ [byte 10])"

definition tab_flush :: "string list list \<Rightarrow> string" where
  "tab_flush ls = concat (map (tab_line ls) [0 ..< length ls])"

text \<open>What the client writes.\<close>

record 'w cli =
  cl_sent :: "(string \<times> string \<times> (string \<times> string) list) list"
  cl_stdout :: string
  cl_stderr :: string
  cl_world :: 'w

type_synonym ('w, 'a) cli_op = "('w cli, 'a) state"

definition print_out :: "string \<Rightarrow> ('w, unit) cli_op" where
  "print_out s = State (\<lambda>c. ((), c\<lparr>cl_stdout := cl_stdout c @ s\<rparr>))"

definition PrintTable :: "string list \<Rightarrow> string list list \<Rightarrow> ('w, unit) cli_op" where
  "PrintTable headers rows = (let upperHeaders = map str_ToUpper headers;
       seps = map (\<lambda>h. replicate (length h) (CHR ''-'')) upperHeaders in
     print_out (tab_flush (upperHeaders # seps # rows)))"

definition PrintSuccess :: "string \<Rightarrow> ('w, unit) cli_op" where
  "PrintSuccess message = print_out ([byte 226, byte 156, byte 147] @ '' '' @ message @ [byte 10])"

definition PrintError :: "string \<Rightarrow> ('w, unit) cli_op" where
  "PrintError message = State (\<lambda>c. ((), c\<lparr>cl_stderr := cl_stderr c @ ''ERROR: '' @ message @ [byte 10]\<rparr>))"

text \<open>Strings without the escaping of HTML characters.\<close>

definition plain_esc_ascii :: "char \<Rightarrow> string" where
  "plain_esc_ascii c = (if c \<in> set ''<>&'' then [c] else json_esc_ascii c)"

function plain_esc :: "string \<Rightarrow> string" where
  "plain_esc [] = []"
| "plain_esc (c # s) =
     (if nb c < 128 then plain_esc_ascii c @ plain_esc s
      else let n = utf8_size (c # s) in
        if n = 0 then json_uesc 65533 @ plain_esc s
        else json_esc_multi (take n (c # s)) @ plain_esc (drop n (c # s)))"
  by pat_completeness auto
termination
  by (relation "measure length") auto

definition plain_quote :: "string \<Rightarrow> string" where
  "plain_quote s = CHR 0x22 # plain_esc s @ [CHR 0x22]"

definition newline_at :: "nat \<Rightarrow> string" where
  "newline_at n = byte 10 # concat (replicate n ''  '')"

fun json_indent :: "nat \<Rightarrow> json \<Rightarrow> string"
  and json_indent_elems :: "nat \<Rightarrow> json list \<Rightarrow> string"
  and json_indent_mems :: "nat \<Rightarrow> (string \<times> json) list \<Rightarrow> string" where
  "json_indent n JNull = ''null''"
| "json_indent n (JBool b) = (if b then ''true'' else ''false'')"
| "json_indent n (JNum x) = x"
| "json_indent n (JStr s) = plain_quote s"
| "json_indent n (JArr js) = (if js = [] then ''[]'' else ''['' @ json_indent_elems (n + 1) js @ newline_at n @ '']'')"
| "json_indent n (JObj ms) = (if ms = [] then [CHR 0x7B, CHR 0x7D]
     else CHR 0x7B # json_indent_mems (n + 1) ms @ newline_at n @ [CHR 0x7D])"
| "json_indent n (JRaw r) = r"
| "json_indent n JUnsup = []"
| "json_indent_elems n [] = []"
| "json_indent_elems n [j] = newline_at n @ json_indent n j"
| "json_indent_elems n (j # k # js) = newline_at n @ json_indent n j @ '','' @ json_indent_elems n (k # js)"
| "json_indent_mems n [] = []"
| "json_indent_mems n [(k, j)] = newline_at n @ plain_quote k @ '': '' @ json_indent n j"
| "json_indent_mems n ((k, j) # m # ms) =
     newline_at n @ plain_quote k @ '': '' @ json_indent n j @ '','' @ json_indent_mems n (m # ms)"

text \<open>The values printed hold no raw messages.\<close>

definition PrintJSON :: "json \<Rightarrow> ('w, unit) cli_op" where
  "PrintJSON v = (if json_encodable v then print_out (json_indent 0 v @ [byte 10])
     else PrintError ''JSON encoding error: json: unsupported value'')"

section \<open>Byte counts\<close>

text \<open>The loop keeps the divisor a power of 1024 that the count reaches, so neither it nor the index of
  the unit letter can overflow.\<close>

lemma scale_loop_spec:
  assumes "unat d = 1024 ^ (e + 1)" "unat n = B div 1024 ^ (e + 1)" "B < 2 ^ 64" "e \<le> 5" "0 < n"
  shows "\<exists>k. scale_loop n d e = (of_nat (1024 ^ (k + 1)), k) \<and> k \<le> 5 \<and> 1024 ^ (k + 1) \<le> B \<and> B < 1024 ^ (k + 2)"
  using assms
proof (induction n d e rule: scale_loop.induct)
  case (1 n d e)
  show ?case
  proof (cases "1024 \<le> n")
    case True
    then have n: "1024 \<le> B div 1024 ^ (e + 1)" using 1(3) by (simp add: word_le_nat_alt)
    then have B: "1024 ^ (e + 2) \<le> B" by (simp add: less_eq_div_iff_mult_less_eq mult.commute)
    have e: "e + 1 \<le> 5"
    proof (rule ccontr)
      assume "\<not> e + 1 \<le> 5"
      then have "e = 5" using 1(5) by simp
      with B 1(4) show False by simp
    qed
    then have "e \<in> {0, 1, 2, 3, 4}" by auto
    then have d: "unat (d * 1024) = 1024 ^ ((e + 1) + 1)" using 1(2) by (auto simp: unat_word_ariths)
    have n': "unat (n div 1024) = B div 1024 ^ ((e + 1) + 1)"
      using 1(3) by (simp only: unat_div power_add power_one_right div_mult2_eq) simp
    have "0 < n div 1024" using True by (simp add: word_less_nat_alt word_le_nat_alt unat_div)
    from 1(1) [OF True d n' 1(4) e this] True show ?thesis by (simp add: scale_loop.simps [of n d e])
  next
    case False
    then have "B div 1024 ^ (e + 1) < 1024" using 1(3) by (simp add: word_le_nat_alt)
    then have "B < 1024 ^ (e + 2)" by (simp add: div_less_iff_less_mult mult.commute)
    moreover have "1 \<le> B div 1024 ^ (e + 1)" using 1(3,6) by (simp add: word_less_nat_alt)
    then have "1024 ^ (e + 1) \<le> B" by (simp add: less_eq_div_iff_mult_less_eq)
    moreover have "of_nat (unat d) = d" by simp
    then have "d = of_nat (1024 ^ (e + 1))" by (simp only: 1(2))
    moreover have "scale_loop n d e = (d, e)" using False by (simp add: scale_loop.simps [of n d e])
    ultimately show ?thesis using 1(5) by (intro exI [of _ e]) simp
  qed
qed

text \<open>C38: formatBytes is total and picks the unit that fits: below 1024 it prints the count itself, and
  every larger 64-bit count is printed with one decimal in the largest unit not above it, so the index
  into the six unit letters never leaves the string.\<close>

theorem formatBytes_exact:
  "(unat b < 1024 \<longrightarrow> formatBytes b = Some (nat_dec (unat b) @ '' B'')) \<and>
   (1024 \<le> unat b \<longrightarrow> (\<exists>k \<le> 5. 1024 ^ (k + 1) \<le> unat b \<and> unat b < 1024 ^ (k + 2) \<and>
      formatBytes b = Some (fixed1 (float64_of (unat b)) (1024 ^ (k + 1)) @ '' '' @ [''KMGTPE'' ! k] @ ''B'')))"
proof (intro conjI impI)
  assume "unat b < 1024"
  then show "formatBytes b = Some (nat_dec (unat b) @ '' B'')" by (simp add: formatBytes_def word_less_nat_alt)
next
  assume b: "1024 \<le> unat b"
  then have "0 < b div 1024" by (simp add: word_less_nat_alt unat_div)
  moreover have "unat b < 2 ^ 64" using unsigned_less [of b] by simp
  ultimately obtain k where k: "scale_loop (b div 1024) 1024 0 = (of_nat (1024 ^ (k + 1)), k)" "k \<le> 5"
    "1024 ^ (k + 1) \<le> unat b" "unat b < 1024 ^ (k + 2)"
    using scale_loop_spec [of 1024 0 "b div 1024" "unat b"] by (auto simp: unat_div)
  have "unat (of_nat (1024 ^ (k + 1)) :: u64) = 1024 ^ (k + 1)"
  proof -
    from k(2) have "k \<in> {0, 1, 2, 3, 4, 5}" by auto
    then show ?thesis by auto
  qed
  with k b show "\<exists>k \<le> 5. 1024 ^ (k + 1) \<le> unat b \<and> unat b < 1024 ^ (k + 2) \<and>
      formatBytes b = Some (fixed1 (float64_of (unat b)) (1024 ^ (k + 1)) @ '' '' @ [''KMGTPE'' ! k] @ ''B'')"
    by (intro exI [of _ k]) (simp add: formatBytes_def word_less_nat_alt)
qed

theorem formatBytes_exact_witness:
  "formatBytes 512 = Some ''512 B'' \<and>
   (\<exists>k \<le> 5. 1024 ^ (k + 1) \<le> (1536 :: nat) \<and> 1536 < (1024 :: nat) ^ (k + 2) \<and>
      formatBytes 1536 = Some (fixed1 (float64_of 1536) (1024 ^ (k + 1)) @ '' '' @ [''KMGTPE'' ! k] @ ''B''))"
  using formatBytes_exact [of 512] formatBytes_exact [of 1536] by (simp add: nat_dec.simps digit_char_def)

section \<open>Durations\<close>

lemma Duration_int_whole:
  assumes "0 \<le> s" "0 < u" "s div u < 2 ^ 31" "u < 2 ^ 13"
  shows "Duration_int (u * second) (s * second) = s div u"
proof -
  have q: "s * second div (u * second) = s div u" "s * second mod (u * second) = s mod u * second"
    by (simp_all add: second_def mod_mult_mult2)
  have m: "s mod u < u" "0 \<le> s mod u" "0 \<le> s div u" using assms by (simp_all add: pos_imp_zdiv_nonneg_iff)
  have "int (pow2_below (nat (s div u))) < 2 ^ 31" if "1 \<le> s div u"
    using pow2_below_le [of "nat (s div u)"] assms(3) that by linarith
  then have "\<not> (u - s mod u) * 2 ^ 53 \<le> u * int (pow2_below (nat (s div u)))" if "1 \<le> s div u"
  proof -
    have "u * int (pow2_below (nat (s div u))) \<le> 2 ^ 13 * 2 ^ 31"
      using \<open>1 \<le> s div u \<Longrightarrow> _\<close> [OF that] assms(2,4) by (intro mult_mono) simp_all
    moreover have "1 * 2 ^ 53 \<le> (u - s mod u) * 2 ^ 53" using m by (intro mult_right_mono) simp_all
    ultimately show ?thesis by simp
  qed
  moreover have "(u * second - s mod u * second) * 2 ^ 53 = second * ((u - s mod u) * 2 ^ 53)"
    "u * second * p = second * (u * p)" for p by (simp_all only: left_diff_distrib right_diff_distrib mult.assoc mult.commute mult.left_commute)
  moreover have "0 < second" by (simp add: second_def)
  ultimately have "\<not> (1 \<le> s div u \<and> (u * second - s mod u * second) * 2 ^ 53 \<le> u * second * int (pow2_below (nat (s div u))))"
    by (metis mult_le_cancel_left_pos)
  then show ?thesis
    using assms(1) m(3) q by (cases "s = 0") (simp_all add: Duration_int_def Let_def abs_mult second_def)
qed

text \<open>formatSeconds prints the days, hours and minutes of every duration that fits 64-bit nanoseconds,
  with hours below 24 and minutes below 60 and the days left out when there are none; one second past
  that range the duration overflows and a negative time is printed.\<close>

theorem formatSeconds_exact:
  "(0 \<le> s \<and> s \<le> 9223372036 \<longrightarrow> formatSeconds s =
      (if 86400 \<le> s then int_dec (s div 86400) @ ''d '' else []) @ int_dec (s div 3600 mod 24) @ ''h '' @
      int_dec (s div 60 mod 60) @ ''m'') \<and>
   formatSeconds 9223372037 = ''-23h -47m''"
proof (intro conjI impI)
  assume s: "0 \<le> s \<and> s \<le> 9223372036"
  have w: "wrap64 (s * second) = s * second" using s by (intro wrap64_id) (simp add: in_i64_def second_def)
  have h: "Duration_int (3600 * second) (s * second) = s div 3600" using s by (intro Duration_int_whole) (simp_all, linarith)
  have m: "Duration_int (60 * second) (s * second) = s div 60" using s by (intro Duration_int_whole) (simp_all, linarith)
  have quot: "quot a b = a div b" "remd a b = a mod b" if "0 \<le> a" "0 < b" for a b
    using that by (cases "a = 0"; simp add: quot_def remd_def minus_mult_div_eq_mod)+
  have d: "s div 3600 div 24 = s div 86400" "0 \<le> s div 3600" "0 \<le> s div 60"
    using s by (simp_all add: pos_imp_zdiv_nonneg_iff)
  have days: "quot (s div 3600) 24 = s div 86400" and hours: "remd (s div 3600) 24 = s div 3600 mod 24"
    and minutes: "remd (s div 60) 60 = s div 60 mod 60" using quot d by simp_all
  have "0 < s div 86400 \<longleftrightarrow> 86400 \<le> s" by (simp add: pos_imp_zdiv_pos_iff)
  then show "formatSeconds s = (if 86400 \<le> s then int_dec (s div 86400) @ ''d '' else []) @
      int_dec (s div 3600 mod 24) @ ''h '' @ int_dec (s div 60 mod 60) @ ''m''"
    unfolding formatSeconds_def Let_def w h m days hours minutes by simp
next
  have w: "wrap64 (9223372037 * second) = - 9223372036709551616" by (simp add: wrap64_def second_def)
  have "int (pow2_below 2562047) \<le> 2562047" "int (pow2_below 153722867) \<le> 153722867"
    using pow2_below_le [of 2562047] pow2_below_le [of 153722867] by simp_all
  then have d: "Duration_int (3600 * second) (- 9223372036709551616) = - 2562047"
    "Duration_int (60 * second) (- 9223372036709551616) = - 153722867"
    by (simp_all add: Duration_int_def second_def)
  have q: "quot (- 2562047) 24 = - 106751" "remd (- 2562047) 24 = - 23" "remd (- 153722867) 60 = - 47"
    by (simp_all add: quot_def remd_def)
  show "formatSeconds 9223372037 = ''-23h -47m''"
    by (simp add: formatSeconds_def Let_def w d q int_dec_def nat_dec.simps digit_char_def)
qed

theorem formatSeconds_exact_witness: "formatSeconds 90061 = ''1d 1h 1m''"
  using formatSeconds_exact [of 90061] by (simp add: int_dec_def nat_dec.simps digit_char_def)

end
