(* ===== verification/JsonPretty.thy ===== *)
theory JsonPretty
  imports CtlFormat
begin

text \<open>
  The indented encoder of the command line client fits the scanner: a value printed by \<open>json_indent\<close>
  reads back as its own top level, with its parts printed one level further in.
\<close>

section \<open>Strings\<close>

lemma jstr_plain_esc_ascii:
  assumes "nb c < 128"
  shows "jstr (plain_esc_ascii c @ r) = prep [c] (jstr r)"
proof (cases "c \<in> set ''<>&''")
  case True
  then have c: "c \<noteq> CHR 0x22" "c \<noteq> CHR 0x5C" "32 \<le> nb c" by auto
  show ?thesis using True assms jstr_plain [OF c, of "[]" 1 r] by (simp add: plain_esc_ascii_def)
next
  case False
  with jstr_esc_ascii [OF assms] show ?thesis by (simp add: plain_esc_ascii_def)
qed

declare plain_esc.simps(2) [simp del]

lemma jstr_plain_esc: "jstr (plain_esc s @ CHR 0x22 # r) = Some (utf8_coerce s, r)"
proof (induction s rule: plain_esc.induct)
  case (2 c s)
  let ?n = "utf8_size (c # s)"
  consider (ascii) "nb c < 128" | (bad) "\<not> nb c < 128" "?n = 0" | (multi) "\<not> nb c < 128" "?n \<noteq> 0" by blast
  then show ?case
  proof cases
    case ascii
    with 2(1) show ?thesis by (simp add: plain_esc.simps(2) jstr_plain_esc_ascii)
  next
    case bad
    have "utf8_enc 65533 = utf8_fffd" by (simp add: utf8_enc_def utf8_fffd_def)
    with bad 2(2) show ?thesis
      by (simp add: plain_esc.simps(2) [of c s] utf8_coerce.simps(2) [of c s] jstr_uesc)
  next
    case multi
    with 2(3) have "jstr (plain_esc (drop ?n (c # s)) @ CHR 0x22 # r) = Some (utf8_coerce (drop ?n (c # s)), r)" by simp
    with multi show ?thesis
      by (simp add: plain_esc.simps(2) [of c s] utf8_coerce.simps(2) [of c s] Let_def jstr_esc_multi)
  qed
qed simp

lemma jstr_plain_quote: "plain_quote k @ r = CHR 0x22 # t \<Longrightarrow> jstr t = Some (utf8_coerce k, r)"
  using jstr_plain_esc [of k r] by (simp add: plain_quote_def)

section \<open>Values\<close>

definition blanks :: "nat \<Rightarrow> string" where
  "blanks n = concat (replicate n ''  '')"

lemma newline_at_blanks: "newline_at n = CHR 0x0A # blanks n"
  by (simp add: newline_at_def blanks_def char_of_def bit_0)

lemma skip_ws_blanks [simp]: "skip_ws (blanks n @ r) = skip_ws r"
proof (induction n)
  case (Suc n)
  then show ?case by (simp add: blanks_def skip_ws_def is_jws_def)
qed (simp add: blanks_def)

lemma skip_ws_newline [simp]: "skip_ws (newline_at n @ r) = skip_ws r" "skip_ws (CHR 0x0A # r) = skip_ws r"
proof -
  have nl: "skip_ws (CHR 0x0A # s) = skip_ws s" for s by (simp add: skip_ws_def is_jws_def char_of_def bit_0)
  show "skip_ws (CHR 0x0A # r) = skip_ws r" by (rule nl)
  show "skip_ws (newline_at n @ r) = skip_ws r" by (simp add: newline_at_blanks nl)
qed

lemma delim_newline [simp]: "delim (newline_at n @ r)"
  by (simp add: newline_at_blanks)

lemma plain_quote_head: "\<exists>t. plain_quote k = CHR 0x22 # t"
  by (simp add: plain_quote_def)

lemma skip_ws_plain_quote [simp]: "skip_ws (plain_quote k @ r) = plain_quote k @ r"
  by (simp add: plain_quote_def skip_ws_def is_jws_def char_of_def bit_0)

lemma skip_ws_colon_blank: "skip_ws (CHR '' '' # r) = skip_ws r"
  by (simp add: skip_ws_def is_jws_def)

lemma json_indent_head:
  assumes "json_plain j"
  obtains c t where "json_indent n j = c # t" "\<not> is_jws c" "c \<noteq> CHR '']''" "c \<noteq> CHR 0x7D"
proof (cases j)
  case (JNum m)
  with assms obtain c t where "m = c # t" "c = CHR ''-'' \<or> is_digit c"
    using jnum_head [of m m "[]"] by auto
  with JNum that [of c t] show ?thesis by (auto simp: is_jws_def is_digit_def char_of_def bit_0)
next
  case (JBool b)
  with that [of "hd (json_indent n j)" "tl (json_indent n j)"] show ?thesis
    by (cases b) (simp_all add: is_jws_def char_of_def bit_0)
next
  case (JArr js)
  with that [of "CHR ''[''"] show ?thesis by (cases "js = []") (auto simp: is_jws_def char_of_def bit_0)
next
  case (JObj ms)
  with that [of "CHR 0x7B"] show ?thesis by (cases "ms = []") (auto simp: is_jws_def char_of_def bit_0)
qed (use assms that in \<open>auto simp: plain_quote_def is_jws_def char_of_def bit_0\<close>)

lemma skip_ws_indent [simp]: "json_plain j \<Longrightarrow> skip_ws (json_indent n j @ r) = json_indent n j @ r"
  by (rule json_indent_head [of j n]) (simp_all add: skip_ws_def)

lemma json_indent_pos: "json_plain j \<Longrightarrow> 0 < length (json_indent n j)"
  by (rule json_indent_head [of j n]) simp_all

lemma skip_ws_Cons: "\<not> is_jws c \<Longrightarrow> skip_ws (c # t) = c # t"
  by (simp add: skip_ws_def)

lemma json_indent_elems_head:
  assumes "js \<noteq> []" "list_all json_plain js"
  shows "\<exists>c t. skip_ws (json_indent_elems n js @ r) = c # t \<and> c \<noteq> CHR '']''"
proof (cases js)
  case (Cons a as)
  with assms have "json_plain a" by simp
  then show ?thesis
    by (rule json_indent_head [of a n]) (cases as; simp add: Cons skip_ws_Cons)
qed (use assms in simp)

lemma json_indent_mems_head:
  assumes "ms \<noteq> []"
  shows "\<exists>c t. skip_ws (json_indent_mems n ms @ r) = c # t \<and> c \<noteq> CHR 0x7D"
  using assms plain_quote_head [of "fst (hd ms)"] by (cases ms; cases "hd ms"; cases "tl ms") auto

lemma jskip_indent_elem: "jskip k (json_indent n j @ r) = Some r \<Longrightarrow> json_plain j \<Longrightarrow>
    jelems (Suc k) (json_indent n j @ r) = (case skip_ws r of [] \<Rightarrow> None
     | c # u \<Rightarrow> if c = CHR '']'' then Some ([json_indent n j], u)
       else if c = CHR '','' then map_option (map_prod ((#) (json_indent n j)) id) (jelems k (skip_ws u)) else None)"
  by (simp split: list.split)

lemma jskip_indent_mem:
  assumes "jskip k (json_indent n j @ r) = Some r" "json_plain j"
  shows "jmems (Suc k) (plain_quote key @ '': '' @ json_indent n j @ r) = (case skip_ws r of [] \<Rightarrow> None
     | d # w \<Rightarrow> if d = CHR 0x7D then Some ([(utf8_coerce key, json_indent n j)], w)
       else if d = CHR '','' then map_option (map_prod ((#) (utf8_coerce key, json_indent n j)) id) (jmems k (skip_ws w)) else None)"
proof -
  obtain t where t: "plain_quote key @ '': '' @ json_indent n j @ r = CHR 0x22 # t"
    using plain_quote_head [of key] by auto
  have "jstr t = Some (utf8_coerce key, '': '' @ json_indent n j @ r)" using jstr_plain_quote [OF t] by simp
  with assms t show ?thesis by (simp add: skip_ws_colon_blank split: list.split)
qed

lemma jscan_json_indent:
  "json_plain j \<Longrightarrow> delim r \<Longrightarrow> 2 * length (json_indent n j @ r) + 1 \<le> f \<Longrightarrow> jskip f (json_indent n j @ r) = Some r"
  "js \<noteq> [] \<Longrightarrow> list_all json_plain js \<Longrightarrow> 2 * length (json_indent_elems n js @ newline_at m @ CHR '']'' # r) + 2 \<le> f \<Longrightarrow>
    jelems f (skip_ws (json_indent_elems n js @ newline_at m @ CHR '']'' # r)) = Some (map (json_indent n) js, r)"
  "ms \<noteq> [] \<Longrightarrow> list_all (\<lambda>(k, j). json_plain j) ms \<Longrightarrow>
    2 * length (json_indent_mems n ms @ newline_at m @ CHR 0x7D # r) + 2 \<le> f \<Longrightarrow>
    jmems f (skip_ws (json_indent_mems n ms @ newline_at m @ CHR 0x7D # r))
      = Some (map (\<lambda>(k, j). (utf8_coerce k, json_indent n j)) ms, r)"
proof (induction n j and n js and n ms arbitrary: r f and r f m and r f m
    rule: json_indent_json_indent_elems_json_indent_mems.induct)
  case 1 then show ?case by (cases f) (auto simp: str_HasPrefix_def)
next
  case (2 n b) then show ?case by (cases f) (auto simp: str_HasPrefix_def)
next
  case (3 n x) then show ?case by (cases f) (simp_all add: jskip_num del: jskip.simps)
next
  case (4 n s)
  then show ?case by (cases f) (simp_all add: plain_quote_def jstr_plain_esc)
next
  case (5 n js)
  then obtain k where f: "f = Suc k" by (cases f) auto
  show ?case
  proof (cases "js = []")
    case False
    let ?s = "json_indent_elems (n + 1) js @ newline_at n @ CHR '']'' # r"
    have "jelems k (skip_ws ?s) = Some (map (json_indent (n + 1)) js, r)"
      using 5 False f by simp
    moreover have "\<exists>c t. skip_ws ?s = c # t \<and> c \<noteq> CHR '']''"
      using False 5(2) by (intro json_indent_elems_head) simp_all
    ultimately show ?thesis using False f by auto
  qed (use f in simp)
next
  case (6 n ms)
  then obtain k where f: "f = Suc k" by (cases f) auto
  show ?case
  proof (cases "ms = []")
    case False
    let ?s = "json_indent_mems (n + 1) ms @ newline_at n @ CHR 0x7D # r"
    have "jmems k (skip_ws ?s) = Some (map (\<lambda>(k, j). (utf8_coerce k, json_indent (n + 1) j)) ms, r)"
      using 6 False f by simp
    moreover have "\<exists>c t. skip_ws ?s = c # t \<and> c \<noteq> CHR 0x7D" using False by (rule json_indent_mems_head)
    ultimately show ?thesis using False f by auto
  qed (use f in simp)
next
  case (10 n j)
  then obtain k where f: "f = Suc k" by (cases f) auto
  have "jskip k (json_indent n j @ newline_at m @ CHR '']'' # r) = Some (newline_at m @ CHR '']'' # r)"
    using 10 f json_indent_pos [of j n] by (intro 10(1)) simp_all
  from jskip_indent_elem [OF this] 10 f show ?case by simp
next
  case (11 n j j' js)
  then obtain k where f: "f = Suc k" by (cases f) auto
  let ?rest = "json_indent_elems n (j' # js) @ newline_at m @ CHR '']'' # r"
  have "jskip k (json_indent n j @ CHR '','' # ?rest) = Some (CHR '','' # ?rest)"
    using 11 f json_indent_pos [of j n] by (intro 11(1)) simp_all
  moreover have "jelems k (skip_ws ?rest) = Some (map (json_indent n) (j' # js), r)"
    using 11 f by (intro 11(2)) simp_all
  ultimately show ?case using jskip_indent_elem [of k n j "CHR '','' # ?rest"] 11 f by simp
next
  case (13 n key j)
  then obtain k where f: "f = Suc k" by (cases f) auto
  have "jskip k (json_indent n j @ newline_at m @ CHR 0x7D # r) = Some (newline_at m @ CHR 0x7D # r)"
    using 13 f json_indent_pos [of j n] by (intro 13(1)) simp_all
  from jskip_indent_mem [OF this] 13 f show ?case by simp
next
  case (14 n key j q ms)
  then obtain k where f: "f = Suc k" by (cases f) auto
  let ?rest = "json_indent_mems n (q # ms) @ newline_at m @ CHR 0x7D # r"
  have "jskip k (json_indent n j @ CHR '','' # ?rest) = Some (CHR '','' # ?rest)"
    using 14 f json_indent_pos [of j n] by (intro 14(1)) simp_all
  moreover have "jmems k (skip_ws ?rest) = Some (map (\<lambda>(k, j). (utf8_coerce k, json_indent n j)) (q # ms), r)"
    using 14 f by (intro 14(2)) simp_all
  ultimately show ?case using jskip_indent_mem [of k n j "CHR '','' # ?rest" key] 14 f by simp
qed auto

section \<open>The view of a printed value\<close>

fun indent_top :: "nat \<Rightarrow> json \<Rightarrow> jview" where
  "indent_top n JNull = VNull"
| "indent_top n (JBool b) = VBool b"
| "indent_top n (JNum x) = VNum x"
| "indent_top n (JStr s) = VStr (utf8_coerce s)"
| "indent_top n (JArr js) = VArr (map (json_indent (n + 1)) js)"
| "indent_top n (JObj ms) = VObj (map (\<lambda>(k, j). (utf8_coerce k, json_indent (n + 1) j)) ms)"
| "indent_top n (JRaw r) = VNull"
| "indent_top n JUnsup = VNull"

theorem json_view_indent:
  assumes "json_plain j" "delim r" "skip_ws r = []"
  shows "json_view (json_indent n j @ r) = Some (indent_top n j)"
proof (cases j)
  case (JNum m)
  with assms obtain c t where m: "m = c # t" "c = CHR ''-'' \<or> is_digit c"
    using jnum_head [of m m "[]"] by auto
  then have "c \<notin> {CHR 0x22, CHR ''['', CHR 0x7B, CHR ''n'', CHR ''t'', CHR ''f''}"
    by (auto simp: is_digit_def)
  with m JNum assms jnum_delim [of m m r] skip_ws_indent [OF assms(1), of n r] show ?thesis
    by (simp add: json_view_def str_HasPrefix_def at_end_def)
next
  case (JArr js)
  let ?f = "2 * length (json_indent n j @ r) + 2"
  show ?thesis
  proof (cases "js = []")
    case False
    let ?s = "json_indent_elems (n + 1) js @ newline_at n @ CHR '']'' # r"
    obtain c t where ct: "skip_ws ?s = c # t" "c \<noteq> CHR '']''" using json_indent_elems_head [of js "n + 1" "newline_at n @ CHR '']'' # r"] False JArr assms(1) by auto
    have "jelems ?f (skip_ws ?s) = Some (map (json_indent (n + 1)) js, r)"
      using JArr False assms(1) by (intro jscan_json_indent(2)) simp_all
    moreover have "json_indent n j @ r = CHR ''['' # ?s" "skip_ws (CHR ''['' # ?s) = CHR ''['' # ?s"
      using False JArr by (simp_all add: skip_ws_Cons is_jws_def char_of_def bit_0)
    ultimately show ?thesis using JArr by (simp only: json_view_def Let_def list.case ct) (simp add: ct at_end_def assms(3))
  qed (use JArr assms in \<open>simp add: json_view_def skip_ws_Cons is_jws_def char_of_def bit_0 at_end_def\<close>)
next
  case (JObj ms)
  let ?f = "2 * length (json_indent n j @ r) + 2"
  show ?thesis
  proof (cases "ms = []")
    case False
    let ?s = "json_indent_mems (n + 1) ms @ newline_at n @ CHR 0x7D # r"
    obtain c t where ct: "skip_ws ?s = c # t" "c \<noteq> CHR 0x7D" using json_indent_mems_head [OF False, of "n + 1" "newline_at n @ CHR 0x7D # r"] by blast
    have "jmems ?f (skip_ws ?s) = Some (map (\<lambda>(k, j). (utf8_coerce k, json_indent (n + 1) j)) ms, r)"
      using JObj False assms(1) by (intro jscan_json_indent(3)) simp_all
    moreover have "json_indent n j @ r = CHR 0x7B # ?s" "skip_ws (CHR 0x7B # ?s) = CHR 0x7B # ?s"
      using False JObj by (simp_all add: skip_ws_Cons is_jws_def char_of_def bit_0)
    ultimately show ?thesis using JObj by (simp only: json_view_def Let_def list.case ct) (simp add: ct at_end_def assms(3))
  qed (use JObj assms in \<open>simp add: json_view_def skip_ws_Cons is_jws_def char_of_def bit_0 at_end_def\<close>)
next
  case (JStr s)
  with skip_ws_indent [OF assms(1), of n r] assms(3) jstr_plain_esc [of s r] show ?thesis
    by (simp add: json_view_def plain_quote_def at_end_def)
qed (use assms skip_ws_indent [OF assms(1), of n r] in \<open>auto simp: json_view_def str_HasPrefix_def at_end_def\<close>)

end
