(* ===== verification/Ctl.thy ===== *)
theory Ctl
  imports CtlFormat
begin

text \<open>
  cmd/ctl/main.go: the requests of the command line client and what its commands print. The HTTP
  transport is a parameter; so are float parsing and rendering and the local time zone. Each command is
  the function its RunE calls.
\<close>

section \<open>Types\<close>

record apiError =
  ae_Code :: string
  ae_Message :: string

record apiResponse =
  ap_Success :: bool
  ap_Data :: string
  ap_Error :: "apiError option"

definition zero_apiError :: apiError where
  "zero_apiError = \<lparr>ae_Code = [], ae_Message = []\<rparr>"

definition zero_apiResponse :: apiResponse where
  "zero_apiResponse = \<lparr>ap_Success = False, ap_Data = [], ap_Error = None\<rparr>"

definition apiError_fields :: "apiError field_table" where
  "apiError_fields = [(''code'', dec_string (\<lambda>x s. s\<lparr>ae_Code := x\<rparr>)), (''message'', dec_string (\<lambda>x s. s\<lparr>ae_Message := x\<rparr>))]"

text \<open>A pointer to a struct: null is nil, anything else is decoded into what is there or a zero struct.\<close>

definition dec_pointer :: "'t field_table \<Rightarrow> 't \<Rightarrow> ('s \<Rightarrow> 't option) \<Rightarrow> ('t option \<Rightarrow> 's \<Rightarrow> 's) \<Rightarrow> string \<Rightarrow> 's \<Rightarrow> 's res" where
  "dec_pointer fs zero get upd raw s = (case json_view raw of
     Some VNull \<Rightarrow> Inr (upd None s)
   | _ \<Rightarrow> map_sum id (\<lambda>t. upd (Some t) s) (json_Unmarshal fs (case get s of None \<Rightarrow> zero | Some t \<Rightarrow> t) raw))"

definition apiResponse_fields :: "apiResponse field_table" where
  "apiResponse_fields = [(''success'', dec_bool (\<lambda>x s. s\<lparr>ap_Success := x\<rparr>)),
     (''data'', dec_raw (\<lambda>x s. s\<lparr>ap_Data := x\<rparr>)),
     (''error'', dec_pointer apiError_fields zero_apiError ap_Error (\<lambda>x s. s\<lparr>ap_Error := x\<rparr>))]"

text \<open>The global flags.\<close>

record flags =
  fl_baseURL :: string
  fl_apiKey :: string
  fl_outputFmt :: string

text \<open>The flags before the command line is parsed: environment variables replace the defaults.\<close>

definition default_flags :: "(string \<Rightarrow> string) \<Rightarrow> flags" where
  "default_flags getenv = \<lparr>
     fl_baseURL = (if getenv ''PLSCTL_URL'' \<noteq> [] then getenv ''PLSCTL_URL'' else ''http://localhost:8080''),
     fl_apiKey = (if getenv ''PLSCTL_API_KEY'' \<noteq> [] then getenv ''PLSCTL_API_KEY'' else []),
     fl_outputFmt = ''table''\<rparr>"

section \<open>Requests\<close>

record response =
  rs_StatusCode :: int
  rs_Body :: "string res"

record requestOptions =
  ro_method :: string

type_synonym requestOption = "requestOptions \<Rightarrow> requestOptions"

definition withMethod :: "string \<Rightarrow> requestOption" where
  "withMethod meth = (\<lambda>opts. opts\<lparr>ro_method := meth\<rparr>)"

definition request_options :: "requestOption list \<Rightarrow> requestOptions" where
  "request_options opts = foldl (\<lambda>opts opt. opt opts) \<lparr>ro_method = ''GET''\<rparr> opts"

text \<open>\<open>http.NewRequest\<close>, which refuses a malformed URL, and \<open>Client.Do\<close>.\<close>

record 'w http =
  ht_new :: "string \<Rightarrow> string \<Rightarrow> gerr option"
  ht_do :: "string \<Rightarrow> string \<Rightarrow> (string \<times> string) list \<Rightarrow> 'w \<Rightarrow> response res \<times> 'w"

definition request_headers :: "flags \<Rightarrow> (string \<times> string) list" where
  "request_headers fl = (if fl_apiKey fl \<noteq> [] then [(''Authorization'', ''Bearer '' @ fl_apiKey fl)] else [])"

definition request_url :: "flags \<Rightarrow> string \<Rightarrow> string" where
  "request_url fl path = str_TrimRight (fl_baseURL fl) (CHR ''/'') @ path"

definition http_Do :: "'w http \<Rightarrow> string \<Rightarrow> string \<Rightarrow> (string \<times> string) list \<Rightarrow> ('w, response res) cli_op" where
  "http_Do h meth url hs = State (\<lambda>c. case ht_do h meth url hs (cl_world c) of
     (r, w) \<Rightarrow> (r, c\<lparr>cl_sent := cl_sent c @ [(meth, url, hs)], cl_world := w\<rparr>))"

definition read_response :: "response \<Rightarrow> apiResponse res" where
  "read_response resp = (case rs_Body resp of
     Inl e \<Rightarrow> Inl (errorf_w ''reading response: '' e [])
   | Inr body \<Rightarrow> (case json_Unmarshal apiResponse_fields zero_apiResponse body of
       Inl e \<Rightarrow> Inl (errorf_w (''parsing response (status '' @ int_dec (rs_StatusCode resp) @ ''): '') e (byte 10 # body))
     | Inr ar \<Rightarrow> (case ap_Error ar of
         Some e \<Rightarrow> if \<not> ap_Success ar then Inl (errorf (''['' @ ae_Code e @ ''] '' @ ae_Message e)) else Inr ar
       | None \<Rightarrow> Inr ar)))"

definition doRequest :: "'w http \<Rightarrow> flags \<Rightarrow> requestOption list \<Rightarrow> string \<Rightarrow> ('w, apiResponse res) cli_op" where
  "doRequest h fl opts path = (let meth = ro_method (request_options opts); url = request_url fl path in
     case ht_new h meth url of
       Some e \<Rightarrow> State_Monad.return (Inl (errorf_w ''building request: '' e []))
     | None \<Rightarrow> do {
         r \<leftarrow> http_Do h meth url (request_headers fl);
         State_Monad.return (case r of
           Inl e \<Rightarrow> Inl (errorf_w (''connecting to agent at '' @ url @ '': '') e [])
         | Inr resp \<Rightarrow> read_response resp)
       })"

text \<open>\<open>fetchAndPrint[T]\<close>: \<open>unm\<close> decodes a \<open>T\<close>, \<open>enc\<close> is its JSON form, \<open>printer\<close> prints the table.\<close>

definition fetchAndPrint ::
    "'w http \<Rightarrow> flags \<Rightarrow> requestOption list \<Rightarrow> string \<Rightarrow> (string \<Rightarrow> 'a res) \<Rightarrow> ('a \<Rightarrow> json) \<Rightarrow> ('a \<Rightarrow> ('w, unit) cli_op) \<Rightarrow>
     ('w, gerr option) cli_op" where
  "fetchAndPrint h fl opts path unm enc printer = do {
     r \<leftarrow> doRequest h fl opts path;
     (case r of
       Inl e \<Rightarrow> do { PrintError (err_Error e); State_Monad.return (Some e) }
     | Inr ar \<Rightarrow> (case unm (ap_Data ar) of
         Inl e \<Rightarrow> State_Monad.return (Some (errorf_w ''parsing data: '' e []))
       | Inr v \<Rightarrow> do {
           (if fl_outputFmt fl = ''json'' then PrintJSON (enc v) else printer v);
           State_Monad.return None
         }))
   }"

section \<open>Decoding the answers\<close>

definition dec_u64 :: "(u64 \<Rightarrow> 's \<Rightarrow> 's) \<Rightarrow> string \<Rightarrow> 's \<Rightarrow> 's res" where
  "dec_u64 upd raw s = (case json_view raw of
     Some VNull \<Rightarrow> Inr s
   | Some (VNum n) \<Rightarrow> if list_all is_digit n \<and> parse_nat n < 2 ^ 64 then Inr (upd (of_nat (parse_nat n)) s)
       else Inl (json_type_err ''uint64'')
   | _ \<Rightarrow> Inl (json_type_err ''uint64''))"

definition dec_u32 :: "(32 word \<Rightarrow> 's \<Rightarrow> 's) \<Rightarrow> string \<Rightarrow> 's \<Rightarrow> 's res" where
  "dec_u32 upd raw s = (case json_view raw of
     Some VNull \<Rightarrow> Inr s
   | Some (VNum n) \<Rightarrow> if list_all is_digit n \<and> parse_nat n < 2 ^ 32 then Inr (upd (of_nat (parse_nat n)) s)
       else Inl (json_type_err ''uint32'')
   | _ \<Rightarrow> Inl (json_type_err ''uint32''))"

text \<open>\<open>pf\<close> is \<open>strconv.ParseFloat\<close>, None when the number is out of range.\<close>

definition dec_flt :: "(string \<Rightarrow> rat option) \<Rightarrow> (flt \<Rightarrow> 's \<Rightarrow> 's) \<Rightarrow> string \<Rightarrow> 's \<Rightarrow> 's res" where
  "dec_flt pf upd raw s = (case json_view raw of
     Some VNull \<Rightarrow> Inr s
   | Some (VNum n) \<Rightarrow> (case pf n of Some q \<Rightarrow> Inr (upd (Fin q) s) | None \<Rightarrow> Inl (json_type_err ''float64''))
   | _ \<Rightarrow> Inl (json_type_err ''float64''))"

text \<open>An array of three floats: missing elements are zero, further ones are skipped.\<close>

definition dec_flt_at :: "(string \<Rightarrow> rat option) \<Rightarrow> string list \<Rightarrow> nat \<Rightarrow> flt \<Rightarrow> flt res" where
  "dec_flt_at pf rs i old = (if i < length rs then dec_flt pf (\<lambda>x _. x) (rs ! i) old else Inr (Fin 0))"

definition dec_load_avg :: "(string \<Rightarrow> rat option) \<Rightarrow> string \<Rightarrow> CPUStats \<Rightarrow> CPUStats res" where
  "dec_load_avg pf raw s = (case json_view raw of
     Some VNull \<Rightarrow> Inr s
   | Some (VArr rs) \<Rightarrow> (case cs_LoadAvg s of (a, b, c) \<Rightarrow>
       (case dec_flt_at pf rs 0 a of Inl e \<Rightarrow> Inl e | Inr a' \<Rightarrow>
       (case dec_flt_at pf rs 1 b of Inl e \<Rightarrow> Inl e | Inr b' \<Rightarrow>
       (case dec_flt_at pf rs 2 c of Inl e \<Rightarrow> Inl e | Inr c' \<Rightarrow> Inr (s\<lparr>cs_LoadAvg := (a', b', c')\<rparr>)))))
   | _ \<Rightarrow> Inl (json_type_err ''[3]float64''))"

definition zero_SystemInfo :: SystemInfo where
  "zero_SystemInfo = \<lparr>si_Hostname = [], si_OS = [], si_KernelVersion = [], si_Architecture = [], si_Uptime = 0,
     si_BootTime = 0, si_VMID = [], si_TenantID = []\<rparr>"

definition SystemInfo_fields :: "SystemInfo field_table" where
  "SystemInfo_fields = [(''hostname'', dec_string (\<lambda>x s. s\<lparr>si_Hostname := x\<rparr>)), (''os'', dec_string (\<lambda>x s. s\<lparr>si_OS := x\<rparr>)),
     (''kernel_version'', dec_string (\<lambda>x s. s\<lparr>si_KernelVersion := x\<rparr>)),
     (''architecture'', dec_string (\<lambda>x s. s\<lparr>si_Architecture := x\<rparr>)), (''uptime'', dec_int (\<lambda>x s. s\<lparr>si_Uptime := x\<rparr>)),
     (''boot_time'', dec_int (\<lambda>x s. s\<lparr>si_BootTime := x\<rparr>)), (''vm_id'', dec_string (\<lambda>x s. s\<lparr>si_VMID := x\<rparr>)),
     (''tenant_id'', dec_string (\<lambda>x s. s\<lparr>si_TenantID := x\<rparr>))]"

definition CoreStat_fields :: "(string \<Rightarrow> rat option) \<Rightarrow> CoreStat field_table" where
  "CoreStat_fields pf = [(''id'', dec_int (\<lambda>x s. s\<lparr>co_ID := x\<rparr>)), (''usage_pct'', dec_flt pf (\<lambda>x s. s\<lparr>co_UsagePct := x\<rparr>))]"

definition zero_CPUStats :: CPUStats where
  "zero_CPUStats = \<lparr>cs_UsagePct = Fin 0, cs_CoreCount = 0, cs_LoadAvg = (Fin 0, Fin 0, Fin 0), cs_Cores = []\<rparr>"

definition CPUStats_fields :: "(string \<Rightarrow> rat option) \<Rightarrow> CPUStats field_table" where
  "CPUStats_fields pf = [(''usage_pct'', dec_flt pf (\<lambda>x s. s\<lparr>cs_UsagePct := x\<rparr>)),
     (''core_count'', dec_int (\<lambda>x s. s\<lparr>cs_CoreCount := x\<rparr>)), (''load_avg'', dec_load_avg pf),
     (''cores'', dec_list (json_Unmarshal (CoreStat_fields pf) \<lparr>co_ID = 0, co_UsagePct = Fin 0\<rparr>) (\<lambda>x s. s\<lparr>cs_Cores := x\<rparr>))]"

definition zero_MemoryStats :: MemoryStats where
  "zero_MemoryStats = \<lparr>ms_TotalBytes = 0, ms_UsedBytes = 0, ms_UsagePct = Fin 0\<rparr>"

definition MemoryStats_fields :: "(string \<Rightarrow> rat option) \<Rightarrow> MemoryStats field_table" where
  "MemoryStats_fields pf = [(''total_bytes'', dec_u64 (\<lambda>x s. s\<lparr>ms_TotalBytes := x\<rparr>)),
     (''used_bytes'', dec_u64 (\<lambda>x s. s\<lparr>ms_UsedBytes := x\<rparr>)), (''usage_pct'', dec_flt pf (\<lambda>x s. s\<lparr>ms_UsagePct := x\<rparr>))]"

definition DiskIO_fields :: "(string \<Rightarrow> rat option) \<Rightarrow> DiskIO field_table" where
  "DiskIO_fields pf = [(''read_bytes_per_s'', dec_flt pf (\<lambda>x s. s\<lparr>io_ReadBytesPerS := x\<rparr>)),
     (''write_bytes_per_s'', dec_flt pf (\<lambda>x s. s\<lparr>io_WriteBytesPerS := x\<rparr>)), (''read_iops'', dec_flt pf (\<lambda>x s. s\<lparr>io_ReadIOPS := x\<rparr>)),
     (''write_iops'', dec_flt pf (\<lambda>x s. s\<lparr>io_WriteIOPS := x\<rparr>)), (''util_pct'', dec_flt pf (\<lambda>x s. s\<lparr>io_UtilPct := x\<rparr>))]"

definition zero_DiskIO :: DiskIO where
  "zero_DiskIO = \<lparr>io_ReadBytesPerS = Fin 0, io_WriteBytesPerS = Fin 0, io_ReadIOPS = Fin 0, io_WriteIOPS = Fin 0, io_UtilPct = Fin 0\<rparr>"

definition DiskEntry_fields :: "(string \<Rightarrow> rat option) \<Rightarrow> DiskEntry field_table" where
  "DiskEntry_fields pf = [(''device'', dec_string (\<lambda>x s. s\<lparr>de_Device := x\<rparr>)),
     (''mountpoint'', dec_string (\<lambda>x s. s\<lparr>de_Mountpoint := x\<rparr>)), (''total_bytes'', dec_u64 (\<lambda>x s. s\<lparr>de_TotalBytes := x\<rparr>)),
     (''used_bytes'', dec_u64 (\<lambda>x s. s\<lparr>de_UsedBytes := x\<rparr>)), (''usage_pct'', dec_flt pf (\<lambda>x s. s\<lparr>de_UsagePct := x\<rparr>)),
     (''io'', dec_pointer (DiskIO_fields pf) zero_DiskIO de_IO (\<lambda>x s. s\<lparr>de_IO := x\<rparr>))]"

definition zero_DiskEntry :: DiskEntry where
  "zero_DiskEntry = \<lparr>de_Device = [], de_Mountpoint = [], de_TotalBytes = 0, de_UsedBytes = 0, de_UsagePct = Fin 0, de_IO = None\<rparr>"

definition NetworkEntry_fields :: "NetworkEntry field_table" where
  "NetworkEntry_fields = [(''interface'', dec_string (\<lambda>x s. s\<lparr>ne_Interface := x\<rparr>)),
     (''bytes_sent'', dec_u64 (\<lambda>x s. s\<lparr>ne_BytesSent := x\<rparr>)), (''bytes_recv'', dec_u64 (\<lambda>x s. s\<lparr>ne_BytesRecv := x\<rparr>)),
     (''is_up'', dec_bool (\<lambda>x s. s\<lparr>ne_IsUp := x\<rparr>))]"

definition zero_NetworkEntry :: NetworkEntry where
  "zero_NetworkEntry = \<lparr>ne_Interface = [], ne_BytesSent = 0, ne_BytesRecv = 0, ne_IsUp = False\<rparr>"

text \<open>\<open>json.Unmarshal\<close> into a slice; null is nil.\<close>

definition unmarshal_slice :: "(string \<Rightarrow> 'a res) \<Rightarrow> string \<Rightarrow> 'a list option res" where
  "unmarshal_slice f raw = (case json_view raw of
     None \<Rightarrow> Inl json_syntax_err
   | Some VNull \<Rightarrow> Inr None
   | Some (VArr rs) \<Rightarrow> map_sum id Some (dec_each f rs)
   | Some _ \<Rightarrow> Inl (json_type_err ''slice''))"

definition dec_slice :: "(string \<Rightarrow> 'a res) \<Rightarrow> ('a list option \<Rightarrow> 's \<Rightarrow> 's) \<Rightarrow> string \<Rightarrow> 's \<Rightarrow> 's res" where
  "dec_slice f upd raw s = map_sum id (\<lambda>xs. upd xs s) (unmarshal_slice f raw)"

definition SystemMetrics_fields :: "(string \<Rightarrow> rat option) \<Rightarrow> SystemMetrics field_table" where
  "SystemMetrics_fields pf = [(''cpu'', dec_struct (CPUStats_fields pf) sm_CPU (\<lambda>x s. s\<lparr>sm_CPU := x\<rparr>)),
     (''memory'', dec_struct (MemoryStats_fields pf) sm_Memory (\<lambda>x s. s\<lparr>sm_Memory := x\<rparr>)),
     (''disks'', dec_slice (json_Unmarshal (DiskEntry_fields pf) zero_DiskEntry) (\<lambda>x s. s\<lparr>sm_Disks := x\<rparr>)),
     (''network'', dec_slice (json_Unmarshal NetworkEntry_fields zero_NetworkEntry) (\<lambda>x s. s\<lparr>sm_Network := x\<rparr>))]"

definition zero_SystemMetrics :: SystemMetrics where
  "zero_SystemMetrics = \<lparr>sm_CPU = zero_CPUStats, sm_Memory = zero_MemoryStats, sm_Disks = None, sm_Network = None\<rparr>"

text \<open>
  The service types as a client receives them: their state and action are Go strings, so they may be
  other than the constants the agent sends.
\<close>

record serviceReply =
  sy_Name :: string
  sy_Description :: string
  sy_State :: string
  sy_SubState :: string
  sy_Enabled :: bool
  sy_PID :: "32 word"
  sy_Since :: int

definition serviceReply_fields :: "serviceReply field_table" where
  "serviceReply_fields = [(''name'', dec_string (\<lambda>x s. s\<lparr>sy_Name := x\<rparr>)), (''description'', dec_string (\<lambda>x s. s\<lparr>sy_Description := x\<rparr>)),
     (''state'', dec_string (\<lambda>x s. s\<lparr>sy_State := x\<rparr>)), (''sub_state'', dec_string (\<lambda>x s. s\<lparr>sy_SubState := x\<rparr>)),
     (''enabled'', dec_bool (\<lambda>x s. s\<lparr>sy_Enabled := x\<rparr>)), (''pid'', dec_u32 (\<lambda>x s. s\<lparr>sy_PID := x\<rparr>)),
     (''since'', dec_int (\<lambda>x s. s\<lparr>sy_Since := x\<rparr>))]"

definition serviceReply_json :: "serviceReply \<Rightarrow> json" where
  "serviceReply_json i = JObj ([(''name'', JStr (sy_Name i)), (''description'', JStr (sy_Description i)),
     (''state'', JStr (sy_State i)), (''sub_state'', JStr (sy_SubState i)), (''enabled'', JBool (sy_Enabled i))] @
     (if sy_PID i = 0 then [] else [(''pid'', JNum (nat_dec (unat (sy_PID i))))]) @ omit_int ''since'' (sy_Since i))"

definition zero_serviceReply :: serviceReply where
  "zero_serviceReply = \<lparr>sy_Name = [], sy_Description = [], sy_State = [], sy_SubState = [], sy_Enabled = False, sy_PID = 0, sy_Since = 0\<rparr>"

record actionReply =
  ay_Service :: string
  ay_Action :: string
  ay_Success :: bool
  ay_Message :: string

definition actionReply_fields :: "actionReply field_table" where
  "actionReply_fields = [(''service'', dec_string (\<lambda>x s. s\<lparr>ay_Service := x\<rparr>)), (''action'', dec_string (\<lambda>x s. s\<lparr>ay_Action := x\<rparr>)),
     (''success'', dec_bool (\<lambda>x s. s\<lparr>ay_Success := x\<rparr>)), (''message'', dec_string (\<lambda>x s. s\<lparr>ay_Message := x\<rparr>))]"

definition actionReply_json :: "actionReply \<Rightarrow> json" where
  "actionReply_json r = JObj [(''service'', JStr (ay_Service r)), (''action'', JStr (ay_Action r)),
     (''success'', JBool (ay_Success r)), (''message'', JStr (ay_Message r))]"

definition zero_actionReply :: actionReply where
  "zero_actionReply = \<lparr>ay_Service = [], ay_Action = [], ay_Success = False, ay_Message = []\<rparr>"

section \<open>Commands\<close>

definition field_headers :: "string list" where
  "field_headers = [''Field'', ''Value'']"

definition yes_no :: "bool \<Rightarrow> string" where
  "yes_no b = (if b then ''yes'' else ''no'')"

text \<open>The text of a byte count; formatBytes never panics.\<close>

abbreviation bytes_cell :: "u64 \<Rightarrow> string" where
  "bytes_cell b \<equiv> the (formatBytes b)"

definition pct_cell :: "flt \<Rightarrow> string" where
  "pct_cell x = flt_fixed fixed1 x @ ''%''"

definition printCPU :: "CPUStats \<Rightarrow> ('w, unit) cli_op" where
  "printCPU v = (case cs_LoadAvg v of (a, b, c) \<Rightarrow> PrintTable field_headers
     [[''Core Count'', int_dec (cs_CoreCount v)], [''Usage'', pct_cell (cs_UsagePct v)],
      [''Load Avg 1m'', flt_fixed fixed2 a], [''Load Avg 5m'', flt_fixed fixed2 b], [''Load Avg 15m'', flt_fixed fixed2 c]])"

definition printMemory :: "MemoryStats \<Rightarrow> ('w, unit) cli_op" where
  "printMemory v = PrintTable field_headers
     [[''Total RAM'', bytes_cell (ms_TotalBytes v)], [''Used RAM'', bytes_cell (ms_UsedBytes v)],
      [''RAM Usage'', pct_cell (ms_UsagePct v)]]"

text \<open>\<open>tz\<close> is \<open>time.Unix(t, 0).Format(time.RFC3339)\<close> in the local zone.\<close>

definition system_info_table :: "(int \<Rightarrow> string) \<Rightarrow> SystemInfo \<Rightarrow> ('w, unit) cli_op" where
  "system_info_table tz v = PrintTable field_headers
     [[''Hostname'', si_Hostname v], [''OS'', si_OS v], [''Kernel'', si_KernelVersion v], [''Architecture'', si_Architecture v],
      [''Uptime'', formatSeconds (si_Uptime v)], [''Boot Time'', tz (si_BootTime v)], [''VM ID'', si_VMID v],
      [''Tenant ID'', si_TenantID v]]"

definition rows_of :: "('a \<Rightarrow> string list) \<Rightarrow> 'a list option \<Rightarrow> string list list" where
  "rows_of f v = map f (case v of None \<Rightarrow> [] | Some xs \<Rightarrow> xs)"

definition disk_table :: "DiskEntry list option \<Rightarrow> ('w, unit) cli_op" where
  "disk_table v = PrintTable [''Device'', ''Mountpoint'', ''Total'', ''Used'', ''Use%'']
     (rows_of (\<lambda>p. [de_Device p, de_Mountpoint p, bytes_cell (de_TotalBytes p), bytes_cell (de_UsedBytes p), pct_cell (de_UsagePct p)]) v)"

definition network_table :: "NetworkEntry list option \<Rightarrow> ('w, unit) cli_op" where
  "network_table v = PrintTable [''Interface'', ''Bytes Recv'', ''Bytes Sent'', ''Up'']
     (rows_of (\<lambda>n. [ne_Interface n, bytes_cell (ne_BytesRecv n), bytes_cell (ne_BytesSent n), yes_no (ne_IsUp n)]) v)"

definition service_list_table :: "serviceReply list option \<Rightarrow> ('w, unit) cli_op" where
  "service_list_table v = PrintTable [''Name'', ''State'', ''SubState'', ''Enabled'', ''PID'']
     (rows_of (\<lambda>s. [sy_Name s, sy_State s, sy_SubState s, yes_no (sy_Enabled s), nat_dec (unat (sy_PID s))]) v)"

definition service_table :: "serviceReply \<Rightarrow> ('w, unit) cli_op" where
  "service_table v = PrintTable field_headers
     [[''Name'', sy_Name v], [''Description'', sy_Description v], [''State'', sy_State v], [''Sub-State'', sy_SubState v],
      [''Enabled'', yes_no (sy_Enabled v)], [''PID'', nat_dec (unat (sy_PID v))]]"

definition action_printer :: "actionReply \<Rightarrow> ('w, unit) cli_op" where
  "action_printer v = (if ay_Success v then PrintSuccess (ay_Message v) else PrintError (ay_Message v))"

definition buildSystemCmd ::
    "'w http \<Rightarrow> flags \<Rightarrow> (string \<Rightarrow> rat option) \<Rightarrow> (rat \<Rightarrow> string) \<Rightarrow> (int \<Rightarrow> string) \<Rightarrow> string \<Rightarrow> ('w, gerr option) cli_op option" where
  "buildSystemCmd h fl pf ff tz cmd =
    (if cmd = ''info'' then Some (fetchAndPrint h fl [] ''/api/v1/system/info''
       (json_Unmarshal SystemInfo_fields zero_SystemInfo) SystemInfo_json (system_info_table tz))
     else if cmd = ''metrics'' then Some (fetchAndPrint h fl [] ''/api/v1/system/metrics''
       (json_Unmarshal (SystemMetrics_fields pf) zero_SystemMetrics) (SystemMetrics_json ff)
       (\<lambda>v. do { printCPU (sm_CPU v); printMemory (sm_Memory v) }))
     else if cmd = ''cpu'' then Some (fetchAndPrint h fl [] ''/api/v1/system/cpu''
       (json_Unmarshal (CPUStats_fields pf) zero_CPUStats) (CPUStats_json ff) printCPU)
     else if cmd = ''memory'' then Some (fetchAndPrint h fl [] ''/api/v1/system/memory''
       (json_Unmarshal (MemoryStats_fields pf) zero_MemoryStats) (MemoryStats_json ff) printMemory)
     else if cmd = ''disk'' then Some (fetchAndPrint h fl [] ''/api/v1/system/disk''
       (unmarshal_slice (json_Unmarshal (DiskEntry_fields pf) zero_DiskEntry)) (slice_json (DiskEntry_json ff)) disk_table)
     else if cmd = ''network'' then Some (fetchAndPrint h fl [] ''/api/v1/system/network''
       (unmarshal_slice (json_Unmarshal NetworkEntry_fields zero_NetworkEntry)) (slice_json NetworkEntry_json) network_table)
     else None)"

definition buildServiceActionCmd :: "'w http \<Rightarrow> flags \<Rightarrow> string \<Rightarrow> string \<Rightarrow> ('w, gerr option) cli_op" where
  "buildServiceActionCmd h fl action name = fetchAndPrint h fl [withMethod ''POST''] (''/api/v1/services/'' @ name @ ''/'' @ action)
     (json_Unmarshal actionReply_fields zero_actionReply) actionReply_json action_printer"

definition service_actions :: "string list" where
  "service_actions = [''start'', ''stop'', ''restart'', ''reload'', ''enable'', ''disable'']"

text \<open>The subcommand and its arguments; list takes none, the others a service name.\<close>

definition buildServiceCmd :: "'w http \<Rightarrow> flags \<Rightarrow> string \<Rightarrow> string list \<Rightarrow> ('w, gerr option) cli_op option" where
  "buildServiceCmd h fl cmd args =
     (if cmd = ''list'' then Some (fetchAndPrint h fl [] ''/api/v1/services''
        (unmarshal_slice (json_Unmarshal serviceReply_fields zero_serviceReply)) (slice_json serviceReply_json) service_list_table)
      else (case args of
        [name] \<Rightarrow>
          if cmd = ''get'' then Some (fetchAndPrint h fl [] (''/api/v1/services/'' @ name)
            (json_Unmarshal serviceReply_fields zero_serviceReply) serviceReply_json service_table)
          else if cmd \<in> set service_actions then Some (buildServiceActionCmd h fl cmd name)
          else None
      | _ \<Rightarrow> None))"

section \<open>What a service command shows\<close>

text \<open>The agent's answer to a service action, in the response envelope.\<close>

definition action_body :: "ActionResult \<Rightarrow> string" where
  "action_body r = json_enc (JObj [(''success'', JBool True), (''data'', ActionResult_json r)])"

lemma read_action_body:
  assumes "rs_Body resp = Inr (action_body r)"
  shows "read_response resp = Inr \<lparr>ap_Success = True, ap_Data = json_enc (ActionResult_json r), ap_Error = None\<rparr>"
proof -
  have plain: "json_plain (JObj [(''success'', JBool True), (''data'', ActionResult_json r)])"
    by (simp add: ActionResult_json_def)
  show ?thesis
    unfolding read_response_def assms action_body_def sum.case json_Unmarshal_enc [OF plain]
    by (simp add: apiResponse_fields_def zero_apiResponse_def go_json dec_raw_def ActionResult_json_def del: json_enc.simps)
qed

lemma decode_action:
  assumes "wf_text (ar_Service r)" "wf_text (ar_Message r)"
  shows "json_Unmarshal actionReply_fields zero_actionReply (json_enc (ActionResult_json r)) =
    Inr \<lparr>ay_Service = ar_Service r, ay_Action = action_str (ar_Action r), ay_Success = ar_Success r, ay_Message = ar_Message r\<rparr>"
proof -
  obtain ms where ms: "ActionResult_json r = JObj ms" by (simp add: ActionResult_json_def)
  have plain: "json_plain (JObj ms)" using ms by (auto simp: ActionResult_json_def)
  have "wf_text (action_str (ar_Action r))" by (cases "ar_Action r") (simp_all add: ascii_def)
  then show ?thesis
    unfolding ms json_Unmarshal_enc [OF plain] using assms ms
    by (auto simp: ActionResult_json_def actionReply_fields_def zero_actionReply_def go_json wf_text_def simp del: json_enc.simps)
qed


definition missing_unit :: ActionResult where
  "missing_unit = \<lparr>ar_Service = ''nginx'', ar_Action = ActionStart, ar_Success = False, ar_Message = ''no such unit''\<rparr>"

definition echo_http :: "unit http" where
  "echo_http = \<lparr>ht_new = (\<lambda>_ _. None),
     ht_do = (\<lambda>_ _ _ w. (Inr \<lparr>rs_StatusCode = 200, rs_Body = Inr (action_body missing_unit)\<rparr>, w))\<rparr>"

definition blank_cli :: "unit cli" where
  "blank_cli = \<lparr>cl_sent = [], cl_stdout = [], cl_stderr = [], cl_world = ()\<rparr>"


end
