(* ===== verification/CtlRaw.thy ===== *)
theory CtlRaw
  imports JsonPretty Ctl "HOL-Library.List_Lexorder" "HOL-Library.Char_ord"
begin

text \<open>
  The raw commands of the command line client: fetchRawAndPrint of cmd/ctl/main.go, which decodes the
  answer into an untyped value and prints it indented, the metadata and agent commands built on it, and
  the command tree. Rendering a number through \<open>float64\<close> is a parameter.
\<close>

section \<open>Decoded strings are valid\<close>

lemma utf8_coerce_piece:
  assumes "utf8_size p = length p" "p \<noteq> []"
  shows "utf8_coerce (p @ y) = p @ utf8_coerce y"
proof -
  have "utf8_size (p @ y) = length p" using utf8_size_take [of p "length p" y] assms by simp
  with assms(2) show ?thesis by (cases p) (simp_all add: utf8_coerce.simps(2))
qed

lemma utf8_size_enc: "utf8_size (utf8_enc n) = length (utf8_enc n)"
proof -
  consider (a) "n < 128" | (b) "\<not> n < 128" "n < 2048" | (s) "55296 \<le> n \<and> n \<le> 57343 \<or> 1114111 < n"
    | (c) "\<not> n < 2048" "n < 65536" "\<not> (55296 \<le> n \<and> n \<le> 57343)" | (d) "\<not> n < 65536" "n \<le> 1114111" by linarith
  then show ?thesis
  proof cases
    case a then show ?thesis by (simp add: utf8_enc_def)
  next
    case b
    have "2 \<le> n div 64" "n div 64 \<le> 31" "n mod 64 \<le> 63"
      using b div_le_mono [of 128 n 64] div_le_mono [of n 2047 64] by simp_all
    with b show ?thesis by (simp add: utf8_enc_def utf8_size_def u8_ok2_def u8_cont_def)
  next
    case s
    then have "\<not> n < 2048" "\<not> n < 128" by auto
    with s show ?thesis by (simp add: utf8_enc_def utf8_fffd_def utf8_size_def u8_ok2_def u8_ok3_def u8_cont_def)
  next
    case c
    have hi: "n div 4096 \<le> 15" "n div 64 mod 64 \<le> 63" "n mod 64 \<le> 63"
      using c(2) div_le_mono [of n 65535 4096] by simp_all
    have split: "n div 64 = n div 4096 * 64 + n div 64 mod 64"
      using div_mult_mod_eq [of "n div 64" 64] by (simp add: div_mult2_eq [symmetric])
    have "32 \<le> n div 64" using c(1) div_le_mono [of 2048 n 64] by simp
    then have lo: "32 \<le> n div 64 mod 64" if "n div 4096 = 0" using split that by simp
    have "n div 64 \<le> 863 \<or> 896 \<le> n div 64"
      using c(3) div_le_mono [of n 55295 64] div_le_mono [of 57344 n 64] by auto
    then have "n div 64 mod 64 \<le> 31" if "n div 4096 = 13" using split that hi(2) by linarith
    with c hi lo show ?thesis by (auto simp: utf8_enc_def utf8_size_def u8_ok2_def u8_ok3_def u8_cont_def)
  next
    case d
    have hi: "n div 262144 \<le> 4" "n mod 64 \<le> 63" "n div 64 mod 64 \<le> 63" "n div 4096 mod 64 \<le> 63"
      using d(2) div_le_mono [of n 1114111 262144] by simp_all
    have split: "n div 4096 = n div 262144 * 64 + n div 4096 mod 64"
      using div_mult_mod_eq [of "n div 4096" 64] by (simp add: div_mult2_eq [symmetric])
    have "16 \<le> n div 4096" "n div 4096 \<le> 271" using d div_le_mono [of 65536 n 4096] div_le_mono [of n 1114111 4096] by simp_all
    then have "16 \<le> n div 4096 mod 64" if "n div 262144 = 0" using split that by simp
    moreover have "n div 4096 mod 64 \<le> 15" if "n div 262144 = 4" using split that \<open>n div 4096 \<le> 271\<close> by simp
    ultimately show ?thesis using d hi
      by (auto simp: utf8_enc_def utf8_size_def u8_ok2_def u8_ok3_def u8_ok4_def u8_cont_def)
  qed
qed


lemma utf8_enc_nonempty: "utf8_enc n \<noteq> []"
  by (simp add: utf8_enc_def utf8_fffd_def)

lemma utf8_coerce_parts:
  "utf8_coerce (utf8_enc n @ y) = utf8_enc n @ utf8_coerce y"
  "utf8_coerce (utf8_fffd @ y) = utf8_fffd @ utf8_coerce y"
  "unescape e = Some x \<Longrightarrow> utf8_coerce ([x] @ y) = [x] @ utf8_coerce y"
  "utf8_size s \<noteq> 0 \<Longrightarrow> utf8_coerce (take (utf8_size s) s @ y) = take (utf8_size s) s @ utf8_coerce y"
proof -
  show "utf8_coerce (utf8_enc n @ y) = utf8_enc n @ utf8_coerce y"
    by (rule utf8_coerce_piece) (simp_all add: utf8_size_enc utf8_enc_nonempty)
  show "utf8_coerce (utf8_fffd @ y) = utf8_fffd @ utf8_coerce y"
    by (rule utf8_coerce_piece) (simp_all add: utf8_fffd_def utf8_size_def u8_ok2_def u8_ok3_def u8_cont_def)
  show "unescape e = Some x \<Longrightarrow> utf8_coerce ([x] @ y) = [x] @ utf8_coerce y"
    by (rule utf8_coerce_piece) (auto simp: unescape_def split: if_splits)
  show "utf8_size s \<noteq> 0 \<Longrightarrow> utf8_coerce (take (utf8_size s) s @ y) = take (utf8_size s) s @ utf8_coerce y"
    using utf8_size_take [of s "utf8_size s" "[]"] utf8_size_le [of s] by (intro utf8_coerce_piece) auto
qed

lemma jstr_valid: "jstr s = Some (x, r) \<Longrightarrow> utf8_coerce x = x"
proof (induction s arbitrary: x r rule: jstr.induct)
  case (2 c s)
  note IH = 2(1-5) and eq = 2(6)
  consider (q) "c = CHR 0x22" | (esc) "c = CHR 0x5C" | (low) "c \<noteq> CHR 0x22" "c \<noteq> CHR 0x5C" "nb c < 32"
    | (chr) "c \<noteq> CHR 0x22" "c \<noteq> CHR 0x5C" "\<not> nb c < 32" by blast
  then show ?case
  proof cases
    case q with eq show ?thesis by simp
  next
    case esc
    with eq IH(1-3) show ?thesis
      by (auto simp: jstr.simps(2) [of _ s] prep_eq_Some utf8_coerce_parts(1) utf8_coerce_parts(3) [simplified]
          split: list.splits if_splits option.splits)
  next
    case low with eq show ?thesis by (simp add: jstr.simps(2) [of _ s])
  next
    case chr
    with eq IH(4,5) show ?thesis
      by (auto simp: jstr.simps(2) [of _ s] prep_eq_Some utf8_coerce_parts Let_def split: if_splits)
  qed
qed simp

lemma jmems_keys: "jmems n s = Some (ms, r) \<Longrightarrow> (k, v) \<in> set ms \<Longrightarrow> utf8_coerce k = k"
proof (induction n arbitrary: s ms r)
  case (Suc n)
  from Suc.prems(1) obtain r1 k' t c u v' d w where parts:
    "s = CHR 0x22 # r1" "jstr r1 = Some (k', t)" "skip_ws t = CHR '':'' # u"
    "jskip n (skip_ws u) = Some v'" "skip_ws v' = d # w"
    by (auto split: list.splits if_splits option.splits)
  then show ?case using Suc.IH Suc.prems jstr_valid [OF parts(2)] by (fastforce split: if_splits)
qed simp

section \<open>Nested texts are shorter\<close>

lemma raw_of_le: "length (raw_of s t) \<le> length s - length t"
  by (simp add: raw_of_def)

lemma jelems_shorter: "jelems n s = Some (es, r) \<Longrightarrow> e \<in> set es \<Longrightarrow> length e \<le> length s"
proof (induction n arbitrary: s es r)
  case (Suc n)
  from Suc.prems(1) obtain t c u where t: "jskip n s = Some t" "skip_ws t = c # u"
    by (auto split: option.splits list.splits)
  have "length (skip_ws u) \<le> length s"
    using jscan_shorter(1) [OF t(1)] skip_ws_Cons_less [OF t(2)] skip_ws_le [of u] by simp
  moreover have "length (raw_of s t) \<le> length s" using raw_of_le [of s t] by simp
  ultimately show ?case using Suc t by (fastforce split: if_splits)
qed simp

lemma jmems_shorter: "jmems n s = Some (ms, r) \<Longrightarrow> (k, e) \<in> set ms \<Longrightarrow> length e \<le> length s"
proof (induction n arbitrary: s ms r)
  case (Suc n)
  from Suc.prems(1) obtain r1 k' t c u v d w where parts:
    "s = CHR 0x22 # r1" "jstr r1 = Some (k', t)" "skip_ws t = CHR '':'' # u"
    "jskip n (skip_ws u) = Some v" "skip_ws v = d # w"
    by (auto split: list.splits if_splits option.splits)
  have u: "length (skip_ws u) \<le> length s"
    using parts(1) jstr_shorter [OF parts(2)] skip_ws_Cons_less [OF parts(3)] skip_ws_le [of u] by simp
  moreover have "length (skip_ws w) \<le> length s"
    using u jscan_shorter(1) [OF parts(4)] skip_ws_Cons_less [OF parts(5)] skip_ws_le [of w] by simp
  moreover have "length (raw_of (skip_ws u) v) \<le> length (skip_ws u)" using raw_of_le [of "skip_ws u" v] by simp
  ultimately show ?case using Suc parts by (fastforce split: if_splits)
qed simp

lemma at_end_Some [simp]: "at_end r v = Some w \<longleftrightarrow> skip_ws r = [] \<and> v = w"
  by (simp add: at_end_def)

lemma json_view_inv:
  assumes "json_view s = Some v"
  shows "(\<exists>r x t. jstr r = Some (x, t) \<and> v = VStr x) \<or>
    (\<exists>r es. length r < length s \<and> v = VArr es \<and> (es = [] \<or> (\<exists>n u. jelems n r = Some (es, u)))) \<or>
    (\<exists>r ms. length r < length s \<and> v = VObj ms \<and> (ms = [] \<or> (\<exists>n u. jmems n r = Some (ms, u)))) \<or>
    v = VNull \<or> (\<exists>b. v = VBool b) \<or> (\<exists>x. v = VNum x)"
proof -
  define n where "n = 2 * length (skip_ws s) + 2"
  obtain c r where s: "skip_ws s = c # r" using assms by (cases "skip_ws s") (simp_all add: json_view_def)
  note view = assms [unfolded json_view_def Let_def, folded n_def, unfolded s list.case]
  have less: "length (skip_ws r) < length s" using skip_ws_le [of r] skip_ws_Cons_less [OF s] by simp
  consider (q) "c = CHR 0x22" | (arr) "c = CHR ''[''" | (obj) "c = CHR 0x7B"
    | (lit) "c \<notin> {CHR 0x22, CHR ''['', CHR 0x7B}" by blast
  then show ?thesis
  proof cases
    case q
    with view s have "(case jstr r of None \<Rightarrow> None | Some (x, t) \<Rightarrow> at_end t (VStr x)) = Some v" by simp
    then have "\<exists>x t. jstr r = Some (x, t) \<and> v = VStr x" by (auto split: option.splits)
    then show ?thesis by blast
  next
    case arr
    with view s have "(case skip_ws r of [] \<Rightarrow> None | d # t \<Rightarrow> if d = CHR '']'' then at_end t (VArr [])
        else (case jelems n (skip_ws r) of None \<Rightarrow> None | Some (es, u) \<Rightarrow> at_end u (VArr es))) = Some v" by simp
    then have "\<exists>es. v = VArr es \<and> (es = [] \<or> (\<exists>n u. jelems n (skip_ws r) = Some (es, u)))"
      by (auto split: list.splits if_splits option.splits)
    with less show ?thesis by blast
  next
    case obj
    with view s have "(case skip_ws r of [] \<Rightarrow> None | d # t \<Rightarrow> if d = CHR 0x7D then at_end t (VObj [])
        else (case jmems n (skip_ws r) of None \<Rightarrow> None | Some (ms, u) \<Rightarrow> at_end u (VObj ms))) = Some v" by simp
    then have "\<exists>ms. v = VObj ms \<and> (ms = [] \<or> (\<exists>n u. jmems n (skip_ws r) = Some (ms, u)))"
      by (auto split: list.splits if_splits option.splits)
    with less show ?thesis by blast
  next
    case lit
    with view s have "(if str_HasPrefix (c # r) ''null'' then at_end (drop 4 (c # r)) VNull
        else if str_HasPrefix (c # r) ''true'' then at_end (drop 4 (c # r)) (VBool True)
        else if str_HasPrefix (c # r) ''false'' then at_end (drop 5 (c # r)) (VBool False)
        else (case jnum (c # r) of None \<Rightarrow> None | Some (x, t) \<Rightarrow> at_end t (VNum x))) = Some v" by simp
    then show ?thesis by (auto split: if_split_asm option.split_asm)
  qed
qed

lemma json_view_VArr: "json_view s = Some (VArr es) \<Longrightarrow> e \<in> set es \<Longrightarrow> length e < length s"
  by (drule json_view_inv) (auto dest: jelems_shorter)

lemma json_view_VObj: "json_view s = Some (VObj ms) \<Longrightarrow> (k, e) \<in> set ms \<Longrightarrow> length e < length s \<and> utf8_coerce k = k"
  by (drule json_view_inv) (auto dest: jmems_shorter jmems_keys)

lemma json_view_VStr: "json_view s = Some (VStr x) \<Longrightarrow> utf8_coerce x = x"
  by (drule json_view_inv) (auto dest: jstr_valid)

section \<open>Untyped values\<close>

text \<open>A Go map printed by the encoder: sorted keys, and of duplicate members the last one.\<close>

definition go_map :: "(string \<times> 'a) list \<Rightarrow> (string \<times> 'a) list" where
  "go_map ms = map (\<lambda>k. (k, the (map_of (rev ms) k))) (sort (remdups (map fst ms)))"

text \<open>
  \<open>json.Unmarshal\<close> into an \<open>interface{}\<close>. A number becomes a \<open>float64\<close>; \<open>nf\<close> gives the digits the
  encoder prints for it, None when it is out of range.
\<close>

function decode_any :: "(string \<Rightarrow> string option) \<Rightarrow> string \<Rightarrow> json option" where
  "decode_any nf s = (case json_view s of
     None \<Rightarrow> None
   | Some VNull \<Rightarrow> Some JNull
   | Some (VBool b) \<Rightarrow> Some (JBool b)
   | Some (VNum x) \<Rightarrow> map_option JNum (nf x)
   | Some (VStr x) \<Rightarrow> Some (JStr x)
   | Some (VArr rs) \<Rightarrow> map_option JArr (those (map (decode_any nf) rs))
   | Some (VObj ms) \<Rightarrow> map_option (\<lambda>js. JObj (go_map (zip (map fst ms) js))) (those (map (\<lambda>(k, r). decode_any nf r) ms)))"
  by pat_completeness auto
termination
  by (relation "measure (\<lambda>(nf, s). length s)") (auto dest: json_view_VArr json_view_VObj)

declare decode_any.simps [simp del]

section \<open>Printing and reading back\<close>

text \<open>What decoding gives: numbers as the encoder prints them, valid strings, sorted distinct keys.\<close>

fun canonical :: "(string \<Rightarrow> string option) \<Rightarrow> json \<Rightarrow> bool" where
  "canonical nf JNull = True"
| "canonical nf (JBool b) = True"
| "canonical nf (JNum x) = (nf x = Some x)"
| "canonical nf (JStr s) = (utf8_coerce s = s)"
| "canonical nf (JArr js) = list_all (canonical nf) js"
| "canonical nf (JObj ms) = (sorted (map fst ms) \<and> distinct (map fst ms) \<and>
     list_all (\<lambda>(k, j). utf8_coerce k = k \<and> canonical nf j) ms)"
| "canonical nf (JRaw r) = False"
| "canonical nf JUnsup = False"

text \<open>
  The documented contract of float formatting: the shortest digits of a \<open>float64\<close> parse to the same
  number, so they print as themselves, and they are a JSON number.
\<close>

definition float_text :: "(string \<Rightarrow> string option) \<Rightarrow> bool" where
  "float_text nf \<longleftrightarrow> (\<forall>x y. nf x = Some y \<longrightarrow> nf y = Some y \<and> jnum y = Some (y, []))"

lemma map_fst_go_map [simp]: "map fst (go_map ms) = sort (remdups (map fst ms))"
  by (simp add: go_map_def comp_def)

lemma map_of_rev_id: "distinct (map fst ms) \<Longrightarrow> map_of (rev ms) = map_of ms"
proof (induction ms)
  case (Cons a ms)
  then have "map_of (rev ms) (fst a) = None" by (simp add: map_of_eq_None_iff)
  with Cons show ?case by (auto simp: fun_eq_iff map_add_def split: option.split)
qed simp

lemma go_map_id:
  assumes "sorted (map fst ms)" "distinct (map fst ms)"
  shows "go_map ms = ms"
proof -
  have "sort (remdups (map fst ms)) = map fst ms"
    using assms by (simp add: distinct_remdups_id sorted_sort_id)
  moreover have "map_of (rev ms) = map_of ms" using assms(2) by (rule map_of_rev_id)
  ultimately have "go_map ms = map (\<lambda>m. (fst m, the (map_of ms (fst m)))) ms"
    unfolding go_map_def by (simp add: comp_def)
  also have "\<dots> = ms" using assms(2) by (intro map_idI) (auto simp: map_of_is_SomeI)
  finally show ?thesis .
qed

lemma go_map_from: "(k, v) \<in> set (go_map ms) \<Longrightarrow> (k, v) \<in> set ms"
proof -
  assume "(k, v) \<in> set (go_map ms)"
  then have "k \<in> fst ` set (rev ms)" and v: "v = the (map_of (rev ms) k)" by (auto simp: go_map_def)
  then obtain w where "map_of (rev ms) k = Some w" by (metis domD dom_map_of_conv_image_fst)
  with v have "map_of (rev ms) k = Some v" by simp
  then show ?thesis by (auto dest: map_of_SomeD)
qed

lemma those_map_Some: "those (map f xs) = Some ys \<longleftrightarrow> list_all2 (\<lambda>x y. f x = Some y) xs ys"
  by (induction xs arbitrary: ys) (auto simp: list_all2_Cons1 split: option.splits)

lemma list_all2_from: "list_all2 P xs ys \<Longrightarrow> y \<in> set ys \<Longrightarrow> \<exists>x \<in> set xs. P x y"
  by (induction rule: list_all2_induct) auto

lemma zip_fst_from: "list_all2 P ms js \<Longrightarrow> (k, j) \<in> set (zip (map fst ms) js) \<Longrightarrow> \<exists>r. (k, r) \<in> set ms \<and> P (k, r) j"
  by (induction rule: list_all2_induct) auto

lemma decode_any_canonical: "float_text nf \<Longrightarrow> decode_any nf s = Some v \<Longrightarrow> canonical nf v"
proof (induction nf s arbitrary: v rule: decode_any.induct)
  case (1 nf s)
  note IH = 1(1,2) and nf = 1(3) and dec = 1(4) [unfolded decode_any.simps [of nf s]]
  show ?case
  proof (cases "json_view s")
    case (Some w)
    show ?thesis
    proof (cases w)
      case (VNum x)
      with Some dec nf show ?thesis by (auto simp: float_text_def)
    next
      case (VArr rs)
      with Some dec obtain js where v: "v = JArr js" and js: "list_all2 (\<lambda>r j. decode_any nf r = Some j) rs js"
        by (auto simp: those_map_Some)
      have "canonical nf j" if "j \<in> set js" for j
      proof -
        from list_all2_from [OF js that] obtain r where "r \<in> set rs" "decode_any nf r = Some j" by blast
        with IH(1) [OF Some VArr] nf show ?thesis by blast
      qed
      with v show ?thesis by (simp add: list_all_iff)
    next
      case (VObj ms)
      with Some dec obtain js where v: "v = JObj (go_map (zip (map fst ms) js))"
        and js: "list_all2 (\<lambda>m j. (case m of (k, r) \<Rightarrow> decode_any nf r) = Some j) ms js"
        by (auto simp: those_map_Some)
      have "utf8_coerce k = k \<and> canonical nf j" if "(k, j) \<in> set (go_map (zip (map fst ms) js))" for k j
      proof -
        from zip_fst_from [OF js go_map_from [OF that]] obtain r
          where r: "(k, r) \<in> set ms" "decode_any nf r = Some j" by auto
        from Some VObj have "utf8_coerce k = k" using json_view_VObj [of s ms k r] r(1) by simp
        with IH(2) [OF Some VObj r(1) refl nf r(2)] show ?thesis by blast
      qed
      then have "list_all (\<lambda>(k, j). utf8_coerce k = k \<and> canonical nf j) (go_map (zip (map fst ms) js))"
        unfolding list_all_iff by blast
      then show ?thesis unfolding v canonical.simps map_fst_go_map by simp
    qed (use Some dec in \<open>auto simp: json_view_VStr\<close>)
  qed (use dec in simp)
qed

lemma canonical_plain: "float_text nf \<Longrightarrow> canonical nf j \<Longrightarrow> json_plain j"
  by (induction nf j rule: canonical.induct) (auto simp: float_text_def list_all_iff)

text \<open>A canonical value, printed at any depth, decodes to itself.\<close>

lemma decode_any_indent:
  "float_text nf \<Longrightarrow> canonical nf j \<Longrightarrow> delim r \<Longrightarrow> skip_ws r = [] \<Longrightarrow> decode_any nf (json_indent n j @ r) = Some j"
proof (induction nf j arbitrary: n r rule: canonical.induct)
  case (5 nf js)
  have "decode_any nf (json_indent (n + 1) j) = Some j" if "j \<in> set js" for j
    using 5 that by (metis append_Nil2 canonical.simps(5) delim_simps(1) list_all_iff skip_ws_struct(5))
  then have "those (map (decode_any nf) (map (json_indent (n + 1)) js)) = Some js"
    unfolding those_map_Some by (simp add: list_all2_map1 list.rel_refl_strong)
  with json_view_indent [of "JArr js" r n] canonical_plain [of nf "JArr js"] 5 show ?case
    by (simp add: decode_any.simps [of nf "json_indent n (JArr js) @ r"] del: json_indent.simps)
next
  case (6 nf ms)
  have dec: "decode_any nf (json_indent (n + 1) j) = Some j" if "(k, j) \<in> set ms" for k j
    using 6(1) [OF that refl, of "[]"] 6(2,3) that by (auto simp: list_all_iff)
  define ps where "ps = map (\<lambda>(k, j). (k, json_indent (n + 1) j)) ms"
  have keys: "map (\<lambda>(k, j). (utf8_coerce k, json_indent (n + 1) j)) ms = ps"
    using 6(3) unfolding ps_def by (auto simp: list_all_iff)
  have view: "json_view (json_indent n (JObj ms) @ r) = Some (VObj ps)"
    using json_view_indent [OF canonical_plain [OF 6(2,3)] 6(4,5)] by (simp only: indent_top.simps keys)
  have "those (map (\<lambda>(k, r). decode_any nf r) ps) = Some (map snd ms)"
    unfolding those_map_Some ps_def using dec by (auto simp: list_all2_map1 list_all2_map2 intro!: list.rel_refl_strong)
  moreover have "map fst ps = map fst ms" by (simp add: ps_def comp_def case_prod_unfold)
  then have "go_map (zip (map fst ps) (map snd ms)) = ms"
    using go_map_id [of ms] 6(3) by (simp add: zip_map_fst_snd)
  ultimately show ?case by (simp add: decode_any.simps [of nf "json_indent n (JObj ms) @ r"] view del: json_indent.simps)
qed (simp_all add: decode_any.simps [of nf "json_indent n j @ r" for nf n j r] json_view_indent float_text_def del: json_indent.simps)

section \<open>Commands\<close>

definition fetchRawAndPrint ::
    "'w http \<Rightarrow> flags \<Rightarrow> (string \<Rightarrow> string option) \<Rightarrow> requestOption list \<Rightarrow> string \<Rightarrow> ('w, gerr option) cli_op" where
  "fetchRawAndPrint h fl nf opts path = do {
     r \<leftarrow> doRequest h fl opts path;
     (case r of
       Inl e \<Rightarrow> do { PrintError (err_Error e); State_Monad.return (Some e) }
     | Inr ar \<Rightarrow> do {
         (case decode_any nf (ap_Data ar) of
           None \<Rightarrow> print_out (ap_Data ar @ [byte 10])
         | Some v \<Rightarrow> PrintJSON v);
         State_Monad.return None
       })
   }"

definition buildMetadataCmd ::
    "'w http \<Rightarrow> flags \<Rightarrow> (string \<Rightarrow> string option) \<Rightarrow> string \<Rightarrow> ('w, gerr option) cli_op option" where
  "buildMetadataCmd h fl nf cmd =
    (if cmd = ''show'' then Some (fetchRawAndPrint h fl nf [] ''/api/v1/metadata'')
     else if cmd = ''instance'' then Some (fetchRawAndPrint h fl nf [] ''/api/v1/metadata/instance'')
     else if cmd = ''network'' then Some (fetchRawAndPrint h fl nf [] ''/api/v1/metadata/network'')
     else None)"

text \<open>\<open>version\<close> is \<open>config.AgentVersion\<close>, set when the program is linked.\<close>

definition buildAgentCmd ::
    "'w http \<Rightarrow> flags \<Rightarrow> (string \<Rightarrow> string option) \<Rightarrow> string \<Rightarrow> string \<Rightarrow> ('w, gerr option) cli_op option" where
  "buildAgentCmd h fl nf version cmd =
    (if cmd = ''status'' then Some (fetchRawAndPrint h fl nf [] ''/healthz'')
     else if cmd = ''version'' then Some (do { print_out (''plsctl version: '' @ version @ [byte 10]); State_Monad.return None })
     else None)"

text \<open>The command tree: a group, its subcommand and the arguments; None when there is no such command.\<close>

definition buildRootCmd ::
    "'w http \<Rightarrow> flags \<Rightarrow> (string \<Rightarrow> rat option) \<Rightarrow> (rat \<Rightarrow> string) \<Rightarrow> (int \<Rightarrow> string) \<Rightarrow> (string \<Rightarrow> string option) \<Rightarrow> string \<Rightarrow>
     string \<Rightarrow> string \<Rightarrow> string list \<Rightarrow> ('w, gerr option) cli_op option" where
  "buildRootCmd h fl pf ff tz nf version grp cmd args =
    (if grp = ''system'' then buildSystemCmd h fl pf ff tz cmd
     else if grp = ''service'' then buildServiceCmd h fl cmd args
     else if grp = ''metadata'' then buildMetadataCmd h fl nf cmd
     else if grp = ''agent'' then buildAgentCmd h fl nf version cmd
     else None)"

text \<open>The exit status of \<open>main\<close> for a command that exists; what cobra prints for an error is not modelled.\<close>

definition exit_status :: "gerr option \<Rightarrow> int" where
  "exit_status r = (case r of None \<Rightarrow> 0 | Some _ \<Rightarrow> 1)"

section \<open>What a raw command shows\<close>

lemma canonical_encodable: "canonical nf j \<Longrightarrow> json_encodable j"
  by (induction nf j rule: canonical.induct) (auto simp: list_all_iff)

text \<open>C40: A raw command prints what the agent answered: it sends one GET request, and when the answer's data
  is JSON the text on standard output is JSON that decodes to the same value (of duplicate members
  the last, keys sorted, numbers as the encoder prints them); data that does not decode is
  printed as it came. Either way the exit status is 0 and nothing goes to standard error.\<close>

theorem raw_command_shown:
  assumes "float_text nf" "ht_new h ''GET'' url = None" "url = request_url fl path"
    and "ht_do h ''GET'' url (request_headers fl) (cl_world c) = (Inr resp, w)" "read_response resp = Inr ar"
  shows "\<exists>out. run_state (fetchRawAndPrint h fl nf [] path) c = (None,
      c\<lparr>cl_sent := cl_sent c @ [(''GET'', url, request_headers fl)], cl_world := w, cl_stdout := cl_stdout c @ out\<rparr>) \<and>
    (case decode_any nf (ap_Data ar) of None \<Rightarrow> out = ap_Data ar @ [byte 10] | Some v \<Rightarrow> decode_any nf out = Some v)"
proof -
  have go: "run_state (doRequest h fl [] path) c = (Inr ar, c\<lparr>cl_sent := cl_sent c @ [(''GET'', url, request_headers fl)], cl_world := w\<rparr>)"
    using assms(2-5) by (simp add: doRequest_def request_options_def Let_def http_Do_def)
  show ?thesis
  proof (cases "decode_any nf (ap_Data ar)")
    case None
    with go show ?thesis by (simp add: fetchRawAndPrint_def print_out_def)
  next
    case (Some v)
    then have v: "canonical nf v" using assms(1) by (rule decode_any_canonical [rotated])
    have "delim [byte 10]" "skip_ws [byte 10] = []" by (simp_all add: delim_def skip_ws_def is_jws_def char_of_def bit_0)
    from decode_any_indent [OF assms(1) v this] Some go canonical_encodable [OF v] show ?thesis
      by (auto simp: fetchRawAndPrint_def PrintJSON_def print_out_def)
  qed
qed

definition digits_kept :: "string \<Rightarrow> string option" where
  "digits_kept x = (if jnum x = Some (x, []) then Some x else None)"

definition meta_data :: json where
  "meta_data = JObj [(''hostname'', JStr ''fw1''), (''cores'', JNum ''4'')]"

definition meta_body :: string where
  "meta_body = json_enc (JObj [(''success'', JBool True), (''data'', meta_data)])"

definition meta_http :: "unit http" where
  "meta_http = \<lparr>ht_new = (\<lambda>_ _. None), ht_do = (\<lambda>_ _ _ w. (Inr \<lparr>rs_StatusCode = 200, rs_Body = Inr meta_body\<rparr>, w))\<rparr>"

lemma jnum_four [simp]: "jnum ''4'' = Some (''4'', [])"
  by code_simp

lemma read_meta_body:
  "read_response \<lparr>rs_StatusCode = 200, rs_Body = Inr meta_body\<rparr> =
    Inr \<lparr>ap_Success = True, ap_Data = json_enc meta_data, ap_Error = None\<rparr>"
proof -
  have plain: "json_plain (JObj [(''success'', JBool True), (''data'', meta_data)])" by (simp add: meta_data_def)
  show ?thesis
    unfolding read_response_def response.select_convs sum.case meta_body_def json_Unmarshal_enc [OF plain]
    by (simp add: apiResponse_fields_def zero_apiResponse_def go_json dec_raw_def meta_data_def del: json_enc.simps)
qed

theorem raw_command_shown_witness:
  "\<exists>out v. run_state (fetchRawAndPrint meta_http (default_flags (\<lambda>_. [])) digits_kept [] ''/api/v1/metadata'') blank_cli = (None,
      \<lparr>cl_sent = [(''GET'', ''http://localhost:8080/api/v1/metadata'', [])], cl_stdout = out, cl_stderr = [], cl_world = ()\<rparr>) \<and>
    v = JObj [(''cores'', JNum ''4''), (''hostname'', JStr ''fw1'')] \<and> decode_any digits_kept out = Some v"
proof -
  let ?fl = "default_flags (\<lambda>_. [])" and ?url = "''http://localhost:8080/api/v1/metadata''"
  have ft: "float_text digits_kept" by (simp add: float_text_def digits_kept_def)
  have url: "?url = request_url ?fl ''/api/v1/metadata''"
    by (simp add: request_url_def default_flags_def str_TrimRight_def)
  have new: "ht_new meta_http ''GET'' ?url = None" by (simp add: meta_http_def)
  have snd: "ht_do meta_http ''GET'' ?url (request_headers ?fl) (cl_world blank_cli) =
      (Inr \<lparr>rs_StatusCode = 200, rs_Body = Inr meta_body\<rparr>, ())" by (simp add: meta_http_def)
  have key: "request_headers ?fl = []" by (simp add: default_flags_def request_headers_def)
  have view: "json_view (json_enc j) = Some (json_top j)" if "json_plain j" for j using that by (rule json_view_json_enc)
  have "decode_any digits_kept (json_enc meta_data) = Some (JObj (go_map [(''hostname'', JStr ''fw1''), (''cores'', JNum ''4'')]))"
    by (simp add: decode_any.simps [of _ "json_enc j" for j] view meta_data_def digits_kept_def ascii_def del: json_enc.simps)
  moreover have "go_map [(''hostname'', JStr ''fw1''), (''cores'', JNum ''4'')] = [(''cores'', JNum ''4''), (''hostname'', JStr ''fw1'')]"
    by code_simp
  ultimately show ?thesis using raw_command_shown [OF ft new url snd read_meta_body] unfolding key
    by (auto simp: blank_cli_def)
qed

end
