(* ===== verification/Spec2Isabelle.thy ===== *)
theory Spec2Isabelle
  imports Contract Reboot WrittenLog IntervalChange DiskShared CtlRaw
begin

text \<open>
  A verification of the PlusClouds VM agent (src/), a Go daemon for Linux, pfSense (FreeBSD) and Windows
  virtual machines, and of its command line client. The agent reads its identity and settings from a
  config-drive, provisions a pfSense firewall once, connects to NATS, and from then on carries out the
  commands the platform sends it and reports heartbeats and telemetry.

  \<^bold>\<open>The machine.\<close> Prelude holds Go's error chains, 64-bit wrap-around and number rendering; GoStrings the
  strings and filepath functions the program uses; GoJson, JsonScan, JsonView, JsonRound, JsonCodec and
  JsonDecode encoding/json on bytes (Marshal with its escaping, a scanner, one-level views, decoding into
  structs by tables of fields) with the law that what was encoded is decoded again, stated as the
  interface \<open>message_codec\<close>. Host is the explicit state every operation threads through a state monad: files
  with injected faults, clock, random source, and the trace of log entries, processes and published
  messages. Its locale \<open>trace_relation\<close> collects what sequencing preserves; \<open>adds\<close> (what an operation may add
  to the trace) is its main interpretation and carries most safety proofs.

  \<^bold>\<open>Components.\<close> One theory or group of theories for each package, in the order they call each other:
  \<^item> Protocol: internal/protocol/envelope.go, envelopes, payloads, UUIDs, New, DecodePayload, ResultFor.
  \<^item> Executor: internal/executor/executor.go, running a process with an audit entry; interface \<open>command_runner\<close>.
  \<^item> Config: internal/config/config.go, defaults and Load; the viper library is a record of its calls.
  \<^item> IsoMeta, IsoLocator, IsoLoad: pkg/isoconfig, metadata types and decoding, the locators of the three
    platforms behind the interface \<open>iso_locator\<close>, and Load with its cache, proved once for any locator.
  \<^item> NatsClient: internal/nats/client.go over a record of the nats.go calls.
  \<^item> SystemMetrics, DiskShared: internal/modules/system over a record of the gopsutil calls, and the
    interleavings of the telemetry loop and a command inside GetDisk as the step relation \<open>disk_step\<close>.
  \<^item> Services: internal/modules/services, systemd over a D-Bus record and the stubs; \<open>service_manager\<close>.
  \<^item> DiskResize: internal/modules/diskresize for the three platforms; interface \<open>resizer\<close>.
  \<^item> PfsenseTypes, Pfsense, PfsenseProps: internal/modules/pfsense, the runner of embedded PHP scripts,
    passwords, the boot network plan, firewall, NAT and DHCP operations, the stub; \<open>pfsense_manager\<close>.
  \<^item> Publisher, PublisherLoop: internal/publisher/publisher.go, the messages, both loops over sequences of
    select outcomes, and the interleavings of SetTelemetryInterval with the telemetry loop as \<open>chan_step\<close>.
  \<^item> Dispatcher, DispatchSafety, DispatchProps, DispatchSecrets: internal/dispatcher/dispatcher.go. The locale
    \<open>dispatch_modules\<close> joins the interfaces of the modules; it is interpreted on the modules of each platform.
  \<^item> Boot, BootProps: cmd/agent/main.go and its platform files, start, provisioning, message handling, stop.
  \<^item> Lifetime: the running agent as the step relation \<open>agent_step\<close>. Contract: what it promises to an observer,
    as the abstract machine \<open>contract_step\<close>, and the simulation. Reboot: two starts in a row. WrittenLog: the
    log levels and what of a command's path is written. IntervalChange: a new telemetry interval, from the
    message to the loop that takes it.
  \<^item> CtlFormat, Ctl, JsonPretty, CtlRaw: cmd/ctl/main.go and pkg/cmdutil/output.go, requests, answers, tables,
    formatting, the indenting encoder read back by the scanner, decoding into untyped values, the command tree.

  \<^bold>\<open>What is shown.\<close> Authority: unpermitted commands are inert, permitted ones start only what their operation
  stands for, and this bounds the whole life of a started agent, which refines an abstract machine that
  ties every process and every message to the command or report it belongs to. Answers: every version 1
  message gets one result, on the inbox it names. Provisioning: snapshot before apply, restore only of that
  snapshot and only when the platform is out of reach, the marker only after verification, restarts leave the
  network alone. Secrets: a password reaches only the standard input of its script, and at log level info or
  above nothing written depends on it. Persistence: a later boot without the drive comes to the same
  configuration and identity, the cache is replaced in one step, what was mounted is unmounted, scripts
  leave no file. Wire formats round-trip, also through the client's indented output; identifiers are
  version 4 UUIDs; mount tables, device names and MAC addresses are matched exactly. Shared state: ticker
  intervals stay positive, SetTelemetryInterval implements its abstract channel when undisturbed and
  returns from every state but one, and a requested interval is what the loop takes next; disk baselines form a chain, and rates are exact while the callers
  of GetDisk do not overlap, but not when they do. Interval, duration and counter arithmetic is exact up
  to its overflow, which is shown too.

  \<^bold>\<open>Parameters and bounds.\<close> What is not under src/ is a parameter: processes (\<open>'x runner\<close>), nats.go, gopsutil,
  D-Bus, viper, the HTTP transport, local interfaces, the scripts' texts, map iteration order, float parsing
  and rendering and the time zone. Such code may change the world but not the trace. Float values are exact
  rationals except where rounding decides an integer. The JSON scanner recurses on fuel, two units for each
  byte, which JsonView shows to be enough; every other loop is structural or has a measure. One handler and
  one pass of a loop are atomic in \<open>agent_step\<close>; what they share is studied with atomic operations, the channel
  in PublisherLoop and the disk baseline in DiskShared.

  \<^bold>\<open>Not modelled.\<close> The PHP scripts, the parsing of command lines by the cobra library and what it prints for an
  error, signals, the encoders and sinks of zap, the close of the D-Bus connection, the texts and the
  nesting limit of encoding/json, symbolic links and file permissions, packaging and documents. The Go memory
  model is not modelled: what handlers and loops share is updated one step at a time.
\<close>

section \<open>The agent as a whole\<close>

text \<open>C1: The configuration the agent starts with bounds its whole life: after a successful start and any
  sequence of inbound messages, heartbeats, telemetry samples, interval changes and outside events, the
  identity, the allowed operations and the allowed commands are those of the loaded configuration, and every
  process started since is one that an allowed operation stands for.\<close>

theorem lifetime_authority:
  assumes start: "run_state (agent_start en) s0 = (Inr ag, s)"
    and life: "agent_step\<^sup>*\<^sup>* (ag, s) (ag', t)"
  shows "\<exists>cfg meta u cs. run_state (boot_config en) s0 = (Inr (cfg, meta), u) \<and> configured en cfg meta ag' \<and>
    h_procs t = h_procs s @ cs \<and> list_all (permitted en cfg) cs"
proof -
  obtain cfg meta u where c: "run_state (boot_config en) s0 = (Inr (cfg, meta), u)" "configured en cfg meta ag"
    using started_configured [OF start] by blast
  with agent_run_inv [OF life, of en cfg meta] show ?thesis by (auto simp: adds_def)
qed

theorem lifetime_authority_witness:
  "\<exists>ag s ag' t cs. run_state (agent_start demo_environment) blank_host = (Inr ag, s) \<and>
    run_state (receive_message ag exec_message) s = (ag', t) \<and>
    dp_allowedOps (ag_dispatcher ag') = [''exec''] \<and> h_procs t = h_procs s @ cs \<and>
    list_all (permitted demo_environment blank_config) cs"
proof -
  obtain ag s where s: "run_state (agent_start demo_environment) blank_host = (Inr ag, s)"
    using demo_start by blast
  obtain ag' t where t: "run_state (receive_message ag exec_message) s = (ag', t)" by force
  have "agent_step\<^sup>*\<^sup>* (ag, s) (ag', t)" by (rule r_into_rtranclp, rule agent_step.message, rule t)
  from lifetime_authority [OF s this] demo_boot_config obtain cs meta where
    "configured demo_environment blank_config meta ag'" "h_procs t = h_procs s @ cs"
    "list_all (permitted demo_environment blank_config) cs" by auto
  with s t show ?thesis by (auto simp: configured_def Let_def blank_config_def)
qed

text \<open>C5: Every command is answered once and to whoever asked: for a message that carries a version 1
  envelope, after what the dispatcher did itself, exactly the dispatcher's result is published, on the
  sender's reply inbox if it named one and otherwise on the event subject, and no further process is
  started. A command that is turned away gets its rejection as the only message, and starts nothing.\<close>

theorem every_command_gets_one_reply:
  assumes "Envelope_decode data = Inr env" "env_V env = 1" "run_state (receive_message ag data) s = (ag', t)"
  shows "\<exists>r d u raw. run_state (Dispatch (ag_modules ag) (ag_dispatcher ag) env) (s\<lparr>h_log := h_log s @ [raw]\<rparr>) = ((r, d), u) \<and>
    ag' = ag\<lparr>ag_dispatcher := d\<rparr> \<and> h_procs t = h_procs u \<and>
    h_pub t = h_pub u @ (case Envelope_encode r of Inl _ \<Rightarrow> [] | Inr b \<Rightarrow> [(reply_subject ag env, b)]) \<and>
    (\<forall>msg. turned_away (ag_dispatcher ag) env = Some msg \<longrightarrow>
      (\<exists>b. answers (ag_dispatcher ag) env StatusRejected msg None r \<and> Envelope_encode r = Inr b \<and>
        h_pub t = h_pub s @ [(reply_subject ag env, b)] \<and> h_procs t = h_procs s))"
proof -
  let ?raw = "LogEnt DebugLevel ''raw message received'' [(''subject'', FString (CmdSubject (ag_client ag))),
    (''bytes'', FInt (int (length data))), (''data'', FBytes data)]"
  let ?s = "s\<lparr>h_log := h_log s @ [?raw]\<rparr>"
  obtain r d u where d: "run_state (Dispatch (ag_modules ag) (ag_dispatcher ag) env) ?s = ((r, d), u)"
    by (metis surj_pair)
  obtain v where v: "run_state (send_result (md_nats (ag_modules ag)) (ag_client ag) env r) u = ((), v)"
    using run_unit by blast
  have "ag' = ag\<lparr>ag_dispatcher := d\<rparr> \<and> t = v"
    using assms d v by (auto simp: receive_message_def on_message_def handle_command_def)
  moreover note send_result_trace [OF v]
  moreover have "\<exists>b. answers (ag_dispatcher ag) env StatusRejected msg None r \<and> Envelope_encode r = Inr b \<and>
      h_pub u = h_pub s \<and> h_procs u = h_procs s" if "turned_away (ag_dispatcher ag) env = Some msg" for msg
    using Dispatch_turned_away [OF that, of "ag_modules ag" ?s] d by (auto dest: rejection_encodable)
  ultimately show ?thesis using d unfolding reply_subject_def
    by (intro exI [of _ r] exI [of _ d] exI [of _ u] exI [of _ ?raw] conjI allI impI) fastforce+
qed

theorem every_command_gets_one_reply_witness:
  "\<exists>data b ag t. Envelope_decode data = Inr (demo_command ''vm.shutdown'' []) \<and>
    run_state (receive_message demo_agent data) blank_host = (ag, t) \<and> h_pub t = [(''_INBOX.7'', b)] \<and> h_procs t = []"
proof -
  obtain data where d: "Envelope_decode data = Inr (demo_command ''vm.shutdown'' [])"
    using envelope_codec.decode_encode [OF demo_command_wf [of "[]" "''vm.shutdown''"]] by auto
  have v: "env_V (demo_command ''vm.shutdown'' []) = 1" "env_ReplyTo (demo_command ''vm.shutdown'' []) = ''_INBOX.7''"
    by (simp_all add: demo_command_def demo_envelope_def)
  have dec: "DecodePayload (demo_command ''vm.shutdown'' []) =
      Inr \<lparr>cmd_Operation = ''vm.shutdown'', cmd_Params = json_enc (JObj []), cmd_TimeoutS = 0\<rparr>"
    by (rule DecodePayload_demo) (simp_all add: ascii_def)
  then obtain msg where msg: "turned_away (ag_dispatcher demo_agent) (demo_command ''vm.shutdown'' []) = Some msg"
    by (simp add: turned_away_def demo_agent_def demo_dispatcher_def Dispatcher_New_def)
  obtain ag t where t: "run_state (receive_message demo_agent data) blank_host = (ag, t)" by force
  from every_command_gets_one_reply [OF d v(1) t] msg v(2) obtain b where
    "h_pub t = h_pub blank_host @ [(''_INBOX.7'', b)]" "h_procs t = h_procs blank_host"
    unfolding reply_subject_def by fastforce
  with d t show ?thesis by (auto simp: blank_host_def)
qed

end
